(* ===== verification/Prelude.thy ===== *)
theory Prelude
  imports Main "HOL-Library.AList" "HOL-Library.State_Monad" "HOL-Library.Sublist" "HOL-Library.Multiset"
begin

text \<open>
  Shared material of the development: the lemma collections, the two monads in which the
  operator's code is written (errors as a sum, interaction with the environment as a state
  monad over the history of events), Go's string helpers, association lists as Go maps, and
  stable sorting.
\<close>

named_theorems emits_intros \<open>introduction rules for the events a computation may emit\<close>

section \<open>Errors as values\<close>

text \<open>
  A Go function with results \<open>(v, err)\<close> returns \<open>Inl e\<close> for a non-nil error and \<open>Inr v\<close>
  otherwise. \<open>bind_res\<close> is the statement sequence \<open>v, err := m; if err != nil { return err }\<close>.
\<close>

definition bind_res :: "'e + 'a \<Rightarrow> ('a \<Rightarrow> 'e + 'b) \<Rightarrow> 'e + 'b" where
  "bind_res m f = (case m of Inl e \<Rightarrow> Inl e | Inr a \<Rightarrow> f a)"

lemma bind_res_simps [simp]:
  "bind_res (Inl e) f = Inl e"
  "bind_res (Inr a) f = f a"
  by (simp_all add: bind_res_def)

lemma bind_res_assoc: "bind_res (bind_res m f) g = bind_res m (\<lambda>a. bind_res (f a) g)"
  by (cases m) simp_all

lemma bind_res_eq_Inr: "bind_res m f = Inr b \<longleftrightarrow> (\<exists>a. m = Inr a \<and> f a = Inr b)"
  by (cases m) simp_all

text \<open>A loop that collects results and returns at the first error.\<close>

fun map_res :: "('a \<Rightarrow> 'e + 'b) \<Rightarrow> 'a list \<Rightarrow> 'e + 'b list" where
  "map_res f [] = Inr []"
| "map_res f (x # xs) = bind_res (f x) (\<lambda>y. bind_res (map_res f xs) (\<lambda>ys. Inr (y # ys)))"

lemma map_res_cong [fundef_cong]:
  "xs = ys \<Longrightarrow> (\<And>x. x \<in> set ys \<Longrightarrow> f x = g x) \<Longrightarrow> map_res f xs = map_res g ys"
  by (induction xs arbitrary: ys) auto

lemma map_res_append:
  "map_res f (xs @ ys) = bind_res (map_res f xs) (\<lambda>as. bind_res (map_res f ys) (\<lambda>bs. Inr (as @ bs)))"
  by (induction xs) (simp_all add: bind_res_assoc, cases "map_res f ys", simp_all)

lemma map_res_Inr_iff: "map_res f xs = Inr ys \<longleftrightarrow> list_all2 (\<lambda>x y. f x = Inr y) xs ys"
proof (induction xs arbitrary: ys)
  case Nil
  then show ?case by auto
next
  case (Cons x xs)
  then show ?case by (cases ys) (auto simp: bind_res_eq_Inr)
qed

lemma map_res_Inr_length: "map_res f xs = Inr ys \<Longrightarrow> length ys = length xs"
  by (simp add: map_res_Inr_iff list_all2_lengthD)

lemma map_res_total: "(\<And>x. x \<in> set xs \<Longrightarrow> f x = Inr (g x)) \<Longrightarrow> map_res f xs = Inr (map g xs)"
  by (induction xs) simp_all

lemma ex_split_Cons:
  "(\<exists>pre z post. x # xs = pre @ z # post \<and> Q pre z) \<longleftrightarrow> Q [] x \<or> (\<exists>pre z post. xs = pre @ z # post \<and> Q (x # pre) z)"
  unfolding Cons_eq_append_conv by blast

text \<open>The error of a loop with an early return is that of the first element that fails.\<close>

lemma map_res_error:
  "map_res f xs = Inl e \<longleftrightarrow> (\<exists>pre x post. xs = pre @ x # post \<and> list_all (\<lambda>x. \<exists>y. f x = Inr y) pre \<and> f x = Inl e)"
proof (induction xs)
  case (Cons x xs)
  have "map_res f (x # xs) = Inl e \<longleftrightarrow> f x = Inl e \<or> (\<exists>y. f x = Inr y) \<and> map_res f xs = Inl e"
    by (cases "f x"; cases "map_res f xs") auto
  then show ?case unfolding Cons ex_split_Cons by (simp only: list_all_iff list.set ball_simps) blast
qed simp

lemma map_res_Inl: "map_res f xs = Inl e \<Longrightarrow> \<exists>x\<in>set xs. f x = Inl e"
proof (induction xs)
  case (Cons x xs)
  then show ?case by (cases "f x"; cases "map_res f xs") auto
qed simp

section \<open>Interaction with the environment\<close>

text \<open>
  A computation of type \<open>('ev, 'a) io\<close> reads the history of events so far and appends the
  events it causes. Every call that leaves the process appends one event, and the response of
  the environment may depend on the whole history, so nothing is assumed about what other
  actors do between two calls.
\<close>

type_synonym ('ev, 'a) io = "('ev list, 'a) state"

definition outcome :: "('ev, 'a) io \<Rightarrow> 'ev list \<Rightarrow> 'a" where
  "outcome m h = fst (run_state m h)"

definition history :: "('ev, 'a) io \<Rightarrow> 'ev list \<Rightarrow> 'ev list" where
  "history m h = snd (run_state m h)"

text \<open>The events a computation appends when it is started after history \<open>h\<close>.\<close>

definition emitted :: "('ev, 'a) io \<Rightarrow> 'ev list \<Rightarrow> 'ev list" where
  "emitted m h = drop (length h) (history m h)"

text \<open>\<open>emits P m\<close>: from every history, \<open>m\<close> only appends events, and each satisfies \<open>P\<close>.\<close>

definition emits :: "('ev \<Rightarrow> bool) \<Rightarrow> ('ev, 'a) io \<Rightarrow> bool" where
  "emits P m \<longleftrightarrow> (\<forall>h. \<exists>t. history m h = h @ t \<and> list_all P t)"

text \<open>One call to the environment: the response is a function of the history.\<close>

definition call :: "('ev list \<Rightarrow> 'r) \<Rightarrow> ('r \<Rightarrow> 'ev) \<Rightarrow> ('ev, 'r) io" where
  "call respond ev = State (\<lambda>h. let r = respond h in (r, h @ [ev r]))"

lemma run_call [simp]: "run_state (call respond ev) h = (respond h, h @ [ev (respond h)])"
  by (simp add: call_def Let_def)

lemma history_return [simp]: "history (State_Monad.return x) h = h"
  by (simp add: history_def)

lemma outcome_return [simp]: "outcome (State_Monad.return x) h = x"
  by (simp add: outcome_def)

lemma history_bind: "history (State_Monad.bind m f) h = history (f (outcome m h)) (history m h)"
  by (simp add: history_def outcome_def split: prod.splits)

lemma outcome_bind: "outcome (State_Monad.bind m f) h = outcome (f (outcome m h)) (history m h)"
  by (simp add: history_def outcome_def split: prod.splits)

lemma history_call [simp]: "history (call respond ev) h = h @ [ev (respond h)]"
  by (simp add: history_def)

lemma outcome_call [simp]: "outcome (call respond ev) h = respond h"
  by (simp add: outcome_def)

lemmas run_simps = history_bind outcome_bind

lemma emitsI: "(\<And>h. \<exists>t. history m h = h @ t \<and> list_all P t) \<Longrightarrow> emits P m"
  by (simp add: emits_def)

lemma emitsD: "emits P m \<Longrightarrow> \<exists>t. history m h = h @ t \<and> list_all P t"
  by (simp add: emits_def)

lemma emits_history: "emits P m \<Longrightarrow> history m h = h @ emitted m h \<and> list_all P (emitted m h)"
  by (drule emitsD [of P m h]) (auto simp: emitted_def)

lemma emits_emitted: "emits P m \<Longrightarrow> e \<in> set (emitted m h) \<Longrightarrow> P e"
  by (drule emits_history [of P m h]) (simp add: list_all_iff)

lemma emits_mono: "emits P m \<Longrightarrow> (\<And>e. P e \<Longrightarrow> Q e) \<Longrightarrow> emits Q m"
  unfolding emits_def by (metis list.pred_mono_strong)

lemma emits_return [emits_intros]: "emits P (State_Monad.return x)"
  by (rule emitsI) simp

lemma emits_call [emits_intros]: "(\<And>r. P (ev r)) \<Longrightarrow> emits P (call respond ev)"
  by (rule emitsI) simp

lemma emits_bind [emits_intros]:
  assumes "emits P m" and "\<And>x. emits P (f x)"
  shows "emits P (State_Monad.bind m f)"
proof (rule emitsI)
  fix h
  from assms(1) obtain t where t: "history m h = h @ t" "list_all P t"
    using emitsD by blast
  from assms(2) [of "outcome m h"] obtain t'
    where "history (f (outcome m h)) (history m h) = history m h @ t'" "list_all P t'"
    using emitsD by blast
  with t show "\<exists>t. history (State_Monad.bind m f) h = h @ t \<and> list_all P t"
    by (intro exI [of _ "t @ t'"]) (simp add: history_bind)
qed

lemma emits_bind_outcome:
  assumes "emits P m" and "\<And>h. emits P (f (outcome m h))"
  shows "emits P (State_Monad.bind m f)"
proof (rule emitsI)
  fix h
  from assms(1) obtain t where t: "history m h = h @ t" "list_all P t"
    using emitsD by blast
  from assms(2) [of h] obtain t'
    where "history (f (outcome m h)) (history m h) = history m h @ t'" "list_all P t'"
    using emitsD by blast
  with t show "\<exists>t. history (State_Monad.bind m f) h = h @ t \<and> list_all P t"
    by (intro exI [of _ "t @ t'"]) (simp add: history_bind)
qed

lemma emits_if [emits_intros]: "emits P a \<Longrightarrow> emits P b \<Longrightarrow> emits P (if c then a else b)"
  by simp

lemma emits_case_sum [emits_intros]:
  "(\<And>e. emits P (f e)) \<Longrightarrow> (\<And>a. emits P (g a)) \<Longrightarrow> emits P (case r of Inl e \<Rightarrow> f e | Inr a \<Rightarrow> g a)"
  by (cases r) simp_all

lemma emits_case_option [emits_intros]:
  "emits P m \<Longrightarrow> (\<And>a. emits P (f a)) \<Longrightarrow> emits P (case r of None \<Rightarrow> m | Some a \<Rightarrow> f a)"
  by (cases r) simp_all

lemma emits_case_prod [emits_intros]:
  "(\<And>a b. emits P (f a b)) \<Longrightarrow> emits P (case p of (a, b) \<Rightarrow> f a b)"
  by (cases p) simp

lemma emitted_bind:
  assumes "emits P m" and "\<And>x. emits Q (f x)"
  shows "emitted (State_Monad.bind m f) h = emitted m h @ emitted (f (outcome m h)) (history m h)"
proof -
  obtain t where "history m h = h @ t"
    using emitsD [OF assms(1)] by blast
  moreover obtain t' where "history (f (outcome m h)) (history m h) = history m h @ t'"
    using emitsD [OF assms(2)] by blast
  ultimately show ?thesis
    by (simp add: emitted_def history_bind)
qed

lemma emitted_return [simp]: "emitted (State_Monad.return x) h = []"
  by (simp add: emitted_def)

lemma emitted_call [simp]: "emitted (call respond ev) h = [ev (respond h)]"
  by (simp add: emitted_def)

text \<open>A loop over a list whose body interacts with the environment and returns a result each time.\<close>

fun for_each :: "('a \<Rightarrow> ('ev, 'b) io) \<Rightarrow> 'a list \<Rightarrow> ('ev, 'b list) io" where
  "for_each f [] = State_Monad.return []"
| "for_each f (x # xs) =
     State_Monad.bind (f x) (\<lambda>y. State_Monad.bind (for_each f xs) (\<lambda>ys. State_Monad.return (y # ys)))"

lemma emits_for_each [emits_intros]:
  "(\<And>x. x \<in> set xs \<Longrightarrow> emits P (f x)) \<Longrightarrow> emits P (for_each f xs)"
  by (induction xs) (auto intro!: emits_intros)

lemma length_outcome_for_each [simp]: "length (outcome (for_each f xs) h) = length xs"
  by (induction xs arbitrary: h) (simp_all add: run_simps)

lemma outcome_for_each_all2:
  assumes "\<And>x h. x \<in> set xs \<Longrightarrow> R x (outcome (f x) h)"
  shows "list_all2 R xs (outcome (for_each f xs) h)"
  using assms by (induction xs arbitrary: h) (simp_all add: run_simps)

section \<open>A trace logic\<close>

text \<open>
  \<open>yields R m\<close>: from every history, \<open>m\<close> only appends events, and its outcome and the events it
  appends are related by \<open>R\<close>. This is the program logic of the development.
\<close>

definition yields :: "('a \<Rightarrow> 'ev list \<Rightarrow> bool) \<Rightarrow> ('ev, 'a) io \<Rightarrow> bool" where
  "yields R m \<longleftrightarrow> (\<forall>h. \<exists>t. history m h = h @ t \<and> R (outcome m h) t)"

lemma yieldsI: "(\<And>h. \<exists>t. history m h = h @ t \<and> R (outcome m h) t) \<Longrightarrow> yields R m"
  by (simp add: yields_def)

lemma yieldsD: "yields R m \<Longrightarrow> \<exists>t. history m h = h @ t \<and> R (outcome m h) t"
  by (simp add: yields_def)

lemma yields_emitted: "yields R m \<Longrightarrow> R (outcome m h) (emitted m h)"
  by (drule yieldsD [of R m h]) (auto simp: emitted_def)

lemma yields_history: "yields R m \<Longrightarrow> history m h = h @ emitted m h"
  by (drule yieldsD [of R m h]) (auto simp: emitted_def)

lemma yields_mono: "yields R m \<Longrightarrow> (\<And>x t. R x t \<Longrightarrow> S x t) \<Longrightarrow> yields S m"
  unfolding yields_def by blast

lemma yields_conj: "yields R m \<Longrightarrow> yields S m \<Longrightarrow> yields (\<lambda>x t. R x t \<and> S x t) m"
  unfolding yields_def by (metis same_append_eq)

lemma emits_yields: "emits P m \<longleftrightarrow> yields (\<lambda>_ t. list_all P t) m"
  by (simp add: emits_def yields_def)

lemma yields_return: "R x [] \<Longrightarrow> yields R (State_Monad.return x)"
  by (rule yieldsI) simp

lemma yields_if: "(b \<Longrightarrow> yields R m) \<Longrightarrow> (\<not> b \<Longrightarrow> yields R m') \<Longrightarrow> yields R (if b then m else m')"
  by simp

lemma yields_call: "(\<And>r. R r [ev r]) \<Longrightarrow> yields R (call respond ev)"
  by (rule yieldsI) simp

lemma yields_bind:
  assumes "yields R m" and "\<And>x. yields (S x) (f x)"
    and "\<And>x s y t. R x s \<Longrightarrow> S x y t \<Longrightarrow> Q y (s @ t)"
  shows "yields Q (State_Monad.bind m f)"
proof (rule yieldsI)
  fix h
  from assms(1) obtain s where s: "history m h = h @ s" "R (outcome m h) s"
    using yieldsD by blast
  from assms(2) [of "outcome m h"] obtain t
    where "history (f (outcome m h)) (history m h) = history m h @ t"
      "S (outcome m h) (outcome (f (outcome m h)) (history m h)) t"
    using yieldsD by blast
  with s assms(3) show "\<exists>t. history (State_Monad.bind m f) h = h @ t \<and> Q (outcome (State_Monad.bind m f) h) t"
    by (intro exI [of _ "s @ t"]) (simp add: run_simps)
qed

text \<open>Weakest precondition style: after \<open>m\<close>, the rest must yield what is left of \<open>Q\<close>.\<close>

lemma yields_bind_wp:
  assumes "yields R m" and "\<And>x s. R x s \<Longrightarrow> yields (\<lambda>y t. Q y (s @ t)) (f x)"
  shows "yields Q (State_Monad.bind m f)"
proof (rule yieldsI)
  fix h
  from assms(1) obtain s where s: "history m h = h @ s" "R (outcome m h) s"
    using yieldsD by blast
  from yieldsD [OF assms(2) [OF s(2)], of "history m h"] s(1)
  show "\<exists>t. history (State_Monad.bind m f) h = h @ t \<and> Q (outcome (State_Monad.bind m f) h) t"
    by (auto simp: run_simps)
qed

lemma yields_call_bind:
  "(\<And>r. yields (\<lambda>y t. Q y (ev r # t)) (f r)) \<Longrightarrow> yields Q (State_Monad.bind (call respond ev) f)"
  by (rule yields_bind_wp [where R = "\<lambda>r s. s = [ev r]"]) (auto intro: yields_call)

lemma bind_return [simp]: "State_Monad.bind (State_Monad.return x) f = f x"
  by (simp add: State_Monad.bind_def State_Monad.return_def)

text \<open>
  A relation between the list, the results and the trace of a loop holds when it holds of the
  empty loop and each turn extends it.
\<close>

lemma yields_for_each:
  assumes "\<And>x. x \<in> set xs \<Longrightarrow> yields (R x) (f x)" and "Q [] [] []"
    and "\<And>x y t xs ys s. R x y t \<Longrightarrow> Q xs ys s \<Longrightarrow> Q (x # xs) (y # ys) (t @ s)"
  shows "yields (Q xs) (for_each f xs)"
  using assms(1)
proof (induction xs)
  case Nil
  show ?case using assms(2) by (auto intro: yields_return)
next
  case (Cons x xs)
  then have "yields (R x) (f x)" and "yields (Q xs) (for_each f xs)" by simp_all
  then show ?case
    unfolding for_each.simps using assms(3)
    by (auto intro!: yields_bind_wp [of "R x" "f x"] yields_bind_wp [of "Q xs"] yields_return)
qed

text \<open>
  \<open>trace_property T\<close>: \<open>T\<close> holds of the empty trace and is closed under concatenation, so that a
  program has it when its parts have it.
\<close>

locale trace_property =
  fixes T :: "'ev list \<Rightarrow> bool"
  assumes trace_Nil: "T []"
    and trace_append: "T s \<Longrightarrow> T t \<Longrightarrow> T (s @ t)"
begin

lemma trace_return: "yields (\<lambda>_. T) (State_Monad.return x)"
  by (rule yields_return) (rule trace_Nil)

lemma trace_bind:
  "yields (\<lambda>_. T) m \<Longrightarrow> (\<And>x. yields (\<lambda>_. T) (f x)) \<Longrightarrow> yields (\<lambda>_. T) (State_Monad.bind m f)"
  by (erule yields_bind [where S = "\<lambda>_ _. T"]) (auto intro: trace_append)

lemma trace_concat: "(\<And>t. t \<in> set ts \<Longrightarrow> T t) \<Longrightarrow> T (concat ts)"
  by (induction ts) (auto intro: trace_Nil trace_append)

lemma trace_for_each:
  "(\<And>x. x \<in> set xs \<Longrightarrow> yields (\<lambda>_. T) (f x)) \<Longrightarrow> yields (\<lambda>_. T) (for_each f xs)"
  by (induction xs) (auto intro!: trace_return trace_bind)

end

interpretation all_events: trace_property "list_all P" for P
  by unfold_locales simp_all

end
