(* ===== verification/GoStrings.thy ===== *)
theory GoStrings
  imports Prelude
begin

text \<open>
  The parts of Go's standard library on strings that the operator uses: \<open>strings.Join\<close>,
  \<open>strings.HasPrefix\<close> and its relatives, decimal formatting (\<open>%d\<close>), quoting (\<open>%q\<close>), and
  string-keyed maps represented as association lists. A Go string is a sequence of bytes, so
  it is a list of \<open>char\<close>.
\<close>

section \<open>Joining\<close>

fun strings_Join :: "string list \<Rightarrow> string \<Rightarrow> string" where
  "strings_Join [] sep = []"
| "strings_Join [x] sep = x"
| "strings_Join (x # y # ys) sep = x @ sep @ strings_Join (y # ys) sep"

lemma append_sep_inject:
  assumes "c \<notin> set a" and "c \<notin> set b"
  shows "a @ c # r = b @ c # s \<longleftrightarrow> a = b \<and> r = s"
  using assms
proof (induction a arbitrary: b)
  case Nil
  then show ?case by (cases b) auto
next
  case (Cons x a)
  then show ?case by (cases b) auto
qed

text \<open>
  Joining is injective on lists of the same length when no component but the last contains
  the separator.
\<close>

lemma strings_Join_inject:
  assumes "length xs = length ys"
    and "\<forall>x\<in>set (butlast xs). c \<notin> set x" and "\<forall>y\<in>set (butlast ys). c \<notin> set y"
    and "strings_Join xs [c] = strings_Join ys [c]"
  shows "xs = ys"
  using assms
proof (induction xs ys rule: list_induct2)
  case (Cons x xs y ys)
  show ?case
  proof (cases "xs = []")
    case True
    with Cons.hyps Cons.prems show ?thesis by simp
  next
    case False
    then obtain x' xs' y' ys' where xs: "xs = x' # xs'" and ys: "ys = y' # ys'"
      using Cons.hyps by (metis length_0_conv list.exhaust)
    from xs ys Cons.prems have "x = y" and "strings_Join xs [c] = strings_Join ys [c]"
      by (auto simp: append_sep_inject)
    moreover from xs ys Cons.prems have "\<forall>x\<in>set (butlast xs). c \<notin> set x"
      and "\<forall>y\<in>set (butlast ys). c \<notin> set y"
      by auto
    ultimately show ?thesis
      using Cons.IH by blast
  qed
qed simp

section \<open>Prefixes and suffixes\<close>

definition strings_HasPrefix :: "string \<Rightarrow> string \<Rightarrow> bool" where
  "strings_HasPrefix s p \<longleftrightarrow> take (length p) s = p"

definition strings_HasSuffix :: "string \<Rightarrow> string \<Rightarrow> bool" where
  "strings_HasSuffix s p \<longleftrightarrow> length p \<le> length s \<and> drop (length s - length p) s = p"

definition strings_TrimPrefix :: "string \<Rightarrow> string \<Rightarrow> string" where
  "strings_TrimPrefix s p = (if strings_HasPrefix s p then drop (length p) s else s)"

definition strings_TrimSuffix :: "string \<Rightarrow> string \<Rightarrow> string" where
  "strings_TrimSuffix s p = (if strings_HasSuffix s p then take (length s - length p) s else s)"

lemma HasPrefix_append [simp]: "strings_HasPrefix (p @ s) p"
  by (simp add: strings_HasPrefix_def)

lemma HasPrefix_iff: "strings_HasPrefix s p \<longleftrightarrow> (\<exists>r. s = p @ r)"
  by (metis HasPrefix_append append_take_drop_id strings_HasPrefix_def)

lemma TrimPrefix_append [simp]: "strings_TrimPrefix (p @ s) p = s"
  by (simp add: strings_TrimPrefix_def)

lemma HasSuffix_iff: "strings_HasSuffix s p \<longleftrightarrow> (\<exists>r. s = r @ p)"
proof
  assume "strings_HasSuffix s p"
  then have "s = take (length s - length p) s @ p"
    by (metis append_take_drop_id strings_HasSuffix_def)
  then show "\<exists>r. s = r @ p" by blast
qed (auto simp: strings_HasSuffix_def)

section \<open>Splitting\<close>

text \<open>\<open>strings.Split\<close> with a separator of one byte: the parts between the separators.\<close>

fun strings_Split :: "string \<Rightarrow> char \<Rightarrow> string list" where
  "strings_Split [] c = [[]]"
| "strings_Split (x # xs) c =
     (if x = c then [] # strings_Split xs c
      else (x # hd (strings_Split xs c)) # tl (strings_Split xs c))"

lemma strings_Split_nonempty [simp]: "strings_Split s c \<noteq> []"
  by (cases s) simp_all

lemma strings_Split_free: "c \<notin> set a \<Longrightarrow> strings_Split a c = [a]"
  by (induction a) auto

lemma strings_Split_snoc: "c \<notin> set a \<Longrightarrow> strings_Split (s @ c # a) c = strings_Split s c @ [a]"
  by (induction s) (simp_all add: strings_Split_free)

lemma strings_Split_Join: "strings_Join (strings_Split s c) [c] = s"
proof (induction s)
  case (Cons x xs)
  then show ?case
    by (cases "strings_Split xs c"; cases "tl (strings_Split xs c)") auto
qed simp

section \<open>Formatting\<close>

definition digit_char :: "nat \<Rightarrow> char" where
  "digit_char d = char_of (48 + d)"

fun show_nat :: "nat \<Rightarrow> string" where
  "show_nat n = (if n < 10 then [digit_char n] else show_nat (n div 10) @ [digit_char (n mod 10)])"

declare show_nat.simps [simp del]

definition show_int :: "int \<Rightarrow> string" where
  "show_int i = (if i < 0 then CHR ''-'' # show_nat (nat (- i)) else show_nat (nat i))"

lemma show_nat_nonempty: "show_nat n \<noteq> []"
  by (subst show_nat.simps) simp

definition hex_char :: "nat \<Rightarrow> char" where
  "hex_char d = (if d < 10 then char_of (48 + d) else char_of (87 + d))"

text \<open>
  \<open>strconv.Quote\<close> on ASCII; a byte outside ASCII is written as a hexadecimal escape, which is
  what Go prints for bytes that are not valid UTF-8.
\<close>

definition quote_byte :: "char \<Rightarrow> string" where
  "quote_byte c =
     (let n = of_char c :: nat in
      if n = 34 then [CHR 0x5C, CHR 0x22]
      else if n = 92 then [CHR 0x5C, CHR 0x5C]
      else if n = 7 then [CHR 0x5C, CHR ''a'']
      else if n = 8 then [CHR 0x5C, CHR ''b'']
      else if n = 12 then [CHR 0x5C, CHR ''f'']
      else if n = 10 then [CHR 0x5C, CHR ''n'']
      else if n = 13 then [CHR 0x5C, CHR ''r'']
      else if n = 9 then [CHR 0x5C, CHR ''t'']
      else if n = 11 then [CHR 0x5C, CHR ''v'']
      else if 32 \<le> n \<and> n < 127 then [c]
      else [CHR 0x5C, CHR ''x'', hex_char (n div 16), hex_char (n mod 16)])"

definition strconv_Quote :: "string \<Rightarrow> string" where
  "strconv_Quote s = [CHR 0x22] @ concat (map quote_byte s) @ [CHR 0x22]"

section \<open>Maps with string keys\<close>

text \<open>
  A Go map is an association list read with \<open>map_of\<close>, written with \<open>AList.update\<close> and
  shortened with \<open>AList.delete\<close>. Reading a missing key of a \<open>map[string]string\<close> (or of a nil
  map) gives the empty string.
\<close>

type_synonym strmap = "(string \<times> string) list"

definition map_get :: "strmap \<Rightarrow> string \<Rightarrow> string" where
  "map_get m k = (case map_of m k of None \<Rightarrow> [] | Some v \<Rightarrow> v)"

lemma map_of_update [simp]: "map_of (AList.update k v m) k' = (if k' = k then Some v else map_of m k')"
  by (simp add: update_conv')

lemma map_of_delete [simp]: "map_of (AList.delete k m) k' = (if k' = k then None else map_of m k')"
  by (simp add: delete_conv')

lemma map_get_update [simp]: "map_get (AList.update k v m) k' = (if k' = k then v else map_get m k')"
  by (simp add: map_get_def)

lemma distinct_keys_update [simp]:
  "distinct (map fst m) \<Longrightarrow> distinct (map fst (AList.update k v m))"
  by (rule distinct_update)

lemma distinct_keys_delete [simp]:
  "distinct (map fst m) \<Longrightarrow> distinct (map fst (AList.delete k m))"
  by (rule distinct_delete)

lemma fst_map_map_snd: "map fst (map (\<lambda>(k, v). (k, f v)) m) = map fst m"
  by (induction m) auto

lemma map_of_map_snd: "map_of (map (\<lambda>(k, v). (k, f v)) m) k = map_option f (map_of m k)"
  by (induction m) auto

section \<open>Stable sorting\<close>

text \<open>
  \<open>sort.SliceStable\<close> with a comparison \<open>key a < key b\<close> is \<open>sort_key key\<close>: a permutation of
  the input, sorted by the key, in which elements with equal keys keep their order.
\<close>

lemma sort_key_perm: "mset (sort_key f xs) = mset xs"
  by simp

lemma sort_key_sorted: "sorted (map f (sort_key f xs))"
  by simp

lemma sort_key_stable_filter: "filter (\<lambda>x. f x = k) (sort_key f xs) = filter (\<lambda>x. f x = k) xs"
  by (rule sort_key_stable)

lemma filter_sort_key: "filter P (sort_key f xs) = sort_key f (filter P xs)"
  by (simp add: filter_sort)

end
