(* ===== verification/Unstructured.thy ===== *)
theory Unstructured
  imports GoStrings
begin

text \<open>
  The dynamic values the operator works on and the libraries it reads and writes them with.

  A Kubernetes object is \<open>unstructured.Unstructured\<close>: a \<open>map[string]any\<close> decoded from JSON
  (\<open>jobj\<close>). The accessors of that type, the \<open>Nested...\<close> helpers, the group/version parser, the
  error predicates and the finalizer helpers belong to \<open>k8s.io/apimachinery\<close> and
  \<open>sigs.k8s.io/controller-runtime\<close>, which are not part of the repository: they are the fields
  of one record \<open>klib\<close>, an argument of every definition that uses them. What the operator
  relies on is stated by the locales \<open>unstructured_lib\<close>, \<open>errors_lib\<close> and
  \<open>controllerutil_lib\<close>; \<open>documented_lib\<close> is an implementation of the documented behaviour and
  interprets all three.
\<close>

section \<open>JSON values\<close>

text \<open>
  \<open>JFloat m e\<close> is the float64 whose shortest decimal form is \<open>m * 10 ^ e\<close>; negative zero is
  \<open>JFloat 0 (- 1)\<close>.
\<close>

datatype jval =
    JNull
  | JBool bool
  | JInt int
  | JFloat int int
  | JStr string
  | JArr "jval list"
  | JObj "(string \<times> jval) list"

type_synonym jobj = "(string \<times> jval) list"

definition is_obj :: "jval \<Rightarrow> bool" where
  "is_obj v = (case v of JObj _ \<Rightarrow> True | _ \<Rightarrow> False)"

text \<open>\<open>x.(map[string]any)\<close> with the comma-ok form, and \<open>s, _ := x.(string)\<close>.\<close>

definition as_obj :: "jval option \<Rightarrow> jobj option" where
  "as_obj v = (case v of Some (JObj m) \<Rightarrow> Some m | _ \<Rightarrow> None)"

definition as_str :: "jval option \<Rightarrow> string" where
  "as_str v = (case v of Some (JStr s) \<Rightarrow> s | _ \<Rightarrow> [])"

lemma as_obj_simps [simp]:
  "as_obj None = None" "as_obj (Some (JObj m)) = Some m" "as_obj (Some JNull) = None"
  "as_obj (Some (JBool b)) = None" "as_obj (Some (JInt i)) = None" "as_obj (Some (JFloat i j)) = None"
  "as_obj (Some (JStr s)) = None" "as_obj (Some (JArr xs)) = None"
  by (simp_all add: as_obj_def)

lemma as_obj_eq_Some: "as_obj v = Some m \<longleftrightarrow> v = Some (JObj m)"
  by (auto simp: as_obj_def split: option.splits jval.splits)

text \<open>Well-formedness of a decoded value: the keys of every map are distinct.\<close>

fun jval_wf :: "jval \<Rightarrow> bool" where
  "jval_wf (JArr xs) = list_all jval_wf xs"
| "jval_wf (JObj m) = (distinct (map fst m) \<and> list_all (\<lambda>kv. jval_wf (snd kv)) m)"
| "jval_wf _ = True"

abbreviation jobj_wf :: "jobj \<Rightarrow> bool" where
  "jobj_wf m \<equiv> jval_wf (JObj m)"

lemma jobj_wf_Nil [simp]: "jobj_wf []"
  by simp

lemma jobj_wf_lookup: "jobj_wf m \<Longrightarrow> map_of m k = Some v \<Longrightarrow> jval_wf v"
  by (auto simp: list_all_iff dest!: map_of_SomeD)

lemma set_update_subset: "set (AList.update k v m) \<subseteq> insert (k, v) (set m)"
  by (induction m) auto

lemma jobj_wf_update [simp]: "jobj_wf m \<Longrightarrow> jval_wf v \<Longrightarrow> jobj_wf (AList.update k v m)"
  using set_update_subset [of k v m] by (auto simp: list_all_iff)

lemma jobj_wf_delete [simp]: "jobj_wf m \<Longrightarrow> jobj_wf (AList.delete k m)"
  using distinct_keys_delete [of m k] by (auto simp: list_all_iff AList.delete_eq)

section \<open>Paths\<close>

text \<open>
  What the documentation of the \<open>Nested...\<close> helpers calls a nested field: \<open>Found\<close> the value,
  \<open>Absent\<close> (a key on the way is missing, or a null is on the way), or \<open>Mistyped\<close> (something
  on the way is not a map).
\<close>

datatype nested = Found jval | Absent | Mistyped

fun nested_at :: "jval \<Rightarrow> string list \<Rightarrow> nested" where
  "nested_at v [] = Found v"
| "nested_at JNull (f # fs) = Absent"
| "nested_at (JObj m) (f # fs) = (case map_of m f of None \<Rightarrow> Absent | Some v \<Rightarrow> nested_at v fs)"
| "nested_at _ (f # fs) = Mistyped"

text \<open>Writing a nested field creates missing maps on the way; \<open>None\<close> if something there is not a map.\<close>

fun set_nested :: "jobj \<Rightarrow> string list \<Rightarrow> jval \<Rightarrow> jobj option" where
  "set_nested m [] v = None"
| "set_nested m [f] v = Some (AList.update f v m)"
| "set_nested m (f # g # fs) v =
     (case map_of m f of
        None \<Rightarrow> map_option (\<lambda>m'. AList.update f (JObj m') m) (set_nested [] (g # fs) v)
      | Some (JObj m') \<Rightarrow> map_option (\<lambda>m''. AList.update f (JObj m'') m) (set_nested m' (g # fs) v)
      | Some _ \<Rightarrow> None)"

text \<open>Removing a nested field stops silently where the path leaves the maps.\<close>

fun remove_nested :: "jobj \<Rightarrow> string list \<Rightarrow> jobj" where
  "remove_nested m [] = m"
| "remove_nested m [f] = AList.delete f m"
| "remove_nested m (f # g # fs) =
     (case map_of m f of
        Some (JObj m') \<Rightarrow> AList.update f (JObj (remove_nested m' (g # fs))) m
      | _ \<Rightarrow> m)"

lemma nested_at_single:
  "nested_at (JObj m) [f] = (case map_of m f of None \<Rightarrow> Absent | Some v \<Rightarrow> Found v)"
  by (simp split: option.splits)

lemma set_nested_Nil_total: "fs \<noteq> [] \<Longrightarrow> \<exists>m. set_nested [] fs v = Some m"
  by (induction "[] :: jobj" fs v rule: set_nested.induct) auto

lemma set_nested_get: "set_nested m fs v = Some m' \<Longrightarrow> nested_at (JObj m') fs = Found v"
proof (induction m fs v arbitrary: m' rule: set_nested.induct)
  case (3 m f g fs v)
  then show ?case by (auto split: option.splits jval.splits)
qed auto

text \<open>Two paths are apart when they differ at some position both have.\<close>

fun apart :: "string list \<Rightarrow> string list \<Rightarrow> bool" where
  "apart (f # fs) (g # gs) = (f \<noteq> g \<or> apart fs gs)"
| "apart _ _ = False"

lemma nested_at_Nil_apart: "apart fs gs \<Longrightarrow> set_nested [] fs v = Some m \<Longrightarrow> nested_at (JObj m) gs = Absent"
proof (induction "[] :: jobj" fs v arbitrary: m gs rule: set_nested.induct)
  case (3 f g fs v)
  then show ?case by (cases gs) auto
next
  case (2 f v)
  then show ?case by (cases gs) auto
qed auto

lemma set_nested_frame:
  "set_nested m fs v = Some m' \<Longrightarrow> apart fs gs \<Longrightarrow> nested_at (JObj m') gs = nested_at (JObj m) gs"
proof (induction m fs v arbitrary: m' gs rule: set_nested.induct)
  case (2 m f v)
  then show ?case by (cases gs) auto
next
  case (3 m f g fs v)
  then obtain h hs where gs: "gs = h # hs" by (cases gs) auto
  show ?case
  proof (cases "f = h")
    case False
    with "3.prems" gs show ?thesis by (auto split: option.splits jval.splits)
  next
    case True
    with "3.prems" gs have ap: "apart (g # fs) hs" by simp
    then have hs: "hs \<noteq> []" by (cases hs) auto
    show ?thesis
    proof (cases "map_of m f")
      case None
      with "3.prems" gs True ap show ?thesis
        by (auto dest: nested_at_Nil_apart)
    next
      case (Some w)
      with "3.prems" gs True ap hs "3.IH"(2) show ?thesis
        by (auto split: jval.splits)
    qed
  qed
qed auto

lemma remove_nested_get:
  "fs \<noteq> [] \<Longrightarrow> nested_at (JObj (remove_nested m fs)) fs \<noteq> Found v"
proof (induction m fs rule: remove_nested.induct)
  case (3 m f g fs)
  then show ?case by (auto split: option.splits jval.splits)
qed (auto split: option.splits)

lemma remove_nested_frame:
  "apart fs gs \<Longrightarrow> nested_at (JObj (remove_nested m fs)) gs = nested_at (JObj m) gs"
proof (induction m fs arbitrary: gs rule: remove_nested.induct)
  case (2 m f)
  then show ?case by (cases gs) auto
next
  case (3 m f g fs)
  then obtain h hs where "gs = h # hs" by (cases gs) auto
  with 3 show ?case by (auto split: option.splits jval.splits)
qed auto

text \<open>Each path operation keeps well-formedness.\<close>

lemma set_nested_wf: "set_nested m fs v = Some m' \<Longrightarrow> jobj_wf m \<Longrightarrow> jval_wf v \<Longrightarrow> jobj_wf m'"
proof (induction m fs v arbitrary: m' rule: set_nested.induct)
  case (3 m f g fs v)
  then show ?case
    by (auto split: option.splits jval.splits simp del: jval_wf.simps(2)
        intro!: jobj_wf_update dest: jobj_wf_lookup)
qed (auto simp del: jval_wf.simps(2))

lemma remove_nested_wf: "jobj_wf m \<Longrightarrow> jobj_wf (remove_nested m fs)"
proof (induction m fs rule: remove_nested.induct)
  case (3 m f g fs)
  then show ?case
    by (auto split: option.splits jval.splits simp del: jval_wf.simps(2)
        intro!: jobj_wf_update dest: jobj_wf_lookup)
qed (auto simp del: jval_wf.simps(2))

text \<open>
  From here on paths are reasoned about with the lemmas above; the equations are unfolded by
  name only.
\<close>

declare nested_at.simps(2-) [simp del] set_nested.simps [simp del] remove_nested.simps [simp del]

lemmas path_eval = nested_at.simps set_nested.simps remove_nested.simps

section \<open>Errors\<close>

text \<open>
  The error values of the program: \<open>errors.New\<close> (and \<open>fmt.Errorf\<close> without \<open>%w\<close>), the two
  package-level sentinels for missing shoot credentials and the one for sources that cannot be
  keyed, \<open>fmt.Errorf\<close> with one \<open>%w\<close> (text before, wrapped error, text after), an aggregate with
  its rendered text, and an error of a library or of the API server with its reason.
\<close>

datatype sentinel = ClientsErrShootCredentialsNotReady | ErrShootCredentialsNotReady | ErrUnkeyable

datatype go_error =
    ErrNew string
  | ErrSentinel sentinel
  | ErrWrap string go_error string
  | ErrAgg string "go_error list"
  | ErrLib string string

fun sentinel_text :: "sentinel \<Rightarrow> string" where
  "sentinel_text ErrUnkeyable = ''source: unkeyable (skip caching)''"
| "sentinel_text _ = ''shoot credentials not yet populated''"

fun Error :: "go_error \<Rightarrow> string" where
  "Error (ErrNew s) = s"
| "Error (ErrSentinel s) = sentinel_text s"
| "Error (ErrWrap pre e post) = pre @ Error e @ post"
| "Error (ErrAgg msg es) = msg"
| "Error (ErrLib reason msg) = msg"

text \<open>\<open>errors.Is(err, sentinel)\<close>: along the chain of wrapped errors and into aggregates.\<close>

fun errors_Is :: "go_error \<Rightarrow> sentinel \<Rightarrow> bool" where
  "errors_Is (ErrSentinel s) t = (s = t)"
| "errors_Is (ErrWrap pre e post) t = errors_Is e t"
| "errors_Is (ErrAgg msg es) t = list_ex (\<lambda>e. errors_Is e t) es"
| "errors_Is _ t = False"

type_synonym 'a result = "go_error + 'a"

section \<open>Group, version, kind\<close>

record gvk =
  gvk_Group :: string
  gvk_Version :: string
  gvk_Kind :: string

definition no_gvk :: gvk where
  "no_gvk = \<lparr>gvk_Group = [], gvk_Version = [], gvk_Kind = []\<rparr>"

section \<open>The libraries\<close>

text \<open>
  A nil \<open>map[string]string\<close> is \<open>None\<close>. A \<open>Nested...\<close> getter returns the error, \<open>Inr None\<close>
  for not found, or the value. The setters change the object they are called on; here they
  return it.
\<close>

record klib =
  GetAPIVersion :: "jobj \<Rightarrow> string"
  GetKind :: "jobj \<Rightarrow> string"
  GetNamespace :: "jobj \<Rightarrow> string"
  GetName :: "jobj \<Rightarrow> string"
  GetLabels :: "jobj \<Rightarrow> strmap option"
  GetAnnotations :: "jobj \<Rightarrow> strmap option"
  SetNamespace :: "jobj \<Rightarrow> string \<Rightarrow> jobj"
  SetName :: "jobj \<Rightarrow> string \<Rightarrow> jobj"
  SetLabels :: "jobj \<Rightarrow> strmap option \<Rightarrow> jobj"
  SetAnnotations :: "jobj \<Rightarrow> strmap option \<Rightarrow> jobj"
  GroupVersionKind :: "jobj \<Rightarrow> gvk"
  SetGroupVersionKind :: "jobj \<Rightarrow> gvk \<Rightarrow> jobj"
  ParseGroupVersion :: "string \<Rightarrow> (string \<times> string) result"
  NestedSlice :: "jobj \<Rightarrow> string list \<Rightarrow> jval list option result"
  NestedMap :: "jobj \<Rightarrow> string list \<Rightarrow> jobj option result"
  NestedString :: "jobj \<Rightarrow> string list \<Rightarrow> string option result"
  NestedInt64 :: "jobj \<Rightarrow> string list \<Rightarrow> int option result"
  SetNestedSlice :: "jobj \<Rightarrow> jval list \<Rightarrow> string list \<Rightarrow> jobj result"
  SetNestedMap :: "jobj \<Rightarrow> jobj \<Rightarrow> string list \<Rightarrow> jobj result"
  RemoveNestedField :: "jobj \<Rightarrow> string list \<Rightarrow> jobj"
  IsNotFound :: "go_error \<Rightarrow> bool"
  IsNoMatchError :: "go_error \<Rightarrow> bool"
  IgnoreNotFound :: "go_error \<Rightarrow> go_error option"
  NewAggregate :: "go_error option list \<Rightarrow> go_error option"
  ContainsFinalizer :: "string list \<Rightarrow> string \<Rightarrow> bool"
  AddFinalizer :: "string list \<Rightarrow> string \<Rightarrow> string list"
  RemoveFinalizer :: "string list \<Rightarrow> string \<Rightarrow> string list"

text \<open>Reading a label of an object, as \<open>u.GetLabels()[key]\<close>: a nil map reads as empty.\<close>

definition label_of :: "klib \<Rightarrow> jobj \<Rightarrow> string \<Rightarrow> string" where
  "label_of L u key = (case GetLabels L u of None \<Rightarrow> [] | Some m \<Rightarrow> map_get m key)"

definition annotation_of :: "klib \<Rightarrow> jobj \<Rightarrow> string \<Rightarrow> string" where
  "annotation_of L u key = (case GetAnnotations L u of None \<Rightarrow> [] | Some m \<Rightarrow> map_get m key)"

section \<open>Documented behaviour\<close>

definition str_at :: "jobj \<Rightarrow> string list \<Rightarrow> string" where
  "str_at u fs = (case nested_at (JObj u) fs of Found (JStr s) \<Rightarrow> s | _ \<Rightarrow> [])"

definition is_strmap :: "jobj \<Rightarrow> bool" where
  "is_strmap m = list_all (\<lambda>(k, v). case v of JStr _ \<Rightarrow> True | _ \<Rightarrow> False) m"

definition to_strmap :: "jobj \<Rightarrow> strmap" where
  "to_strmap m = map (\<lambda>(k, v). (k, as_str (Some v))) m"

definition of_strmap :: "strmap \<Rightarrow> jobj" where
  "of_strmap m = map (\<lambda>(k, v). (k, JStr v)) m"

definition strmap_at :: "jobj \<Rightarrow> string list \<Rightarrow> strmap option" where
  "strmap_at u fs =
     (case nested_at (JObj u) fs of
        Found (JObj m) \<Rightarrow> if is_strmap m then Some (to_strmap m) else None
      | _ \<Rightarrow> None)"

definition write_nested :: "jobj \<Rightarrow> string list \<Rightarrow> jval \<Rightarrow> jobj" where
  "write_nested u fs v = (case set_nested u fs v of None \<Rightarrow> u | Some u' \<Rightarrow> u')"

definition write_str :: "jobj \<Rightarrow> string list \<Rightarrow> string \<Rightarrow> jobj" where
  "write_str u fs s = (if s = [] then remove_nested u fs else write_nested u fs (JStr s))"

definition write_strmap :: "jobj \<Rightarrow> string list \<Rightarrow> strmap option \<Rightarrow> jobj" where
  "write_strmap u fs m =
     (case m of None \<Rightarrow> remove_nested u fs | Some m' \<Rightarrow> write_nested u fs (JObj (of_strmap m')))"

definition gv_split :: "string \<Rightarrow> (string \<times> string) option" where
  "gv_split s =
     (if s = [] \<or> s = ''/'' then Some ([], [])
      else if count_list s (CHR ''/'') = 0 then Some ([], s)
      else if count_list s (CHR ''/'') = 1
        then Some (takeWhile (\<lambda>c. c \<noteq> CHR ''/'') s, tl (dropWhile (\<lambda>c. c \<noteq> CHR ''/'') s))
      else None)"

definition gv_string :: "string \<Rightarrow> string \<Rightarrow> string" where
  "gv_string g v = (if g = [] then v else g @ ''/'' @ v)"

text \<open>
  \<open>unstructured_lib L err\<close>: \<open>L\<close> behaves as the documentation of \<open>apimachinery\<close> says, with \<open>err\<close>
  the errors it reports for values of another type than asked for.
\<close>

locale unstructured_lib =
  fixes L :: klib and err :: "jobj \<Rightarrow> string list \<Rightarrow> go_error"
  assumes GetAPIVersion_law: "GetAPIVersion L u = str_at u [''apiVersion'']"
    and GetKind_law: "GetKind L u = str_at u [''kind'']"
    and GetNamespace_law: "GetNamespace L u = str_at u [''metadata'', ''namespace'']"
    and GetName_law: "GetName L u = str_at u [''metadata'', ''name'']"
    and GetLabels_law: "GetLabels L u = strmap_at u [''metadata'', ''labels'']"
    and GetAnnotations_law: "GetAnnotations L u = strmap_at u [''metadata'', ''annotations'']"
    and SetNamespace_law: "SetNamespace L u s = write_str u [''metadata'', ''namespace''] s"
    and SetName_law: "SetName L u s = write_str u [''metadata'', ''name''] s"
    and SetLabels_law: "SetLabels L u m = write_strmap u [''metadata'', ''labels''] m"
    and SetAnnotations_law: "SetAnnotations L u m = write_strmap u [''metadata'', ''annotations''] m"
    and ParseGroupVersion_law:
      "ParseGroupVersion L s = (case gv_split s of None \<Rightarrow> Inl (err [] [s]) | Some gv \<Rightarrow> Inr gv)"
    and GroupVersionKind_law:
      "GroupVersionKind L u =
         (case gv_split (str_at u [''apiVersion'']) of
            None \<Rightarrow> no_gvk
          | Some (g, v) \<Rightarrow> \<lparr>gvk_Group = g, gvk_Version = v, gvk_Kind = str_at u [''kind'']\<rparr>)"
    and SetGroupVersionKind_law:
      "SetGroupVersionKind L u g =
         write_nested (write_nested u [''apiVersion''] (JStr (gv_string (gvk_Group g) (gvk_Version g))))
           [''kind''] (JStr (gvk_Kind g))"
    and NestedSlice_law:
      "NestedSlice L u fs =
         (case nested_at (JObj u) fs of
            Found (JArr xs) \<Rightarrow> Inr (Some xs) | Absent \<Rightarrow> Inr None | _ \<Rightarrow> Inl (err u fs))"
    and NestedMap_law:
      "NestedMap L u fs =
         (case nested_at (JObj u) fs of
            Found (JObj m) \<Rightarrow> Inr (Some m) | Absent \<Rightarrow> Inr None | _ \<Rightarrow> Inl (err u fs))"
    and NestedString_law:
      "NestedString L u fs =
         (case nested_at (JObj u) fs of
            Found (JStr s) \<Rightarrow> Inr (Some s) | Absent \<Rightarrow> Inr None | _ \<Rightarrow> Inl (err u fs))"
    and NestedInt64_law:
      "NestedInt64 L u fs =
         (case nested_at (JObj u) fs of
            Found (JInt i) \<Rightarrow> Inr (Some i) | Absent \<Rightarrow> Inr None | _ \<Rightarrow> Inl (err u fs))"
    and SetNestedSlice_law:
      "SetNestedSlice L u xs fs =
         (case set_nested u fs (JArr xs) of None \<Rightarrow> Inl (err u fs) | Some u' \<Rightarrow> Inr u')"
    and SetNestedMap_law:
      "SetNestedMap L u ob fs =
         (case set_nested u fs (JObj ob) of None \<Rightarrow> Inl (err u fs) | Some u' \<Rightarrow> Inr u')"
    and RemoveNestedField_law: "RemoveNestedField L u fs = remove_nested u fs"
begin

lemmas getter_laws = GetAPIVersion_law GetKind_law GetNamespace_law GetName_law GetLabels_law
  GetAnnotations_law GroupVersionKind_law

lemmas setter_laws = SetNamespace_law SetName_law SetLabels_law SetAnnotations_law
  SetGroupVersionKind_law RemoveNestedField_law

lemmas nested_laws = NestedSlice_law NestedMap_law NestedString_law NestedInt64_law
  SetNestedSlice_law SetNestedMap_law

lemmas lib_laws = getter_laws setter_laws nested_laws ParseGroupVersion_law

end

text \<open>\<open>NewAggregate\<close> drops nil errors and is nil when nothing is left.\<close>

locale errors_lib =
  fixes L :: klib
  assumes NewAggregate_nil: "NewAggregate L es = None \<longleftrightarrow> (\<forall>e\<in>set es. e = None)"
    and NewAggregate_errs:
      "NewAggregate L es = Some e \<Longrightarrow> \<exists>msg. e = ErrAgg msg (map the (filter (\<lambda>x. x \<noteq> None) es))"
    and IgnoreNotFound_law: "IgnoreNotFound L e = (if IsNotFound L e then None else Some e)"

locale controllerutil_lib =
  fixes L :: klib
  assumes ContainsFinalizer_law: "ContainsFinalizer L fs f \<longleftrightarrow> f \<in> set fs"
    and AddFinalizer_law: "AddFinalizer L fs f = (if f \<in> set fs then fs else fs @ [f])"
    and RemoveFinalizer_law: "RemoveFinalizer L fs f = filter (\<lambda>x. x \<noteq> f) fs"

section \<open>Reading after writing\<close>

text \<open>An object whose \<open>metadata\<close> is a map, or is missing; only then can the setters write into it.\<close>

definition meta_ok :: "jobj \<Rightarrow> bool" where
  "meta_ok u = (case map_of u ''metadata'' of None \<Rightarrow> True | Some v \<Rightarrow> is_obj v)"

lemma nested_at_write_frame [simp]:
  "apart fs gs \<Longrightarrow> nested_at (JObj (write_nested u fs v)) gs = nested_at (JObj u) gs"
  by (auto simp: write_nested_def set_nested_frame split: option.splits)

lemma nested_at_write_str_frame [simp]:
  "apart fs gs \<Longrightarrow> nested_at (JObj (write_str u fs s)) gs = nested_at (JObj u) gs"
  by (simp add: write_str_def remove_nested_frame)

lemma nested_at_write_strmap_frame [simp]:
  "apart fs gs \<Longrightarrow> nested_at (JObj (write_strmap u fs m)) gs = nested_at (JObj u) gs"
  by (simp add: write_strmap_def remove_nested_frame split: option.splits)

lemma str_at_frame [simp]:
  "apart fs gs \<Longrightarrow> str_at (write_nested u fs v) gs = str_at u gs"
  "apart fs gs \<Longrightarrow> str_at (write_str u fs s) gs = str_at u gs"
  "apart fs gs \<Longrightarrow> str_at (write_strmap u fs m) gs = str_at u gs"
  "apart fs gs \<Longrightarrow> str_at (remove_nested u fs) gs = str_at u gs"
  by (simp_all add: str_at_def remove_nested_frame)

lemma strmap_at_frame [simp]:
  "apart fs gs \<Longrightarrow> strmap_at (write_nested u fs v) gs = strmap_at u gs"
  "apart fs gs \<Longrightarrow> strmap_at (write_str u fs s) gs = strmap_at u gs"
  "apart fs gs \<Longrightarrow> strmap_at (write_strmap u fs m) gs = strmap_at u gs"
  "apart fs gs \<Longrightarrow> strmap_at (remove_nested u fs) gs = strmap_at u gs"
  by (simp_all add: strmap_at_def remove_nested_frame)

lemma nested_at_write_top [simp]: "nested_at (JObj (write_nested u [f] v)) [f] = Found v"
  by (simp add: write_nested_def path_eval)

lemma set_nested_meta: "meta_ok u \<Longrightarrow> \<exists>u'. set_nested u [''metadata'', f] v = Some u'"
  by (auto simp: meta_ok_def is_obj_def path_eval split: option.splits jval.splits)

lemma nested_at_write_meta [simp]:
  "meta_ok u \<Longrightarrow> nested_at (JObj (write_nested u [''metadata'', f] v)) [''metadata'', f] = Found v"
  using set_nested_meta [of u f v] by (auto simp: write_nested_def set_nested_get)

lemma meta_ok_alt: "meta_ok u \<longleftrightarrow> (\<forall>v. nested_at (JObj u) [''metadata''] = Found v \<longrightarrow> is_obj v)"
  by (simp add: meta_ok_def path_eval split: option.splits)

lemma meta_ok_write_meta [simp]: "meta_ok u \<Longrightarrow> meta_ok (write_nested u [''metadata'', f] v)"
  by (auto simp: meta_ok_def is_obj_def write_nested_def path_eval split: option.splits jval.splits)

lemma meta_ok_remove_meta [simp]: "meta_ok u \<Longrightarrow> meta_ok (remove_nested u [''metadata'', f])"
  by (auto simp: meta_ok_def is_obj_def path_eval split: option.splits jval.splits)

lemma meta_ok_write_str [simp]: "meta_ok u \<Longrightarrow> meta_ok (write_str u [''metadata'', f] s)"
  by (simp add: write_str_def)

lemma meta_ok_write_strmap [simp]: "meta_ok u \<Longrightarrow> meta_ok (write_strmap u [''metadata'', f] m)"
  by (simp add: write_strmap_def split: option.splits)

lemma meta_ok_of_write: "meta_ok (write_nested u [''metadata'', f] v) \<Longrightarrow> meta_ok u"
  by (auto simp: meta_ok_def is_obj_def write_nested_def path_eval split: option.splits jval.splits)

lemma meta_ok_of_remove: "meta_ok (remove_nested u [''metadata'', f]) \<Longrightarrow> meta_ok u"
  by (auto simp: meta_ok_def is_obj_def path_eval split: option.splits jval.splits)

lemma meta_ok_of_write_strmap: "meta_ok (write_strmap u [''metadata'', f] m) \<Longrightarrow> meta_ok u"
  by (auto simp: write_strmap_def split: option.splits dest: meta_ok_of_write meta_ok_of_remove)

lemma str_at_write_nested [simp]: "str_at (write_nested u [f] (JStr s)) [f] = s"
  by (simp add: str_at_def)

lemma str_at_remove [simp]: "fs \<noteq> [] \<Longrightarrow> str_at (remove_nested u fs) fs = []"
  by (auto simp: str_at_def remove_nested_get split: nested.splits jval.splits)

lemma str_at_write_meta [simp]:
  "meta_ok u \<Longrightarrow> str_at (write_str u [''metadata'', f] s) [''metadata'', f] = s"
  by (simp add: write_str_def) (simp add: str_at_def)

lemma is_strmap_of_strmap [simp]: "is_strmap (of_strmap m)"
  by (auto simp: is_strmap_def of_strmap_def list_all_iff)

lemma to_of_strmap [simp]: "to_strmap (of_strmap m) = m"
  by (induction m) (auto simp: to_strmap_def of_strmap_def as_str_def)

lemma strmap_at_write_meta [simp]:
  "meta_ok u \<Longrightarrow> strmap_at (write_strmap u [''metadata'', f] (Some m)) [''metadata'', f] = Some m"
  by (simp add: write_strmap_def) (simp add: strmap_at_def)

lemma strmap_at_remove [simp]: "fs \<noteq> [] \<Longrightarrow> strmap_at (write_strmap u fs None) fs = None"
  by (auto simp: write_strmap_def strmap_at_def remove_nested_get split: nested.splits jval.splits)

lemma of_strmap_wf: "distinct (map fst m) \<Longrightarrow> jobj_wf (of_strmap m)"
  by (auto simp: of_strmap_def list_all_iff comp_def case_prod_beta)

lemma write_nested_wf: "jobj_wf u \<Longrightarrow> jval_wf v \<Longrightarrow> jobj_wf (write_nested u fs v)"
  by (auto simp: write_nested_def simp del: jval_wf.simps(2) dest: set_nested_wf split: option.splits)

section \<open>An implementation of the documented behaviour\<close>

fun has_reason :: "string \<Rightarrow> go_error \<Rightarrow> bool" where
  "has_reason r (ErrLib reason msg) = (reason = r)"
| "has_reason r (ErrWrap pre e post) = has_reason r e"
| "has_reason r _ = False"

definition documented_err :: "jobj \<Rightarrow> string list \<Rightarrow> go_error" where
  "documented_err u fs = ErrLib ''Accessor'' (''accessor error: .'' @ strings_Join fs ''.'')"

definition documented_aggregate :: "go_error option list \<Rightarrow> go_error option" where
  "documented_aggregate es =
     (case map the (filter (\<lambda>e. e \<noteq> None) es) of
        [] \<Rightarrow> None
      | e # es' \<Rightarrow> Some (ErrAgg (strings_Join (map Error (e # es')) '', '') (e # es')))"

definition documented_lib :: klib where
  "documented_lib =
    \<lparr>GetAPIVersion = \<lambda>u. str_at u [''apiVersion''],
     GetKind = \<lambda>u. str_at u [''kind''],
     GetNamespace = \<lambda>u. str_at u [''metadata'', ''namespace''],
     GetName = \<lambda>u. str_at u [''metadata'', ''name''],
     GetLabels = \<lambda>u. strmap_at u [''metadata'', ''labels''],
     GetAnnotations = \<lambda>u. strmap_at u [''metadata'', ''annotations''],
     SetNamespace = \<lambda>u s. write_str u [''metadata'', ''namespace''] s,
     SetName = \<lambda>u s. write_str u [''metadata'', ''name''] s,
     SetLabels = \<lambda>u m. write_strmap u [''metadata'', ''labels''] m,
     SetAnnotations = \<lambda>u m. write_strmap u [''metadata'', ''annotations''] m,
     GroupVersionKind = \<lambda>u.
       (case gv_split (str_at u [''apiVersion'']) of
          None \<Rightarrow> no_gvk
        | Some (g, v) \<Rightarrow> \<lparr>gvk_Group = g, gvk_Version = v, gvk_Kind = str_at u [''kind'']\<rparr>),
     SetGroupVersionKind = \<lambda>u g.
       write_nested (write_nested u [''apiVersion''] (JStr (gv_string (gvk_Group g) (gvk_Version g))))
         [''kind''] (JStr (gvk_Kind g)),
     ParseGroupVersion = \<lambda>s.
       (case gv_split s of None \<Rightarrow> Inl (documented_err [] [s]) | Some gv \<Rightarrow> Inr gv),
     NestedSlice = \<lambda>u fs.
       (case nested_at (JObj u) fs of
          Found (JArr xs) \<Rightarrow> Inr (Some xs) | Absent \<Rightarrow> Inr None | _ \<Rightarrow> Inl (documented_err u fs)),
     NestedMap = \<lambda>u fs.
       (case nested_at (JObj u) fs of
          Found (JObj m) \<Rightarrow> Inr (Some m) | Absent \<Rightarrow> Inr None | _ \<Rightarrow> Inl (documented_err u fs)),
     NestedString = \<lambda>u fs.
       (case nested_at (JObj u) fs of
          Found (JStr s) \<Rightarrow> Inr (Some s) | Absent \<Rightarrow> Inr None | _ \<Rightarrow> Inl (documented_err u fs)),
     NestedInt64 = \<lambda>u fs.
       (case nested_at (JObj u) fs of
          Found (JInt i) \<Rightarrow> Inr (Some i) | Absent \<Rightarrow> Inr None | _ \<Rightarrow> Inl (documented_err u fs)),
     SetNestedSlice = \<lambda>u xs fs.
       (case set_nested u fs (JArr xs) of None \<Rightarrow> Inl (documented_err u fs) | Some u' \<Rightarrow> Inr u'),
     SetNestedMap = \<lambda>u m fs.
       (case set_nested u fs (JObj m) of None \<Rightarrow> Inl (documented_err u fs) | Some u' \<Rightarrow> Inr u'),
     RemoveNestedField = remove_nested,
     IsNotFound = has_reason ''NotFound'',
     IsNoMatchError = has_reason ''NoMatch'',
     IgnoreNotFound = \<lambda>e. if has_reason ''NotFound'' e then None else Some e,
     NewAggregate = documented_aggregate,
     ContainsFinalizer = \<lambda>fs f. f \<in> set fs,
     AddFinalizer = \<lambda>fs f. if f \<in> set fs then fs else fs @ [f],
     RemoveFinalizer = \<lambda>fs f. filter (\<lambda>x. x \<noteq> f) fs\<rparr>"

interpretation doc: unstructured_lib documented_lib documented_err
  by unfold_locales (simp_all add: documented_lib_def)

lemma documented_aggregate_None: "documented_aggregate es = None \<longleftrightarrow> (\<forall>e\<in>set es. e = None)"
  by (induction es) (auto simp: documented_aggregate_def split: list.splits)

interpretation doc_errors: errors_lib documented_lib
  by unfold_locales
    (simp add: documented_lib_def documented_aggregate_None,
     auto simp: documented_lib_def documented_aggregate_def split: list.splits)

interpretation doc_finalizers: controllerutil_lib documented_lib
  by unfold_locales (simp_all add: documented_lib_def)

end
