(* ===== verification/ApiTypes.thy ===== *)
theory ApiTypes
  imports Unstructured
begin

text \<open>
  The custom resource of the operator, \<open>api/v1alpha1\<close>: one record per struct, with an optional
  pointer as \<open>option\<close>, and the admission rules that the kubebuilder markers put on the types
  (enumerations, minimum lengths, patterns and CEL rules), as executable predicates.
  \<open>apiextensionsv1.JSON\<close> is its raw JSON text.
\<close>

type_synonym json_raw = string
type_synonym time = nat

section \<open>Specification types\<close>

record SecretReference =
  ref_Name :: string

record HelmSource =
  helm_Repo :: string
  helm_Name :: string
  helm_Version :: string
  helm_Values :: "json_raw option"
  helm_SeedValues :: "json_raw option"
  helm_ShootValues :: "json_raw option"
  helm_AuthSecretRef :: "SecretReference option"

record KustomizeSource =
  kust_URL :: string
  kust_SeedPath :: string
  kust_ShootPath :: string
  kust_AuthSecretRef :: "SecretReference option"

record Source =
  src_Helm :: "HelmSource option"
  src_Kustomize :: "KustomizeSource option"

record ShootAccessRef =
  sa_SecretName :: string
  sa_Server :: string
  sa_TokenKey :: string
  sa_CAKey :: string

record Selector =
  sel_Kind :: string
  sel_Name :: string
  sel_Origin :: string

record JSONPatchOp =
  op_Op :: string
  op_Path :: string
  op_From :: string
  op_Value :: "json_raw option"

text \<open>\<open>JSONPatch\<close> is a slice: \<open>None\<close> is the nil slice of an absent field.\<close>

record PatchSpec =
  patch_Target :: Selector
  patch_StrategicMerge :: "json_raw option"
  patch_JSONPatch :: "JSONPatchOp list option"

record RewriteWebhookURLSpec =
  rw_URLPrefix :: string

record FilterKindsSpec =
  fk_Kinds :: "string list"
  fk_Source :: string

record TransformationSpec =
  tr_Patch :: "PatchSpec option"
  tr_RewriteWebhookURL :: "RewriteWebhookURLSpec option"
  tr_FilterKinds :: "FilterKindsSpec option"

record RetentionPolicy =
  rp_CRDs :: string

record DualDeploymentOperatorSpec =
  spec_Source :: Source
  spec_ShootAccess :: ShootAccessRef
  spec_ShootNamespace :: string
  spec_Transformations :: "TransformationSpec list"
  spec_RetentionPolicy :: RetentionPolicy
  spec_ApplyOrder :: string

section \<open>Status types\<close>

text \<open>The health is a string type; \<open>HealthUnset\<close> is its zero value, before it has been computed.\<close>

datatype HealthState = HealthUnset | HealthHealthy | HealthProgressing | HealthDegraded | HealthUnknown

record ResourceStatus =
  rs_Kind :: string
  rs_APIVersion :: string
  rs_Namespace :: string
  rs_Name :: string
  rs_Health :: HealthState
  rs_LastApplied :: "time option"
  rs_Message :: string

text \<open>\<open>metav1.Condition\<close> without its transition time, which the library maintains.\<close>

record condition =
  cond_Type :: string
  cond_Status :: string
  cond_Reason :: string
  cond_Message :: string
  cond_ObservedGeneration :: int

record DualDeploymentOperatorStatus =
  st_SeedResources :: "ResourceStatus list"
  st_ShootResources :: "ResourceStatus list"
  st_Conditions :: "condition list"
  st_LastReconcile :: "time option"

text \<open>The object: the fields of its metadata that the operator reads or writes, spec and status.\<close>

record DualDeploymentOperator =
  cr_Namespace :: string
  cr_Name :: string
  cr_Generation :: int
  cr_ResourceVersion :: string
  cr_DeletionTimestamp :: "time option"
  cr_Finalizers :: "string list"
  cr_Annotations :: strmap
  cr_Spec :: DualDeploymentOperatorSpec
  cr_Status :: DualDeploymentOperatorStatus

definition cond_of :: "string \<Rightarrow> condition list \<Rightarrow> condition option" where
  "cond_of ty cs = List.find (\<lambda>c. cond_Type c = ty) cs"

section \<open>Admission rules\<close>

definition min_length_1 :: "string \<Rightarrow> bool" where
  "min_length_1 s \<longleftrightarrow> 1 \<le> length s"

text \<open>The CEL expression \<open>self.url.matches('.*[?&]ref=.+')\<close>: the match may start anywhere.\<close>

fun has_ref_query :: "string \<Rightarrow> bool" where
  "has_ref_query [] = False"
| "has_ref_query (c # s) =
     ((c = CHR ''?'' \<or> c = CHR ''&'') \<and> strings_HasPrefix s ''ref='' \<and>
        (case drop 4 s of [] \<Rightarrow> False | d # _ \<Rightarrow> d \<noteq> CHR 0x0A)
      \<or> has_ref_query s)"

definition valid_HelmSource :: "HelmSource \<Rightarrow> bool" where
  "valid_HelmSource h \<longleftrightarrow>
     strings_HasPrefix (helm_Repo h) ''oci://'' \<and>
     min_length_1 (helm_Repo h) \<and> min_length_1 (helm_Name h) \<and> min_length_1 (helm_Version h) \<and>
     (case helm_AuthSecretRef h of None \<Rightarrow> True | Some r \<Rightarrow> min_length_1 (ref_Name r))"

definition valid_KustomizeSource :: "KustomizeSource \<Rightarrow> bool" where
  "valid_KustomizeSource k \<longleftrightarrow>
     has_ref_query (kust_URL k) \<and>
     min_length_1 (kust_URL k) \<and> min_length_1 (kust_SeedPath k) \<and> min_length_1 (kust_ShootPath k) \<and>
     (case kust_AuthSecretRef k of None \<Rightarrow> True | Some r \<Rightarrow> min_length_1 (ref_Name r))"

definition valid_Source :: "Source \<Rightarrow> bool" where
  "valid_Source s \<longleftrightarrow>
     (src_Helm s \<noteq> None) \<noteq> (src_Kustomize s \<noteq> None) \<and>
     (case src_Helm s of None \<Rightarrow> True | Some h \<Rightarrow> valid_HelmSource h) \<and>
     (case src_Kustomize s of None \<Rightarrow> True | Some k \<Rightarrow> valid_KustomizeSource k)"

definition valid_ShootAccessRef :: "ShootAccessRef \<Rightarrow> bool" where
  "valid_ShootAccessRef r \<longleftrightarrow> min_length_1 (sa_SecretName r) \<and> min_length_1 (sa_Server r)"

definition valid_JSONPatchOp :: "JSONPatchOp \<Rightarrow> bool" where
  "valid_JSONPatchOp p \<longleftrightarrow>
     op_Op p \<in> set [''add'', ''remove'', ''replace'', ''move'', ''copy'', ''test''] \<and>
     min_length_1 (op_Path p)"

definition valid_PatchSpec :: "PatchSpec \<Rightarrow> bool" where
  "valid_PatchSpec p \<longleftrightarrow>
     (patch_StrategicMerge p \<noteq> None) \<noteq> (patch_JSONPatch p \<noteq> None) \<and>
     (case patch_JSONPatch p of None \<Rightarrow> True | Some ops \<Rightarrow> list_all valid_JSONPatchOp ops)"

text \<open>The rule of the discriminated union: exactly one member of an entry is set.\<close>

definition union_rule :: "TransformationSpec \<Rightarrow> bool" where
  "union_rule t \<longleftrightarrow>
     (if tr_Patch t \<noteq> None then 1 else 0) +
     (if tr_RewriteWebhookURL t \<noteq> None then 1 else 0) +
     (if tr_FilterKinds t \<noteq> None then 1 else 0) = (1 :: nat)"

definition valid_Transformation :: "TransformationSpec \<Rightarrow> bool" where
  "valid_Transformation t \<longleftrightarrow>
     union_rule t \<and>
     (case tr_Patch t of None \<Rightarrow> True | Some p \<Rightarrow> valid_PatchSpec p) \<and>
     (case tr_RewriteWebhookURL t of None \<Rightarrow> True | Some r \<Rightarrow> min_length_1 (rw_URLPrefix r)) \<and>
     (case tr_FilterKinds t of None \<Rightarrow> True | Some f \<Rightarrow> 1 \<le> length (fk_Kinds f))"

definition is_lower_alnum :: "char \<Rightarrow> bool" where
  "is_lower_alnum c \<longleftrightarrow>
     (let n = of_char c :: nat in 97 \<le> n \<and> n \<le> 122 \<or> 48 \<le> n \<and> n \<le> 57)"

text \<open>The pattern \<open>^[a-z0-9]([-a-z0-9]*[a-z0-9])?$\<close>.\<close>

definition dns1123_label :: "string \<Rightarrow> bool" where
  "dns1123_label s \<longleftrightarrow>
     s \<noteq> [] \<and> is_lower_alnum (hd s) \<and> is_lower_alnum (last s) \<and>
     list_all (\<lambda>c. is_lower_alnum c \<or> c = CHR ''-'') s"

definition valid_Spec :: "DualDeploymentOperatorSpec \<Rightarrow> bool" where
  "valid_Spec s \<longleftrightarrow>
     valid_Source (spec_Source s) \<and> valid_ShootAccessRef (spec_ShootAccess s) \<and>
     min_length_1 (spec_ShootNamespace s) \<and> dns1123_label (spec_ShootNamespace s) \<and>
     list_all valid_Transformation (spec_Transformations s) \<and>
     rp_CRDs (spec_RetentionPolicy s) \<in> set [''Retain'', ''Delete''] \<and>
     spec_ApplyOrder s \<in> set [''SeedFirst'', ''ShootFirst'']"

text \<open>The defaults the API server fills in before it validates.\<close>

definition default_Spec :: "DualDeploymentOperatorSpec \<Rightarrow> DualDeploymentOperatorSpec" where
  "default_Spec s =
     s\<lparr>spec_RetentionPolicy :=
         (if rp_CRDs (spec_RetentionPolicy s) = [] then \<lparr>rp_CRDs = ''Retain''\<rparr> else spec_RetentionPolicy s),
       spec_ApplyOrder := (if spec_ApplyOrder s = [] then ''ShootFirst'' else spec_ApplyOrder s)\<rparr>"

lemma dns1123_no_slash: "dns1123_label s \<Longrightarrow> CHR ''/'' \<notin> set s"
  by (auto simp: dns1123_label_def list_all_iff is_lower_alnum_def)

lemma has_ref_query_iff:
  "has_ref_query s \<longleftrightarrow>
     (\<exists>pre c d post. s = pre @ [c] @ ''ref='' @ [d] @ post \<and> (c = CHR ''?'' \<or> c = CHR ''&'') \<and> d \<noteq> CHR 0x0A)"
proof (induction s)
  case (Cons a s)
  have here: "(strings_HasPrefix s ''ref='' \<and> (case drop 4 s of [] \<Rightarrow> False | d # _ \<Rightarrow> d \<noteq> CHR 0x0A)) \<longleftrightarrow>
      (\<exists>d post. s = ''ref='' @ [d] @ post \<and> d \<noteq> CHR 0x0A)"
    by (auto simp: HasPrefix_iff split: list.splits)
  have "(\<exists>pre c d post. a # s = pre @ [c] @ ''ref='' @ [d] @ post \<and> (c = CHR ''?'' \<or> c = CHR ''&'') \<and> d \<noteq> CHR 0x0A)
     \<longleftrightarrow> (a = CHR ''?'' \<or> a = CHR ''&'') \<and> (\<exists>d post. s = ''ref='' @ [d] @ post \<and> d \<noteq> CHR 0x0A)
       \<or> (\<exists>pre c d post. s = pre @ [c] @ ''ref='' @ [d] @ post \<and> (c = CHR ''?'' \<or> c = CHR ''&'') \<and> d \<noteq> CHR 0x0A)"
    by (auto simp: Cons_eq_append_conv) (metis append_Cons)+
  with here Cons.IH show ?case by auto
qed simp

end
