(* ===== verification/Sha256.thy ===== *)
theory Sha256
  imports GoStrings "HOL-Library.Word"
begin

unbundle bit_operations_syntax

text \<open>
  \<open>crypto/sha256.Sum256\<close> and \<open>encoding/hex.EncodeToString\<close>, which the ownership label and the
  render cache key are computed with: the compression function of FIPS 180-4 on 32-bit words
  and the lower-case hexadecimal encoding.
\<close>

type_synonym w32 = "32 word"

definition rotr :: "nat \<Rightarrow> w32 \<Rightarrow> w32" where
  "rotr n w = drop_bit n w OR push_bit (32 - n) w"

text \<open>
  The constants: the first 32 fractional bits of the cube roots of the primes below 312, and of
  the square roots of the primes below 20. \<open>root_word k p\<close> is computed bit by bit as the integer
  part of the k-th root of \<open>p\<close> shifted by 32 bits, of which the word keeps the low half.
\<close>

definition root_word :: "nat \<Rightarrow> nat \<Rightarrow> w32" where
  "root_word k p =
     of_nat (fold (\<lambda>b r. if (r + 2 ^ b) ^ k \<le> p * 2 ^ (32 * k) then r + 2 ^ b else r) (rev [0..<36]) 0)"

definition primes_below :: "nat \<Rightarrow> nat list" where
  "primes_below n = filter (\<lambda>p. list_all (\<lambda>d. p mod d \<noteq> 0) [2..<p]) [2..<n]"

definition round_constants :: "w32 list" where
  "round_constants = map (root_word 3) (primes_below 312)"

type_synonym hash_state = "w32 \<times> w32 \<times> w32 \<times> w32 \<times> w32 \<times> w32 \<times> w32 \<times> w32"

definition initial_hash :: hash_state where
  "initial_hash =
     (root_word 2 2, root_word 2 3, root_word 2 5, root_word 2 7,
      root_word 2 11, root_word 2 13, root_word 2 17, root_word 2 19)"

text \<open>The message schedule; the words computed so far are kept newest first.\<close>

definition schedule_next :: "w32 list \<Rightarrow> w32" where
  "schedule_next ws =
     (let w2 = ws ! 1; w7 = ws ! 6; w15 = ws ! 14; w16 = ws ! 15;
          s0 = rotr 7 w15 XOR rotr 18 w15 XOR drop_bit 3 w15;
          s1 = rotr 17 w2 XOR rotr 19 w2 XOR drop_bit 10 w2
      in w16 + s0 + w7 + s1)"

fun schedule_extend :: "nat \<Rightarrow> w32 list \<Rightarrow> w32 list" where
  "schedule_extend 0 ws = ws"
| "schedule_extend (Suc n) ws = schedule_extend n (schedule_next ws # ws)"

definition sha_round :: "w32 \<times> w32 \<Rightarrow> hash_state \<Rightarrow> hash_state" where
  "sha_round kw st =
     (let (k, w) = kw; (a, b, c, d, e, f, g, h) = st;
          s1 = rotr 6 e XOR rotr 11 e XOR rotr 25 e;
          ch = (e AND f) XOR (NOT e AND g);
          t1 = h + s1 + ch + k + w;
          s0 = rotr 2 a XOR rotr 13 a XOR rotr 22 a;
          maj = (a AND b) XOR (a AND c) XOR (b AND c);
          t2 = s0 + maj
      in (t1 + t2, a, b, c, d + t1, e, f, g))"

definition add_state :: "hash_state \<Rightarrow> hash_state \<Rightarrow> hash_state" where
  "add_state x y =
     (let (a, b, c, d, e, f, g, h) = x; (a', b', c', d', e', f', g', h') = y
      in (a + a', b + b', c + c', d + d', e + e', f + f', g + g', h + h'))"

definition sha_block :: "hash_state \<Rightarrow> w32 list \<Rightarrow> hash_state" where
  "sha_block st block =
     (let ws = rev (schedule_extend 48 (rev block))
      in add_state st (fold sha_round (zip round_constants ws) st))"

text \<open>Padding: one bit, zeros up to 56 modulo 64 bytes, and the length in bits as 8 bytes.\<close>

definition be_bytes :: "nat \<Rightarrow> nat \<Rightarrow> nat list" where
  "be_bytes n x = map (\<lambda>i. x div 256 ^ (n - 1 - i) mod 256) [0..<n]"

definition sha_pad :: "nat list \<Rightarrow> nat list" where
  "sha_pad bs =
     bs @ [128] @ replicate ((119 - length bs mod 64) mod 64) 0 @ be_bytes 8 (8 * length bs)"

definition bytes_to_word :: "nat list \<Rightarrow> w32" where
  "bytes_to_word bs = of_nat (foldl (\<lambda>acc b. 256 * acc + b) 0 bs)"

fun chunks :: "nat \<Rightarrow> 'a list \<Rightarrow> 'a list list" where
  "chunks n xs = (if n = 0 \<or> xs = [] then [] else take n xs # chunks n (drop n xs))"

declare chunks.simps [simp del]

definition word_bytes :: "w32 \<Rightarrow> nat list" where
  "word_bytes w = be_bytes 4 (unat w)"

definition state_words :: "hash_state \<Rightarrow> w32 list" where
  "state_words st = (let (a, b, c, d, e, f, g, h) = st in [a, b, c, d, e, f, g, h])"

definition sha256_Sum256 :: "nat list \<Rightarrow> nat list" where
  "sha256_Sum256 bs =
     concat (map word_bytes (state_words
       (fold (\<lambda>block st. sha_block st block)
          (map (\<lambda>c. map bytes_to_word (chunks 4 c)) (chunks 64 (sha_pad bs))) initial_hash)))"

definition string_bytes :: "string \<Rightarrow> nat list" where
  "string_bytes s = map of_char s"

definition hex_EncodeToString :: "nat list \<Rightarrow> string" where
  "hex_EncodeToString bs = concat (map (\<lambda>b. [hex_char (b div 16), hex_char (b mod 16)]) bs)"

definition is_hex_lower :: "char \<Rightarrow> bool" where
  "is_hex_lower c \<longleftrightarrow> (let n = of_char c :: nat in 48 \<le> n \<and> n \<le> 57 \<or> 97 \<le> n \<and> n \<le> 102)"

lemma length_word_bytes [simp]: "length (word_bytes w) = 4"
  by (simp add: word_bytes_def be_bytes_def)

lemma length_state_words [simp]: "length (state_words st) = 8"
  by (simp add: state_words_def split: prod.splits)

lemma length_concat_const: "(\<And>x. x \<in> set xs \<Longrightarrow> length (f x) = n) \<Longrightarrow> length (concat (map f xs)) = n * length xs"
  by (induction xs) auto

lemma length_Sum256 [simp]: "length (sha256_Sum256 bs) = 32"
  by (simp add: sha256_Sum256_def length_concat_const [where n = 4])

lemma Sum256_bytes: "b \<in> set (sha256_Sum256 bs) \<Longrightarrow> b < 256"
  by (auto simp: sha256_Sum256_def word_bytes_def be_bytes_def)

lemma length_hex [simp]: "length (hex_EncodeToString bs) = 2 * length bs"
  by (simp add: hex_EncodeToString_def length_concat_const [where n = 2])

lemma hex_char_lower: "d < 16 \<Longrightarrow> is_hex_lower (hex_char d)"
  by (auto simp: is_hex_lower_def hex_char_def Let_def)

lemma hex_lower: "(\<forall>b\<in>set bs. b < 256) \<Longrightarrow> c \<in> set (hex_EncodeToString bs) \<Longrightarrow> is_hex_lower c"
  by (auto simp: hex_EncodeToString_def hex_char_lower)

end
