(* ===== verification/Manifest.thy ===== *)
theory Manifest
  imports ApiTypes Sha256
begin

text \<open>
  \<open>internal/manifest\<close>: the manifest value type, its ownership label and origin annotation, the
  namespace normalisation after rendering, and the parser of rendered multi-document YAML. The
  streaming YAML decoder is a library: it is the argument \<open>decode\<close>, which gives the results of
  the successive \<open>Decode\<close> calls up to the end of the stream.
\<close>

section \<open>Manifests (manifest.go)\<close>

definition OriginAnnotation :: string where
  "OriginAnnotation = ''dual-deployment-operator.cc.sap/origin''"

text \<open>The origin is a string type; \<open>OriginUnset\<close> is its zero value, which no render carries.\<close>

datatype Origin = OriginUnset | OriginUpstream | OriginAdditions

fun origin_string :: "Origin \<Rightarrow> string" where
  "origin_string OriginUnset = []"
| "origin_string OriginUpstream = ''upstream''"
| "origin_string OriginAdditions = ''additions''"

record Manifest =
  m_Unstructured :: jobj
  m_Origin :: Origin

definition OwnedByLabel :: string where
  "OwnedByLabel = ''dual-deployment-operator.cc.sap/owned-by''"

definition OwnedByValue :: "string \<Rightarrow> string \<Rightarrow> string" where
  "OwnedByValue namespace name =
     take 16 (hex_EncodeToString (sha256_Sum256 (string_bytes (namespace @ ''/'' @ name))))"

definition StripInternalAnnotations :: "klib \<Rightarrow> Manifest \<Rightarrow> Manifest" where
  "StripInternalAnnotations L m =
     (case GetAnnotations L (m_Unstructured m) of
        None \<Rightarrow> m
      | Some anns \<Rightarrow>
          (let anns' = AList.delete OriginAnnotation anns in
           if anns' = [] then m\<lparr>m_Unstructured := SetAnnotations L (m_Unstructured m) None\<rparr>
           else m\<lparr>m_Unstructured := SetAnnotations L (m_Unstructured m) (Some anns')\<rparr>))"

definition SetOwnedByLabel :: "klib \<Rightarrow> Manifest \<Rightarrow> string \<Rightarrow> Manifest" where
  "SetOwnedByLabel L m ownedBy =
     (let labels = (case GetLabels L (m_Unstructured m) of None \<Rightarrow> [] | Some l \<Rightarrow> l)
      in m\<lparr>m_Unstructured :=
             SetLabels L (m_Unstructured m) (Some (AList.update OwnedByLabel ownedBy labels))\<rparr>)"

section \<open>Namespaces (namespace.go)\<close>

definition clusterScopedKinds :: "string list" where
  "clusterScopedKinds =
    [''CustomResourceDefinition'', ''ClusterRole'', ''ClusterRoleBinding'', ''Namespace'',
     ''PriorityClass'', ''StorageClass'', ''ClusterIssuer'', ''APIService'',
     ''ValidatingWebhookConfiguration'', ''MutatingWebhookConfiguration'', ''PersistentVolume'',
     ''IngressClass'', ''RuntimeClass'', ''PriorityLevelConfiguration'', ''FlowSchema'',
     ''CSIDriver'', ''CSINode'', ''VolumeAttachment'', ''NodeClass'']"

definition IsClusterScoped :: "string \<Rightarrow> bool" where
  "IsClusterScoped kind \<longleftrightarrow> kind \<in> set clusterScopedKinds"

definition apply_namespace_one :: "klib \<Rightarrow> string \<Rightarrow> jobj \<Rightarrow> jobj" where
  "apply_namespace_one L ns u =
     (if IsClusterScoped (GetKind L u) then
        (if GetNamespace L u \<noteq> [] then SetNamespace L u [] else u)
      else if ns = [] then u
      else if GetNamespace L u \<noteq> [] then u
      else SetNamespace L u ns)"

definition ApplyNamespace :: "klib \<Rightarrow> Manifest list \<Rightarrow> string \<Rightarrow> Manifest list" where
  "ApplyNamespace L manifests ns =
     map (\<lambda>m. m\<lparr>m_Unstructured := apply_namespace_one L ns (m_Unstructured m)\<rparr>) manifests"

section \<open>Parsing (parse.go)\<close>

definition originOf :: "klib \<Rightarrow> jobj \<Rightarrow> Origin \<Rightarrow> Origin" where
  "originOf L u fallback =
     (if annotation_of L u OriginAnnotation = origin_string OriginAdditions then OriginAdditions
      else fallback)"

text \<open>The decode loop: \<open>idx\<close> counts the documents decoded so far, empty ones included.\<close>

fun parse_docs :: "klib \<Rightarrow> Origin \<Rightarrow> nat \<Rightarrow> jobj result list \<Rightarrow> Manifest list result" where
  "parse_docs L fallback idx [] = Inr []"
| "parse_docs L fallback idx (Inl e # docs) =
     Inl (ErrWrap (''manifest: decode document '' @ show_nat idx @ '': '') e [])"
| "parse_docs L fallback idx (Inr obj # docs) =
     (if obj = [] then parse_docs L fallback (Suc idx) docs
      else if GetAPIVersion L obj = [] then
        Inl (ErrNew (''manifest: document '' @ show_nat idx @ '' is missing apiVersion''))
      else if GetKind L obj = [] then
        Inl (ErrNew (''manifest: document '' @ show_nat idx @ '' is missing kind''))
      else
        bind_res (parse_docs L fallback (Suc idx) docs)
          (\<lambda>out. Inr (\<lparr>m_Unstructured = obj, m_Origin = originOf L obj fallback\<rparr> # out)))"

definition Parse :: "klib \<Rightarrow> (string \<Rightarrow> jobj result list) \<Rightarrow> string \<Rightarrow> Origin \<Rightarrow> Manifest list result" where
  "Parse L decode raw fallback = parse_docs L fallback 0 (decode raw)"

section \<open>Lemmas\<close>

text \<open>The ownership value is a fixed-length lower-case hexadecimal string.\<close>

lemma length_OwnedByValue: "length (OwnedByValue ns n) = 16"
  by (simp add: OwnedByValue_def)

lemma OwnedByValue_hex: "c \<in> set (OwnedByValue ns n) \<Longrightarrow> is_hex_lower c"
  unfolding OwnedByValue_def by (blast dest: in_set_takeD intro: hex_lower Sum256_bytes)

lemma OwnedByValue_nonempty: "OwnedByValue ns n \<noteq> []"
  using length_OwnedByValue [of ns n] by auto

text \<open>The hashed text determines the custom resource, since a namespace has no slash.\<close>

lemma ownership_text_inject:
  assumes "CHR ''/'' \<notin> set ns" and "CHR ''/'' \<notin> set ns'"
  shows "ns @ ''/'' @ n = ns' @ ''/'' @ n' \<longleftrightarrow> ns = ns' \<and> n = n'"
  using assms by (simp add: append_sep_inject)

context unstructured_lib
begin

lemma GetAnnotations_Some_meta: "GetAnnotations L u = Some a \<Longrightarrow> meta_ok u"
  by (auto simp: GetAnnotations_law strmap_at_def meta_ok_def is_obj_def path_eval
      split: option.splits jval.splits nested.splits)

lemma strip_annotation:
  "annotation_of L (m_Unstructured (StripInternalAnnotations L m)) k =
     (if k = OriginAnnotation then [] else annotation_of L (m_Unstructured m) k)"
proof (cases "GetAnnotations L (m_Unstructured m)")
  case None
  then show ?thesis by (simp add: StripInternalAnnotations_def annotation_of_def)
next
  case (Some anns)
  then have ok: "meta_ok (m_Unstructured m)" by (rule GetAnnotations_Some_meta)
  have empty: "map_of anns k = None" if "AList.delete OriginAnnotation anns = []" "k \<noteq> OriginAnnotation"
    using map_of_delete [of OriginAnnotation anns k] that by simp
  from Some ok show ?thesis
    by (auto simp: StripInternalAnnotations_def annotation_of_def map_get_def Let_def
        GetAnnotations_law SetAnnotations_law empty)
qed

lemma strip_frame:
  fixes m defines "u \<equiv> m_Unstructured m" and "u' \<equiv> m_Unstructured (StripInternalAnnotations L m)"
  shows "GetKind L u' = GetKind L u" "GetName L u' = GetName L u"
    "GetNamespace L u' = GetNamespace L u" "GetAPIVersion L u' = GetAPIVersion L u"
    "GetLabels L u' = GetLabels L u" "GroupVersionKind L u' = GroupVersionKind L u"
  by (auto simp: u_def u'_def StripInternalAnnotations_def Let_def lib_laws split: option.splits)

lemma strip_meta_ok: "meta_ok (m_Unstructured m) \<Longrightarrow> meta_ok (m_Unstructured (StripInternalAnnotations L m))"
  by (auto simp: StripInternalAnnotations_def Let_def SetAnnotations_law split: option.splits)

lemma owned_label:
  assumes "meta_ok (m_Unstructured m)"
  shows "label_of L (m_Unstructured (SetOwnedByLabel L m ownedBy)) k =
     (if k = OwnedByLabel then ownedBy else label_of L (m_Unstructured m) k)"
  using assms
  by (auto simp: SetOwnedByLabel_def label_of_def Let_def GetLabels_law SetLabels_law map_get_def
      split: option.splits)

lemma owned_frame:
  fixes m ownedBy defines "u \<equiv> m_Unstructured m" and "u' \<equiv> m_Unstructured (SetOwnedByLabel L m ownedBy)"
  shows "GetKind L u' = GetKind L u" "GetName L u' = GetName L u"
    "GetNamespace L u' = GetNamespace L u" "GetAPIVersion L u' = GetAPIVersion L u"
    "GetAnnotations L u' = GetAnnotations L u" "GroupVersionKind L u' = GroupVersionKind L u"
  by (auto simp: u_def u'_def SetOwnedByLabel_def Let_def lib_laws split: option.split)

lemma apply_namespace_kind [simp]: "GetKind L (apply_namespace_one L ns u) = GetKind L u"
  by (simp add: apply_namespace_one_def GetKind_law SetNamespace_law)

lemma apply_namespace_namespace:
  assumes "meta_ok u"
  shows "GetNamespace L (apply_namespace_one L ns u) =
     (if IsClusterScoped (GetKind L u) then []
      else if GetNamespace L u \<noteq> [] then GetNamespace L u else ns)"
  using assms by (auto simp: apply_namespace_one_def GetNamespace_law SetNamespace_law)

lemma apply_namespace_idem:
  "meta_ok u \<Longrightarrow> apply_namespace_one L ns (apply_namespace_one L ns u) = apply_namespace_one L ns u"
  using apply_namespace_namespace [of u ns] apply_namespace_kind [of ns u]
  by (simp add: apply_namespace_one_def [of L ns "apply_namespace_one L ns u"])

end

lemma parse_docs_kinds:
  "parse_docs L fb i docs = Inr ms \<Longrightarrow> m \<in> set ms \<Longrightarrow>
     GetKind L (m_Unstructured m) \<noteq> [] \<and> GetAPIVersion L (m_Unstructured m) \<noteq> [] \<and>
     m_Origin m = originOf L (m_Unstructured m) fb"
  by (induction L fb i docs arbitrary: ms rule: parse_docs.induct)
    (auto simp: bind_res_eq_Inr split: if_splits)

lemma parse_docs_objects:
  "parse_docs L fb i docs = Inr ms \<Longrightarrow>
     (\<forall>d\<in>set docs. \<exists>obj. d = Inr obj) \<and>
     map m_Unstructured ms = filter (\<lambda>obj. obj \<noteq> []) (map projr docs)"
  by (induction L fb i docs arbitrary: ms rule: parse_docs.induct)
    (auto simp: bind_res_eq_Inr split: if_splits)

section \<open>Properties\<close>

text \<open>A document the parser accepts.\<close>

definition good_doc :: "klib \<Rightarrow> jobj result \<Rightarrow> bool" where
  "good_doc L d =
     (case d of
        Inl e \<Rightarrow> False
      | Inr obj \<Rightarrow> obj = [] \<or> GetAPIVersion L obj \<noteq> [] \<and> GetKind L obj \<noteq> [])"

lemma parse_docs_exact:
  "parse_docs L fb i docs = Inr ms \<longleftrightarrow>
     list_all (good_doc L) docs \<and>
     ms = map (\<lambda>obj. \<lparr>m_Unstructured = obj, m_Origin = originOf L obj fb\<rparr>)
       (filter (\<lambda>obj. obj \<noteq> []) (map projr docs))"
  by (induction L fb i docs arbitrary: ms rule: parse_docs.induct)
    (auto simp: bind_res_eq_Inr good_doc_def)

text \<open>
  (C33) The ownership value is a valid label value: for every custom resource it has exactly 16
  characters, each a lower-case hexadecimal digit.
\<close>

theorem OwnedByValue_shape:
  "length (OwnedByValue ns name) = 16 \<and> list_all is_hex_lower (OwnedByValue ns name)"
  by (simp add: length_OwnedByValue list_all_iff OwnedByValue_hex)

text \<open>
  (C34) Parsing a render is exact: it succeeds if and only if every document decodes and every
  non-empty one has an apiVersion and a kind, and then it returns exactly the non-empty
  documents, in order, unchanged, each tagged with the origin its annotation gives.
\<close>

theorem Parse_exact:
  "Parse L decode raw fb = Inr ms \<longleftrightarrow>
     list_all (good_doc L) (decode raw) \<and>
     ms = map (\<lambda>obj. \<lparr>m_Unstructured = obj, m_Origin = originOf L obj fb\<rparr>)
       (filter (\<lambda>obj. obj \<noteq> []) (map projr (decode raw)))"
  by (simp add: Parse_def parse_docs_exact)

end
