(* ===== verification/Utf8.thy ===== *)
theory Utf8
  imports GoStrings
begin

text \<open>
  \<open>unicode/utf8.DecodeRuneInString\<close>, which glob matching and JSON encoding read strings with.
\<close>

abbreviation byte_at :: "char \<Rightarrow> nat" where
  "byte_at c \<equiv> of_char c"

section \<open>UTF-8\<close>

definition rune_error :: nat where
  "rune_error = 65533"

definition is_cont :: "nat \<Rightarrow> nat \<Rightarrow> char \<Rightarrow> bool" where
  "is_cont lo hi c \<longleftrightarrow> lo \<le> byte_at c \<and> byte_at c \<le> hi"

text \<open>\<open>utf8.DecodeRuneInString\<close>: the rune and the number of bytes it takes.\<close>

definition decode_rune :: "string \<Rightarrow> nat \<times> nat" where
  "decode_rune s =
     (case s of
        [] \<Rightarrow> (rune_error, 0)
      | c # s1 \<Rightarrow>
          (let b = byte_at c in
           if b < 128 then (b, 1)
           else if 194 \<le> b \<and> b \<le> 223 then
             (case s1 of
                c1 # _ \<Rightarrow> if is_cont 128 191 c1 then ((b - 192) * 64 + (byte_at c1 - 128), 2)
                          else (rune_error, 1)
              | [] \<Rightarrow> (rune_error, 1))
           else if 224 \<le> b \<and> b \<le> 239 then
             (case s1 of
                c1 # c2 # _ \<Rightarrow>
                  if is_cont (if b = 224 then 160 else 128) (if b = 237 then 159 else 191) c1 \<and> is_cont 128 191 c2
                  then ((b - 224) * 4096 + (byte_at c1 - 128) * 64 + (byte_at c2 - 128), 3)
                  else (rune_error, 1)
              | _ \<Rightarrow> (rune_error, 1))
           else if 240 \<le> b \<and> b \<le> 244 then
             (case s1 of
                c1 # c2 # c3 # _ \<Rightarrow>
                  if is_cont (if b = 240 then 144 else 128) (if b = 244 then 143 else 191) c1 \<and>
                     is_cont 128 191 c2 \<and> is_cont 128 191 c3
                  then ((b - 240) * 262144 + (byte_at c1 - 128) * 4096 + (byte_at c2 - 128) * 64 +
                        (byte_at c3 - 128), 4)
                  else (rune_error, 1)
              | _ \<Rightarrow> (rune_error, 1))
           else (rune_error, 1)))"

lemma decode_rune_pos: "s \<noteq> [] \<Longrightarrow> 0 < snd (decode_rune s)"
  by (auto simp: decode_rune_def Let_def split: list.splits)

end
