(* ===== verification/PathMatch.thy ===== *)
theory PathMatch
  imports Utf8
begin

text \<open>
  \<open>path.Match\<close> of Go's standard library, with which a selector matches resource names: a
  pattern is cut into chunks at unbracketed stars, and each chunk is matched at the first
  position where it fits, without backtracking over earlier stars. \<open>None\<close> is \<open>ErrBadPattern\<close>.
\<close>

section \<open>Chunks\<close>

text \<open>The scan of one chunk: \<open>inrange\<close> is true between brackets.\<close>

fun scan_body :: "bool \<Rightarrow> string \<Rightarrow> string \<times> string" where
  "scan_body inrange [] = ([], [])"
| "scan_body inrange (c # p) =
     (if c = CHR 0x5C then
        (case p of
           [] \<Rightarrow> ([c], [])
         | d # p' \<Rightarrow> (let (a, b) = scan_body inrange p' in (c # d # a, b)))
      else if c = CHR ''*'' \<and> \<not> inrange then ([], c # p)
      else
        (let (a, b) = scan_body (if c = CHR ''['' then True else if c = CHR '']'' then False else inrange) p
         in (c # a, b)))"

definition scanChunk :: "string \<Rightarrow> bool \<times> string \<times> string" where
  "scanChunk pattern =
     (let p = dropWhile (\<lambda>c. c = CHR ''*'') pattern;
          star = (p \<noteq> pattern);
          (chunk, rest) = scan_body False p
      in (star, chunk, rest))"

lemma scan_body_append: "fst (scan_body r p) @ snd (scan_body r p) = p"
proof (induction r p rule: scan_body.induct)
  case (2 r c p)
  show ?case
  proof (cases "c = CHR 0x5C")
    case True
    with 2 show ?thesis by (cases p) (simp_all add: case_prod_beta Let_def)
  next
    case False
    show ?thesis
    proof (cases "c = CHR ''*'' \<and> \<not> r")
      case True
      with False show ?thesis by simp
    next
      case nostar: False
      from False nostar 2(2) show ?thesis by (auto simp: case_prod_beta Let_def simp del: disj_not1)
    qed
  qed
qed simp

lemma scan_body_shorter: "length (snd (scan_body r p)) \<le> length p"
proof -
  have "length (fst (scan_body r p) @ snd (scan_body r p)) = length p"
    by (simp only: scan_body_append)
  then show ?thesis by simp
qed

lemma scan_body_nonempty: "c \<noteq> CHR ''*'' \<Longrightarrow> length (snd (scan_body False (c # p))) \<le> length p"
proof (cases "c = CHR 0x5C")
  case True
  then show ?thesis
  proof (cases p)
    case (Cons d p')
    with True scan_body_shorter [of False p'] show ?thesis by (simp add: case_prod_beta Let_def)
  qed simp
next
  case False
  moreover assume "c \<noteq> CHR ''*''"
  ultimately show ?thesis by (simp add: case_prod_beta Let_def scan_body_shorter)
qed

lemma scanChunk_shorter: "p \<noteq> [] \<Longrightarrow> length (snd (snd (scanChunk p))) < length p"
proof -
  assume p: "p \<noteq> []"
  let ?q = "dropWhile (\<lambda>c. c = CHR ''*'') p"
  have rest: "snd (snd (scanChunk p)) = snd (scan_body False ?q)"
    by (simp add: scanChunk_def Let_def case_prod_beta)
  have le: "length ?q \<le> length p" by (rule length_dropWhile_le)
  show ?thesis
  proof (cases ?q)
    case Nil
    with p show ?thesis by (simp only: rest Nil) simp
  next
    case (Cons c q)
    then have "c \<noteq> CHR ''*''" by (simp add: dropWhile_eq_Cons_conv)
    then have "length (snd (scan_body False (c # q))) \<le> length q" by (rule scan_body_nonempty)
    with Cons le show ?thesis by (simp only: rest) simp
  qed
qed

lemma scanChunk_shorterD: "scanChunk p = (star, chunk, rest) \<Longrightarrow> p \<noteq> [] \<Longrightarrow> length rest < length p"
  using scanChunk_shorter [of p] by simp

text \<open>One possibly escaped character of a class; \<open>None\<close> is a malformed pattern.\<close>

definition getEsc :: "string \<Rightarrow> (nat \<times> string) option" where
  "getEsc chunk =
     (case chunk of
        [] \<Rightarrow> None
      | c # rest \<Rightarrow>
          if c = CHR ''-'' \<or> c = CHR '']'' then None
          else if c = CHR 0x5C \<and> rest = [] then None
          else
            (let chunk' = (if c = CHR 0x5C then rest else chunk);
                 (r, n) = decode_rune chunk'; nchunk = drop n chunk'
             in if r = rune_error \<and> n = 1 \<or> nchunk = [] then None else Some (r, nchunk)))"

lemma getEsc_shorter: "getEsc chunk = Some (r, rest) \<Longrightarrow> length rest < length chunk"
proof -
  assume eq: "getEsc chunk = Some (r, rest)"
  then obtain c cs where chunk: "chunk = c # cs" by (cases chunk) (auto simp: getEsc_def)
  define d where "d = (if c = CHR 0x5C then cs else chunk)"
  from eq chunk have ne: "d \<noteq> []" and rest: "rest = drop (snd (decode_rune d)) d"
    by (auto simp: getEsc_def d_def Let_def split: if_splits prod.splits)
  from ne have "length rest < length d" using decode_rune_pos [of d] by (simp add: rest)
  moreover have "length d \<le> length chunk" using chunk by (simp add: d_def)
  ultimately show ?thesis by simp
qed

text \<open>The ranges of a class up to its closing bracket: whether \<open>r\<close> is in one of them.\<close>

function class_ranges :: "nat \<Rightarrow> nat \<Rightarrow> bool \<Rightarrow> string \<Rightarrow> (bool \<times> string) option" where
  "class_ranges r nrange matched chunk =
     (if chunk \<noteq> [] \<and> hd chunk = CHR '']'' \<and> nrange > 0 then Some (matched, tl chunk)
      else
        (case getEsc chunk of
           None \<Rightarrow> None
         | Some (lo, chunk1) \<Rightarrow>
             if chunk1 \<noteq> [] \<and> hd chunk1 = CHR ''-'' then
               (case getEsc (tl chunk1) of
                  None \<Rightarrow> None
                | Some (hi, chunk2) \<Rightarrow>
                    class_ranges r (Suc nrange) (matched \<or> lo \<le> r \<and> r \<le> hi) chunk2)
             else class_ranges r (Suc nrange) (matched \<or> lo = r) chunk1))"
  by pat_completeness auto
termination
  by (relation "measure (\<lambda>(r, n, m, chunk). length chunk)") (auto dest!: getEsc_shorter)

declare class_ranges.simps [simp del]

lemma class_ranges_shorter:
  "class_ranges r n m chunk = Some (b, rest) \<Longrightarrow> length rest < length chunk"
proof (induction r n m chunk arbitrary: b rest rule: class_ranges.induct)
  case (1 r n m chunk)
  show ?case
  proof (cases "chunk \<noteq> [] \<and> hd chunk = CHR '']'' \<and> n > 0")
    case True
    with "1.prems" show ?thesis by (auto simp: class_ranges.simps [of r n m chunk])
  next
    case False
    with "1.prems" obtain lo c1 where esc: "getEsc chunk = Some (lo, c1)"
      by (auto simp: class_ranges.simps [of r n m chunk] split: option.splits)
    then have l1: "length c1 < length chunk" by (rule getEsc_shorter)
    show ?thesis
    proof (cases "c1 \<noteq> [] \<and> hd c1 = CHR ''-''")
      case True
      with "1.prems" False esc obtain hi c2 where esc2: "getEsc (tl c1) = Some (hi, c2)"
        and rec: "class_ranges r (Suc n) (m \<or> lo \<le> r \<and> r \<le> hi) c2 = Some (b, rest)"
        by (auto simp: class_ranges.simps [of r n m chunk] split: option.splits)
      from False True esc esc2 rec have "length rest < length c2"
        using "1.IH"(1) by auto
      moreover have "length c2 < length (tl c1)" using esc2 by (rule getEsc_shorter)
      ultimately show ?thesis using l1 by simp
    next
      case nodash: False
      with "1.prems" False esc have rec: "class_ranges r (Suc n) (m \<or> lo = r) c1 = Some (b, rest)"
        by (auto simp: class_ranges.simps [of r n m chunk])
      from False nodash esc rec have "length rest < length c1"
        using "1.IH"(2) by auto
      with l1 show ?thesis by simp
    qed
  qed
qed

text \<open>
  One turn of the loop of \<open>matchChunk\<close>, on a chunk that starts with \<open>c\<close>: whether the match has
  failed, the rest of the chunk and the rest of the name; \<open>None\<close> is a bad pattern.
\<close>

definition chunk_step :: "bool \<Rightarrow> char \<Rightarrow> string \<Rightarrow> string \<Rightarrow> (bool \<times> string \<times> string) option" where
  "chunk_step failed c chunk s =
     (if c = CHR ''['' then
        (let rn = (if failed then (0, 0) else decode_rune s);
             negated = (chunk \<noteq> [] \<and> hd chunk = CHR ''^'')
         in case class_ranges (fst rn) 0 False (if negated then tl chunk else chunk) of
              None \<Rightarrow> None
            | Some (matched, chunk') \<Rightarrow> Some (failed \<or> matched = negated, chunk', drop (snd rn) s))
      else if c = CHR ''?'' then
        Some (if failed then (True, chunk, s)
              else (hd s = CHR ''/'', chunk, drop (snd (decode_rune s)) s))
      else if c = CHR 0x5C then
        (case chunk of
           [] \<Rightarrow> None
         | d # chunk' \<Rightarrow> Some (if failed then (True, chunk', s) else (d \<noteq> hd s, chunk', tl s)))
      else Some (if failed then (True, chunk, s) else (c \<noteq> hd s, chunk, tl s)))"

lemma chunk_step_shorter: "chunk_step failed c chunk s = Some (f, chunk', s') \<Longrightarrow> length chunk' \<le> length chunk"
  by (auto simp: chunk_step_def Let_def split: if_splits option.splits list.splits
      dest!: class_ranges_shorter)

text \<open>
  \<open>matchChunk\<close>: \<open>Inr (Some rest)\<close> is a match, \<open>Inr None\<close> no match, \<open>Inl ()\<close> a bad pattern.
  After a failure the chunk is still read to the end for its syntax.
\<close>

function match_chunk :: "bool \<Rightarrow> string \<Rightarrow> string \<Rightarrow> unit + string option" where
  "match_chunk failed chunk s =
     (case chunk of
        [] \<Rightarrow> Inr (if failed then None else Some s)
      | c # chunk1 \<Rightarrow>
          (case chunk_step (failed \<or> s = []) c chunk1 s of
             None \<Rightarrow> Inl ()
           | Some (failed', chunk', s') \<Rightarrow> match_chunk failed' chunk' s'))"
  by pat_completeness auto
termination
  by (relation "measure (\<lambda>(f, chunk, s). length chunk)") (auto dest!: chunk_step_shorter)

declare match_chunk.simps [simp del]

definition matchChunk :: "string \<Rightarrow> string \<Rightarrow> unit + string option" where
  "matchChunk chunk s = match_chunk False chunk s"

section \<open>Matching\<close>

text \<open>The syntax check of the rest of the pattern before \<open>false\<close> is returned.\<close>

function check_rest :: "string \<Rightarrow> bool option" where
  "check_rest pattern =
     (if pattern = [] then Some False
      else
        (case scanChunk pattern of
           (star, chunk, rest) \<Rightarrow>
             (case matchChunk chunk [] of Inl _ \<Rightarrow> None | Inr _ \<Rightarrow> check_rest rest)))"
  by pat_completeness auto
termination
  by (relation "measure length") (auto dest: scanChunk_shorterD [OF sym])

declare check_rest.simps [simp del]

text \<open>
  The search for a later position of a chunk behind a star: \<open>Inr (Some t)\<close> when it matched and
  left \<open>t\<close>, \<open>Inr None\<close> when no position fits. A slash is never skipped.
\<close>

fun star_search :: "string \<Rightarrow> bool \<Rightarrow> string \<Rightarrow> unit + string option" where
  "star_search chunk lastChunk [] = Inr None"
| "star_search chunk lastChunk (c # name) =
     (if c = CHR ''/'' then Inr None
      else
        (case matchChunk chunk name of
           Inl _ \<Rightarrow> Inl ()
         | Inr (Some t) \<Rightarrow>
             if lastChunk \<and> t \<noteq> [] then star_search chunk lastChunk name else Inr (Some t)
         | Inr None \<Rightarrow> star_search chunk lastChunk name))"

text \<open>
  What follows the attempt at the current position: take its rest \<open>t\<close>, or look further behind
  the star, or fail.
\<close>

definition chunk_result :: "bool \<Rightarrow> string \<Rightarrow> string \<Rightarrow> string \<Rightarrow> unit + string option" where
  "chunk_result star chunk rest name =
     (case matchChunk chunk name of
        Inl _ \<Rightarrow> Inl ()
      | Inr r \<Rightarrow>
          (case r of
             Some t \<Rightarrow>
               if t = [] \<or> rest \<noteq> [] then Inr (Some t)
               else if star then star_search chunk (rest = []) name else Inr None
           | None \<Rightarrow> if star then star_search chunk (rest = []) name else Inr None))"

function path_Match :: "string \<Rightarrow> string \<Rightarrow> bool option" where
  "path_Match pattern name =
     (if pattern = [] then Some (name = [])
      else
        (case scanChunk pattern of
           (star, chunk, rest) \<Rightarrow>
             if star \<and> chunk = [] then Some (CHR ''/'' \<notin> set name)
             else
               (case chunk_result star chunk rest name of
                  Inl _ \<Rightarrow> None
                | Inr (Some t) \<Rightarrow> path_Match rest t
                | Inr None \<Rightarrow> check_rest rest)))"
  by pat_completeness auto
termination
  by (relation "measure (\<lambda>(pattern, name). length pattern)") (auto dest: scanChunk_shorterD [OF sym])

declare path_Match.simps [simp del]

section \<open>Literal patterns and a trailing star\<close>

definition literal_char :: "char \<Rightarrow> bool" where
  "literal_char c \<longleftrightarrow> c \<noteq> CHR ''*'' \<and> c \<noteq> CHR ''?'' \<and> c \<noteq> CHR ''['' \<and> c \<noteq> CHR 0x5C"

lemma scan_body_literal:
  "list_all literal_char p \<Longrightarrow> scan_body False (p @ replicate n (CHR ''*'')) = (p, replicate n (CHR ''*''))"
proof (induction p)
  case Nil
  then show ?case by (cases n) simp_all
next
  case (Cons c p)
  then show ?case by (simp add: literal_char_def)
qed

lemma scanChunk_literal:
  assumes "list_all literal_char p" and "p \<noteq> []"
  shows "scanChunk (p @ replicate n (CHR ''*'')) = (False, p, replicate n (CHR ''*''))"
proof -
  from assms have "dropWhile (\<lambda>c. c = CHR ''*'') (p @ replicate n (CHR ''*'')) = p @ replicate n (CHR ''*'')"
    by (cases p) (simp_all add: literal_char_def)
  then show ?thesis
    by (simp add: scanChunk_def scan_body_literal [OF assms(1)])
qed

lemma match_chunk_failed: "list_all literal_char p \<Longrightarrow> match_chunk True p s = Inr None"
  by (induction p arbitrary: s) (subst match_chunk.simps, simp add: chunk_step_def literal_char_def)+

lemma match_chunk_literal:
  "list_all literal_char p \<Longrightarrow>
     match_chunk False p s = Inr (if strings_HasPrefix s p then Some (drop (length p) s) else None)"
proof (induction p arbitrary: s)
  case Nil
  show ?case by (subst match_chunk.simps) (simp add: strings_HasPrefix_def)
next
  case (Cons c p)
  then have p: "list_all literal_char p" and c: "literal_char c" by simp_all
  have step: "chunk_step True c p s = Some (True, p, s)" "chunk_step False c p s = Some (c \<noteq> hd s, p, tl s)" for s
    using c by (simp_all add: chunk_step_def literal_char_def)
  have "match_chunk (c \<noteq> a) p t = Inr (if a = c \<and> strings_HasPrefix t p then Some (drop (length p) t) else None)"
    for a t
    using Cons.IH [OF p] match_chunk_failed [OF p] by (cases "c = a") auto
  then show ?case
    using match_chunk_failed [OF p]
    by (subst match_chunk.simps, cases s) (auto simp: step strings_HasPrefix_def)
qed

lemma check_rest_stars: "check_rest (replicate n (CHR ''*'')) = Some False"
proof (cases n)
  case (Suc k)
  have "scanChunk (replicate n (CHR ''*'')) = (n \<noteq> 0, [], [])"
    by (simp add: scanChunk_def dropWhile_replicate)
  then show ?thesis
    by (subst check_rest.simps, simp add: matchChunk_def)
      (subst match_chunk.simps, subst check_rest.simps, simp)
qed (subst check_rest.simps, simp)

lemma path_Match_literal:
  assumes "list_all literal_char p"
  shows "path_Match p name = Some (name = p)"
proof (cases "p = []")
  case True
  then show ?thesis by (subst path_Match.simps) simp
next
  case False
  with assms have sc: "scanChunk p = (False, p, [])"
    using scanChunk_literal [of p 0] by simp
  have "path_Match [] [] = Some True" and "check_rest [] = Some False"
    by (subst path_Match.simps check_rest.simps, simp)+
  with False sc show ?thesis
    by (subst path_Match.simps)
      (auto simp: chunk_result_def matchChunk_def match_chunk_literal [OF assms] HasPrefix_iff)
qed

lemma path_Match_trailing_star:
  assumes "list_all literal_char p"
  shows "path_Match (p @ ''*'') name = Some (\<exists>r. name = p @ r \<and> CHR ''/'' \<notin> set r)"
proof -
  have star: "path_Match ''*'' t = Some (CHR ''/'' \<notin> set t)" for t
    by (subst path_Match.simps) (simp add: scanChunk_def)
  show ?thesis
  proof (cases "p = []")
    case True
    then show ?thesis by (simp add: star)
  next
    case False
    with assms have sc: "scanChunk (p @ ''*'') = (False, p, ''*'')"
      using scanChunk_literal [of p 1] by simp
    have "check_rest ''*'' = Some False"
      using check_rest_stars [of 1] by simp
    with False sc show ?thesis
      by (subst path_Match.simps)
        (auto simp: chunk_result_def matchChunk_def match_chunk_literal [OF assms] HasPrefix_iff star)
  qed
qed

end
