(* ===== verification/JsonText.thy ===== *)
theory JsonText
  imports Unstructured Utf8 "HOL-Library.List_Lexorder" "HOL-Library.Char_ord"
begin

text \<open>
  \<open>encoding/json.Marshal\<close> on the decoded values of \<open>jval\<close>: map keys in increasing order, strings
  with HTML escaping, integers in decimal, floats in Go's shortest form (positional between
  \<open>1e-6\<close> and \<open>1e21\<close>, scientific outside).
\<close>

section \<open>Strings\<close>

definition json_escape_byte :: "char \<Rightarrow> string" where
  "json_escape_byte c =
     (let n = of_char c :: nat in
      if n = 34 then [CHR 0x5C, CHR 0x22]
      else if n = 92 then [CHR 0x5C, CHR 0x5C]
      else if n = 8 then [CHR 0x5C, CHR ''b'']
      else if n = 12 then [CHR 0x5C, CHR ''f'']
      else if n = 10 then [CHR 0x5C, CHR ''n'']
      else if n = 13 then [CHR 0x5C, CHR ''r'']
      else if n = 9 then [CHR 0x5C, CHR ''t'']
      else if n < 32 \<or> n = 60 \<or> n = 62 \<or> n = 38
        then [CHR 0x5C, CHR ''u'', CHR ''0'', CHR ''0'', hex_char (n div 16), hex_char (n mod 16)]
      else [c])"

text \<open>
  The body of a JSON string: an ASCII byte is escaped or copied, a valid UTF-8 sequence is
  copied except for the two line separators U+2028 and U+2029, an invalid byte becomes
  \<open>\ufffd\<close>.
\<close>

function json_string_body :: "string \<Rightarrow> string" where
  "json_string_body s =
     (if s = [] then []
      else if (of_char (hd s) :: nat) < 128 then json_escape_byte (hd s) @ json_string_body (tl s)
      else
        (let rn = decode_rune s in
         (if fst rn = rune_error \<and> snd rn = 1 then CHR 0x5C # ''ufffd''
          else if fst rn = 8232 then CHR 0x5C # ''u2028''
          else if fst rn = 8233 then CHR 0x5C # ''u2029''
          else take (snd rn) s) @ json_string_body (drop (snd rn) s)))"
  by pat_completeness auto
termination
  by (relation "measure length") (auto simp: decode_rune_pos)

declare json_string_body.simps [simp del]

definition json_string :: "string \<Rightarrow> string" where
  "json_string s = [CHR 0x22] @ json_string_body s @ [CHR 0x22]"

section \<open>Numbers\<close>

definition json_exponent :: "int \<Rightarrow> string" where
  "json_exponent x =
     (if x < 0 then CHR ''-'' # show_nat (nat (- x)) else CHR ''+'' # show_nat (nat x))"

definition json_float :: "int \<Rightarrow> int \<Rightarrow> string" where
  "json_float m e =
     (let ds = show_nat (nat \<bar>m\<bar>);
          dp = int (length ds) + e;
          sign = (if m < 0 then ''-'' else [])
      in if m = 0 then (if e < 0 then ''-0'' else ''0'')
         else if dp \<le> -6 \<or> 22 \<le> dp then
           sign @ take 1 ds @ (if length ds = 1 then [] else ''.'' @ drop 1 ds) @ ''e'' @ json_exponent (dp - 1)
         else if 0 \<le> e then sign @ ds @ replicate (nat e) (CHR ''0'')
         else if 0 < dp then sign @ take (nat dp) ds @ ''.'' @ drop (nat dp) ds
         else sign @ ''0.'' @ replicate (nat (- dp)) (CHR ''0'') @ ds)"

section \<open>Values\<close>

fun json_marshal :: "jval \<Rightarrow> string" where
  "json_marshal JNull = ''null''"
| "json_marshal (JBool b) = (if b then ''true'' else ''false'')"
| "json_marshal (JInt i) = show_int i"
| "json_marshal (JFloat m e) = json_float m e"
| "json_marshal (JStr s) = json_string s"
| "json_marshal (JArr xs) = ''['' @ strings_Join (map json_marshal xs) '','' @ '']''"
| "json_marshal (JObj m) =
     ''{'' @ strings_Join
       (map (\<lambda>kv. json_string (fst kv) @ '':'' @ snd kv)
         (sort_key fst (map (\<lambda>kv. (fst kv, json_marshal (snd kv))) m))) '','' @ ''}''"

text \<open>The order in which a map lists its keys does not change its text.\<close>

lemma json_marshal_perm:
  assumes "mset m = mset m'" and "distinct (map fst m)"
  shows "json_marshal (JObj m) = json_marshal (JObj m')"
proof -
  let ?f = "\<lambda>kv. (fst kv, json_marshal (snd kv))"
  have "inj_on fst (set m)"
    using assms(2) by (simp add: distinct_map)
  then have inj: "inj_on fst (set (map ?f m))"
    by (auto simp: inj_on_def)
  have "sort_key fst (map ?f m) = sort_key fst (map ?f m')"
    using assms(1) inj by (intro sort_key_inj_key_eq) simp_all
  then show ?thesis by simp
qed

end
