(* ===== verification/Transform.thy ===== *)
theory Transform
  imports Manifest PathMatch JsonText
begin

text \<open>
  \<open>internal/transform\<close>: the three transformations of a render's manifest stream, the selector,
  and \<open>Build\<close>. The patch engines (strategic merge, RFC 7386 merge, RFC 6902), the scheme of
  built-in types and the JSON decoder of objects are libraries: they are the fields of
  \<open>patchlib\<close>. The interface \<open>Transformation\<close> is the locale \<open>stream_transformation\<close>: a
  transformation treats each manifest on its own and never changes origins.
\<close>

section \<open>Selector (selector.go)\<close>

definition Match :: "klib \<Rightarrow> Manifest \<Rightarrow> Selector \<Rightarrow> bool" where
  "Match L m sel =
     (if sel_Kind sel \<noteq> [] \<and> GetKind L (m_Unstructured m) \<noteq> sel_Kind sel then False
      else if sel_Name sel \<noteq> [] \<and> path_Match (sel_Name sel) (GetName L (m_Unstructured m)) \<noteq> Some True
        then False
      else if sel_Origin sel \<noteq> [] \<and> origin_string (m_Origin m) \<noteq> sel_Origin sel then False
      else True)"

section \<open>Dropping kinds (filter\_kinds.go)\<close>

fun filter_kinds_loop :: "klib \<Rightarrow> FilterKindsSpec \<Rightarrow> Manifest list \<Rightarrow> Manifest list" where
  "filter_kinds_loop L spec [] = []"
| "filter_kinds_loop L spec (m # ms) =
     (let kindListed = (GetKind L (m_Unstructured m) \<in> set (fk_Kinds spec));
          originMatch = (fk_Source spec = [] \<or> origin_string (m_Origin m) = fk_Source spec)
      in if kindListed \<and> originMatch then filter_kinds_loop L spec ms
         else m # filter_kinds_loop L spec ms)"

definition filterKinds_Apply :: "klib \<Rightarrow> FilterKindsSpec \<Rightarrow> Manifest list \<Rightarrow> Manifest list result" where
  "filterKinds_Apply L spec manifests = Inr (filter_kinds_loop L spec manifests)"

section \<open>Webhook URLs (rewrite\_webhook\_url.go)\<close>

text \<open>The map is changed in place; here the changed map is returned with the result.\<close>

definition rewriteClientConfig :: "RewriteWebhookURLSpec \<Rightarrow> jobj \<Rightarrow> bool \<times> jobj" where
  "rewriteClientConfig spec cc =
     (if map_of cc ''url'' \<noteq> None then (False, cc)
      else
        (case as_obj (map_of cc ''service'') of
           None \<Rightarrow> (False, cc)
         | Some svc \<Rightarrow>
             (let pathStr = as_str (map_of svc ''path'')
              in (True, AList.delete ''service''
                          (AList.update ''url'' (JStr (rw_URLPrefix spec @ pathStr)) cc)))))"

text \<open>One turn of the loop over the webhooks: whether the entry changed, and the entry.\<close>

definition rewrite_entry :: "RewriteWebhookURLSpec \<Rightarrow> jval \<Rightarrow> bool \<times> jval" where
  "rewrite_entry spec v =
     (case as_obj (Some v) of
        None \<Rightarrow> (False, v)
      | Some wh \<Rightarrow>
          (case as_obj (map_of wh ''clientConfig'') of
             None \<Rightarrow> (False, v)
           | Some cc \<Rightarrow>
               (case rewriteClientConfig spec cc of
                  (True, cc') \<Rightarrow> (True, JObj (AList.update ''clientConfig'' (JObj cc') wh))
                | (False, cc') \<Rightarrow> (False, v))))"

definition rewriteWebhookList :: "klib \<Rightarrow> RewriteWebhookURLSpec \<Rightarrow> jobj \<Rightarrow> jobj result" where
  "rewriteWebhookList L spec u =
     bind_res (NestedSlice L u [''webhooks'']) (\<lambda>found.
       (case found of
          None \<Rightarrow> Inr u
        | Some whs \<Rightarrow>
            (let res = map (rewrite_entry spec) whs in
             if list_ex fst res then SetNestedSlice L u (map snd res) [''webhooks'']
             else Inr u)))"

definition conversion_path :: "string list" where
  "conversion_path = [''spec'', ''conversion'', ''webhook'', ''clientConfig'']"

definition rewriteConversion :: "klib \<Rightarrow> RewriteWebhookURLSpec \<Rightarrow> jobj \<Rightarrow> jobj result" where
  "rewriteConversion L spec u =
     bind_res (NestedString L u [''spec'', ''conversion'', ''strategy'']) (\<lambda>strategy.
       if strategy \<noteq> Some ''Webhook'' then Inr u
       else
         bind_res (NestedMap L u conversion_path) (\<lambda>found.
           (case found of
              None \<Rightarrow> Inr u
            | Some cc \<Rightarrow>
                (case rewriteClientConfig spec cc of
                   (True, cc') \<Rightarrow> SetNestedMap L u cc' conversion_path
                 | (False, cc') \<Rightarrow> Inr u))))"

definition rewrite_one :: "klib \<Rightarrow> RewriteWebhookURLSpec \<Rightarrow> Manifest \<Rightarrow> Manifest result" where
  "rewrite_one L spec m =
     (let u = m_Unstructured m; kind = GetKind L u;
          res = (if kind = ''ValidatingWebhookConfiguration'' \<or> kind = ''MutatingWebhookConfiguration''
                   then rewriteWebhookList L spec u
                 else if kind = ''CustomResourceDefinition'' then rewriteConversion L spec u
                 else Inr u)
      in case res of
           Inl e \<Rightarrow>
             Inl (ErrWrap (''rewriteWebhookURL '' @ kind @ ''/'' @ GetName L u @ '': '') e [])
         | Inr u' \<Rightarrow> Inr \<lparr>m_Unstructured = u', m_Origin = m_Origin m\<rparr>)"

definition rewriteWebhookURL_Apply ::
  "klib \<Rightarrow> RewriteWebhookURLSpec \<Rightarrow> Manifest list \<Rightarrow> Manifest list result" where
  "rewriteWebhookURL_Apply L spec manifests = map_res (rewrite_one L spec) manifests"

section \<open>Patches (patch.go)\<close>

text \<open>
  \<open>SchemeNew\<close> creates an object of a registered type and says whether it is an unstructured
  one; \<open>DecodePatch\<close> gives the \<open>Apply\<close> method of the decoded patch; \<open>MarshalOps\<close> is the text of
  the operation list, whose values are marshalled by \<open>apiextensionsv1.JSON\<close>.
\<close>

record patchlib =
  SchemeNew :: "gvk \<Rightarrow> bool result"
  StrategicMergePatch :: "string \<Rightarrow> string \<Rightarrow> gvk \<Rightarrow> string result"
  MergePatch :: "string \<Rightarrow> string \<Rightarrow> string result"
  MarshalOps :: "JSONPatchOp list \<Rightarrow> string result"
  DecodePatch :: "string \<Rightarrow> (string \<Rightarrow> string result) result"
  UnmarshalJSON :: "string \<Rightarrow> jobj result"

definition typedStructFor :: "patchlib \<Rightarrow> gvk \<Rightarrow> gvk option" where
  "typedStructFor P g =
     (case SchemeNew P g of
        Inl e \<Rightarrow> None
      | Inr isUnstructured \<Rightarrow> if isUnstructured then None else Some g)"

definition strategicMerge :: "klib \<Rightarrow> patchlib \<Rightarrow> jobj \<Rightarrow> string \<Rightarrow> string \<Rightarrow> string result" where
  "strategicMerge L P u orig patch =
     (case typedStructFor P (GroupVersionKind L u) of
        Some dataStruct \<Rightarrow> StrategicMergePatch P orig patch dataStruct
      | None \<Rightarrow> MergePatch P orig patch)"

definition applyOne :: "klib \<Rightarrow> patchlib \<Rightarrow> PatchSpec \<Rightarrow> jobj \<Rightarrow> jobj result" where
  "applyOne L P spec u =
     (let orig = json_marshal (JObj u) in
      bind_res
        (case patch_StrategicMerge spec of
           Some raw \<Rightarrow> strategicMerge L P u orig raw
         | None \<Rightarrow>
             bind_res (MarshalOps P (case patch_JSONPatch spec of None \<Rightarrow> [] | Some ops \<Rightarrow> ops)) (\<lambda>jp.
               bind_res (DecodePatch P jp) (\<lambda>decoded. decoded orig)))
        (UnmarshalJSON P))"

definition patch_one :: "klib \<Rightarrow> patchlib \<Rightarrow> PatchSpec \<Rightarrow> Manifest \<Rightarrow> Manifest result" where
  "patch_one L P spec m =
     (if \<not> Match L m (patch_Target spec) then Inr m
      else
        (case applyOne L P spec (m_Unstructured m) of
           Inl e \<Rightarrow>
             Inl (ErrWrap (''patch '' @ GetKind L (m_Unstructured m) @ ''/'' @
               GetName L (m_Unstructured m) @ '': '') e [])
         | Inr patched \<Rightarrow> Inr \<lparr>m_Unstructured = patched, m_Origin = m_Origin m\<rparr>))"

definition patch_Apply :: "klib \<Rightarrow> patchlib \<Rightarrow> PatchSpec \<Rightarrow> Manifest list \<Rightarrow> Manifest list result" where
  "patch_Apply L P spec manifests =
     (let hasSM = (patch_StrategicMerge spec \<noteq> None);
          hasJP = (case patch_JSONPatch spec of None \<Rightarrow> False | Some ops \<Rightarrow> 0 < length ops)
      in if hasSM = hasJP
         then Inl (ErrNew ''exactly one of strategicMerge or jsonPatch must be set'')
         else map_res (patch_one L P spec) manifests)"

section \<open>Building the list (transform.go)\<close>

datatype Transformation =
    Patch PatchSpec
  | RewriteWebhookURL RewriteWebhookURLSpec
  | FilterKinds FilterKindsSpec

fun Transformation_Type :: "Transformation \<Rightarrow> string" where
  "Transformation_Type (Patch spec) = ''patch''"
| "Transformation_Type (RewriteWebhookURL spec) = ''rewriteWebhookURL''"
| "Transformation_Type (FilterKinds spec) = ''filterKinds''"

fun Transformation_Apply ::
  "klib \<Rightarrow> patchlib \<Rightarrow> Transformation \<Rightarrow> Manifest list \<Rightarrow> Manifest list result" where
  "Transformation_Apply L P (Patch spec) ms = patch_Apply L P spec ms"
| "Transformation_Apply L P (RewriteWebhookURL spec) ms = rewriteWebhookURL_Apply L spec ms"
| "Transformation_Apply L P (FilterKinds spec) ms = filterKinds_Apply L spec ms"

text \<open>The counter of \<open>Build\<close>.\<close>

definition set_members :: "TransformationSpec \<Rightarrow> nat" where
  "set_members s =
     (let set' = 0;
          set' = (if tr_Patch s \<noteq> None then Suc set' else set');
          set' = (if tr_RewriteWebhookURL s \<noteq> None then Suc set' else set');
          set' = (if tr_FilterKinds s \<noteq> None then Suc set' else set')
      in set')"

definition build_one :: "TransformationSpec \<Rightarrow> Transformation result" where
  "build_one s =
     (let set' = set_members s in
      if set' \<noteq> 1 then
        Inl (ErrNew (''exactly one transformation type must be set per entry, got '' @ show_nat set'))
      else
        (case tr_Patch s of
           Some p \<Rightarrow> Inr (Patch p)
         | None \<Rightarrow>
             (case tr_RewriteWebhookURL s of
                Some r \<Rightarrow> Inr (RewriteWebhookURL r)
              | None \<Rightarrow> Inr (FilterKinds (the (tr_FilterKinds s))))))"

definition Build :: "TransformationSpec list \<Rightarrow> Transformation list result" where
  "Build specs = map_res build_one specs"

text \<open>One render through the transformations in declaration order.\<close>

fun run_transforms ::
  "klib \<Rightarrow> patchlib \<Rightarrow> Transformation list \<Rightarrow> Manifest list \<Rightarrow> Manifest list result" where
  "run_transforms L P [] ms = Inr ms"
| "run_transforms L P (t # ts) ms = bind_res (Transformation_Apply L P t ms) (run_transforms L P ts)"

section \<open>The interface of a transformation\<close>

text \<open>
  What every transformation of a render guarantees: a stream succeeds exactly when its parts
  do, with the concatenated result, so a manifest is never changed because of another one; and
  the origins of the results are those of the input, in order, with some possibly missing.
\<close>

locale stream_transformation =
  fixes apply_t :: "Manifest list \<Rightarrow> Manifest list result"
  assumes apply_append:
      "apply_t (xs @ ys) = Inr out \<longleftrightarrow> (\<exists>a b. apply_t xs = Inr a \<and> apply_t ys = Inr b \<and> out = a @ b)"
    and apply_origins: "apply_t ms = Inr out \<Longrightarrow> subseq (map m_Origin out) (map m_Origin ms)"
begin

lemma apply_Cons:
  "apply_t (m # ms) = Inr out \<longleftrightarrow> (\<exists>a b. apply_t [m] = Inr a \<and> apply_t ms = Inr b \<and> out = a @ b)"
  using apply_append [of "[m]" ms out] by simp

lemma apply_each:
  "apply_t ms = Inr out \<Longrightarrow> ms \<noteq> [] \<Longrightarrow>
     \<exists>outs. map_res (\<lambda>m. apply_t [m]) ms = Inr outs \<and> out = concat outs"
proof (induction ms arbitrary: out)
  case (Cons m ms)
  show ?case
  proof (cases "ms = []")
    case True
    with Cons.prems show ?thesis by (intro exI [of _ "[out]"]) simp
  next
    case False
    from Cons.prems obtain a b where ab: "apply_t [m] = Inr a" "apply_t ms = Inr b" "out = a @ b"
      by (auto simp: apply_Cons [of m ms])
    then obtain outs where "map_res (\<lambda>m. apply_t [m]) ms = Inr outs" "b = concat outs"
      using Cons.IH False by blast
    with ab show ?thesis by (intro exI [of _ "a # outs"]) simp
  qed
qed simp

lemma apply_error_local:
  assumes "apply_t ms = Inl e" and "ms \<noteq> []"
  shows "\<exists>m\<in>set ms. \<exists>e'. apply_t [m] = Inl e'"
proof (rule ccontr)
  assume "\<not> ?thesis"
  then have all: "\<forall>m\<in>set ms. \<exists>out. apply_t [m] = Inr out"
    by (metis sum.exhaust)
  have "ns \<noteq> [] \<Longrightarrow> set ns \<subseteq> set ms \<Longrightarrow> \<exists>out. apply_t ns = Inr out" for ns
  proof (induction ns)
    case (Cons n ns)
    then show ?case
    proof (cases "ns = []")
      case True
      with Cons all show ?thesis by auto
    next
      case False
      with Cons obtain b where "apply_t ns = Inr b" by auto
      moreover from Cons all obtain a where "apply_t [n] = Inr a" by auto
      ultimately show ?thesis using apply_Cons [of n ns "a @ b"] by blast
    qed
  qed simp
  with assms show False by fastforce
qed

lemma apply_length: "apply_t ms = Inr out \<Longrightarrow> length out \<le> length ms"
  using apply_origins [of ms out] by (metis length_map list_emb_length)

end

text \<open>Two transformations in sequence are again one.\<close>

lemma stream_transformation_comp:
  assumes "stream_transformation f" and "stream_transformation g"
  shows "stream_transformation (\<lambda>ms. bind_res (f ms) g)"
proof (rule stream_transformation.intro)
  fix xs ys out
  show "bind_res (f (xs @ ys)) g = Inr out \<longleftrightarrow>
    (\<exists>a b. bind_res (f xs) g = Inr a \<and> bind_res (f ys) g = Inr b \<and> out = a @ b)"
    unfolding bind_res_eq_Inr stream_transformation.apply_append [OF assms(1)]
    using stream_transformation.apply_append [OF assms(2)] by fastforce
next
  fix ms out
  assume "bind_res (f ms) g = Inr out"
  then obtain a where "f ms = Inr a" "g a = Inr out" by (auto simp: bind_res_eq_Inr)
  then show "subseq (map m_Origin out) (map m_Origin ms)"
    using stream_transformation.apply_origins [OF assms(1)]
      stream_transformation.apply_origins [OF assms(2)] subseq_order.trans by blast
qed

lemma map_res_stream:
  assumes "\<And>m m'. f m = Inr m' \<Longrightarrow> m_Origin m' = m_Origin m"
  shows "stream_transformation (map_res f)"
proof (rule stream_transformation.intro)
  show "map_res f (xs @ ys) = Inr out \<longleftrightarrow>
    (\<exists>a b. map_res f xs = Inr a \<and> map_res f ys = Inr b \<and> out = a @ b)" for xs ys out
    by (auto simp: map_res_append bind_res_eq_Inr)
next
  fix ms out
  assume "map_res f ms = Inr out"
  then have "list_all2 (\<lambda>m m'. f m = Inr m') ms out" by (simp add: map_res_Inr_iff)
  then have "map m_Origin out = map m_Origin ms"
    by (induction rule: list_all2_induct) (auto dest: assms)
  then show "subseq (map m_Origin out) (map m_Origin ms)" by simp
qed

lemma filter_kinds_loop_eq:
  "filter_kinds_loop L spec ms =
     filter (\<lambda>m. \<not> (GetKind L (m_Unstructured m) \<in> set (fk_Kinds spec) \<and>
       (fk_Source spec = [] \<or> origin_string (m_Origin m) = fk_Source spec))) ms"
  by (induction ms) auto

interpretation filterKinds: stream_transformation "filterKinds_Apply L spec" for L spec
  by unfold_locales
    (auto simp: filterKinds_Apply_def filter_kinds_loop_eq intro: subseq_map)

lemma rewrite_one_origin: "rewrite_one L spec m = Inr m' \<Longrightarrow> m_Origin m' = m_Origin m"
  by (auto simp: rewrite_one_def Let_def split: sum.splits)

interpretation rewriteWebhookURL: stream_transformation "rewriteWebhookURL_Apply L spec" for L spec
  unfolding rewriteWebhookURL_Apply_def by (rule map_res_stream) (rule rewrite_one_origin)

lemma patch_one_origin: "patch_one L P spec m = Inr m' \<Longrightarrow> m_Origin m' = m_Origin m"
  by (auto simp: patch_one_def split: if_splits sum.splits)

interpretation patch: stream_transformation "patch_Apply L P spec" for L P spec
proof (cases "(patch_StrategicMerge spec \<noteq> None) =
    (case patch_JSONPatch spec of None \<Rightarrow> False | Some ops \<Rightarrow> 0 < length ops)")
  case True
  then show "stream_transformation (patch_Apply L P spec)"
    by unfold_locales (auto simp: patch_Apply_def Let_def)
next
  case False
  then have "patch_Apply L P spec = map_res (patch_one L P spec)"
    by (auto simp: patch_Apply_def Let_def)
  then show "stream_transformation (patch_Apply L P spec)"
    using map_res_stream [OF patch_one_origin] by simp
qed

lemma Transformation_Apply_eta:
  "Transformation_Apply L P (Patch p) = patch_Apply L P p"
  "Transformation_Apply L P (RewriteWebhookURL r) = rewriteWebhookURL_Apply L r"
  "Transformation_Apply L P (FilterKinds f) = filterKinds_Apply L f"
  by (simp_all add: fun_eq_iff)

interpretation transformation: stream_transformation "Transformation_Apply L P t" for L P t
  by (cases t)
    (simp_all only: Transformation_Apply_eta patch.stream_transformation_axioms
      rewriteWebhookURL.stream_transformation_axioms filterKinds.stream_transformation_axioms)

lemma run_transforms_stream: "stream_transformation (run_transforms L P ts)"
proof (induction ts)
  case Nil
  show ?case by unfold_locales auto
next
  case (Cons t ts)
  from stream_transformation_comp [OF transformation.stream_transformation_axioms Cons]
  show ?case by simp
qed

interpretation pipeline: stream_transformation "run_transforms L P ts" for L P ts
  by (rule run_transforms_stream)

section \<open>Rewriting webhook URLs\<close>

text \<open>A client configuration is settled when it has a URL or refers to no service.\<close>

definition settled :: "jobj \<Rightarrow> bool" where
  "settled cc \<longleftrightarrow> map_of cc ''url'' \<noteq> None \<or> as_obj (map_of cc ''service'') = None"

definition entry_settled :: "jval \<Rightarrow> bool" where
  "entry_settled v =
     (case as_obj (Some v) of
        None \<Rightarrow> True
      | Some wh \<Rightarrow> (case as_obj (map_of wh ''clientConfig'') of None \<Rightarrow> True | Some cc \<Rightarrow> settled cc))"

lemma rewriteClientConfig_settled: "settled cc \<Longrightarrow> rewriteClientConfig spec cc = (False, cc)"
  by (auto simp: settled_def rewriteClientConfig_def)

lemma settled_rewriteClientConfig: "settled (snd (rewriteClientConfig spec cc))"
  by (auto simp: settled_def rewriteClientConfig_def Let_def split: option.splits)

lemma rewriteClientConfig_map:
  assumes "\<not> settled cc"
  shows "\<exists>svc. map_of cc ''service'' = Some (JObj svc) \<and> fst (rewriteClientConfig spec cc) \<and>
    (\<forall>k. map_of (snd (rewriteClientConfig spec cc)) k =
      (if k = ''url'' then Some (JStr (rw_URLPrefix spec @ as_str (map_of svc ''path'')))
       else if k = ''service'' then None else map_of cc k))"
  using assms by (auto simp: settled_def rewriteClientConfig_def Let_def as_obj_eq_Some)

lemma rewriteClientConfig_unchanged: "\<not> fst (rewriteClientConfig spec cc) \<Longrightarrow> settled cc"
  by (auto simp: settled_def rewriteClientConfig_def Let_def split: if_splits option.splits)

lemma rewrite_entry_settled: "entry_settled v \<Longrightarrow> rewrite_entry spec v = (False, v)"
  by (auto simp: entry_settled_def rewrite_entry_def rewriteClientConfig_settled
      split: option.splits)

lemma settled_rewrite_entry: "entry_settled (snd (rewrite_entry spec v))"
proof -
  have "settled cc'" if "rewriteClientConfig spec cc = (b, cc')" for cc b cc'
    using settled_rewriteClientConfig [of spec cc] that by simp
  moreover have "settled cc" if "rewriteClientConfig spec cc = (False, cc')" for cc cc'
    using rewriteClientConfig_unchanged [of spec cc] that by simp
  ultimately show ?thesis
    by (auto simp: entry_settled_def rewrite_entry_def split: option.splits prod.splits bool.splits)
qed

lemma rewrite_entries_settled:
  assumes "list_all entry_settled vs"
  shows "map (rewrite_entry spec) vs = map (Pair False) vs"
  using assms by (induction vs) (auto simp: rewrite_entry_settled)

context unstructured_lib
begin

text \<open>What a rewritten webhook configuration looks like: every entry is settled.\<close>

lemma rewriteWebhookList_settled:
  assumes "rewriteWebhookList L spec u = Inr u'"
  shows "case nested_at (JObj u') [''webhooks''] of
           Found (JArr whs) \<Rightarrow> list_all entry_settled whs | Absent \<Rightarrow> True | _ \<Rightarrow> False"
proof (cases "nested_at (JObj u) [''webhooks'']")
  case (Found v)
  with assms obtain whs where v: "v = JArr whs"
    by (cases v) (auto simp: rewriteWebhookList_def nested_laws)
  let ?res = "map (rewrite_entry spec) whs"
  have all: "list_all entry_settled (map snd ?res)"
    by (simp add: list_all_iff settled_rewrite_entry)
  show ?thesis
  proof (cases "list_ex fst ?res")
    case True
    with assms Found v have "set_nested u [''webhooks''] (JArr (map snd ?res)) = Some u'"
      by (auto simp: rewriteWebhookList_def nested_laws Let_def split: option.splits)
    then have "nested_at (JObj u') [''webhooks''] = Found (JArr (map snd ?res))"
      by (rule set_nested_get)
    with all show ?thesis by simp
  next
    case False
    then have "\<forall>w\<in>set whs. snd (rewrite_entry spec w) = w"
      by (auto simp: list_ex_iff rewrite_entry_def split: option.splits prod.splits bool.splits)
    then have "map snd ?res = whs" by (simp add: map_idI)
    with False assms Found v all show ?thesis
      by (auto simp: rewriteWebhookList_def nested_laws Let_def)
  qed
qed (use assms in \<open>auto simp: rewriteWebhookList_def nested_laws\<close>)

lemma rewriteWebhookList_idem:
  assumes "rewriteWebhookList L spec u = Inr u'"
  shows "rewriteWebhookList L spec u' = Inr u'"
proof -
  have "map (rewrite_entry spec) whs = map (Pair False) whs"
    if "nested_at (JObj u') [''webhooks''] = Found (JArr whs)" for whs
    using rewriteWebhookList_settled [OF assms] that by (simp add: rewrite_entries_settled)
  then show ?thesis
    using rewriteWebhookList_settled [OF assms]
    by (auto simp: rewriteWebhookList_def nested_laws Let_def list_ex_iff
        split: nested.splits jval.splits)
qed

lemma rewriteWebhookList_kind:
  "rewriteWebhookList L spec u = Inr u' \<Longrightarrow> GetKind L u' = GetKind L u"
  by (auto simp: rewriteWebhookList_def nested_laws Let_def GetKind_law str_at_def set_nested_frame
      bind_res_eq_Inr split: nested.splits jval.splits option.splits if_splits)

lemma rewriteConversion_cases:
  assumes "rewriteConversion L spec u = Inr u'"
  shows "u' = u \<or>
    (\<exists>cc. NestedString L u [''spec'', ''conversion'', ''strategy''] = Inr (Some ''Webhook'') \<and>
       nested_at (JObj u) conversion_path = Found (JObj cc) \<and> \<not> settled cc \<and>
       set_nested u conversion_path (JObj (snd (rewriteClientConfig spec cc))) = Some u')"
proof -
  from assms consider "u' = u"
    | cc cc' where "NestedString L u [''spec'', ''conversion'', ''strategy''] = Inr (Some ''Webhook'')"
        "NestedMap L u conversion_path = Inr (Some cc)" "rewriteClientConfig spec cc = (True, cc')"
        "SetNestedMap L u cc' conversion_path = Inr u'"
    unfolding rewriteConversion_def
    apply (auto simp: bind_res_eq_Inr split: option.split_asm if_split_asm)
    subgoal for cc by (cases "rewriteClientConfig spec cc") (auto split: bool.split_asm)
    done
  then show ?thesis
  proof cases
    case (2 cc cc')
    from 2(3) have "\<not> settled cc" using rewriteClientConfig_settled [of cc spec] by auto
    moreover from 2(2) have "nested_at (JObj u) conversion_path = Found (JObj cc)"
      by (simp add: NestedMap_law split: nested.splits jval.splits)
    moreover from 2(3,4) have "set_nested u conversion_path (JObj (snd (rewriteClientConfig spec cc))) = Some u'"
      by (simp add: SetNestedMap_law split: option.splits)
    ultimately show ?thesis using 2(1) by blast
  qed simp
qed

lemma rewriteConversion_idem:
  assumes "rewriteConversion L spec u = Inr u'"
  shows "rewriteConversion L spec u' = Inr u'"
  using rewriteConversion_cases [OF assms]
proof (elim disjE exE conjE)
  fix cc
  assume set: "set_nested u conversion_path (JObj (snd (rewriteClientConfig spec cc))) = Some u'"
    and strategy: "NestedString L u [''spec'', ''conversion'', ''strategy''] = Inr (Some ''Webhook'')"
  from set have "NestedMap L u' conversion_path = Inr (Some (snd (rewriteClientConfig spec cc)))"
    by (simp add: NestedMap_law set_nested_get)
  moreover have "NestedString L u' [''spec'', ''conversion'', ''strategy''] = Inr (Some ''Webhook'')"
    using set_nested_frame [OF set, of "[''spec'', ''conversion'', ''strategy'']"] strategy
    by (simp add: NestedString_law conversion_path_def split: nested.splits jval.splits)
  ultimately show ?thesis
    by (simp add: rewriteConversion_def rewriteClientConfig_settled [OF settled_rewriteClientConfig])
qed (use assms in simp)

lemma rewriteConversion_kind:
  assumes "rewriteConversion L spec u = Inr u'"
  shows "GetKind L u' = GetKind L u"
  using rewriteConversion_cases [OF assms]
proof (elim disjE exE conjE)
  fix cc
  assume "set_nested u conversion_path (JObj (snd (rewriteClientConfig spec cc))) = Some u'"
  from set_nested_frame [OF this, of "[''kind'']"] show ?thesis
    by (simp add: GetKind_law str_at_def conversion_path_def)
qed simp

lemma rewrite_one_idem: "rewrite_one L spec m = Inr m' \<Longrightarrow> rewrite_one L spec m' = Inr m'"
  by (auto simp: rewrite_one_def Let_def split: sum.splits if_splits
      dest: rewriteWebhookList_idem rewriteWebhookList_kind rewriteConversion_idem rewriteConversion_kind)

end

section \<open>Properties\<close>

text \<open>
  (C21) Transformations are local: a list of transformations succeeds on a render exactly when it
  succeeds on both parts of any split of it, with the results in order. So no manifest is changed or
  dropped because of another one.
\<close>

theorem run_transforms_local:
  "run_transforms L P ts (xs @ ys) = Inr out \<longleftrightarrow>
     (\<exists>a b. run_transforms L P ts xs = Inr a \<and> run_transforms L P ts ys = Inr b \<and> out = a @ b)"
  by (rule pipeline.apply_append)

text \<open>
  (C36) Rewriting webhook URLs is idempotent: a second run over a rewritten render succeeds and
  changes nothing.
\<close>

theorem rewriteWebhookURL_idempotent:
  assumes "unstructured_lib L err" and "rewriteWebhookURL_Apply L spec ms = Inr out"
  shows "rewriteWebhookURL_Apply L spec out = Inr out"
proof -
  from assms(2) have "list_all2 (\<lambda>m m'. rewrite_one L spec m = Inr m') ms out"
    by (simp add: rewriteWebhookURL_Apply_def map_res_Inr_iff)
  then have "list_all2 (\<lambda>m m'. rewrite_one L spec m = Inr m') out out"
    by (induction rule: list_all2_induct) (auto dest: unstructured_lib.rewrite_one_idem [OF assms(1)])
  then show ?thesis by (simp add: rewriteWebhookURL_Apply_def map_res_Inr_iff)
qed

definition example_webhook :: "jobj \<Rightarrow> Manifest" where
  "example_webhook cc =
     \<lparr>m_Unstructured = [(''kind'', JStr ''ValidatingWebhookConfiguration''),
        (''webhooks'', JArr [JObj [(''name'', JStr ''w''), (''clientConfig'', JObj cc)]])], m_Origin = OriginUpstream\<rparr>"

theorem rewriteWebhookURL_idempotent_witness:
  "rewriteWebhookURL_Apply documented_lib \<lparr>rw_URLPrefix = ''https://seed''\<rparr> [example_webhook [(''url'', JStr ''https://seed/v'')]] =
     Inr [example_webhook [(''url'', JStr ''https://seed/v'')]]"
proof -
  have "rewriteWebhookURL_Apply documented_lib \<lparr>rw_URLPrefix = ''https://seed''\<rparr>
      [example_webhook [(''service'', JObj [(''path'', JStr ''/v'')])]] = Inr [example_webhook [(''url'', JStr ''https://seed/v'')]]"
    by code_simp
  from rewriteWebhookURL_idempotent [OF doc.unstructured_lib_axioms this] show ?thesis .
qed

end
