(* ===== verification/World.thy ===== *)
theory World
  imports Manifest
begin

text \<open>
  The environment of the operator: every call that leaves the process, as one constructor of
  \<open>event\<close> with its arguments and the response, and the record \<open>api_env\<close> of the responses of the API
  clients, each a function of the history (the responses of the file system, Helm, kustomize and
  git are in the theories of the source package). A computation of the operator is an \<open>(event, 'a) io\<close>. The API
  servers, Helm, kustomize, go-git, the LRU cache and the file system are only known through
  these responses.
\<close>

section \<open>Values exchanged with the environment\<close>

text \<open>\<open>rest.Config\<close> with the fields the operator sets; the timeout is in seconds.\<close>

record rest_config =
  rc_Host :: string
  rc_BearerToken :: string
  rc_CAData :: string
  rc_Timeout :: nat

text \<open>The manager's client, and a client built from a REST configuration.\<close>

datatype client_id = SeedClient | ShootClient rest_config

type_synonym secret_data = "(string \<times> string) list"

text \<open>\<open>creds\<close> of \<open>internal/source/credentials.go\<close>.\<close>

record creds =
  creds_user :: string
  creds_pass :: string
  creds_ok :: bool

record dependency =
  dep_Name :: string
  dep_Repository :: string

record chartfile =
  cf_Name :: string
  cf_Dependencies :: "dependency list"

text \<open>A loaded chart is only passed on to Helm; it is identified by its content.\<close>

type_synonym chart = string

section \<open>Events\<close>

text \<open>The file system, as the standard library sees it.\<close>

datatype fs_event =
    MkdirTemp string string "string result"
  | RemoveAll string
  | MkdirAll string "unit result"
  | ReadDir string "(string \<times> bool) list result"
  | Stat string "bool result"
  | Glob string "string list result"
  | Open string "unit result"
  | ReadFile string "string result"

text \<open>Helm and kustomize; basic authentication is an optional pair of user and password.\<close>

datatype helm_event =
    RegistryNewClient "(string \<times> string) option" "unit result"
  | Pull "(string \<times> string) option" string string string "unit result"
  | Resolve "(string \<times> string) option" string "string result"
  | Expand string string "unit result"
  | LoadChartfile string "chartfile result"
  | DepBuild "(string \<times> string) option" string "unit result"
  | LoadChart string "chart result"
  | Install chart jobj string string "string result"
  | KustomizeRun string "string result"
  | AsYaml string "string result"

text \<open>go-git.\<close>

datatype git_event =
    PlainClone string string string "(string \<times> string) option" "unit result"
  | PlainInit string "unit result"
  | CreateRemote string string "unit result"
  | Fetch string "string list" "(string \<times> string) option" "unit result"
  | Worktree string "unit result"
  | Checkout string string "unit result"
  | ListRemote string "(string \<times> string) option" "(string \<times> string) list result"

datatype event =
    EvNow time
  | EvGet client_id gvk string string "jobj result"
  | EvPatch client_id jobj string "jobj result"
  | EvDelete client_id jobj "unit result"
  | EvGetCR string string "DualDeploymentOperator result"
  | EvUpdateCR DualDeploymentOperator "DualDeploymentOperator result"
  | EvStatusUpdate DualDeploymentOperator "DualDeploymentOperator result"
  | EvGetSecret string string "secret_data result"
  | EvNewClient rest_config "unit result"
  | EvRecord string string string string
  | EvCacheGet string "Manifest list option"
  | EvCacheAdd string "Manifest list"
  | EvFS fs_event
  | EvHelm helm_event
  | EvGit git_event

text \<open>The events that change a cluster.\<close>

fun is_write :: "event \<Rightarrow> bool" where
  "is_write (EvPatch c u fm r) = True"
| "is_write (EvDelete c u r) = True"
| "is_write (EvUpdateCR cr r) = True"
| "is_write (EvStatusUpdate cr r) = True"
| "is_write _ = False"

section \<open>Responses\<close>

record api_env =
  eNow :: "event list \<Rightarrow> time"
  eGet :: "client_id \<Rightarrow> gvk \<Rightarrow> string \<Rightarrow> string \<Rightarrow> event list \<Rightarrow> jobj result"
  ePatch :: "client_id \<Rightarrow> jobj \<Rightarrow> string \<Rightarrow> event list \<Rightarrow> jobj result"
  eDelete :: "client_id \<Rightarrow> jobj \<Rightarrow> event list \<Rightarrow> unit result"
  eGetCR :: "string \<Rightarrow> string \<Rightarrow> event list \<Rightarrow> DualDeploymentOperator result"
  eUpdateCR :: "DualDeploymentOperator \<Rightarrow> event list \<Rightarrow> DualDeploymentOperator result"
  eStatusUpdate :: "DualDeploymentOperator \<Rightarrow> event list \<Rightarrow> DualDeploymentOperator result"
  eGetSecret :: "string \<Rightarrow> string \<Rightarrow> event list \<Rightarrow> secret_data result"
  eNewClient :: "rest_config \<Rightarrow> event list \<Rightarrow> unit result"

record fs_env =
  eMkdirTemp :: "string \<Rightarrow> string \<Rightarrow> event list \<Rightarrow> string result"
  eMkdirAll :: "string \<Rightarrow> event list \<Rightarrow> unit result"
  eReadDir :: "string \<Rightarrow> event list \<Rightarrow> (string \<times> bool) list result"
  eStat :: "string \<Rightarrow> event list \<Rightarrow> bool result"
  eGlob :: "string \<Rightarrow> event list \<Rightarrow> string list result"
  eOpen :: "string \<Rightarrow> event list \<Rightarrow> unit result"
  eReadFile :: "string \<Rightarrow> event list \<Rightarrow> string result"

record helm_env =
  eRegistryNewClient :: "(string \<times> string) option \<Rightarrow> event list \<Rightarrow> unit result"
  ePull :: "(string \<times> string) option \<Rightarrow> string \<Rightarrow> string \<Rightarrow> string \<Rightarrow> event list \<Rightarrow> unit result"
  eResolve :: "(string \<times> string) option \<Rightarrow> string \<Rightarrow> event list \<Rightarrow> string result"
  eExpand :: "string \<Rightarrow> string \<Rightarrow> event list \<Rightarrow> unit result"
  eLoadChartfile :: "string \<Rightarrow> event list \<Rightarrow> chartfile result"
  eDepBuild :: "(string \<times> string) option \<Rightarrow> string \<Rightarrow> event list \<Rightarrow> unit result"
  eLoadChart :: "string \<Rightarrow> event list \<Rightarrow> chart result"
  eInstall :: "chart \<Rightarrow> jobj \<Rightarrow> string \<Rightarrow> string \<Rightarrow> event list \<Rightarrow> string result"
  eKustomizeRun :: "string \<Rightarrow> event list \<Rightarrow> string result"
  eAsYaml :: "string \<Rightarrow> event list \<Rightarrow> string result"

record git_env =
  ePlainClone :: "string \<Rightarrow> string \<Rightarrow> string \<Rightarrow> (string \<times> string) option \<Rightarrow> event list \<Rightarrow> unit result"
  ePlainInit :: "string \<Rightarrow> event list \<Rightarrow> unit result"
  eCreateRemote :: "string \<Rightarrow> string \<Rightarrow> event list \<Rightarrow> unit result"
  eFetch :: "string \<Rightarrow> string list \<Rightarrow> (string \<times> string) option \<Rightarrow> event list \<Rightarrow> unit result"
  eWorktree :: "string \<Rightarrow> event list \<Rightarrow> unit result"
  eCheckout :: "string \<Rightarrow> string \<Rightarrow> event list \<Rightarrow> unit result"
  eListRemote :: "string \<Rightarrow> (string \<times> string) option \<Rightarrow> event list \<Rightarrow> (string \<times> string) list result"

text \<open>Everything the source package calls.\<close>

record src_env =
  se_api :: api_env
  se_fs :: fs_env
  se_helm :: helm_env
  se_git :: git_env
  se_cacheGet :: "string \<Rightarrow> event list \<Rightarrow> Manifest list option"

section \<open>Calls\<close>

definition time_Now :: "api_env \<Rightarrow> (event, time) io" where
  "time_Now E = call (eNow E) EvNow"

definition client_Get :: "api_env \<Rightarrow> client_id \<Rightarrow> gvk \<Rightarrow> string \<Rightarrow> string \<Rightarrow> (event, jobj result) io" where
  "client_Get E c g ns n = call (eGet E c g ns n) (EvGet c g ns n)"

text \<open>A forced server-side apply; on success the object becomes the server's response.\<close>

definition client_Patch :: "api_env \<Rightarrow> client_id \<Rightarrow> jobj \<Rightarrow> string \<Rightarrow> (event, jobj result) io" where
  "client_Patch E c u fieldOwner = call (ePatch E c u fieldOwner) (EvPatch c u fieldOwner)"

definition client_Delete :: "api_env \<Rightarrow> client_id \<Rightarrow> jobj \<Rightarrow> (event, unit result) io" where
  "client_Delete E c u = call (eDelete E c u) (EvDelete c u)"

definition get_CR :: "api_env \<Rightarrow> string \<Rightarrow> string \<Rightarrow> (event, DualDeploymentOperator result) io" where
  "get_CR E ns n = call (eGetCR E ns n) (EvGetCR ns n)"

definition update_CR ::
  "api_env \<Rightarrow> DualDeploymentOperator \<Rightarrow> (event, DualDeploymentOperator result) io" where
  "update_CR E cr = call (eUpdateCR E cr) (EvUpdateCR cr)"

definition status_Update ::
  "api_env \<Rightarrow> DualDeploymentOperator \<Rightarrow> (event, DualDeploymentOperator result) io" where
  "status_Update E cr = call (eStatusUpdate E cr) (EvStatusUpdate cr)"

definition get_Secret :: "api_env \<Rightarrow> string \<Rightarrow> string \<Rightarrow> (event, secret_data result) io" where
  "get_Secret E ns n = call (eGetSecret E ns n) (EvGetSecret ns n)"

definition new_Client :: "api_env \<Rightarrow> rest_config \<Rightarrow> (event, unit result) io" where
  "new_Client E rc = call (eNewClient E rc) (EvNewClient rc)"

text \<open>An event that is only reported: there is no response.\<close>

definition report :: "event \<Rightarrow> (event, unit) io" where
  "report ev = call (\<lambda>_. ()) (\<lambda>_. ev)"

lemmas api_calls = time_Now_def client_Get_def client_Patch_def client_Delete_def get_CR_def
  update_CR_def status_Update_def get_Secret_def new_Client_def report_def

text \<open>The calls of the source package are made through these three.\<close>

definition fs_call :: "src_env \<Rightarrow> (fs_env \<Rightarrow> event list \<Rightarrow> 'r) \<Rightarrow> ('r \<Rightarrow> fs_event) \<Rightarrow> (event, 'r) io" where
  "fs_call S f ev = call (f (se_fs S)) (\<lambda>r. EvFS (ev r))"

definition helm_call :: "src_env \<Rightarrow> (helm_env \<Rightarrow> event list \<Rightarrow> 'r) \<Rightarrow> ('r \<Rightarrow> helm_event) \<Rightarrow> (event, 'r) io" where
  "helm_call S f ev = call (f (se_helm S)) (\<lambda>r. EvHelm (ev r))"

definition git_call :: "src_env \<Rightarrow> (git_env \<Rightarrow> event list \<Rightarrow> 'r) \<Rightarrow> ('r \<Rightarrow> git_event) \<Rightarrow> (event, 'r) io" where
  "git_call S f ev = call (f (se_git S)) (\<lambda>r. EvGit (ev r))"

text \<open>
  Sequencing of calls with results: \<open>v, err := m; if err != nil { return err }\<close>.
\<close>

definition bind_io :: "(event, 'a result) io \<Rightarrow> ('a \<Rightarrow> (event, 'b result) io) \<Rightarrow> (event, 'b result) io" where
  "bind_io m f = do {
     r \<leftarrow> m;
     case r of Inl e \<Rightarrow> State_Monad.return (Inl e) | Inr a \<Rightarrow> f a
   }"

text \<open>The same with the error wrapped by \<open>fmt.Errorf("pre%wpost", err)\<close>.\<close>

definition wrap_io :: "string \<Rightarrow> string \<Rightarrow> (event, 'a result) io \<Rightarrow> (event, 'a result) io" where
  "wrap_io pre post m = do {
     r \<leftarrow> m;
     State_Monad.return (case r of Inl e \<Rightarrow> Inl (ErrWrap pre e post) | Inr a \<Rightarrow> Inr a)
   }"

lemma emits_bind_io [emits_intros]: "emits P m \<Longrightarrow> (\<And>a. emits P (f a)) \<Longrightarrow> emits P (bind_io m f)"
  unfolding bind_io_def by (intro emits_intros)

lemma emits_wrap_io [emits_intros]: "emits P m \<Longrightarrow> emits P (wrap_io pre post m)"
  unfolding wrap_io_def by (intro emits_intros)

lemma emits_fs_call [emits_intros]: "(\<And>r. P (EvFS (ev r))) \<Longrightarrow> emits P (fs_call S f ev)"
  unfolding fs_call_def by (rule emits_call)

lemma emits_helm_call [emits_intros]: "(\<And>r. P (EvHelm (ev r))) \<Longrightarrow> emits P (helm_call S f ev)"
  unfolding helm_call_def by (rule emits_call)

lemma emits_git_call [emits_intros]: "(\<And>r. P (EvGit (ev r))) \<Longrightarrow> emits P (git_call S f ev)"
  unfolding git_call_def by (rule emits_call)

lemma emits_report [emits_intros]: "P ev \<Longrightarrow> emits P (report ev)"
  unfolding report_def by (rule emits_call)

lemma emits_get_Secret [emits_intros]: "(\<And>r. P (EvGetSecret ns n r)) \<Longrightarrow> emits P (get_Secret E ns n)"
  unfolding get_Secret_def by (rule emits_call)

lemma yields_bind_io:
  assumes "yields R m" and "\<And>e s. R (Inl e) s \<Longrightarrow> Q (Inl e) s"
    and "\<And>a s. R (Inr a) s \<Longrightarrow> yields (\<lambda>y t. Q y (s @ t)) (f a)"
  shows "yields Q (bind_io m f)"
  unfolding bind_io_def
proof (rule yields_bind_wp [OF assms(1)])
  fix r s
  assume "R r s"
  then show "yields (\<lambda>y t. Q y (s @ t)) (case r of Inl e \<Rightarrow> State_Monad.return (Inl e) | Inr a \<Rightarrow> f a)"
    using assms(2,3) by (cases r) (auto intro: yields_return)
qed

lemma yields_wrap_io:
  assumes "yields R m" and "\<And>r s. R r s \<Longrightarrow> Q (case r of Inl e \<Rightarrow> Inl (ErrWrap pre e post) | Inr a \<Rightarrow> Inr a) s"
  shows "yields Q (wrap_io pre post m)"
  unfolding wrap_io_def using assms by (auto intro!: yields_bind_wp [OF assms(1)] yields_return)

lemma yields_fs_call: "(\<And>r. R r [EvFS (ev r)]) \<Longrightarrow> yields R (fs_call S f ev)"
  unfolding fs_call_def by (rule yields_call)

lemma yields_helm_call: "(\<And>r. R r [EvHelm (ev r)]) \<Longrightarrow> yields R (helm_call S f ev)"
  unfolding helm_call_def by (rule yields_call)

lemma yields_git_call: "(\<And>r. R r [EvGit (ev r)]) \<Longrightarrow> yields R (git_call S f ev)"
  unfolding git_call_def by (rule yields_call)

lemma yields_report: "R () [ev] \<Longrightarrow> yields R (report ev)"
  unfolding report_def by (rule yields_call) simp

lemma yields_report_bind:
  "yields (\<lambda>y t. Q y (ev # t)) (f ()) \<Longrightarrow> yields Q (State_Monad.bind (report ev) f)"
  unfolding report_def by (rule yields_call_bind) simp

end
