(* ===== verification/GoJson.thy ===== *)
theory GoJson
  imports JsonText
begin

text \<open>
  \<open>encoding/json.Unmarshal\<close> into a \<open>map[string]any\<close>: the grammar of RFC 8259, strings with their
  escapes decoded to UTF-8, numbers as float64, the last of several equal keys wins, at most
  10000 levels of nesting, \<open>null\<close> gives the nil map. Only whether decoding fails is modelled of a
  syntax error, not its text.
\<close>

section \<open>Strings\<close>

definition utf8_encode :: "nat \<Rightarrow> string" where
  "utf8_encode r =
     (if r < 128 then [char_of r]
      else if r < 2048 then [char_of (192 + r div 64), char_of (128 + r mod 64)]
      else if r < 65536 then
        [char_of (224 + r div 4096), char_of (128 + r div 64 mod 64), char_of (128 + r mod 64)]
      else
        [char_of (240 + r div 262144), char_of (128 + r div 4096 mod 64), char_of (128 + r div 64 mod 64),
         char_of (128 + r mod 64)])"

definition unhex :: "char \<Rightarrow> nat option" where
  "unhex c =
     (let n = byte_at c in
      if 48 \<le> n \<and> n \<le> 57 then Some (n - 48)
      else if 97 \<le> n \<and> n \<le> 102 then Some (n - 87)
      else if 65 \<le> n \<and> n \<le> 70 then Some (n - 55)
      else None)"

text \<open>Four hexadecimal digits.\<close>

definition hex4 :: "string \<Rightarrow> nat option" where
  "hex4 s =
     (case s of
        a # b # c # d # _ \<Rightarrow>
          (case (unhex a, unhex b, unhex c, unhex d) of
             (Some a, Some b, Some c, Some d) \<Rightarrow> Some (a * 4096 + b * 256 + c * 16 + d)
           | _ \<Rightarrow> None)
      | _ \<Rightarrow> None)"

text \<open>A character after a backslash other than \<open>u\<close>.\<close>

definition simple_escape :: "char \<Rightarrow> char option" where
  "simple_escape c =
     map_of [(CHR 0x22, CHR 0x22), (CHR 0x5C, CHR 0x5C), (CHR ''/'', CHR ''/''), (CHR ''b'', CHR 0x08),
       (CHR ''f'', CHR 0x0C), (CHR ''n'', CHR 0x0A), (CHR ''r'', CHR 0x0D), (CHR ''t'', CHR 0x09)] c"

text \<open>
  A \<open>\u\<close> escape, given what follows the \<open>u\<close>: the rune and the number of characters consumed. A
  surrogate half is combined with the escape after it, and is the replacement character when
  the two do not form a pair.
\<close>

definition unicode_escape :: "string \<Rightarrow> (nat \<times> nat) option" where
  "unicode_escape s =
     (case hex4 s of
        None \<Rightarrow> None
      | Some r \<Rightarrow>
          if \<not> (55296 \<le> r \<and> r < 57344) then Some (r, 4)
          else
            (case (take 2 (drop 4 s) = [CHR 0x5C, CHR ''u''], hex4 (drop 6 s)) of
               (True, Some r2) \<Rightarrow>
                 if r < 56320 \<and> 56320 \<le> r2 \<and> r2 < 57344
                 then Some ((r - 55296) * 1024 + (r2 - 56320) + 65536, 10)
                 else Some (rune_error, 4)
             | _ \<Rightarrow> Some (rune_error, 4)))"

text \<open>The rest of a string literal after its opening quote: the decoded text and what follows.\<close>

function string_tail :: "string \<Rightarrow> (string \<times> string) option" where
  "string_tail s =
     (case s of
        [] \<Rightarrow> None
      | c # s1 \<Rightarrow>
          if c = CHR 0x22 then Some ([], s1)
          else if c = CHR 0x5C then
            (case s1 of
               [] \<Rightarrow> None
             | x # s2 \<Rightarrow>
                 if x = CHR ''u'' then
                   (case unicode_escape s2 of
                      None \<Rightarrow> None
                    | Some (r, n) \<Rightarrow> map_option (\<lambda>(t, rest). (utf8_encode r @ t, rest)) (string_tail (drop n s2)))
                 else
                   (case simple_escape x of
                      None \<Rightarrow> None
                    | Some y \<Rightarrow> map_option (\<lambda>(t, rest). (y # t, rest)) (string_tail s2)))
          else if byte_at c < 32 then None
          else if byte_at c < 128 then map_option (\<lambda>(t, rest). (c # t, rest)) (string_tail s1)
          else
            map_option (\<lambda>(t, rest). (utf8_encode (fst (decode_rune s)) @ t, rest))
              (string_tail (drop (snd (decode_rune s)) s)))"
  by pat_completeness auto
termination
proof (relation "measure length", goal_cases)
  case (5 s c s1)
  then show ?case using decode_rune_pos [of "c # s1"] by simp
qed auto

declare string_tail.simps [simp del]

section \<open>Numbers\<close>

definition is_digit :: "char \<Rightarrow> bool" where
  "is_digit c \<longleftrightarrow> 48 \<le> byte_at c \<and> byte_at c \<le> 57"

definition digits_value :: "string \<Rightarrow> nat" where
  "digits_value ds = foldl (\<lambda>n c. n * 10 + (byte_at c - 48)) 0 ds"

text \<open>The fraction and the exponent of a number literal: digits, value, and what follows.\<close>

definition fraction_part :: "string \<Rightarrow> (string \<times> string) option" where
  "fraction_part s =
     (case s of
        c # s1 \<Rightarrow>
          if c = CHR ''.'' then
            (let ds = takeWhile is_digit s1 in if ds = [] then None else Some (ds, dropWhile is_digit s1))
          else Some ([], s)
      | [] \<Rightarrow> Some ([], s))"

definition exponent_part :: "string \<Rightarrow> (int \<times> string) option" where
  "exponent_part s =
     (case s of
        c # s1 \<Rightarrow>
          if c = CHR ''e'' \<or> c = CHR ''E'' then
            (let signed = (s1 \<noteq> [] \<and> (hd s1 = CHR ''+'' \<or> hd s1 = CHR ''-''));
                 s2 = (if signed then tl s1 else s1);
                 ds = takeWhile is_digit s2;
                 v = int (digits_value ds)
             in if ds = [] then None
                else Some (if signed \<and> hd s1 = CHR ''-'' then - v else v, dropWhile is_digit s2))
          else Some (0, s)
      | [] \<Rightarrow> Some (0, s))"

text \<open>A number literal: sign, decimal significand, decimal exponent, and what follows.\<close>

definition number_literal :: "string \<Rightarrow> ((bool \<times> nat \<times> int) \<times> string) option" where
  "number_literal s =
     (let neg = (s \<noteq> [] \<and> hd s = CHR ''-''); s1 = (if neg then tl s else s);
          ds = (if s1 \<noteq> [] \<and> hd s1 = CHR ''0'' then ''0'' else takeWhile is_digit s1)
      in if ds = [] then None
         else
           (case fraction_part (drop (length ds) s1) of
              None \<Rightarrow> None
            | Some (fs, s2) \<Rightarrow>
                (case exponent_part s2 of
                   None \<Rightarrow> None
                 | Some (x, rest) \<Rightarrow> Some ((neg, digits_value (ds @ fs), x - int (length fs)), rest))))"

text \<open>
  The float64 nearest to \<open>m * 10 ^ e\<close> (ties to even), as \<open>q * 2 ^ x\<close> with \<open>q < 2 ^ 53\<close> and
  \<open>- 1074 \<le> x\<close>; \<open>None\<close> on overflow.
\<close>

fun bit_length :: "nat \<Rightarrow> nat" where
  "bit_length n = (if n = 0 then 0 else Suc (bit_length (n div 2)))"

declare bit_length.simps [simp del]

definition round_div :: "nat \<Rightarrow> nat \<Rightarrow> nat" where
  "round_div a b =
     (let q = a div b; r = a mod b in
      if 2 * r < b \<or> 2 * r = b \<and> even q then q else Suc q)"

definition scaled_div :: "nat \<Rightarrow> nat \<Rightarrow> int \<Rightarrow> nat" where
  "scaled_div num den x =
     (if 0 \<le> x then round_div num (den * 2 ^ nat x) else round_div (num * 2 ^ nat (- x)) den)"

definition nearest_float :: "nat \<Rightarrow> int \<Rightarrow> (nat \<times> int) option" where
  "nearest_float m e =
     (let num = m * 10 ^ nat e; den = 10 ^ nat (- e);
          est = int (bit_length num) - int (bit_length den) - 54;
          x0 = max est (- 1074);
          x = (case List.find (\<lambda>x. scaled_div num den x < 2 ^ 53) [x0, x0 + 1, x0 + 2, x0 + 3] of
                 None \<Rightarrow> x0 | Some x \<Rightarrow> x);
          q = scaled_div num den x
      in if m = 0 then Some (0, 0)
         else if 971 < x then None else Some (q, x))"

text \<open>The shortest decimal \<open>m * 10 ^ e\<close> that is read back as the same float64.\<close>

definition decimal_candidates :: "nat \<Rightarrow> int \<Rightarrow> int \<Rightarrow> nat list" where
  "decimal_candidates q x e =
     (let num = q * 2 ^ nat x * 10 ^ nat (- e); den = 2 ^ nat (- x) * 10 ^ nat e;
          lo = num div den
      in if 2 * (num mod den) \<le> den then [lo, Suc lo] else [Suc lo, lo])"

definition decimal_exponent :: "nat \<Rightarrow> int \<Rightarrow> int" where
  "decimal_exponent q x =
     (if 0 \<le> x then int (length (show_nat (q * 2 ^ nat x)))
      else int (length (show_nat (q * 10 ^ nat (- x) div 2 ^ nat (- x)))) + x)"

fun strip_zeros :: "nat \<Rightarrow> int \<Rightarrow> nat \<times> int" where
  "strip_zeros m e = (if m = 0 \<or> m mod 10 \<noteq> 0 then (m, e) else strip_zeros (m div 10) (e + 1))"

declare strip_zeros.simps [simp del]

definition shortest_decimal :: "nat \<Rightarrow> int \<Rightarrow> nat \<times> int" where
  "shortest_decimal q x =
     (let cands =
        concat (map (\<lambda>d. map (\<lambda>c. (c, decimal_exponent q x - int d))
          (decimal_candidates q x (decimal_exponent q x - int d))) [1..<18])
      in case List.find (\<lambda>(c, e). nearest_float c e = Some (q, x)) cands of
           None \<Rightarrow> (q, 0)
         | Some (c, e) \<Rightarrow> strip_zeros c e)"

text \<open>
  The decoded number. Negative zero is \<open>JFloat 0 (- 1)\<close>, which is written as \<open>-0\<close>.
\<close>

definition json_number :: "bool \<times> nat \<times> int \<Rightarrow> jval option" where
  "json_number lit =
     (let (neg, m, e) = lit in
      case nearest_float m e of
        None \<Rightarrow> None
      | Some (q, x) \<Rightarrow>
          if q = 0 then Some (JFloat 0 (if neg then - 1 else 0))
          else (let (c, e') = shortest_decimal q x in Some (JFloat (if neg then - int c else int c) e')))"

section \<open>Values\<close>

definition skip_space :: "string \<Rightarrow> string" where
  "skip_space s = dropWhile (\<lambda>c. c \<in> set [CHR '' '', CHR 0x09, CHR 0x0A, CHR 0x0D]) s"

text \<open>The text after an expected character, white space skipped on both sides.\<close>

definition expect :: "char \<Rightarrow> string \<Rightarrow> string option" where
  "expect c s =
     (case skip_space s of [] \<Rightarrow> None | x # s' \<Rightarrow> if x = c then Some (skip_space s') else None)"

text \<open>
  \<open>depth\<close> is the number of levels still allowed. The loops over elements and members run at most
  once per remaining character, which is what their second argument counts.
\<close>

function (sequential)
      json_value :: "nat \<Rightarrow> string \<Rightarrow> (jval \<times> string) option"
  and json_elements :: "nat \<Rightarrow> nat \<Rightarrow> string \<Rightarrow> (jval list \<times> string) option"
  and json_members :: "nat \<Rightarrow> nat \<Rightarrow> string \<Rightarrow> (jobj \<times> string) option" where
  "json_value depth s =
     (case skip_space s of
        [] \<Rightarrow> None
      | c # s1 \<Rightarrow>
          if c = CHR ''{'' then
            (if depth = 0 then None
             else
               (case expect (CHR ''}'') s1 of
                  Some rest \<Rightarrow> Some (JObj [], rest)
                | None \<Rightarrow>
                    map_option (\<lambda>(m, rest). (JObj m, rest)) (json_members (depth - 1) (length s1) s1)))
          else if c = CHR ''['' then
            (if depth = 0 then None
             else
               (case expect (CHR '']'') s1 of
                  Some rest \<Rightarrow> Some (JArr [], rest)
                | None \<Rightarrow>
                    map_option (\<lambda>(xs, rest). (JArr xs, rest)) (json_elements (depth - 1) (length s1) s1)))
          else if c = CHR 0x22 then map_option (\<lambda>(t, rest). (JStr t, rest)) (string_tail s1)
          else if strings_HasPrefix (c # s1) ''true'' then Some (JBool True, drop 3 s1)
          else if strings_HasPrefix (c # s1) ''false'' then Some (JBool False, drop 4 s1)
          else if strings_HasPrefix (c # s1) ''null'' then Some (JNull, drop 3 s1)
          else
            (case number_literal (c # s1) of
               None \<Rightarrow> None
             | Some (lit, rest) \<Rightarrow> map_option (\<lambda>v. (v, rest)) (json_number lit)))"
| "json_elements depth 0 s = None"
| "json_elements depth (Suc n) s =
     (case json_value depth s of
        None \<Rightarrow> None
      | Some (v, s1) \<Rightarrow>
          (case expect (CHR '','') s1 of
             Some s2 \<Rightarrow> map_option (\<lambda>(vs, rest). (v # vs, rest)) (json_elements depth n s2)
           | None \<Rightarrow> map_option (\<lambda>rest. ([v], rest)) (expect (CHR '']'') s1)))"
| "json_members depth 0 s = None"
| "json_members depth (Suc n) s =
     (case expect (CHR 0x22) s of
        None \<Rightarrow> None
      | Some _ \<Rightarrow>
          (case string_tail (tl (skip_space s)) of
             None \<Rightarrow> None
           | Some (k, s1) \<Rightarrow>
               (case expect (CHR '':'') s1 of
                  None \<Rightarrow> None
                | Some s2 \<Rightarrow>
                    (case json_value depth s2 of
                       None \<Rightarrow> None
                     | Some (v, s3) \<Rightarrow>
                         (case expect (CHR '','') s3 of
                            Some s4 \<Rightarrow>
                              map_option (\<lambda>(m, rest). (if map_of m k = None then (k, v) # m else m, rest))
                                (json_members depth n s4)
                          | None \<Rightarrow> map_option (\<lambda>rest. ([(k, v)], rest)) (expect (CHR ''}'') s3))))))"
  by pat_completeness auto
termination
  by (relation "inv_image (less_than <*lex*> less_than)
       (\<lambda>x. case x of Inl (d, s) \<Rightarrow> (d, 0)
          | Inr (Inl (d, n, s)) \<Rightarrow> (d, n) | Inr (Inr (d, n, s)) \<Rightarrow> (d, n))") auto

declare json_value.simps [simp del] json_elements.simps [simp del] json_members.simps [simp del]

definition json_error :: go_error where
  "json_error = ErrLib ''json'' ''invalid JSON''"

text \<open>\<open>json.Unmarshal(raw, &m)\<close> for \<open>m\<close> a map: \<open>None\<close> is the nil map that \<open>null\<close> leaves.\<close>

definition json_Unmarshal_map :: "string \<Rightarrow> jobj option result" where
  "json_Unmarshal_map raw =
     (case json_value 10000 raw of
        None \<Rightarrow> Inl json_error
      | Some (v, rest) \<Rightarrow>
          if skip_space rest \<noteq> [] then Inl json_error
          else (case v of JObj m \<Rightarrow> Inr (Some m) | JNull \<Rightarrow> Inr None | _ \<Rightarrow> Inl json_error))"

end
