(* ===== verification/GoUrl.thy ===== *)
theory GoUrl
  imports Unstructured GoJson
begin

text \<open>
  \<open>net/url\<close> (Go 1.26) as far as the source package uses it: \<open>Parse\<close>, \<open>Query().Get\<close> and \<open>String\<close>,
  with percent-encoding, user information, IP literals and ports; and \<open>path/filepath.Join\<close>. Of
  the errors of \<open>net/netip\<close> only their presence is modelled.
\<close>

section \<open>Cutting strings\<close>

definition cut_char :: "char \<Rightarrow> string \<Rightarrow> string \<times> string \<times> bool" where
  "cut_char c s =
     (takeWhile (\<lambda>x. x \<noteq> c) s, tl (dropWhile (\<lambda>x. x \<noteq> c) s), c \<in> set s)"

text \<open>\<open>strings.Cut\<close> with any separator, and \<open>strings.Replace(s, old, new, 1)\<close>.\<close>

fun strings_Cut :: "string \<Rightarrow> string \<Rightarrow> string \<times> string \<times> bool" where
  "strings_Cut sep s =
     (if strings_HasPrefix s sep then ([], drop (length sep) s, True)
      else
        (case s of
           [] \<Rightarrow> ([], [], False)
         | c # s' \<Rightarrow> (case strings_Cut sep s' of (a, b, found) \<Rightarrow> (c # a, b, found))))"

declare strings_Cut.simps [simp del]

definition strings_Replace1 :: "string \<Rightarrow> string \<Rightarrow> string \<Rightarrow> string" where
  "strings_Replace1 s old new =
     (case strings_Cut old s of (a, b, found) \<Rightarrow> if found then a @ new @ b else s)"

definition strings_Trim :: "string \<Rightarrow> char \<Rightarrow> string" where
  "strings_Trim s c = rev (dropWhile (\<lambda>x. x = c) (rev (dropWhile (\<lambda>x. x = c) s)))"

text \<open>The part before and after the last occurrence of a character.\<close>

definition cut_last :: "char \<Rightarrow> string \<Rightarrow> (string \<times> string) option" where
  "cut_last c s =
     (if c \<in> set s
      then Some (rev (tl (dropWhile (\<lambda>x. x \<noteq> c) (rev s))), rev (takeWhile (\<lambda>x. x \<noteq> c) (rev s)))
      else None)"

section \<open>Percent-encoding\<close>

datatype encoding =
  EncodePath | EncodeUserPassword | EncodeHost | EncodeZone | EncodeQueryComponent | EncodeFragment

definition is_alnum :: "char \<Rightarrow> bool" where
  "is_alnum c \<longleftrightarrow>
     (let n = byte_at c in 97 \<le> n \<and> n \<le> 122 \<or> 65 \<le> n \<and> n \<le> 90 \<or> 48 \<le> n \<and> n \<le> 57)"

definition shouldEscape :: "char \<Rightarrow> encoding \<Rightarrow> bool" where
  "shouldEscape c mode =
     (if is_alnum c then False
      else if mode \<in> {EncodeHost, EncodeZone} \<and>
        c \<in> set (''!$&()*+,;=:[]<>'' @ [CHR 0x27, CHR 0x22]) then False
      else if c \<in> set ''-_.~'' then False
      else if c \<in> set ''$&+,/:;=?@'' then
        (case mode of
           EncodePath \<Rightarrow> c = CHR ''?''
         | EncodeUserPassword \<Rightarrow> c \<in> set ''@/?:''
         | EncodeQueryComponent \<Rightarrow> True
         | EncodeFragment \<Rightarrow> False
         | _ \<Rightarrow> True)
      else if mode = EncodeFragment \<and> c \<in> set ''!()*'' then False
      else True)"

definition upper_hex :: "nat \<Rightarrow> char" where
  "upper_hex d = (if d < 10 then char_of (48 + d) else char_of (55 + d))"

definition url_escape :: "encoding \<Rightarrow> string \<Rightarrow> string" where
  "url_escape mode s =
     concat (map (\<lambda>c.
       if shouldEscape c mode then
         (if c = CHR '' '' \<and> mode = EncodeQueryComponent then ''+''
          else [CHR ''%'', upper_hex (byte_at c div 16), upper_hex (byte_at c mod 16)])
       else [c]) s)"

definition escape_error :: "string \<Rightarrow> go_error" where
  "escape_error s = ErrNew (''invalid URL escape '' @ strconv_Quote (take 3 s))"

fun url_unescape :: "encoding \<Rightarrow> string \<Rightarrow> string result" where
  "url_unescape mode [] = Inr []"
| "url_unescape mode (c # s) =
     (if c = CHR ''%'' then
        (case s of
           a # b # s' \<Rightarrow>
             (case (unhex a, unhex b) of
                (Some x, Some y) \<Rightarrow>
                  if mode = EncodeHost \<and> x < 8 \<and> [a, b] \<noteq> ''25'' then Inl (escape_error (c # s))
                  else if mode = EncodeZone \<and> [a, b] \<noteq> ''25'' \<and> x * 16 + y \<noteq> 32 \<and>
                    shouldEscape (char_of (x * 16 + y)) EncodeHost then Inl (escape_error (c # s))
                  else bind_res (url_unescape mode s') (\<lambda>t. Inr (char_of (x * 16 + y) # t))
              | _ \<Rightarrow> Inl (escape_error (c # s)))
         | _ \<Rightarrow> Inl (escape_error (c # s)))
      else if c = CHR ''+'' \<and> mode = EncodeQueryComponent then
        bind_res (url_unescape mode s) (\<lambda>t. Inr (CHR '' '' # t))
      else if mode \<in> {EncodeHost, EncodeZone} \<and> byte_at c < 128 \<and> shouldEscape c mode then
        Inl (ErrNew (''invalid character '' @ strconv_Quote [c] @ '' in host name''))
      else bind_res (url_unescape mode s) (\<lambda>t. Inr (c # t)))"

definition validEncoded :: "string \<Rightarrow> encoding \<Rightarrow> bool" where
  "validEncoded s mode =
     list_all (\<lambda>c. c \<in> set (''!$&()*+,;=:@[]%'' @ [CHR 0x27]) \<or> \<not> shouldEscape c mode) s"

section \<open>IP literals\<close>

text \<open>
  \<open>netip.ParseAddr\<close> on the text between brackets, which must be an IPv6 address: fields of one to
  four hexadecimal digits, at most one ellipsis for at least one field, an IPv4 tail, a zone.
\<close>

fun ipv4_fields :: "nat \<Rightarrow> string \<Rightarrow> bool" where
  "ipv4_fields n s =
     (let ds = takeWhile is_digit s; rest = dropWhile is_digit s in
      ds \<noteq> [] \<and> (length ds > 1 \<longrightarrow> hd ds \<noteq> CHR ''0'') \<and> digits_value ds \<le> 255 \<and>
      (case (n, rest) of
         (0, []) \<Rightarrow> True
       | (Suc n', c # rest') \<Rightarrow> c = CHR ''.'' \<and> ipv4_fields n' rest'
       | _ \<Rightarrow> False))"

declare ipv4_fields.simps [simp del]

text \<open>\<open>i\<close> bytes are filled; \<open>ell\<close> says whether the ellipsis has been seen; \<open>n\<close> bounds the fields.\<close>

fun ipv6_fields :: "nat \<Rightarrow> nat \<Rightarrow> bool \<Rightarrow> string \<Rightarrow> bool" where
  "ipv6_fields 0 i ell s = False"
| "ipv6_fields (Suc n) i ell s =
     (let hs = takeWhile (\<lambda>c. unhex c \<noteq> None) s; rest = dropWhile (\<lambda>c. unhex c \<noteq> None) s in
      if 16 \<le> i \<or> hs = [] \<or> 4 < length hs then False
      else if rest \<noteq> [] \<and> hd rest = CHR ''.'' then
        (ell \<or> i = 12) \<and> i + 4 \<le> 16 \<and> ipv4_fields 3 s \<and> (if i + 4 < 16 then ell else \<not> ell)
      else
        (case rest of
           [] \<Rightarrow> (if i + 2 < 16 then ell else \<not> ell)
         | c # rest' \<Rightarrow>
             c = CHR '':'' \<and> rest' \<noteq> [] \<and>
             (if hd rest' = CHR '':'' then
                \<not> ell \<and> (if tl rest' = [] then i + 2 < 16 else ipv6_fields n (i + 2) True (tl rest'))
              else ipv6_fields n (i + 2) ell rest')))"

definition valid_ipv6 :: "string \<Rightarrow> bool" where
  "valid_ipv6 s =
     (case cut_char (CHR ''%'') s of
        (addr, zone, zoned) \<Rightarrow>
          (zoned \<longrightarrow> zone \<noteq> []) \<and> CHR '':'' \<in> set addr \<and> CHR ''.'' \<notin> set (takeWhile (\<lambda>c. c \<noteq> CHR '':'') addr) \<and>
          (if strings_HasPrefix addr ''::''
           then (if drop 2 addr = [] then True else ipv6_fields 9 0 True (drop 2 addr))
           else ipv6_fields 9 0 False addr))"

section \<open>Hosts and user information\<close>

definition validOptionalPort :: "string \<Rightarrow> bool" where
  "validOptionalPort port =
     (case port of [] \<Rightarrow> True | c # ds \<Rightarrow> c = CHR '':'' \<and> list_all is_digit ds)"

definition port_error :: "string \<Rightarrow> go_error" where
  "port_error port = ErrNew (''invalid port '' @ strconv_Quote port @ '' after host'')"

definition parse_ip_literal :: "string \<Rightarrow> string \<Rightarrow> string result" where
  "parse_ip_literal hostname colonPort =
     (if \<not> validOptionalPort colonPort then Inl (port_error colonPort)
      else
        bind_res (url_unescape EncodeHost colonPort) (\<lambda>port.
        bind_res
          (case strings_Cut ''%25'' hostname of (addr, zone, zoned) \<Rightarrow>
             if zoned then
               bind_res (url_unescape EncodeHost addr) (\<lambda>a.
               bind_res (url_unescape EncodeZone (''%25'' @ zone)) (\<lambda>z. Inr (a @ z)))
             else url_unescape EncodeHost hostname) (\<lambda>host.
        if valid_ipv6 host then Inr (''['' @ host @ '']'' @ port)
        else Inl (ErrLib ''netip'' ''invalid host''))))"

definition parseHost :: "string \<Rightarrow> string result" where
  "parseHost host =
     (case cut_last (CHR ''['') host of
        Some (outer, _) \<Rightarrow>
          (case cut_last (CHR '']'') host of
             None \<Rightarrow> Inl (ErrNew ''missing ] in host'')
           | Some (inner, colonPort) \<Rightarrow> parse_ip_literal (drop (Suc (length outer)) inner) colonPort)
      | None \<Rightarrow>
          (case cut_char (CHR '':'') host of (h, port, found) \<Rightarrow>
             if found \<and> \<not> validOptionalPort ('':'' @ port) then Inl (port_error ('':'' @ port))
             else url_unescape EncodeHost host))"

definition validUserinfo :: "string \<Rightarrow> bool" where
  "validUserinfo s = list_all (\<lambda>c. is_alnum c \<or> c \<in> set (''-._:~!$&()*+,;=%@'' @ [CHR 0x27])) s"

type_synonym userinfo = "string \<times> string option"

definition parseAuthority :: "string \<Rightarrow> (userinfo option \<times> string) result" where
  "parseAuthority authority =
     (case cut_last (CHR ''@'') authority of
        None \<Rightarrow> bind_res (parseHost authority) (\<lambda>host. Inr (None, host))
      | Some (userinfo, h) \<Rightarrow>
          bind_res (parseHost h) (\<lambda>host.
          if \<not> validUserinfo userinfo then Inl (ErrNew ''net/url: invalid userinfo'')
          else
            (case cut_char (CHR '':'') userinfo of (name, pass, found) \<Rightarrow>
               bind_res (url_unescape EncodeUserPassword name) (\<lambda>n.
               if \<not> found then Inr (Some (n, None), host)
               else bind_res (url_unescape EncodeUserPassword pass) (\<lambda>p. Inr (Some (n, Some p), host))))))"

section \<open>URLs\<close>

record url =
  u_Scheme :: string
  u_Opaque :: string
  u_User :: "userinfo option"
  u_Host :: string
  u_Path :: string
  u_RawPath :: string
  u_OmitHost :: bool
  u_ForceQuery :: bool
  u_RawQuery :: string
  u_Fragment :: string
  u_RawFragment :: string

definition empty_url :: url where
  "empty_url =
     \<lparr>u_Scheme = [], u_Opaque = [], u_User = None, u_Host = [], u_Path = [], u_RawPath = [], u_OmitHost = False,
      u_ForceQuery = False, u_RawQuery = [], u_Fragment = [], u_RawFragment = []\<rparr>"

definition to_lower :: "char \<Rightarrow> char" where
  "to_lower c = (let n = byte_at c in if 65 \<le> n \<and> n \<le> 90 then char_of (n + 32) else c)"

definition is_alpha :: "char \<Rightarrow> bool" where
  "is_alpha c \<longleftrightarrow> (let n = byte_at c in 97 \<le> n \<and> n \<le> 122 \<or> 65 \<le> n \<and> n \<le> 90)"

definition getScheme :: "string \<Rightarrow> (string \<times> string) result" where
  "getScheme raw =
     (let scheme = takeWhile (\<lambda>c. is_alnum c \<or> c \<in> set ''+-.'') raw; rest = drop (length scheme) raw in
      if rest = [] \<or> hd rest \<noteq> CHR '':'' then Inr ([], raw)
      else if scheme = [] then Inl (ErrNew ''missing protocol scheme'')
      else if \<not> is_alpha (hd scheme) then Inr ([], raw)
      else Inr (scheme, tl rest))"

definition setPath :: "url \<Rightarrow> string \<Rightarrow> url result" where
  "setPath u p =
     bind_res (url_unescape EncodePath p) (\<lambda>path.
       Inr (u\<lparr>u_Path := path, u_RawPath := (if p = url_escape EncodePath path then [] else p)\<rparr>))"

definition split_query :: "url \<Rightarrow> string \<Rightarrow> url \<times> string" where
  "split_query u rest =
     (if strings_HasSuffix rest ''?'' \<and> count_list rest (CHR ''?'') = 1
      then (u\<lparr>u_ForceQuery := True\<rparr>, butlast rest)
      else (case cut_char (CHR ''?'') rest of (a, q, found) \<Rightarrow> (u\<lparr>u_RawQuery := q\<rparr>, a)))"

definition parse_hier :: "url \<Rightarrow> string \<Rightarrow> url result" where
  "parse_hier u rest =
     (if \<not> strings_HasPrefix rest ''/'' \<and> u_Scheme u \<noteq> [] then Inr (u\<lparr>u_Opaque := rest\<rparr>)
      else if \<not> strings_HasPrefix rest ''/'' \<and> CHR '':'' \<in> set (takeWhile (\<lambda>c. c \<noteq> CHR ''/'') rest) then
        Inl (ErrNew ''first path segment in URL cannot contain colon'')
      else if (u_Scheme u \<noteq> [] \<or> \<not> strings_HasPrefix rest ''///'') \<and> strings_HasPrefix rest ''//'' then
        (let authority = takeWhile (\<lambda>c. c \<noteq> CHR ''/'') (drop 2 rest) in
         bind_res (parseAuthority authority) (\<lambda>(user, host).
         setPath (u\<lparr>u_User := user, u_Host := host\<rparr>) (drop (2 + length authority) rest)))
      else if u_Scheme u \<noteq> [] \<and> strings_HasPrefix rest ''/'' then setPath (u\<lparr>u_OmitHost := True\<rparr>) rest
      else setPath u rest)"

definition parse_url :: "string \<Rightarrow> url result" where
  "parse_url raw =
     (if list_ex (\<lambda>c. byte_at c < 32 \<or> byte_at c = 127) raw then
        Inl (ErrNew ''net/url: invalid control character in URL'')
      else if raw = ''*'' then Inr (empty_url\<lparr>u_Path := ''*''\<rparr>)
      else
        bind_res (getScheme raw) (\<lambda>(scheme, rest).
          (case split_query (empty_url\<lparr>u_Scheme := map to_lower scheme\<rparr>) rest of
             (u, rest') \<Rightarrow> parse_hier u rest')))"

definition parse_error :: "string \<Rightarrow> go_error \<Rightarrow> go_error" where
  "parse_error raw e = ErrWrap (''parse '' @ strconv_Quote raw @ '': '') e []"

definition url_Parse :: "string \<Rightarrow> url result" where
  "url_Parse rawURL =
     (case cut_char (CHR ''#'') rawURL of (raw, frag, found) \<Rightarrow>
        (case parse_url raw of
           Inl e \<Rightarrow> Inl (parse_error raw e)
         | Inr u \<Rightarrow>
             if frag = [] then Inr u
             else
               (case url_unescape EncodeFragment frag of
                  Inl e \<Rightarrow> Inl (parse_error rawURL e)
                | Inr f \<Rightarrow>
                    Inr (u\<lparr>u_Fragment := f,
                           u_RawFragment := (if frag = url_escape EncodeFragment f then [] else frag)\<rparr>))))"

section \<open>Query and text form\<close>

fun split_on :: "char \<Rightarrow> string \<Rightarrow> string list" where
  "split_on c [] = [[]]"
| "split_on c (x # s) =
     (if x = c then [] # split_on c s
      else (case split_on c s of [] \<Rightarrow> [[x]] | w # ws \<Rightarrow> (x # w) # ws))"

text \<open>\<open>u.Query().Get(key)\<close>: malformed pairs are dropped, the first value of the key is returned.\<close>

definition query_pair :: "string \<Rightarrow> (string \<times> string) option" where
  "query_pair p =
     (if CHR '';'' \<in> set p \<or> p = [] then None
      else
        (case cut_char (CHR ''='') p of (k, v, found) \<Rightarrow>
           (case (url_unescape EncodeQueryComponent k, url_unescape EncodeQueryComponent v) of
              (Inr k', Inr v') \<Rightarrow> Some (k', v')
            | _ \<Rightarrow> None)))"

definition query_Get :: "url \<Rightarrow> string \<Rightarrow> string" where
  "query_Get u key =
     (case map_of (List.map_filter query_pair (split_on (CHR ''&'') (u_RawQuery u))) key of
        None \<Rightarrow> [] | Some v \<Rightarrow> v)"

definition EscapedPath :: "url \<Rightarrow> string" where
  "EscapedPath u =
     (if u_RawPath u \<noteq> [] \<and> validEncoded (u_RawPath u) EncodePath \<and>
         url_unescape EncodePath (u_RawPath u) = Inr (u_Path u) then u_RawPath u
      else if u_Path u = ''*'' then ''*''
      else url_escape EncodePath (u_Path u))"

definition EscapedFragment :: "url \<Rightarrow> string" where
  "EscapedFragment u =
     (if u_RawFragment u \<noteq> [] \<and> validEncoded (u_RawFragment u) EncodeFragment \<and>
         url_unescape EncodeFragment (u_RawFragment u) = Inr (u_Fragment u) then u_RawFragment u
      else url_escape EncodeFragment (u_Fragment u))"

definition userinfo_string :: "userinfo \<Rightarrow> string" where
  "userinfo_string ui =
     url_escape EncodeUserPassword (fst ui) @
     (case snd ui of None \<Rightarrow> [] | Some p \<Rightarrow> '':'' @ url_escape EncodeUserPassword p)"

definition url_String :: "url \<Rightarrow> string" where
  "url_String u =
     (let scheme = (if u_Scheme u \<noteq> [] then u_Scheme u @ '':'' else []);
          authority =
            (if (u_Scheme u \<noteq> [] \<or> u_Host u \<noteq> [] \<or> u_User u \<noteq> None) \<and>
                \<not> (u_OmitHost u \<and> u_Host u = [] \<and> u_User u = None) then
               (if u_Host u \<noteq> [] \<or> u_Path u \<noteq> [] \<or> u_User u \<noteq> None then ''//'' else []) @
               (case u_User u of None \<Rightarrow> [] | Some ui \<Rightarrow> userinfo_string ui @ ''@'') @
               url_escape EncodeHost (u_Host u)
             else []);
          path = EscapedPath u;
          slash = (if path \<noteq> [] \<and> hd path \<noteq> CHR ''/'' \<and> u_Host u \<noteq> [] then ''/'' else []);
          dot = (if scheme @ authority @ slash = [] \<and> CHR '':'' \<in> set (takeWhile (\<lambda>c. c \<noteq> CHR ''/'') path)
                 then ''./'' else []);
          hier = (if u_Opaque u \<noteq> [] then u_Opaque u else authority @ slash @ dot @ path)
      in scheme @ hier @ (if u_ForceQuery u \<or> u_RawQuery u \<noteq> [] then ''?'' @ u_RawQuery u else []) @
         (if u_Fragment u \<noteq> [] then ''#'' @ EscapedFragment u else []))"

section \<open>File paths\<close>

text \<open>\<open>filepath.Clean\<close>: the segments kept so far are on a stack, newest first.\<close>

fun clean_segments :: "bool \<Rightarrow> string list \<Rightarrow> string list \<Rightarrow> string list" where
  "clean_segments rooted stack [] = rev stack"
| "clean_segments rooted stack (w # ws) =
     (if w = [] \<or> w = ''.'' then clean_segments rooted stack ws
      else if w = ''..'' then
        (case stack of
           [] \<Rightarrow> clean_segments rooted (if rooted then [] else [w]) ws
         | w1 # rest \<Rightarrow> clean_segments rooted (if w1 = ''..'' then w # stack else rest) ws)
      else clean_segments rooted (w # stack) ws)"

definition filepath_Clean :: "string \<Rightarrow> string" where
  "filepath_Clean path =
     (let rooted = strings_HasPrefix path ''/'';
          body = strings_Join (clean_segments rooted [] (split_on (CHR ''/'') path)) ''/''
      in if rooted then ''/'' @ body else if body = [] then ''.'' else body)"

definition filepath_Join :: "string list \<Rightarrow> string" where
  "filepath_Join elems =
     (case dropWhile (\<lambda>e. e = []) elems of [] \<Rightarrow> [] | es \<Rightarrow> filepath_Clean (strings_Join es ''/''))"

end
