(* ===== verification/Fetch.thy ===== *)
theory Fetch
  imports World GoUrl
begin

text \<open>
  The fetchers of \<open>internal/source\<close>: credentials (credentials.go), the git resolver of kustomize
  roots (gitresolver.go) and the OCI chart loader (helmloader.go). A closure over a credential
  resolver is the pair it closes over; a \<open>cleanup\<close> function is the directory it removes.
  Library functions without effects are the fields of \<open>srclib\<close>.
\<close>

record srclib =
  CoalesceTables :: "jobj option \<Rightarrow> jobj \<Rightarrow> jobj"
  IsOCI :: "string \<Rightarrow> bool"
  NewTagReferenceName :: "string \<Rightarrow> string"
  NewBranchReferenceName :: "string \<Rightarrow> string"
  NewHash :: "string \<Rightarrow> string"
  DecodeYAML :: "string \<Rightarrow> jobj result list"

section \<open>Credentials (credentials.go)\<close>

definition anonymous :: creds where
  "anonymous = \<lparr>creds_user = [], creds_pass = [], creds_ok = False\<rparr>"

definition credsFromSecretData :: "secret_data \<Rightarrow> creds" where
  "credsFromSecretData data =
     (let user = map_get data ''username''; pass = map_get data ''password''; tok = map_get data ''token'';
          user' = (if tok \<noteq> [] \<and> user = [] then ''git'' else user);
          pass' = (if tok \<noteq> [] then tok else pass)
      in \<lparr>creds_user = user', creds_pass = pass', creds_ok = (pass' \<noteq> [])\<rparr>)"

record CredentialResolver =
  res_Namespace :: string

definition CredentialResolver_Resolve ::
  "api_env \<Rightarrow> CredentialResolver \<Rightarrow> SecretReference option \<Rightarrow> (event, creds result) io" where
  "CredentialResolver_Resolve E r ref =
     (case ref of
        None \<Rightarrow> State_Monad.return (Inr anonymous)
      | Some rf \<Rightarrow>
          if ref_Name rf = [] then State_Monad.return (Inr anonymous)
          else bind_io (get_Secret E (res_Namespace r) (ref_Name rf))
            (\<lambda>data. State_Monad.return (Inr (credsFromSecretData data))))"

text \<open>The closure \<open>resolve\<close> of a loader: nil, or a resolver bound to a secret reference.\<close>

type_synonym resolve_closure = "(CredentialResolver \<times> SecretReference option) option"

section \<open>The git resolver (gitresolver.go)\<close>

record gitResolver =
  gr_resolve :: resolve_closure

definition shaRe :: "string \<Rightarrow> bool" where
  "shaRe s \<longleftrightarrow>
     7 \<le> length s \<and> length s \<le> 40 \<and>
     list_all (\<lambda>c. is_digit c \<or> 97 \<le> byte_at c \<and> byte_at c \<le> 102) s"

definition hostOf :: "string \<Rightarrow> string" where
  "hostOf raw =
     (case url_Parse raw of Inl e \<Rightarrow> raw | Inr u \<Rightarrow> if u_Host u \<noteq> [] then u_Host u else raw)"

definition splitRef :: "string \<Rightarrow> (string \<times> string \<times> string) result" where
  "splitRef rawURL =
     (case url_Parse rawURL of
        Inl e \<Rightarrow> Inl (ErrWrap ''source: parse kustomize url: '' e [])
      | Inr u \<Rightarrow>
          if u_User u \<noteq> None then
            Inl (ErrNew ''source: kustomize url must not embed credentials in the URL; use authSecretRef'')
          else if query_Get u ''ref'' = [] then Inl (ErrNew ''source: kustomize url missing pinned ?ref='')
          else
            (let ref = query_Get u ''ref''; u1 = u\<lparr>u_RawQuery := []\<rparr> in
             case strings_Cut ''//'' (u_Path u) of (pre, post, found) \<Rightarrow>
               if found then Inr (url_String (u1\<lparr>u_Path := pre\<rparr>), strings_Trim post (CHR ''/''), ref)
               else Inr (url_String u1, [], ref)))"

definition authFor :: "api_env \<Rightarrow> gitResolver \<Rightarrow> string \<Rightarrow> (event, (string \<times> string) option result) io" where
  "authFor E r base =
     (case gr_resolve r of
        None \<Rightarrow> State_Monad.return (Inr None)
      | Some (cr, ref) \<Rightarrow>
          bind_io (CredentialResolver_Resolve E cr ref)
            (\<lambda>c. State_Monad.return
               (Inr (if creds_ok c then Some (creds_user c, creds_pass c) else None))))"

definition fetchSHA ::
  "srclib \<Rightarrow> src_env \<Rightarrow> string \<Rightarrow> string \<Rightarrow> string \<Rightarrow> (string \<times> string) option \<Rightarrow> (event, unit result) io" where
  "fetchSHA X S dir base sha auth =
     bind_io (git_call S (\<lambda>G. ePlainInit G dir) (PlainInit dir)) (\<lambda>_.
     bind_io (git_call S (\<lambda>G. eCreateRemote G dir base) (CreateRemote dir base)) (\<lambda>_.
     let refspecs = [''+refs/heads/*:refs/heads/*'', ''+refs/tags/*:refs/tags/*''] in
     bind_io (wrap_io (''source: fetch sha '' @ sha @ '': '') '' (fail-closed)''
       (git_call S (\<lambda>G. eFetch G dir refspecs auth) (Fetch dir refspecs auth))) (\<lambda>_.
     bind_io (git_call S (\<lambda>G. eWorktree G dir) (Worktree dir)) (\<lambda>_.
     wrap_io (''source: checkout sha '' @ sha @ '': '') '' (fail-closed)''
       (git_call S (\<lambda>G. eCheckout G dir (NewHash X sha)) (Checkout dir (NewHash X sha)))))))"

text \<open>The clones are tried in order until one succeeds.\<close>

fun try_clones ::
  "src_env \<Rightarrow> string \<Rightarrow> string \<Rightarrow> (string \<times> string) option \<Rightarrow> string list \<Rightarrow> (event, bool) io" where
  "try_clones S dir base auth [] = State_Monad.return False"
| "try_clones S dir base auth (rn # rns) = do {
     r \<leftarrow> git_call S (\<lambda>G. ePlainClone G dir base rn auth) (PlainClone dir base rn auth);
     case r of Inr _ \<Rightarrow> State_Monad.return True | Inl _ \<Rightarrow> try_clones S dir base auth rns
   }"

definition fetchPinned ::
  "srclib \<Rightarrow> src_env \<Rightarrow> string \<Rightarrow> string \<Rightarrow> string \<Rightarrow> (string \<times> string) option \<Rightarrow> (event, unit result) io" where
  "fetchPinned X S dir base ref auth =
     (if shaRe ref then fetchSHA X S dir base ref auth
      else do {
        ok \<leftarrow> try_clones S dir base auth [NewTagReferenceName X ref, NewBranchReferenceName X ref];
        State_Monad.return
          (if ok then Inr ()
           else Inl (ErrNew (''source: could not resolve ref '' @ strconv_Quote ref @ '' on '' @ base @ '' (fail-closed)'')))
      })"

definition git_Resolve ::
  "srclib \<Rightarrow> src_env \<Rightarrow> gitResolver \<Rightarrow> string \<Rightarrow> string \<Rightarrow> (event, (string \<times> string) result) io" where
  "git_Resolve X S r rawURL subPath =
     (case splitRef rawURL of
        Inl e \<Rightarrow> State_Monad.return (Inl e)
      | Inr (base, rootSubPath, ref) \<Rightarrow>
          bind_io (fs_call S (\<lambda>F. eMkdirTemp F [] ''ddo-kustomize-'') (MkdirTemp [] ''ddo-kustomize-'')) (\<lambda>dir. do {
            res \<leftarrow> bind_io (wrap_io ''source: resolve credentials: '' [] (authFor (se_api S) r base))
              (fetchPinned X S dir base ref);
            case res of
              Inl e \<Rightarrow> do { _ \<leftarrow> report (EvFS (RemoveAll dir)); State_Monad.return (Inl e) }
            | Inr _ \<Rightarrow> State_Monad.return (Inr (filepath_Join [dir, rootSubPath, subPath], dir))
          }))"

definition git_repoScope :: "gitResolver \<Rightarrow> string \<Rightarrow> string result" where
  "git_repoScope r rawURL =
     bind_res (splitRef rawURL) (\<lambda>(base, rootSubPath, ref). Inr (''git:'' @ hostOf base))"

text \<open>The candidate references in order of preference; a later advertisement of a name wins.\<close>

definition ref_candidates :: "string \<Rightarrow> string list" where
  "ref_candidates ref = [''refs/tags/'' @ ref @ ''^{}'', ''refs/tags/'' @ ref, ''refs/heads/'' @ ref]"

definition pick_ref :: "(string \<times> string) list \<Rightarrow> string \<Rightarrow> string option" where
  "pick_ref refs ref =
     (case List.map_filter (map_of (rev refs)) (ref_candidates ref) of [] \<Rightarrow> None | h # _ \<Rightarrow> Some h)"

definition git_ResolveID :: "src_env \<Rightarrow> gitResolver \<Rightarrow> string \<Rightarrow> (event, string result) io" where
  "git_ResolveID S r rawURL =
     (case splitRef rawURL of
        Inl e \<Rightarrow> State_Monad.return (Inl e)
      | Inr (base, rootSubPath, ref) \<Rightarrow>
          if shaRe ref then State_Monad.return (Inr ref)
          else
            bind_io (wrap_io ''source: resolve credentials: '' [] (authFor (se_api S) r base)) (\<lambda>auth.
            bind_io (wrap_io (''source: ls-remote '' @ base @ '': '') []
              (git_call S (\<lambda>G. eListRemote G base auth) (ListRemote base auth))) (\<lambda>refs.
            State_Monad.return
              (case pick_ref refs ref of
                 Some hash \<Rightarrow> Inr hash
               | None \<Rightarrow>
                   Inl (ErrNew (''source: could not resolve ref '' @ strconv_Quote ref @ '' on '' @ base @
                     '' to a commit SHA''))))))"

section \<open>The chart loader (helmloader.go)\<close>

text \<open>\<open>httpClient\<close> is nil in production and is left out; the Helm settings are only passed on.\<close>

record helmLoader =
  hl_resolve :: resolve_closure
  hl_scratchDir :: string

definition rejectURLCredentials :: "string \<Rightarrow> go_error option" where
  "rejectURLCredentials repoURL =
     (case url_Parse (strings_Replace1 repoURL ''oci://'' ''https://'') of
        Inl e \<Rightarrow> Some (ErrNew ''source: chart repo url is not parseable'')
      | Inr u \<Rightarrow>
          if u_User u \<noteq> None then
            Some (ErrNew ''source: chart repo url must not embed credentials in the URL; use authSecretRef'')
          else None)"

definition ociHost :: "string \<Rightarrow> string" where
  "ociHost repoURL = hostOf (strings_Replace1 repoURL ''oci://'' ''https://'')"

definition credFor :: "src_env \<Rightarrow> helmLoader \<Rightarrow> (event, creds result) io" where
  "credFor S l =
     (case hl_resolve l of
        None \<Rightarrow> State_Monad.return (Inr anonymous)
      | Some (cr, ref) \<Rightarrow> CredentialResolver_Resolve (se_api S) cr ref)"

definition basic_auth :: "creds \<Rightarrow> (string \<times> string) option" where
  "basic_auth c = (if creds_ok c then Some (creds_user c, creds_pass c) else None)"

text \<open>The registry client is identified by the basic authentication it was created with.\<close>

definition ociRegistryClient :: "src_env \<Rightarrow> creds \<Rightarrow> (event, (string \<times> string) option result) io" where
  "ociRegistryClient S c =
     bind_io (helm_call S (\<lambda>H. eRegistryNewClient H (basic_auth c)) (RegistryNewClient (basic_auth c)))
       (\<lambda>_. State_Monad.return (Inr (basic_auth c)))"

fun first_entry :: "((string \<times> bool) \<Rightarrow> bool) \<Rightarrow> (string \<times> bool) list \<Rightarrow> string option" where
  "first_entry P [] = None"
| "first_entry P (e # es) = (if P e then Some (fst e) else first_entry P es)"

definition findTGZ :: "src_env \<Rightarrow> string \<Rightarrow> (event, string result) io" where
  "findTGZ S dest =
     bind_io (wrap_io ''source: read chart dir: '' [] (fs_call S (\<lambda>F. eReadDir F dest) (ReadDir dest))) (\<lambda>entries.
     State_Monad.return
       (case first_entry (\<lambda>e. strings_HasSuffix (fst e) ''.tgz'') entries of
          Some n \<Rightarrow> Inr (filepath_Join [dest, n])
        | None \<Rightarrow> Inl (ErrNew (''source: no chart tgz found in '' @ dest))))"

definition oci_base :: "string \<Rightarrow> string" where
  "oci_base repoURL = strings_TrimSuffix (strings_TrimPrefix repoURL ''oci://'') ''/''"

definition pullOCI ::
  "src_env \<Rightarrow> helmLoader \<Rightarrow> string \<Rightarrow> string \<Rightarrow> string \<Rightarrow> string \<Rightarrow> (event, string result) io" where
  "pullOCI S l repoURL name version dest =
     bind_io (wrap_io ''source: resolve credentials: '' [] (credFor S l)) (\<lambda>c.
     bind_io (ociRegistryClient S c) (\<lambda>rc.
     let ref = ''oci://'' @ oci_base repoURL @ ''/'' @ name in
     bind_io (wrap_io (''source: oci pull '' @ name @ ''@'' @ version @ '': '') []
       (helm_call S (\<lambda>H. ePull H rc ref version dest) (Pull rc ref version dest))) (\<lambda>_.
     findTGZ S dest)))"

definition singleChildDir :: "src_env \<Rightarrow> string \<Rightarrow> (event, string result) io" where
  "singleChildDir S parent =
     bind_io (wrap_io ''source: read expanded dir: '' [] (fs_call S (\<lambda>F. eReadDir F parent) (ReadDir parent))) (\<lambda>entries.
     State_Monad.return
       (case first_entry snd entries of
          Some n \<Rightarrow> Inr (filepath_Join [parent, n])
        | None \<Rightarrow> Inl (ErrNew (''source: expanded chart has no directory in '' @ parent))))"

definition unpackedSubchartExists :: "src_env \<Rightarrow> string \<Rightarrow> string \<Rightarrow> (event, bool) io" where
  "unpackedSubchartExists S chartDir name =
     (let p = filepath_Join [chartDir, ''charts'', name] in do {
        fi \<leftarrow> fs_call S (\<lambda>F. eStat F p) (Stat p);
        State_Monad.return (case fi of Inl e \<Rightarrow> False | Inr isDir \<Rightarrow> isDir)
      })"

definition vendoredSubchartExists :: "src_env \<Rightarrow> string \<Rightarrow> string \<Rightarrow> (event, bool) io" where
  "vendoredSubchartExists S chartDir name = do {
     unpacked \<leftarrow> unpackedSubchartExists S chartDir name;
     if unpacked then State_Monad.return True
     else
       (let p = filepath_Join [chartDir, ''charts'', name @ ''-*.tgz''] in do {
          matches \<leftarrow> fs_call S (\<lambda>F. eGlob F p) (Glob p);
          State_Monad.return (case matches of Inl e \<Rightarrow> False | Inr ms \<Rightarrow> 0 < length ms)
        })
   }"

text \<open>The first loop: every dependency is looked up, none is skipped.\<close>

definition needs_fetch :: "src_env \<Rightarrow> string \<Rightarrow> dependency list \<Rightarrow> (event, bool) io" where
  "needs_fetch S chartDir deps = do {
     found \<leftarrow> for_each (\<lambda>d. vendoredSubchartExists S chartDir (dep_Name d)) deps;
     State_Monad.return (\<not> list_all (\<lambda>b. b) found)
   }"

definition no_repository_error :: "string \<Rightarrow> string \<Rightarrow> go_error" where
  "no_repository_error chart dep =
     ErrNew (''source: chart '' @ strconv_Quote chart @ '' dependency '' @ strconv_Quote dep @
       '' declares no repository but is not vendored as an unpacked charts/'' @ dep @
       '' directory; Build cannot resolve it '' @ [CHR 0xE2, CHR 0x80, CHR 0x94] @
       '' provide an oci:// repository or vendor it unpacked'')"

definition unsupported_repository_error :: "string \<Rightarrow> string \<Rightarrow> string \<Rightarrow> go_error" where
  "unsupported_repository_error chart dep repo =
     ErrNew (''source: chart '' @ strconv_Quote chart @ '' dependency '' @ strconv_Quote dep @
       '' uses unsupported repository '' @ strconv_Quote repo @
       ''; when any dependency must be fetched, every dependency repository must be oci:// (or file://) because Build re-resolves the whole Chart.lock '' @
       [CHR 0xE2, CHR 0x80, CHR 0x94] @ '' vendor all subcharts, or republish this one via OCI'')"

text \<open>The second loop: in the regime where Build runs, every dependency must be safe for it.\<close>

fun check_repositories ::
  "srclib \<Rightarrow> src_env \<Rightarrow> string \<Rightarrow> string \<Rightarrow> dependency list \<Rightarrow> (event, unit result) io" where
  "check_repositories X S chartDir chart [] = State_Monad.return (Inr ())"
| "check_repositories X S chartDir chart (d # ds) =
     (if dep_Repository d = [] then do {
        unpacked \<leftarrow> unpackedSubchartExists S chartDir (dep_Name d);
        if \<not> unpacked then State_Monad.return (Inl (no_repository_error chart (dep_Name d)))
        else check_repositories X S chartDir chart ds
      }
      else if \<not> strings_HasPrefix (dep_Repository d) ''file://'' \<and> \<not> IsOCI X (dep_Repository d) then
        State_Monad.return (Inl (unsupported_repository_error chart (dep_Name d) (dep_Repository d)))
      else check_repositories X S chartDir chart ds)"

definition os_IsNotExist :: "go_error \<Rightarrow> bool" where
  "os_IsNotExist e = (case e of ErrLib reason msg \<Rightarrow> reason = ''ENOENT'' | _ \<Rightarrow> False)"

definition resolveDepsPlan :: "srclib \<Rightarrow> src_env \<Rightarrow> string \<Rightarrow> (event, bool result) io" where
  "resolveDepsPlan X S chartDir =
     (let chartYaml = filepath_Join [chartDir, ''Chart.yaml'']; lock = filepath_Join [chartDir, ''Chart.lock''] in
      bind_io (wrap_io ''source: read Chart.yaml: '' []
        (helm_call S (\<lambda>H. eLoadChartfile H chartYaml) (LoadChartfile chartYaml))) (\<lambda>meta.
      if length (cf_Dependencies meta) = 0 then State_Monad.return (Inr False)
      else do {
        fetch \<leftarrow> needs_fetch S chartDir (cf_Dependencies meta);
        if \<not> fetch then State_Monad.return (Inr False)
        else
          bind_io (check_repositories X S chartDir (cf_Name meta) (cf_Dependencies meta)) (\<lambda>_. do {
            st \<leftarrow> fs_call S (\<lambda>F. eStat F lock) (Stat lock);
            State_Monad.return
              (case st of
                 Inr _ \<Rightarrow> Inr True
               | Inl e \<Rightarrow>
                   if os_IsNotExist e then
                     Inl (ErrNew (''source: chart '' @ strconv_Quote (cf_Name meta) @
                       '' declares unvendored dependencies but has no Chart.lock; commit Chart.lock for deterministic resolution''))
                   else Inl (ErrWrap ''source: stat Chart.lock: '' e []))
          })
      }))"

definition expandAndResolveDeps ::
  "srclib \<Rightarrow> src_env \<Rightarrow> helmLoader \<Rightarrow> string \<Rightarrow> string \<Rightarrow> (event, string result) io" where
  "expandAndResolveDeps X S l chartPath tmp =
     (let unpacked = filepath_Join [tmp, ''unpacked''] in
      bind_io (fs_call S (\<lambda>F. eMkdirAll F unpacked) (MkdirAll unpacked)) (\<lambda>_.
      bind_io (fs_call S (\<lambda>F. eOpen F chartPath) (Open chartPath)) (\<lambda>_.
      bind_io (wrap_io ''source: expand chart: '' []
        (helm_call S (\<lambda>H. eExpand H unpacked chartPath) (Expand unpacked chartPath))) (\<lambda>_.
      bind_io (singleChildDir S unpacked) (\<lambda>chartDir.
      bind_io (resolveDepsPlan X S chartDir) (\<lambda>needsBuild.
      if \<not> needsBuild then State_Monad.return (Inr chartDir)
      else
        bind_io (wrap_io ''source: resolve credentials for deps: '' [] (credFor S l)) (\<lambda>c.
        bind_io (ociRegistryClient S c) (\<lambda>rc.
        bind_io (wrap_io ''source: build dependencies: '' []
          (helm_call S (\<lambda>H. eDepBuild H rc chartDir) (DepBuild rc chartDir))) (\<lambda>_.
        State_Monad.return (Inr chartDir)))))))))) "

definition helm_Load ::
  "srclib \<Rightarrow> src_env \<Rightarrow> helmLoader \<Rightarrow> string \<Rightarrow> string \<Rightarrow> string \<Rightarrow> (event, chart result) io" where
  "helm_Load X S l repoURL name version =
     (case rejectURLCredentials repoURL of
        Some e \<Rightarrow> State_Monad.return (Inl e)
      | None \<Rightarrow>
          bind_io (fs_call S (\<lambda>F. eMkdirTemp F (hl_scratchDir l) ''ddo-helm-'')
            (MkdirTemp (hl_scratchDir l) ''ddo-helm-'')) (\<lambda>tmp. do {
            res \<leftarrow>
              (if strings_HasPrefix repoURL ''oci://'' then
                 bind_io (pullOCI S l repoURL name version tmp) (\<lambda>chartPath.
                 bind_io (expandAndResolveDeps X S l chartPath tmp) (\<lambda>chartDir.
                 helm_call S (\<lambda>H. eLoadChart H chartDir) (LoadChart chartDir)))
               else
                 State_Monad.return (Inl (ErrNew ''source: unsupported chart repo scheme (only oci:// is supported)'')));
            _ \<leftarrow> report (EvFS (RemoveAll tmp));
            State_Monad.return res
          }))"

definition helm_repoScope :: "helmLoader \<Rightarrow> string \<Rightarrow> string result" where
  "helm_repoScope l repoURL =
     (if strings_HasPrefix repoURL ''oci://'' then Inr (''oci:'' @ ociHost repoURL)
      else Inl (ErrNew ''source: unsupported chart repo scheme for repoScope (only oci:// is supported)''))"

definition resolveOCIDigest :: "src_env \<Rightarrow> helmLoader \<Rightarrow> string \<Rightarrow> string \<Rightarrow> string \<Rightarrow> (event, string result) io" where
  "resolveOCIDigest S l repoURL name version =
     bind_io (wrap_io ''source: resolve credentials: '' [] (credFor S l)) (\<lambda>c.
     bind_io (ociRegistryClient S c) (\<lambda>rc.
     let ref = oci_base repoURL @ ''/'' @ name @ '':'' @ version in
     wrap_io (''source: resolve oci digest '' @ name @ '':'' @ version @ '': '') []
       (helm_call S (\<lambda>H. eResolve H rc ref) (Resolve rc ref))))"

definition helm_ResolveID :: "src_env \<Rightarrow> helmLoader \<Rightarrow> string \<Rightarrow> string \<Rightarrow> string \<Rightarrow> (event, string result) io" where
  "helm_ResolveID S l repoURL name version =
     (case rejectURLCredentials repoURL of
        Some e \<Rightarrow> State_Monad.return (Inl e)
      | None \<Rightarrow>
          if strings_HasPrefix repoURL ''oci://'' then resolveOCIDigest S l repoURL name version
          else State_Monad.return (Inl (ErrNew ''source: unsupported chart repo scheme (only oci:// is supported)'')))"

section \<open>What fetching does\<close>

fun is_mkdtemp :: "fs_event \<Rightarrow> bool" where
  "is_mkdtemp (MkdirTemp d p r) = True"
| "is_mkdtemp _ = False"

text \<open>
  \<open>fetch_events res P\<close>: the property \<open>P\<close> of events allows what fetching with the credential
  closure \<open>res\<close> does, apart from creating its temporary directory: work on files, Helm and git,
  and reading the one secret the closure is bound to. \<open>render_events\<close> also allows temporary
  directories, \<open>source_events\<close> also the cache.
\<close>

locale fetch_events =
  fixes res :: resolve_closure and P :: "event \<Rightarrow> bool"
  assumes P_fs: "\<not> is_mkdtemp f \<Longrightarrow> P (EvFS f)"
    and P_helm: "P (EvHelm he)"
    and P_git: "P (EvGit g)"
    and P_secret: "res = Some (cr, Some rf) \<Longrightarrow> ref_Name rf \<noteq> [] \<Longrightarrow>
      P (EvGetSecret (res_Namespace cr) (ref_Name rf) d)"
begin

lemmas P_intros = P_fs P_helm P_git

lemma emits_Resolve: "res = Some (cr, ref) \<Longrightarrow> emits P (CredentialResolver_Resolve E cr ref)"
  unfolding CredentialResolver_Resolve_def
  by (cases ref) (auto intro!: emits_intros P_secret)

lemma emits_authFor: "gr_resolve r = res \<Longrightarrow> emits P (authFor E r base)"
  unfolding authFor_def
  by (auto split: option.split intro!: emits_return emits_bind_io emits_Resolve)

lemma emits_try_clones: "emits P (try_clones S dir base auth rns)"
  by (induction rns) (auto intro!: emits_intros P_intros)

lemma emits_fetchPinned: "emits P (fetchPinned X S dir base ref auth)"
  unfolding fetchPinned_def fetchSHA_def Let_def
  by (intro emits_intros emits_try_clones P_intros)

lemma emits_git_ResolveID: "gr_resolve r = res \<Longrightarrow> emits P (git_ResolveID S r rawURL)"
  unfolding git_ResolveID_def by (intro emits_intros emits_authFor P_intros)

lemma emits_credFor: "hl_resolve l = res \<Longrightarrow> emits P (credFor S l)"
  unfolding credFor_def by (auto split: option.split intro!: emits_return emits_Resolve)

lemma emits_ociRegistryClient: "emits P (ociRegistryClient S c)"
  unfolding ociRegistryClient_def by (intro emits_intros P_intros)

lemma emits_pullOCI: "hl_resolve l = res \<Longrightarrow> emits P (pullOCI S l repoURL name version dest)"
  unfolding pullOCI_def findTGZ_def Let_def
  by (intro emits_intros emits_credFor emits_ociRegistryClient P_intros) simp_all

lemma emits_unpacked: "emits P (unpackedSubchartExists S chartDir name)"
  unfolding unpackedSubchartExists_def Let_def by (intro emits_intros P_intros) simp_all

lemma emits_vendored: "emits P (vendoredSubchartExists S chartDir name)"
  unfolding vendoredSubchartExists_def Let_def by (intro emits_intros emits_unpacked P_intros) simp_all

lemma emits_check_repositories: "emits P (check_repositories X S chartDir chart deps)"
  by (induction deps) (auto intro!: emits_intros emits_unpacked)

lemma emits_resolveDepsPlan: "emits P (resolveDepsPlan X S chartDir)"
  unfolding resolveDepsPlan_def needs_fetch_def Let_def
  by (intro emits_intros emits_vendored emits_check_repositories P_intros) simp_all

lemma emits_expand: "hl_resolve l = res \<Longrightarrow> emits P (expandAndResolveDeps X S l chartPath tmp)"
  unfolding expandAndResolveDeps_def singleChildDir_def Let_def
  by (intro emits_intros emits_resolveDepsPlan emits_credFor emits_ociRegistryClient P_intros) simp_all

lemma emits_helm_ResolveID:
  "hl_resolve l = res \<Longrightarrow> emits P (helm_ResolveID S l repoURL name version)"
  unfolding helm_ResolveID_def resolveOCIDigest_def Let_def
  by (intro emits_intros emits_credFor emits_ociRegistryClient P_intros)

text \<open>The part of \<open>Load\<close> that works inside the temporary directory.\<close>

lemma emits_load_body:
  "hl_resolve l = res \<Longrightarrow>
   emits P (if strings_HasPrefix repoURL ''oci://'' then
       bind_io (pullOCI S l repoURL name version tmp) (\<lambda>chartPath.
       bind_io (expandAndResolveDeps X S l chartPath tmp) (\<lambda>chartDir.
       helm_call S (\<lambda>H. eLoadChart H chartDir) (LoadChart chartDir)))
     else State_Monad.return (Inl (ErrNew ''source: unsupported chart repo scheme (only oci:// is supported)'')))"
  by (intro emits_intros emits_pullOCI emits_expand P_intros)

lemma emits_fetch_body:
  "gr_resolve r = res \<Longrightarrow>
   emits P (bind_io (wrap_io ''source: resolve credentials: '' [] (authFor E r base)) (fetchPinned X S dir base ref))"
  by (intro emits_intros emits_authFor emits_fetchPinned)

end

locale render_events = fetch_events +
  assumes P_temp: "P (EvFS f)"
begin

lemma emits_git_Resolve: "gr_resolve r = res \<Longrightarrow> emits P (git_Resolve X S r rawURL subPath)"
  unfolding git_Resolve_def by (intro emits_intros emits_fetch_body P_temp)

lemma emits_helm_Load: "hl_resolve l = res \<Longrightarrow> emits P (helm_Load X S l repoURL name version)"
  unfolding helm_Load_def by (intro emits_intros emits_load_body P_temp)

end

locale source_events = render_events +
  assumes P_cacheGet: "P (EvCacheGet k hit)"
    and P_cacheAdd: "P (EvCacheAdd k ms)"

text \<open>The events of a source with credential closure \<open>res\<close>.\<close>

definition source_event :: "resolve_closure \<Rightarrow> event \<Rightarrow> bool" where
  "source_event res ev =
     (case ev of
        EvFS _ \<Rightarrow> True
      | EvHelm _ \<Rightarrow> True
      | EvGit _ \<Rightarrow> True
      | EvCacheGet _ _ \<Rightarrow> True
      | EvCacheAdd _ _ \<Rightarrow> True
      | EvGetSecret ns n _ \<Rightarrow>
          (case res of
             Some (cr, Some rf) \<Rightarrow> ns = res_Namespace cr \<and> n = ref_Name rf \<and> ref_Name rf \<noteq> []
           | _ \<Rightarrow> False)
      | _ \<Rightarrow> False)"

interpretation source: source_events res "source_event res" for res
  by unfold_locales (simp_all add: source_event_def)

text \<open>Inside its temporary directory a fetch creates no other one.\<close>

definition no_mkdtemp :: "event \<Rightarrow> bool" where
  "no_mkdtemp ev = (case ev of EvFS f \<Rightarrow> \<not> is_mkdtemp f | _ \<Rightarrow> True)"

interpretation inside: fetch_events res no_mkdtemp for res
  by unfold_locales (simp_all add: no_mkdtemp_def)

end
