(* ===== verification/RenderSource.thy ===== *)
theory RenderSource
  imports Fetch
begin

text \<open>
  The rest of \<open>internal/source\<close>: the Helm and kustomize sources (helm.go, kustomize.go), the
  cache key (cachekey.go), the render cache and its decorator (rendercache.go, cache.go) and the
  construction of a source from the specification (source.go). The LRU cache is a library: a
  lookup is an event whose response is given by the environment, an insertion is an event.
\<close>

section \<open>Modes\<close>

datatype Mode = ModeSeed | ModeShoot

fun mode_string :: "Mode \<Rightarrow> string" where
  "mode_string ModeSeed = ''seed''"
| "mode_string ModeShoot = ''shoot''"

section \<open>Helm (helm.go)\<close>

record helmSource =
  hs_spec :: HelmSource
  hs_loader :: helmLoader

definition modeValues :: "helmSource \<Rightarrow> Mode \<Rightarrow> json_raw option" where
  "modeValues h mode =
     (case mode of ModeSeed \<Rightarrow> helm_SeedValues (hs_spec h) | ModeShoot \<Rightarrow> helm_ShootValues (hs_spec h))"

definition merge_step :: "srclib \<Rightarrow> jobj \<Rightarrow> json_raw option \<Rightarrow> jobj result" where
  "merge_step X base j =
     (case j of
        None \<Rightarrow> Inr base
      | Some raw \<Rightarrow>
          if length raw = 0 then Inr base
          else
            (case json_Unmarshal_map raw of
               Inl e \<Rightarrow> Inl (ErrWrap ''source: parse values: '' e [])
             | Inr m \<Rightarrow> Inr (CoalesceTables X m base)))"

definition mergeValues :: "srclib \<Rightarrow> json_raw option \<Rightarrow> json_raw option \<Rightarrow> jobj result" where
  "mergeValues X common modeSpecific =
     bind_res (merge_step X [] common) (\<lambda>base. merge_step X base modeSpecific)"

text \<open>Parsing and namespacing of a rendered text, common to both sources.\<close>

definition parse_render :: "klib \<Rightarrow> srclib \<Rightarrow> string \<Rightarrow> string \<Rightarrow> Manifest list result" where
  "parse_render L X raw namespace =
     (case Parse L (DecodeYAML X) raw OriginUpstream of
        Inl e \<Rightarrow> Inl (ErrWrap ''source: parse rendered manifests: '' e [])
      | Inr ms \<Rightarrow> Inr (ApplyNamespace L ms namespace))"

definition helm_values :: "srclib \<Rightarrow> helmSource \<Rightarrow> Mode \<Rightarrow> jobj result" where
  "helm_values X h mode =
     bind_res (mergeValues X (helm_Values (hs_spec h)) (modeValues h mode)) (\<lambda>userVals.
       if map_of userVals ''mode'' \<noteq> None then
         Inl (ErrNew (''source: '' @ [CHR 0x27] @ ''mode'' @ [CHR 0x27] @
           '' is operator-controlled and must not be set in values''))
       else Inr (AList.update ''mode'' (JStr (mode_string mode)) userVals))"

definition helm_Render ::
  "klib \<Rightarrow> srclib \<Rightarrow> src_env \<Rightarrow> helmSource \<Rightarrow> Mode \<Rightarrow> string \<Rightarrow> (event, Manifest list result) io" where
  "helm_Render L X S h mode namespace =
     (let spec = hs_spec h in
      bind_io (wrap_io ''source: load chart: '' []
        (helm_Load X S (hs_loader h) (helm_Repo spec) (helm_Name spec) (helm_Version spec))) (\<lambda>ch.
      bind_io (State_Monad.return (helm_values X h mode)) (\<lambda>userVals.
      bind_io (wrap_io (''source: helm render (mode='' @ mode_string mode @ ''): '') []
        (helm_call S (\<lambda>H. eInstall H ch userVals (helm_Name spec) namespace)
          (Install ch userVals (helm_Name spec) namespace))) (\<lambda>rendered.
      State_Monad.return (parse_render L X rendered namespace)))))"

section \<open>Kustomize (kustomize.go)\<close>

record kustomizeSource =
  ks_spec :: KustomizeSource
  ks_resolver :: gitResolver

definition kustomize_Render ::
  "klib \<Rightarrow> srclib \<Rightarrow> src_env \<Rightarrow> kustomizeSource \<Rightarrow> Mode \<Rightarrow> string \<Rightarrow> (event, Manifest list result) io" where
  "kustomize_Render L X S k mode namespace =
     (let subPath = (if mode = ModeShoot then kust_ShootPath (ks_spec k) else kust_SeedPath (ks_spec k)) in
      bind_io (wrap_io (''source: resolve kustomize root (mode='' @ mode_string mode @ ''): '') []
        (git_Resolve X S (ks_resolver k) (kust_URL (ks_spec k)) subPath)) (\<lambda>(root, cleanup). do {
        res \<leftarrow>
          bind_io (wrap_io (''source: kustomize build (mode='' @ mode_string mode @ ''): '') []
            (helm_call S (\<lambda>H. eKustomizeRun H root) (KustomizeRun root))) (\<lambda>resMap.
          bind_io (wrap_io ''source: kustomize serialize: '' []
            (helm_call S (\<lambda>H. eAsYaml H resMap) (AsYaml resMap))) (\<lambda>yamlBytes.
          State_Monad.return (parse_render L X yamlBytes namespace)));
        _ \<leftarrow> report (EvFS (RemoveAll cleanup));
        State_Monad.return res
      }))"

section \<open>Cache keys (cachekey.go)\<close>

record keyParts =
  kp_sourceKind :: string
  kp_repoScope :: string
  kp_resolvedID :: string
  kp_mode :: string
  kp_inputHash :: string
  kp_namespace :: string

definition keyParts_String :: "keyParts \<Rightarrow> string" where
  "keyParts_String k =
     strings_Join [kp_sourceKind k, kp_repoScope k, kp_resolvedID k, kp_mode k, kp_inputHash k, kp_namespace k] ''|''"

text \<open>Marshalling a decoded value does not fail.\<close>

definition hashValues :: "jobj \<Rightarrow> string" where
  "hashValues v = hex_EncodeToString (sha256_Sum256 (string_bytes (json_marshal (JObj v))))"

section \<open>The render cache (rendercache.go, cache.go)\<close>

text \<open>Values are immutable here, so that a deep copy is the value itself.\<close>

definition cloneManifests :: "Manifest list \<Rightarrow> Manifest list" where
  "cloneManifests ms = map (\<lambda>m. \<lparr>m_Unstructured = m_Unstructured m, m_Origin = m_Origin m\<rparr>) ms"

definition cache_get :: "src_env \<Rightarrow> string \<Rightarrow> (event, Manifest list option) io" where
  "cache_get S key = do {
     r \<leftarrow> call (se_cacheGet S key) (EvCacheGet key);
     State_Monad.return (map_option cloneManifests r)
   }"

definition cache_put :: "string \<Rightarrow> Manifest list \<Rightarrow> (event, unit) io" where
  "cache_put key ms = report (EvCacheAdd key (cloneManifests ms))"

datatype inner_source = Helm helmSource | Kustomize kustomizeSource

fun inner_Render ::
  "klib \<Rightarrow> srclib \<Rightarrow> src_env \<Rightarrow> inner_source \<Rightarrow> Mode \<Rightarrow> string \<Rightarrow> (event, Manifest list result) io" where
  "inner_Render L X S (Helm h) mode namespace = helm_Render L X S h mode namespace"
| "inner_Render L X S (Kustomize k) mode namespace = kustomize_Render L X S k mode namespace"

text \<open>The closure \<open>resolve\<close>: the immutable identifier and the scope of the repository.\<close>

fun resolve_source :: "src_env \<Rightarrow> inner_source \<Rightarrow> (event, (string \<times> string) result) io" where
  "resolve_source S (Helm h) =
     bind_io (State_Monad.return (helm_repoScope (hs_loader h) (helm_Repo (hs_spec h)))) (\<lambda>scope.
     bind_io (helm_ResolveID S (hs_loader h) (helm_Repo (hs_spec h)) (helm_Name (hs_spec h))
       (helm_Version (hs_spec h))) (\<lambda>rid. State_Monad.return (Inr (rid, scope))))"
| "resolve_source S (Kustomize k) =
     bind_io (State_Monad.return (git_repoScope (ks_resolver k) (kust_URL (ks_spec k)))) (\<lambda>scope.
     bind_io (git_ResolveID S (ks_resolver k) (kust_URL (ks_spec k))) (\<lambda>rid. State_Monad.return (Inr (rid, scope))))"

record cachingSource =
  cs_inner :: inner_source
  cs_sourceKind :: string
  cs_inputHash :: string

text \<open>The lookup under a key, and the render that is stored when there is none.\<close>

definition lookup_or_render ::
  "klib \<Rightarrow> srclib \<Rightarrow> src_env \<Rightarrow> inner_source \<Rightarrow> Mode \<Rightarrow> string \<Rightarrow> string \<Rightarrow> (event, Manifest list result) io" where
  "lookup_or_render L X S i mode namespace key = do {
     hit \<leftarrow> cache_get S key;
     case hit of
       Some ms \<Rightarrow> State_Monad.return (Inr ms)
     | None \<Rightarrow>
         bind_io (inner_Render L X S i mode namespace) (\<lambda>ms. do {
           _ \<leftarrow> cache_put key ms;
           State_Monad.return (Inr ms)
         })
   }"

definition caching_Render ::
  "klib \<Rightarrow> srclib \<Rightarrow> src_env \<Rightarrow> cachingSource \<Rightarrow> Mode \<Rightarrow> string \<Rightarrow> (event, Manifest list result) io" where
  "caching_Render L X S c mode namespace = do {
     res \<leftarrow> resolve_source S (cs_inner c);
     case res of
       Inl e \<Rightarrow> inner_Render L X S (cs_inner c) mode namespace
     | Inr (rid, scope) \<Rightarrow>
         lookup_or_render L X S (cs_inner c) mode namespace (keyParts_String
           \<lparr>kp_sourceKind = cs_sourceKind c, kp_repoScope = scope, kp_resolvedID = rid,
            kp_mode = mode_string mode, kp_inputHash = cs_inputHash c, kp_namespace = namespace\<rparr>)
   }"

datatype Source_impl = Plain inner_source | Caching cachingSource

fun source_Render ::
  "klib \<Rightarrow> srclib \<Rightarrow> src_env \<Rightarrow> Source_impl \<Rightarrow> Mode \<Rightarrow> string \<Rightarrow> (event, Manifest list result) io" where
  "source_Render L X S (Plain i) mode namespace = inner_Render L X S i mode namespace"
| "source_Render L X S (Caching c) mode namespace = caching_Render L X S c mode namespace"

definition helm_inputHash :: "srclib \<Rightarrow> HelmSource \<Rightarrow> string" where
  "helm_inputHash X spec =
     (let base = [(''name'', JStr (helm_Name spec)), (''version'', JStr (helm_Version spec))];
          base = (case mergeValues X (helm_Values spec) (helm_SeedValues spec) of
                    Inl e \<Rightarrow> base | Inr seed \<Rightarrow> AList.update ''seedValues'' (JObj seed) base);
          base = (case mergeValues X (helm_Values spec) (helm_ShootValues spec) of
                    Inl e \<Rightarrow> base | Inr shoot \<Rightarrow> AList.update ''shootValues'' (JObj shoot) base)
      in hashValues base)"

definition wrapHelm :: "srclib \<Rightarrow> helmSource \<Rightarrow> bool \<Rightarrow> Source_impl" where
  "wrapHelm X h cache =
     (if \<not> cache then Plain (Helm h)
      else Caching \<lparr>cs_inner = Helm h, cs_sourceKind = ''helm'', cs_inputHash = helm_inputHash X (hs_spec h)\<rparr>)"

definition kustomize_inputHash :: "KustomizeSource \<Rightarrow> string" where
  "kustomize_inputHash spec =
     (let rootSubPath = (case splitRef (kust_URL spec) of Inl e \<Rightarrow> [] | Inr (base, sub, ref) \<Rightarrow> sub)
      in hashValues [(''rootSubPath'', JStr rootSubPath), (''seedPath'', JStr (kust_SeedPath spec)),
           (''shootPath'', JStr (kust_ShootPath spec))])"

definition wrapKustomize :: "kustomizeSource \<Rightarrow> bool \<Rightarrow> Source_impl" where
  "wrapKustomize k cache =
     (if \<not> cache then Plain (Kustomize k)
      else Caching \<lparr>cs_inner = Kustomize k, cs_sourceKind = ''kustomize'',
             cs_inputHash = kustomize_inputHash (ks_spec k)\<rparr>)"

section \<open>Construction (source.go)\<close>

text \<open>
  The dependencies: an absent loader or resolver is \<open>None\<close>; \<open>deps_RenderCache\<close> says whether a
  cache is configured. The production loader and resolver are the only ones of the program.
\<close>

record Deps =
  deps_ChartLoader :: "helmLoader option"
  deps_RootResolver :: "gitResolver option"
  deps_CredentialResolver :: "CredentialResolver option"
  deps_RenderCache :: bool

definition withHelmCreds :: "helmLoader \<Rightarrow> CredentialResolver option \<Rightarrow> SecretReference option \<Rightarrow> helmLoader" where
  "withHelmCreds cl cr ref = (case cr of None \<Rightarrow> cl | Some r \<Rightarrow> cl\<lparr>hl_resolve := Some (r, ref)\<rparr>)"

definition withGitCreds :: "gitResolver \<Rightarrow> CredentialResolver option \<Rightarrow> SecretReference option \<Rightarrow> gitResolver" where
  "withGitCreds rr cr ref = (case cr of None \<Rightarrow> rr | Some r \<Rightarrow> rr\<lparr>gr_resolve := Some (r, ref)\<rparr>)"

definition From :: "srclib \<Rightarrow> Source \<Rightarrow> Deps \<Rightarrow> Source_impl result" where
  "From X spec deps =
     (case (src_Helm spec, src_Kustomize spec) of
        (Some h, None) \<Rightarrow>
          (case deps_ChartLoader deps of
             None \<Rightarrow> Inl (ErrNew ''source: helm source requires a ChartLoader (none configured)'')
           | Some cl \<Rightarrow>
               (let loader = withHelmCreds cl (deps_CredentialResolver deps) (helm_AuthSecretRef h)
                in Inr (wrapHelm X \<lparr>hs_spec = h, hs_loader = loader\<rparr> (deps_RenderCache deps))))
      | (None, Some k) \<Rightarrow>
          (case deps_RootResolver deps of
             None \<Rightarrow> Inl (ErrNew ''source: kustomize source requires a RootResolver (none configured)'')
           | Some rr \<Rightarrow>
               (let resolver = withGitCreds rr (deps_CredentialResolver deps) (kust_AuthSecretRef k)
                in Inr (wrapKustomize \<lparr>ks_spec = k, ks_resolver = resolver\<rparr> (deps_RenderCache deps))))
      | _ \<Rightarrow> Inl (ErrNew ''source: exactly one of source.helm or source.kustomize must be set''))"

section \<open>What a source does\<close>

fun inner_closure :: "inner_source \<Rightarrow> resolve_closure" where
  "inner_closure (Helm h) = hl_resolve (hs_loader h)"
| "inner_closure (Kustomize k) = gr_resolve (ks_resolver k)"

fun source_closure :: "Source_impl \<Rightarrow> resolve_closure" where
  "source_closure (Plain i) = inner_closure i"
| "source_closure (Caching c) = inner_closure (cs_inner c)"

definition source_secret :: "Source \<Rightarrow> SecretReference option" where
  "source_secret spec =
     (case src_Helm spec of
        Some h \<Rightarrow> helm_AuthSecretRef h
      | None \<Rightarrow> (case src_Kustomize spec of Some k \<Rightarrow> kust_AuthSecretRef k | None \<Rightarrow> None))"

lemma From_closure:
  "From X spec deps = Inr src \<Longrightarrow> deps_CredentialResolver deps = Some cr \<Longrightarrow>
     source_closure src = Some (cr, source_secret spec)"
  by (auto simp: From_def source_secret_def withHelmCreds_def withGitCreds_def wrapHelm_def
      wrapKustomize_def Let_def split: option.splits if_splits)

context fetch_events
begin

lemma emits_resolve_source: "inner_closure i = res \<Longrightarrow> emits P (resolve_source S i)"
  by (cases i) (auto intro!: emits_intros emits_helm_ResolveID emits_git_ResolveID)

end

context render_events
begin

lemma emits_helm_Render: "hl_resolve (hs_loader h) = res \<Longrightarrow> emits P (helm_Render L X S h mode ns)"
  unfolding helm_Render_def Let_def by (intro emits_intros emits_helm_Load P_helm)

lemma emits_kustomize_Render:
  "gr_resolve (ks_resolver k) = res \<Longrightarrow> emits P (kustomize_Render L X S k mode ns)"
  unfolding kustomize_Render_def Let_def by (intro emits_intros emits_git_Resolve P_helm P_temp)

lemma emits_inner_Render: "inner_closure i = res \<Longrightarrow> emits P (inner_Render L X S i mode ns)"
  by (cases i) (simp_all add: emits_helm_Render emits_kustomize_Render)

end

context source_events
begin

lemma emits_caching_Render:
  "inner_closure (cs_inner c) = res \<Longrightarrow> emits P (caching_Render L X S c mode ns)"
  unfolding caching_Render_def lookup_or_render_def cache_get_def cache_put_def
  by (intro emits_intros emits_resolve_source emits_inner_Render P_cacheGet P_cacheAdd)

lemma emits_source_Render: "source_closure src = res \<Longrightarrow> emits P (source_Render L X S src mode ns)"
  by (cases src) (simp_all add: emits_inner_Render emits_caching_Render)

end

section \<open>Temporary directories\<close>

text \<open>Every temporary directory that was created is removed later in the trace.\<close>

fun cleaned :: "event list \<Rightarrow> bool" where
  "cleaned [] = True"
| "cleaned (ev # t) =
     ((case ev of EvFS (MkdirTemp b p (Inr d)) \<Rightarrow> EvFS (RemoveAll d) \<in> set t | _ \<Rightarrow> True) \<and> cleaned t)"

lemma cleaned_append: "cleaned s \<Longrightarrow> cleaned t \<Longrightarrow> cleaned (s @ t)"
  by (induction s) (auto split: event.splits fs_event.splits sum.splits)

interpretation temp_dirs: trace_property cleaned
  by unfold_locales (auto intro: cleaned_append)

lemma no_mkdtemp_cleaned: "list_all no_mkdtemp t \<Longrightarrow> cleaned t"
  by (induction t) (auto simp: no_mkdtemp_def split: event.splits fs_event.splits)

lemma cleaned_removed: "list_all no_mkdtemp t \<Longrightarrow> cleaned (t @ [EvFS (RemoveAll d)])"
  by (auto intro!: cleaned_append no_mkdtemp_cleaned simp: no_mkdtemp_def)

lemma yields_mkdtemp:
  "yields (\<lambda>r s. s = [EvFS (MkdirTemp b p r)]) (fs_call S f (MkdirTemp b p))"
  by (rule yields_fs_call) simp

lemma helm_Load_cleaned: "yields (\<lambda>_. cleaned) (helm_Load X S l repoURL name version)"
  unfolding helm_Load_def
  by (auto split: option.split
      intro!: yields_return yields_bind_io [OF yields_mkdtemp] cleaned_removed
        yields_bind_wp [OF inside.emits_load_body [OF refl, unfolded emits_yields]]
        yields_report_bind)

text \<open>A successful resolution leaves exactly the directory that its cleanup removes.\<close>

lemma git_Resolve_dir:
  "yields (\<lambda>r t. case r of
       Inl e \<Rightarrow> cleaned t
     | Inr (root, dir) \<Rightarrow> \<exists>s b p. t = EvFS (MkdirTemp b p (Inr dir)) # s \<and> list_all no_mkdtemp s)
     (git_Resolve X S r rawURL subPath)"
  unfolding git_Resolve_def
  by (auto split: sum.split
      intro!: yields_return yields_bind_io [OF yields_mkdtemp] cleaned_removed
        yields_bind_wp [OF inside.emits_fetch_body [OF refl, unfolded emits_yields]]
        yields_report_bind)

lemma helm_Render_cleaned: "yields (\<lambda>_. cleaned) (helm_Render L X S h mode ns)"
  unfolding helm_Render_def Let_def
  by (auto intro!: yields_bind_io [where R = "\<lambda>_. cleaned"] yields_wrap_io [OF helm_Load_cleaned]
      yields_return yields_helm_call yields_wrap_io [where R = "\<lambda>_. cleaned"] cleaned_append)

lemma kustomize_Render_cleaned: "yields (\<lambda>_. cleaned) (kustomize_Render L X S k mode ns)"
proof -
  have body: "yields (\<lambda>_ t. list_all no_mkdtemp t)
     (bind_io (wrap_io (''source: kustomize build (mode='' @ mode_string mode @ ''): '') []
        (helm_call S (\<lambda>H. eKustomizeRun H root) (KustomizeRun root))) (\<lambda>resMap.
      bind_io (wrap_io ''source: kustomize serialize: '' []
        (helm_call S (\<lambda>H. eAsYaml H resMap) (AsYaml resMap))) (\<lambda>yamlBytes.
      State_Monad.return (parse_render L X yamlBytes ns))))" for root
    unfolding emits_yields [symmetric] by (intro emits_intros) (simp_all add: no_mkdtemp_def)
  let ?Q = "\<lambda>r t. case r of
       Inl e \<Rightarrow> cleaned t
     | Inr (root :: string, dir) \<Rightarrow> \<exists>s b p. t = EvFS (MkdirTemp b p (Inr dir)) # s \<and> list_all no_mkdtemp s"
  have resolve: "yields ?Q (wrap_io pre post (git_Resolve X S (ks_resolver k) (kust_URL (ks_spec k)) subPath))"
    for pre post subPath
    by (rule yields_wrap_io [OF git_Resolve_dir]) (auto split: sum.splits)
  show ?thesis
    unfolding kustomize_Render_def Let_def
  proof (rule yields_bind_io [OF resolve])
    fix p s
    assume "?Q (Inr p) s"
    then show "yields (\<lambda>_ t. cleaned (s @ t)) (case p of (root, cleanup) \<Rightarrow>
       State_Monad.bind
         (bind_io (wrap_io (''source: kustomize build (mode='' @ mode_string mode @ ''): '') []
            (helm_call S (\<lambda>H. eKustomizeRun H root) (KustomizeRun root))) (\<lambda>resMap.
          bind_io (wrap_io ''source: kustomize serialize: '' []
            (helm_call S (\<lambda>H. eAsYaml H resMap) (AsYaml resMap))) (\<lambda>yamlBytes.
          State_Monad.return (parse_render L X yamlBytes ns))))
         (\<lambda>res. State_Monad.bind (report (EvFS (RemoveAll cleanup))) (\<lambda>_. State_Monad.return res)))"
      by (cases p, simp only: prod.case)
        (rule yields_bind_wp [OF body], rule yields_report_bind, rule yields_return,
         clarsimp, rule cleaned_append [OF no_mkdtemp_cleaned cleaned_removed])
  qed simp
qed

lemma inner_Render_cleaned: "yields (\<lambda>_. cleaned) (inner_Render L X S i mode ns)"
  by (cases i) (simp_all add: helm_Render_cleaned kustomize_Render_cleaned)

lemma resolve_source_cleaned: "yields (\<lambda>_. cleaned) (resolve_source S i)"
  using inside.emits_resolve_source [OF refl, of S i] no_mkdtemp_cleaned
  by (auto simp: emits_yields elim!: yields_mono)

section \<open>The cache\<close>

text \<open>Rendering and resolving do not touch the cache.\<close>

definition no_cache :: "event \<Rightarrow> bool" where
  "no_cache ev = (case ev of EvCacheGet k r \<Rightarrow> False | EvCacheAdd k ms \<Rightarrow> False | _ \<Rightarrow> True)"

interpretation uncached: render_events res no_cache for res
  by unfold_locales (simp_all add: no_cache_def)

lemma cloneManifests_id [simp]: "cloneManifests ms = ms"
  by (simp add: cloneManifests_def map_idI)

lemma map_option_clone [simp]: "map_option cloneManifests r = r"
  by (cases r) simp_all

text \<open>
  What the decorator does with the cache: it stores what it returns, and when it returns without
  rendering it returns what the lookup under the same key gave.
\<close>

definition cache_promise :: "Manifest list result \<Rightarrow> event list \<Rightarrow> bool" where
  "cache_promise r t \<longleftrightarrow>
     (\<forall>k ms. EvCacheAdd k ms \<in> set t \<longrightarrow> r = Inr ms \<and> EvCacheGet k None \<in> set t) \<and>
     (\<forall>k ms. EvCacheGet k (Some ms) \<in> set t \<longrightarrow> r = Inr ms)"

lemma no_cache_promise: "list_all no_cache t \<Longrightarrow> cache_promise r t"
  by (auto simp: cache_promise_def list_all_iff no_cache_def split: event.splits)

lemma cache_promise_prefix: "list_all no_cache s \<Longrightarrow> cache_promise r t \<Longrightarrow> cache_promise r (s @ t)"
  by (auto simp: cache_promise_def list_all_iff no_cache_def split: event.splits)

lemma lookup_or_render_promise:
  "yields cache_promise (lookup_or_render L X S i mode ns key)"
  "yields (\<lambda>_. cleaned) (lookup_or_render L X S i mode ns key)"
proof -
  have get: "yields (\<lambda>r s. s = [EvCacheGet key r]) (cache_get S key)"
    unfolding cache_get_def by (auto intro!: yields_call_bind yields_call yields_return)
  have put: "yields Q (State_Monad.bind (cache_put key ms) (\<lambda>_. State_Monad.return (Inr ms)))"
    if "Q (Inr ms) [EvCacheAdd key ms]" for Q :: "Manifest list result \<Rightarrow> event list \<Rightarrow> bool" and ms
    unfolding cache_put_def using that by (auto intro!: yields_report_bind yields_return)
  have render: "yields (\<lambda>_ t. list_all no_cache t) (inner_Render L X S i mode ns)"
    using uncached.emits_inner_Render [OF refl] by (simp add: emits_yields)
  have stored: "cache_promise r (EvCacheGet key None # t)" if "list_all no_cache t" for r t
    using that by (auto simp: cache_promise_def list_all_iff no_cache_def split: event.splits)
  have added: "cache_promise (Inr ms) (EvCacheGet key None # t @ [EvCacheAdd key ms])" if "list_all no_cache t" for ms t
    using that by (auto simp: cache_promise_def list_all_iff no_cache_def split: event.splits)
  show "yields cache_promise (lookup_or_render L X S i mode ns key)"
    unfolding lookup_or_render_def
    by (auto split: option.split intro!: yields_bind_wp [OF get] yields_bind_io [OF render] put yields_return stored added)
      (simp add: cache_promise_def)
  show "yields (\<lambda>_. cleaned) (lookup_or_render L X S i mode ns key)"
    unfolding lookup_or_render_def
    by (auto split: option.split intro!: yields_bind_wp [OF get] yields_bind_io [OF inner_Render_cleaned]
        put yields_return cleaned_append)
qed

lemma caching_Render_promise:
  "yields cache_promise (caching_Render L X S c mode ns)"
  "yields (\<lambda>_. cleaned) (caching_Render L X S c mode ns)"
proof -
  have resolve: "yields (\<lambda>_ t. list_all no_cache t) (resolve_source S (cs_inner c))"
    using uncached.emits_resolve_source [OF refl] by (simp add: emits_yields)
  have render: "yields (\<lambda>_ t. list_all no_cache t) (inner_Render L X S (cs_inner c) mode ns)"
    using uncached.emits_inner_Render [OF refl] by (simp add: emits_yields)
  show "yields cache_promise (caching_Render L X S c mode ns)"
    unfolding caching_Render_def
    by (auto split: sum.split intro!: yields_bind_wp [OF resolve]
        yields_mono [OF lookup_or_render_promise(1)] yields_mono [OF render])
      (blast intro: cache_promise_prefix no_cache_promise)+
  show "yields (\<lambda>_. cleaned) (caching_Render L X S c mode ns)"
    unfolding caching_Render_def
    by (rule temp_dirs.trace_bind [OF resolve_source_cleaned])
      (simp add: inner_Render_cleaned lookup_or_render_promise(2) split: sum.split)
qed

lemma source_Render_cleaned: "yields (\<lambda>_. cleaned) (source_Render L X S src mode ns)"
  by (cases src) (simp_all add: inner_Render_cleaned caching_Render_promise)

section \<open>Properties\<close>

text \<open>
  (C15) Rendering leaves nothing behind: whatever fails, every temporary directory that a render
  creates is removed; only what is returned is put into the cache, after a miss under the same key,
  and a hit is returned as it is.
\<close>

theorem source_Render_clean:
  "yields (\<lambda>r t. cleaned t \<and> cache_promise r t) (source_Render L X S src mode ns)"
proof (rule yields_conj [OF source_Render_cleaned])
  have "yields (\<lambda>_ t. list_all no_cache t) (inner_Render L X S i mode ns)" for i
    using uncached.emits_inner_Render [OF refl] by (simp add: emits_yields)
  then show "yields cache_promise (source_Render L X S src mode ns)"
    by (cases src) (auto intro: yields_mono no_cache_promise caching_Render_promise)
qed

end
