(* ===== verification/Order.thy ===== *)
theory Order
  imports Manifest
begin

text \<open>
  \<open>internal/deliver/order.go\<close>: the order in which the objects of one render are applied and
  deleted, the identity keys under which status entries and manifests are compared, and the
  minimal manifest rebuilt from a status entry.
\<close>

section \<open>Definitions\<close>

definition applyPriority :: "string \<Rightarrow> int" where
  "applyPriority kind =
     (if kind = ''Namespace'' then 0
      else if kind = ''CustomResourceDefinition'' then 1
      else if kind \<in> set [''ClusterRole'', ''ClusterRoleBinding'', ''Role'', ''RoleBinding'', ''ServiceAccount'']
        then 2
      else if kind \<in> set [''ValidatingWebhookConfiguration'', ''MutatingWebhookConfiguration''] then 4
      else 3)"

text \<open>\<open>sort.SliceStable\<close> is the stable sort by the compared key.\<close>

definition SortForApply :: "klib \<Rightarrow> Manifest list \<Rightarrow> Manifest list" where
  "SortForApply L ms = sort_key (\<lambda>m. applyPriority (GetKind L (m_Unstructured m))) ms"

definition zero_Manifest :: Manifest where
  "zero_Manifest = \<lparr>m_Unstructured = [], m_Origin = OriginUnset\<rparr>"

definition SortForDelete :: "klib \<Rightarrow> Manifest list \<Rightarrow> Manifest list" where
  "SortForDelete L ms =
     (let applied = SortForApply L ms in
      foldl (\<lambda>out i. out[length applied - 1 - i := applied ! i])
        (replicate (length applied) zero_Manifest) [0..<length applied])"

definition SortStatusForDelete :: "ResourceStatus list \<Rightarrow> ResourceStatus list" where
  "SortStatusForDelete prev = sort_key (\<lambda>rs. - applyPriority (rs_Kind rs)) prev"

definition identityNamespace :: "string \<Rightarrow> string \<Rightarrow> string" where
  "identityNamespace kind ns = (if IsClusterScoped kind then [] else ns)"

text \<open>The group and version of a status entry; an unparsable one counts as empty.\<close>

definition status_gv :: "klib \<Rightarrow> ResourceStatus \<Rightarrow> string \<times> string" where
  "status_gv L rs = (case ParseGroupVersion L (rs_APIVersion rs) of Inl e \<Rightarrow> ([], []) | Inr gv \<Rightarrow> gv)"

definition ManifestFromStatus :: "klib \<Rightarrow> ResourceStatus \<Rightarrow> Manifest" where
  "ManifestFromStatus L rs =
     (let gv = status_gv L rs;
          u = SetGroupVersionKind L [] \<lparr>gvk_Group = fst gv, gvk_Version = snd gv, gvk_Kind = rs_Kind rs\<rparr>;
          u = SetNamespace L u (identityNamespace (rs_Kind rs) (rs_Namespace rs));
          u = SetName L u (rs_Name rs)
      in \<lparr>m_Unstructured = u, m_Origin = OriginUnset\<rparr>)"

definition StatusIdentityKey :: "klib \<Rightarrow> ResourceStatus \<Rightarrow> string" where
  "StatusIdentityKey L rs =
     strings_Join
       [fst (status_gv L rs), rs_Kind rs, identityNamespace (rs_Kind rs) (rs_Namespace rs), rs_Name rs] ''/''"

definition ManifestIdentityKey :: "klib \<Rightarrow> Manifest \<Rightarrow> string" where
  "ManifestIdentityKey L m =
     (let g = GroupVersionKind L (m_Unstructured m) in
      strings_Join
        [gvk_Group g, gvk_Kind g, identityNamespace (gvk_Kind g) (GetNamespace L (m_Unstructured m)),
         GetName L (m_Unstructured m)] ''/'')"

section \<open>Sorting\<close>

lemma SortForApply_length [simp]: "length (SortForApply L ms) = length ms"
  by (simp add: SortForApply_def)

lemma SortForApply_set [simp]: "set (SortForApply L ms) = set ms"
  by (simp add: SortForApply_def)

text \<open>The loop of \<open>SortForDelete\<close> writes position \<open>n - 1 - i\<close> in turn \<open>i\<close>.\<close>

lemma reverse_loop:
  assumes "n \<le> length xs" and "length out = length xs"
  shows "foldl (\<lambda>out i. out[length xs - 1 - i := xs ! i]) out [0..<n] =
    take (length xs - n) out @ rev (take n xs)"
  using assms(1)
proof (induction n)
  case (Suc n)
  let ?k = "length xs - Suc n"
  have "take (length xs - n) out = take ?k out @ [out ! ?k]"
    using Suc.prems assms(2) by (simp add: Suc_diff_Suc flip: take_Suc_conv_app_nth)
  moreover have "length (take ?k out) = ?k" using assms(2) by simp
  ultimately have "(take (length xs - n) out @ rev (take n xs))[?k := xs ! n] =
      take ?k out @ xs ! n # rev (take n xs)"
    by (simp add: list_update_append)
  with Suc show ?case by (simp add: take_Suc_conv_app_nth)
qed (simp add: assms(2))

lemma SortForDelete_rev: "SortForDelete L ms = rev (SortForApply L ms)"
  using reverse_loop [of "length (SortForApply L ms)" "SortForApply L ms"
      "replicate (length (SortForApply L ms)) zero_Manifest"]
  by (simp add: SortForDelete_def Let_def)

lemma SortStatusForDelete_set [simp]: "set (SortStatusForDelete prev) = set prev"
  by (simp add: SortStatusForDelete_def)

lemma SortStatusForDelete_length [simp]: "length (SortStatusForDelete prev) = length prev"
  by (simp add: SortStatusForDelete_def)

lemma applyPriority_bounds: "0 \<le> applyPriority k" "applyPriority k \<le> 4"
  by (auto simp: applyPriority_def)

section \<open>Identity keys\<close>

lemma gv_split_slash_free:
  assumes "gv_split s = Some (g, v)"
  shows "CHR ''/'' \<notin> set g \<and> CHR ''/'' \<notin> set v"
proof -
  have "CHR ''/'' \<notin> set (tl (dropWhile (\<lambda>c. c \<noteq> CHR ''/'') s))" if "count_list s (CHR ''/'') = 1"
  proof -
    let ?d = "dropWhile (\<lambda>c. c \<noteq> CHR ''/'') s"
    have "count_list (takeWhile (\<lambda>c. c \<noteq> CHR ''/'') s) (CHR ''/'') = 0"
      by (auto simp: count_list_0_iff dest: set_takeWhileD)
    moreover have "count_list s (CHR ''/'') =
        count_list (takeWhile (\<lambda>c. c \<noteq> CHR ''/'') s) (CHR ''/'') + count_list ?d (CHR ''/'')"
      by (metis count_list_append takeWhile_dropWhile_id)
    ultimately have one: "count_list ?d (CHR ''/'') = 1" using that by simp
    then obtain c r where d: "?d = c # r" by (cases ?d) auto
    then have "c = CHR ''/''" by (auto simp: dropWhile_eq_Cons_conv)
    with one d have "count_list r (CHR ''/'') = 0" by simp
    with d show ?thesis by (simp add: count_list_0_iff)
  qed
  moreover have "CHR ''/'' \<notin> set (takeWhile (\<lambda>c. c \<noteq> CHR ''/'') s)"
    by (auto dest: set_takeWhileD)
  ultimately show ?thesis
    using assms by (auto simp: gv_split_def count_list_0_iff split: if_splits)
qed

lemma gv_split_string:
  assumes "CHR ''/'' \<notin> set g" and "CHR ''/'' \<notin> set v"
  shows "gv_split (gv_string g v) = Some (g, v)"
proof (cases "g = []")
  case True
  with assms show ?thesis by (auto simp: gv_split_def gv_string_def count_list_0_iff)
next
  case False
  then obtain c r where g: "g = c # r" by (cases g) auto
  with assms have "c \<noteq> CHR ''/''" by auto
  moreover have "takeWhile (\<lambda>c. c \<noteq> CHR ''/'') (g @ CHR ''/'' # v) = g"
    "dropWhile (\<lambda>c. c \<noteq> CHR ''/'') (g @ CHR ''/'' # v) = CHR ''/'' # v"
    using assms by (auto intro: takeWhile_append2 [THEN trans] dropWhile_append2 [THEN trans])
  moreover have "count_list g (CHR ''/'') = 0" "count_list v (CHR ''/'') = 0"
    using assms by (simp_all add: count_list_0_iff)
  ultimately show ?thesis
    using g by (simp add: gv_split_def gv_string_def)
qed

lemma identityNamespace_idem [simp]:
  "identityNamespace k (identityNamespace k ns) = identityNamespace k ns"
  by (simp add: identityNamespace_def)

text \<open>Two keys agree exactly when their parts do, as long as the parts before the name have no slash.\<close>

lemma key_inject:
  assumes "CHR ''/'' \<notin> set g" "CHR ''/'' \<notin> set k" "CHR ''/'' \<notin> set n"
    and "CHR ''/'' \<notin> set g'" "CHR ''/'' \<notin> set k'" "CHR ''/'' \<notin> set n'"
  shows "strings_Join [g, k, n, x] ''/'' = strings_Join [g', k', n', x'] ''/'' \<longleftrightarrow>
    g = g' \<and> k = k' \<and> n = n' \<and> x = x'"
  using strings_Join_inject [of "[g, k, n, x]" "[g', k', n', x']" "CHR ''/''"] assms by auto

context unstructured_lib
begin

lemma status_gv_slash_free:
  "CHR ''/'' \<notin> set (fst (status_gv L rs))" "CHR ''/'' \<notin> set (snd (status_gv L rs))"
  using gv_split_slash_free [of "rs_APIVersion rs"]
  by (auto simp: status_gv_def ParseGroupVersion_law split: option.splits)

lemma meta_ok_SetGroupVersionKind: "meta_ok (SetGroupVersionKind L [] g)"
  by (simp add: SetGroupVersionKind_law write_nested_def path_eval meta_ok_def)

lemma ManifestFromStatus_reads:
  fixes rs defines "u \<equiv> m_Unstructured (ManifestFromStatus L rs)"
  shows "GroupVersionKind L u =
      \<lparr>gvk_Group = fst (status_gv L rs), gvk_Version = snd (status_gv L rs), gvk_Kind = rs_Kind rs\<rparr>"
    and "GetKind L u = rs_Kind rs"
    and "GetNamespace L u = identityNamespace (rs_Kind rs) (rs_Namespace rs)"
    and "GetName L u = rs_Name rs" and "meta_ok u"
proof -
  note defs = u_def ManifestFromStatus_def Let_def
  show "GroupVersionKind L u =
      \<lparr>gvk_Group = fst (status_gv L rs), gvk_Version = snd (status_gv L rs), gvk_Kind = rs_Kind rs\<rparr>"
    by (simp add: defs lib_laws gv_split_string status_gv_slash_free case_prod_beta)
  show "GetKind L u = rs_Kind rs" by (simp add: defs lib_laws)
  show "GetNamespace L u = identityNamespace (rs_Kind rs) (rs_Namespace rs)"
    using meta_ok_SetGroupVersionKind by (simp add: defs GetNamespace_law SetNamespace_law SetName_law)
  show "GetName L u = rs_Name rs" "meta_ok u"
    using meta_ok_SetGroupVersionKind
    by (simp_all add: defs GetName_law SetNamespace_law SetName_law)
qed

lemma key_of_ManifestFromStatus: "ManifestIdentityKey L (ManifestFromStatus L rs) = StatusIdentityKey L rs"
  by (simp add: ManifestIdentityKey_def StatusIdentityKey_def ManifestFromStatus_reads Let_def)

end

section \<open>Properties\<close>

text \<open>
  (C35) The minimal manifest rebuilt from a status entry has the identity key of the entry, for
  every entry, also one whose apiVersion does not parse.
\<close>

theorem ManifestFromStatus_key:
  assumes "unstructured_lib L err"
  shows "ManifestIdentityKey L (ManifestFromStatus L rs) = StatusIdentityKey L rs"
  using assms by (rule unstructured_lib.key_of_ManifestFromStatus)

theorem ManifestFromStatus_key_witness:
  "unstructured_lib documented_lib documented_err \<and>
   ManifestIdentityKey documented_lib
     (ManifestFromStatus documented_lib
       \<lparr>rs_Kind = ''Deployment'', rs_APIVersion = ''apps/v1'', rs_Namespace = ''kube-system'', rs_Name = ''web'',
        rs_Health = HealthHealthy, rs_LastApplied = None, rs_Message = []\<rparr>) =
     ''apps/Deployment/kube-system/web''"
  using ManifestFromStatus_key [OF doc.unstructured_lib_axioms, of
      "\<lparr>rs_Kind = ''Deployment'', rs_APIVersion = ''apps/v1'', rs_Namespace = ''kube-system'', rs_Name = ''web'',
        rs_Health = HealthHealthy, rs_LastApplied = None, rs_Message = []\<rparr>"]
  by (simp add: doc.unstructured_lib_axioms)
    (simp add: StatusIdentityKey_def status_gv_def documented_lib_def gv_split_def identityNamespace_def
      IsClusterScoped_def clusterScopedKinds_def)

text \<open>
  (C22) The apply order is a stable sort by kind priority: it keeps every manifest, the priorities
  ascend, and manifests of the same priority keep their order; the delete order is its reverse.
\<close>

theorem SortForApply_exact:
  "mset (SortForApply L ms) = mset ms \<and>
   sorted (map (\<lambda>m. applyPriority (GetKind L (m_Unstructured m))) (SortForApply L ms)) \<and>
   (\<forall>k. filter (\<lambda>m. applyPriority (GetKind L (m_Unstructured m)) = k) (SortForApply L ms) =
      filter (\<lambda>m. applyPriority (GetKind L (m_Unstructured m)) = k) ms) \<and>
   SortForDelete L ms = rev (SortForApply L ms)"
  by (simp add: SortForApply_def SortForDelete_rev sort_key_stable)

end
