(* ===== verification/Applier.thy ===== *)
theory Applier
  imports World Order
begin

text \<open>
  \<open>internal/deliver\<close>: stripping of \<open>caBundle\<close> leaves (cabundle.go), the health of a live object
  (health.go), and the server-side-apply applier (applier.go). The Go interface \<open>Applier\<close> is the
  record of its three methods; \<open>Apply\<close> also returns the manifest, since the object behind it is
  changed in place: the stripped annotations and leaves, the ownership label, and the server's
  response that \<open>Patch\<close> writes back.
\<close>

section \<open>The caBundle leaves (cabundle.go)\<close>

definition strip_entry :: "klib \<Rightarrow> jval \<Rightarrow> jval" where
  "strip_entry L v =
     (case as_obj (Some v) of
        None \<Rightarrow> v
      | Some wh \<Rightarrow> JObj (RemoveNestedField L wh [''clientConfig'', ''caBundle'']))"

definition stripCABundleFromWebhooks :: "klib \<Rightarrow> jobj \<Rightarrow> jobj" where
  "stripCABundleFromWebhooks L u =
     (case NestedSlice L u [''webhooks''] of
        Inl e \<Rightarrow> u
      | Inr None \<Rightarrow> u
      | Inr (Some whs) \<Rightarrow>
          (case SetNestedSlice L u (map (strip_entry L) whs) [''webhooks''] of Inl e \<Rightarrow> u | Inr u' \<Rightarrow> u'))"

definition stripCABundleFromCRDConversion :: "klib \<Rightarrow> jobj \<Rightarrow> jobj" where
  "stripCABundleFromCRDConversion L u =
     RemoveNestedField L u [''spec'', ''conversion'', ''webhook'', ''clientConfig'', ''caBundle'']"

definition prepareForApply :: "klib \<Rightarrow> jobj \<Rightarrow> jobj" where
  "prepareForApply L u =
     (if GetKind L u = ''ValidatingWebhookConfiguration'' \<or> GetKind L u = ''MutatingWebhookConfiguration''
        then stripCABundleFromWebhooks L u
      else if GetKind L u = ''CustomResourceDefinition'' then stripCABundleFromCRDConversion L u
      else u)"

section \<open>Health (health.go)\<close>

definition replicaHealth :: "klib \<Rightarrow> jobj \<Rightarrow> HealthState" where
  "replicaHealth L u =
     (case (NestedInt64 L u [''spec'', ''replicas''], NestedInt64 L u [''status'', ''availableReplicas'']) of
        (Inr replicas, Inr available) \<Rightarrow>
          (let zero = (\<lambda>v. case v of None \<Rightarrow> 0 | Some i \<Rightarrow> i)
           in if zero available \<ge> zero replicas then HealthHealthy else HealthProgressing)
      | _ \<Rightarrow> HealthProgressing)"

fun established :: "jval list \<Rightarrow> bool" where
  "established [] = False"
| "established (c # cs) =
     (case as_obj (Some c) of
        None \<Rightarrow> established cs
      | Some cm \<Rightarrow>
          if map_of cm ''type'' = Some (JStr ''Established'') \<and> map_of cm ''status'' = Some (JStr ''True'')
          then True else established cs)"

definition crdHealth :: "klib \<Rightarrow> jobj \<Rightarrow> HealthState" where
  "crdHealth L u =
     (case NestedSlice L u [''status'', ''conditions''] of
        Inl e \<Rightarrow> HealthProgressing
      | Inr conds \<Rightarrow>
          if established (case conds of None \<Rightarrow> [] | Some cs \<Rightarrow> cs) then HealthHealthy
          else HealthProgressing)"

definition computeHealth :: "klib \<Rightarrow> jobj option \<Rightarrow> HealthState" where
  "computeHealth L live =
     (case live of
        None \<Rightarrow> HealthUnknown
      | Some u \<Rightarrow>
          if GetKind L u = ''Deployment'' \<or> GetKind L u = ''StatefulSet'' then replicaHealth L u
          else if GetKind L u = ''CustomResourceDefinition'' then crdHealth L u
          else HealthHealthy)"

section \<open>The applier (applier.go)\<close>

record Applier =
  ap_Apply :: "Manifest \<Rightarrow> string \<Rightarrow> (event, Manifest \<times> ResourceStatus \<times> go_error option) io"
  ap_Delete :: "Manifest \<Rightarrow> string \<Rightarrow> (event, go_error option) io"
  ap_Get :: "Manifest \<Rightarrow> (event, jobj result) io"

record SSAApplier =
  ssa_Client :: client_id
  ssa_FieldManager :: string
  ssa_Cluster :: string

text \<open>
  \<open>Get\<close> asks for the object with the group, version, kind, namespace and name of the manifest.
\<close>

definition SSA_Get :: "klib \<Rightarrow> api_env \<Rightarrow> SSAApplier \<Rightarrow> Manifest \<Rightarrow> (event, jobj result) io" where
  "SSA_Get L E a m =
     client_Get E (ssa_Client a) (GroupVersionKind L (m_Unstructured m))
       (GetNamespace L (m_Unstructured m)) (GetName L (m_Unstructured m))"

definition foreignOwner ::
  "klib \<Rightarrow> api_env \<Rightarrow> SSAApplier \<Rightarrow> jobj \<Rightarrow> string \<Rightarrow> (event, (string \<times> bool) result) io" where
  "foreignOwner L E a u ownedBy = do {
     res \<leftarrow> client_Get E (ssa_Client a) (GroupVersionKind L u) (GetNamespace L u) (GetName L u);
     State_Monad.return
       (case res of
          Inl getErr \<Rightarrow> if IsNotFound L getErr then Inr ([], False) else Inl getErr
        | Inr live \<Rightarrow>
            (let owner = label_of L live OwnedByLabel in Inr (owner, owner \<noteq> [] \<and> owner \<noteq> ownedBy)))
   }"

definition precheck_message :: "string \<Rightarrow> string \<Rightarrow> go_error \<Rightarrow> string" where
  "precheck_message kind name err =
     ''cluster-scoped conflict pre-check failed for '' @ kind @ '' '' @ strconv_Quote name @ '': '' @ Error err"

definition conflict_message :: "string \<Rightarrow> string \<Rightarrow> string \<Rightarrow> string" where
  "conflict_message kind name owner =
     ''cluster-scoped '' @ kind @ '' '' @ strconv_Quote name @ '' already owned by CR '' @ strconv_Quote owner @
     ''; refusing to overwrite (single-install-per-seed)''"

definition apply_guard ::
  "klib \<Rightarrow> api_env \<Rightarrow> SSAApplier \<Rightarrow> jobj \<Rightarrow> string \<Rightarrow> (event, (string \<times> go_error) option) io" where
  "apply_guard L E a u ownedBy =
     (if \<not> IsClusterScoped (GetKind L u) then State_Monad.return None
      else do {
        res \<leftarrow> foreignOwner L E a u ownedBy;
        State_Monad.return
          (case res of
             Inl err \<Rightarrow> Some (precheck_message (GetKind L u) (GetName L u) err, err)
           | Inr (owner, conflict) \<Rightarrow>
               (let msg = conflict_message (GetKind L u) (GetName L u) owner
                in if conflict then Some (msg, ErrNew msg) else None))
      })"

text \<open>The object that is sent: without internal annotations and caBundle, with the ownership label.\<close>

definition prepared :: "klib \<Rightarrow> Manifest \<Rightarrow> string \<Rightarrow> jobj" where
  "prepared L m ownedBy =
     prepareForApply L (m_Unstructured (SetOwnedByLabel L (StripInternalAnnotations L m) ownedBy))"

text \<open>The patch and the read-back, with the status entry prepared so far.\<close>

definition patch_and_read ::
  "klib \<Rightarrow> api_env \<Rightarrow> SSAApplier \<Rightarrow> Manifest \<Rightarrow> ResourceStatus \<Rightarrow>
   (event, Manifest \<times> ResourceStatus \<times> go_error option) io" where
  "patch_and_read L E a m status = do {
     res \<leftarrow> client_Patch E (ssa_Client a) (m_Unstructured m) (ssa_FieldManager a);
     case res of
       Inl err \<Rightarrow>
         State_Monad.return (m, status\<lparr>rs_Health := HealthDegraded, rs_Message := Error err\<rparr>, Some err)
     | Inr u' \<Rightarrow> do {
         let m' = m\<lparr>m_Unstructured := u'\<rparr>;
         live \<leftarrow> SSA_Get L E a m';
         State_Monad.return
           (case live of
              Inl err \<Rightarrow>
                (m', status\<lparr>rs_Health := HealthUnknown,
                   rs_Message := ''apply succeeded but read-back GET failed: '' @ Error err\<rparr>, None)
            | Inr l \<Rightarrow> (m', status\<lparr>rs_Health := computeHealth L (Some l)\<rparr>, None))
       }
   }"

definition SSA_Apply ::
  "klib \<Rightarrow> api_env \<Rightarrow> SSAApplier \<Rightarrow> Manifest \<Rightarrow> string \<Rightarrow>
   (event, Manifest \<times> ResourceStatus \<times> go_error option) io" where
  "SSA_Apply L E a m ownedBy =
     (let u = prepared L m ownedBy; m' = m\<lparr>m_Unstructured := u\<rparr> in do {
        now \<leftarrow> time_Now E;
        let status = \<lparr>rs_Kind = GetKind L u, rs_APIVersion = GetAPIVersion L u, rs_Namespace = GetNamespace L u,
                      rs_Name = GetName L u, rs_Health = HealthUnset, rs_LastApplied = Some now, rs_Message = []\<rparr>;
        guard \<leftarrow> apply_guard L E a u ownedBy;
        case guard of
          Some (msg, err) \<Rightarrow>
            State_Monad.return (m', status\<lparr>rs_Health := HealthDegraded, rs_Message := msg\<rparr>, Some err)
        | None \<Rightarrow> patch_and_read L E a m' status
      })"

definition SSA_Delete ::
  "klib \<Rightarrow> api_env \<Rightarrow> SSAApplier \<Rightarrow> Manifest \<Rightarrow> string \<Rightarrow> (event, go_error option) io" where
  "SSA_Delete L E a m ownedBy = do {
     res \<leftarrow> SSA_Get L E a m;
     case res of
       Inl err \<Rightarrow> State_Monad.return (if IsNotFound L err then None else Some err)
     | Inr live \<Rightarrow>
         if label_of L live OwnedByLabel \<noteq> ownedBy then State_Monad.return None
         else do {
           del \<leftarrow> client_Delete E (ssa_Client a) (m_Unstructured m);
           State_Monad.return
             (case del of Inl err \<Rightarrow> (if IsNotFound L err then None else Some err) | Inr _ \<Rightarrow> None)
         }
   }"

definition ssa :: "klib \<Rightarrow> api_env \<Rightarrow> SSAApplier \<Rightarrow> Applier" where
  "ssa L E a = \<lparr>ap_Apply = SSA_Apply L E a, ap_Delete = SSA_Delete L E a, ap_Get = SSA_Get L E a\<rparr>"

section \<open>Stripping keeps everything else\<close>

lemma nested_at_SetNestedSlice_frame:
  assumes "unstructured_lib L err" and "SetNestedSlice L u xs fs = Inr u'" and "apart fs gs"
  shows "nested_at (JObj u') gs = nested_at (JObj u) gs"
  using assms set_nested_frame
  by (auto simp: unstructured_lib.SetNestedSlice_law split: option.splits)

context unstructured_lib
begin

lemma prepareForApply_frame:
  assumes "apart [''webhooks''] gs"
    and "apart [''spec'', ''conversion'', ''webhook'', ''clientConfig'', ''caBundle''] gs"
  shows "nested_at (JObj (prepareForApply L u)) gs = nested_at (JObj u) gs"
  using assms nested_at_SetNestedSlice_frame [OF unstructured_lib_axioms]
  by (auto simp: prepareForApply_def stripCABundleFromWebhooks_def stripCABundleFromCRDConversion_def
      RemoveNestedField_law remove_nested_frame split: sum.splits option.splits)

lemma prepareForApply_str [simp]:
  "str_at (prepareForApply L u) [''apiVersion''] = str_at u [''apiVersion'']"
  "str_at (prepareForApply L u) [''kind''] = str_at u [''kind'']"
  "str_at (prepareForApply L u) [''metadata'', f] = str_at u [''metadata'', f]"
  "strmap_at (prepareForApply L u) [''metadata'', f] = strmap_at u [''metadata'', f]"
  by (simp_all add: str_at_def strmap_at_def prepareForApply_frame)

lemma prepareForApply_reads [simp]:
  "GetKind L (prepareForApply L u) = GetKind L u"
  "GetAPIVersion L (prepareForApply L u) = GetAPIVersion L u"
  "GetNamespace L (prepareForApply L u) = GetNamespace L u"
  "GetName L (prepareForApply L u) = GetName L u"
  "GroupVersionKind L (prepareForApply L u) = GroupVersionKind L u"
  "label_of L (prepareForApply L u) k = label_of L u k"
  "annotation_of L (prepareForApply L u) k = annotation_of L u k"
  by (simp_all add: getter_laws label_of_def annotation_of_def split: option.split)

lemma prepareForApply_meta_ok [simp]: "meta_ok (prepareForApply L u) = meta_ok u"
  by (simp add: meta_ok_alt prepareForApply_frame)

lemma prepared_reads [simp]:
  "GetKind L (prepared L m ownedBy) = GetKind L (m_Unstructured m)"
  "GetAPIVersion L (prepared L m ownedBy) = GetAPIVersion L (m_Unstructured m)"
  "GetNamespace L (prepared L m ownedBy) = GetNamespace L (m_Unstructured m)"
  "GetName L (prepared L m ownedBy) = GetName L (m_Unstructured m)"
  "GroupVersionKind L (prepared L m ownedBy) = GroupVersionKind L (m_Unstructured m)"
  by (simp_all add: prepared_def strip_frame owned_frame)

lemma prepared_label:
  "meta_ok (m_Unstructured m) \<Longrightarrow> label_of L (prepared L m ownedBy) OwnedByLabel = ownedBy"
  by (simp add: prepared_def owned_label strip_meta_ok)

lemma prepared_meta_ok: "meta_ok (prepared L m ownedBy) \<Longrightarrow> meta_ok (m_Unstructured m)"
  by (auto simp: prepared_def SetOwnedByLabel_def StripInternalAnnotations_def Let_def SetLabels_law
      SetAnnotations_law split: option.splits if_splits dest!: meta_ok_of_write_strmap)

lemma prepared_annotation: "annotation_of L (prepared L m ownedBy) OriginAnnotation = []"
  using strip_annotation [of m OriginAnnotation]
  by (simp add: prepared_def) (simp add: annotation_of_def owned_frame)

end

section \<open>The ownership discipline\<close>

text \<open>
  The response of the last call, when it was a read of the object \<open>u\<close> by the same client.
\<close>

definition fetched :: "klib \<Rightarrow> event option \<Rightarrow> client_id \<Rightarrow> jobj \<Rightarrow> jobj result option" where
  "fetched L prev c u =
     (case prev of
        Some (EvGet c' g ns n r) \<Rightarrow>
          if c' = c \<and> g = GroupVersionKind L u \<and> ns = GetNamespace L u \<and> n = GetName L u then Some r else None
      | _ \<Rightarrow> None)"

text \<open>
  What a write needs: a deletion directly follows a read that showed this custom resource's
  ownership value on the object; an apply carries the ownership value, and for a cluster-scoped
  kind directly follows a read that showed no object, no owner or this owner.
\<close>

definition ok_after :: "klib \<Rightarrow> string \<Rightarrow> event option \<Rightarrow> event \<Rightarrow> bool" where
  "ok_after L ownedBy prev ev =
     (case ev of
        EvDelete c u r \<Rightarrow>
          (case fetched L prev c u of
             Some (Inr live) \<Rightarrow> label_of L live OwnedByLabel = ownedBy | _ \<Rightarrow> False)
      | EvPatch c u fm r \<Rightarrow>
          (meta_ok u \<longrightarrow> label_of L u OwnedByLabel = ownedBy) \<and>
          (IsClusterScoped (GetKind L u) \<longrightarrow>
             (case fetched L prev c u of
                Some (Inl e) \<Rightarrow> IsNotFound L e
              | Some (Inr live) \<Rightarrow> label_of L live OwnedByLabel = [] \<or> label_of L live OwnedByLabel = ownedBy
              | None \<Rightarrow> False))
      | _ \<Rightarrow> True)"

fun disciplined :: "klib \<Rightarrow> string \<Rightarrow> event option \<Rightarrow> event list \<Rightarrow> bool" where
  "disciplined L ownedBy prev [] = True"
| "disciplined L ownedBy prev (e # t) = (ok_after L ownedBy prev e \<and> disciplined L ownedBy (Some e) t)"

lemma ok_after_None: "ok_after L ownedBy None e \<Longrightarrow> ok_after L ownedBy prev e"
  by (auto simp: ok_after_def fetched_def split: event.splits)

lemma disciplined_None: "disciplined L ownedBy None t \<Longrightarrow> disciplined L ownedBy prev t"
  by (cases t) (auto intro: ok_after_None)

lemma disciplined_append:
  "disciplined L ownedBy prev s \<Longrightarrow> disciplined L ownedBy None t \<Longrightarrow> disciplined L ownedBy prev (s @ t)"
  by (induction s arbitrary: prev) (auto intro: disciplined_None)

interpretation ownership: trace_property "disciplined L ownedBy None" for L ownedBy
  by unfold_locales (auto intro: disciplined_append)

text \<open>Events other than applies and deletions are always in order.\<close>

fun is_object_write :: "event \<Rightarrow> bool" where
  "is_object_write (EvPatch c u fm r) = True"
| "is_object_write (EvDelete c u r) = True"
| "is_object_write _ = False"

lemma ok_after_other: "\<not> is_object_write e \<Longrightarrow> ok_after L ownedBy prev e"
  by (cases e) (simp_all add: ok_after_def)

lemma disciplined_other: "list_all (\<lambda>e. \<not> is_object_write e) t \<Longrightarrow> disciplined L ownedBy prev t"
  by (induction t arbitrary: prev) (auto intro: ok_after_other)

section \<open>The contract of an applier\<close>

text \<open>The status entry that \<open>Apply\<close> returns names the manifest it was given.\<close>

definition status_for :: "klib \<Rightarrow> Manifest \<Rightarrow> ResourceStatus \<Rightarrow> bool" where
  "status_for L m st \<longleftrightarrow>
     rs_Kind st = GetKind L (m_Unstructured m) \<and> rs_APIVersion st = GetAPIVersion L (m_Unstructured m) \<and>
     rs_Namespace st = GetNamespace L (m_Unstructured m) \<and> rs_Name st = GetName L (m_Unstructured m)"

text \<open>The events an applier of client \<open>c\<close> causes.\<close>

fun apply_event :: "client_id \<Rightarrow> event \<Rightarrow> bool" where
  "apply_event c (EvNow t) = True"
| "apply_event c (EvGet c' g ns n r) = (c' = c)"
| "apply_event c (EvPatch c' u fm r) = (c' = c)"
| "apply_event c _ = False"

fun delete_event :: "client_id \<Rightarrow> event \<Rightarrow> bool" where
  "delete_event c (EvGet c' g ns n r) = (c' = c)"
| "delete_event c (EvDelete c' u r) = (c' = c)"
| "delete_event c _ = False"

text \<open>The objects that a trace applies and deletes, in order.\<close>

definition patched :: "event list \<Rightarrow> jobj list" where
  "patched t = List.map_filter (\<lambda>e. case e of EvPatch c u fm r \<Rightarrow> Some u | _ \<Rightarrow> None) t"

definition deleted :: "event list \<Rightarrow> jobj list" where
  "deleted t = List.map_filter (\<lambda>e. case e of EvDelete c u r \<Rightarrow> Some u | _ \<Rightarrow> None) t"

lemma patched_simps [simp]:
  "patched [] = []"
  "patched (e # t) = (case e of EvPatch c u fm r \<Rightarrow> u # patched t | _ \<Rightarrow> patched t)"
  "patched (s @ t) = patched s @ patched t"
  by (auto simp: patched_def List.map_filter_def split: event.splits)

lemma deleted_simps [simp]:
  "deleted [] = []"
  "deleted (e # t) = (case e of EvDelete c u r \<Rightarrow> u # deleted t | _ \<Rightarrow> deleted t)"
  "deleted (s @ t) = deleted s @ deleted t"
  by (auto simp: deleted_def List.map_filter_def split: event.splits)

lemma patched_concat: "patched (concat ts) = concat (map patched ts)"
  by (induction ts) simp_all

lemma deleted_concat: "deleted (concat ts) = concat (map deleted ts)"
  by (induction ts) simp_all

lemma in_patched: "u \<in> set (patched t) \<longleftrightarrow> (\<exists>c fm r. EvPatch c u fm r \<in> set t)"
  by (induction t) (auto split: event.splits)

lemma in_deleted: "u \<in> set (deleted t) \<longleftrightarrow> (\<exists>c r. EvDelete c u r \<in> set t)"
  by (induction t) (auto split: event.splits)

lemma no_writes:
  assumes "list_all (\<lambda>e. \<not> is_object_write e) t"
  shows "patched t = []" "deleted t = []" "EvPatch c u fm r \<notin> set t" "EvDelete c u d \<notin> set t"
  using assms by (induction t) (auto split: event.splits)

definition get_trace :: "klib \<Rightarrow> client_id \<Rightarrow> Manifest \<Rightarrow> jobj result \<Rightarrow> event list" where
  "get_trace L c m r =
     [EvGet c (GroupVersionKind L (m_Unstructured m)) (GetNamespace L (m_Unstructured m))
        (GetName L (m_Unstructured m)) r]"

text \<open>What a successful deletion has established.\<close>

definition gone :: "klib \<Rightarrow> client_id \<Rightarrow> string \<Rightarrow> Manifest \<Rightarrow> event list \<Rightarrow> bool" where
  "gone L c ownedBy m t \<longleftrightarrow>
     (\<exists>e. t = get_trace L c m (Inl e) \<and> IsNotFound L e) \<or>
     (\<exists>live. t = get_trace L c m (Inr live) \<and> label_of L live OwnedByLabel \<noteq> ownedBy) \<or>
     (\<exists>live d. t = get_trace L c m (Inr live) @ [EvDelete c (m_Unstructured m) d] \<and>
        label_of L live OwnedByLabel = ownedBy \<and> (\<forall>e. d = Inl e \<longrightarrow> IsNotFound L e))"

definition apply_promise ::
  "klib \<Rightarrow> client_id \<Rightarrow> string \<Rightarrow> Manifest \<Rightarrow> Manifest \<times> ResourceStatus \<times> go_error option \<Rightarrow> event list \<Rightarrow> bool"
  where
  "apply_promise L c ownedBy m res t \<longleftrightarrow>
     status_for L m (fst (snd res)) \<and>
     (rs_Health (fst (snd res)) = HealthDegraded \<longleftrightarrow> snd (snd res) \<noteq> None) \<and>
     rs_Health (fst (snd res)) \<noteq> HealthUnset \<and>
     m_Origin (fst res) = m_Origin m \<and>
     subseq (patched t) [prepared L m ownedBy] \<and>
     (snd (snd res) = None \<longleftrightarrow> (\<exists>fm u'. EvPatch c (prepared L m ownedBy) fm (Inr u') \<in> set t)) \<and>
     (snd (snd res) = None \<longrightarrow> (\<exists>fm. EvPatch c (prepared L m ownedBy) fm (Inr (m_Unstructured (fst res))) \<in> set t)) \<and>
     disciplined L ownedBy None t \<and> list_all (apply_event c) t"

definition delete_promise ::
  "klib \<Rightarrow> client_id \<Rightarrow> string \<Rightarrow> Manifest \<Rightarrow> go_error option \<Rightarrow> event list \<Rightarrow> bool" where
  "delete_promise L c ownedBy m err t \<longleftrightarrow>
     (err = None \<longrightarrow> gone L c ownedBy m t) \<and> subseq (deleted t) [m_Unstructured m] \<and> disciplined L ownedBy None t \<and> list_all (delete_event c) t"

text \<open>
  The interface \<open>Applier\<close> as the reconciler relies on it. \<open>c\<close> is the cluster it works on.
\<close>

locale applier_contract =
  fixes L :: klib and c :: client_id and A :: Applier
  assumes apply_law: "yields (apply_promise L c ownedBy m) (ap_Apply A m ownedBy)"
    and delete_law: "yields (delete_promise L c ownedBy m) (ap_Delete A m ownedBy)"
    and get_law: "yields (\<lambda>r t. t = get_trace L c m r) (ap_Get A m)"

section \<open>The server-side-apply applier keeps the contract\<close>

lemma computeHealth_not [simp]:
  "computeHealth L u \<noteq> HealthDegraded" "computeHealth L u \<noteq> HealthUnset"
  by (auto simp: computeHealth_def replicaHealth_def crdHealth_def Let_def split: option.splits sum.splits)

context unstructured_lib
begin

lemma prepared_ok_label: "meta_ok (prepared L m ownedBy) \<Longrightarrow> label_of L (prepared L m ownedBy) OwnedByLabel = ownedBy"
  by (blast intro: prepared_label dest: prepared_meta_ok)

lemma SSA_Get_law: "yields (\<lambda>r t. t = get_trace L (ssa_Client a) m r) (SSA_Get L E a m)"
  unfolding SSA_Get_def client_Get_def by (rule yields_call) (simp add: get_trace_def)

text \<open>The guard lets an apply through only in the allowed cases, and leaves its read as the last event.\<close>

lemma apply_guard_law:
  "yields (\<lambda>g t. (\<not> IsClusterScoped (GetKind L u) \<longrightarrow> t = []) \<and>
       list_all (apply_event (ssa_Client a)) t \<and> list_all (\<lambda>e. \<not> is_object_write e) t \<and>
       (g = None \<longrightarrow> IsClusterScoped (GetKind L u) \<longrightarrow>
          (\<exists>r. t = [EvGet (ssa_Client a) (GroupVersionKind L u) (GetNamespace L u) (GetName L u) r] \<and>
            (case r of Inl e \<Rightarrow> IsNotFound L e
             | Inr live \<Rightarrow> label_of L live OwnedByLabel = [] \<or> label_of L live OwnedByLabel = ownedBy))))
     (apply_guard L E a u ownedBy)"
  unfolding apply_guard_def foreignOwner_def client_Get_def
  by (auto intro!: yields_return yields_call_bind simp: Let_def split: sum.splits if_splits)

lemma patch_disciplined:
  assumes c: "c = ssa_Client a"
    and guard: "IsClusterScoped (GetKind L (prepared L m ownedBy)) \<longrightarrow>
      (\<exists>r. t = [EvGet c (GroupVersionKind L (prepared L m ownedBy)) (GetNamespace L (prepared L m ownedBy))
            (GetName L (prepared L m ownedBy)) r] \<and>
         (case r of Inl e \<Rightarrow> IsNotFound L e
          | Inr live \<Rightarrow> label_of L live OwnedByLabel = [] \<or> label_of L live OwnedByLabel = ownedBy))"
    and none: "\<not> IsClusterScoped (GetKind L (prepared L m ownedBy)) \<longrightarrow> t = []"
  shows "disciplined L ownedBy prev (t @ [EvPatch c (prepared L m ownedBy) fm r])"
proof (cases "IsClusterScoped (GetKind L (prepared L m ownedBy))")
  case True
  with guard obtain r' where t: "t = [EvGet c (GroupVersionKind L (prepared L m ownedBy))
      (GetNamespace L (prepared L m ownedBy)) (GetName L (prepared L m ownedBy)) r']"
    and r': "case r' of Inl e \<Rightarrow> IsNotFound L e
          | Inr live \<Rightarrow> label_of L live OwnedByLabel = [] \<or> label_of L live OwnedByLabel = ownedBy"
    by blast
  from r' show ?thesis
    by (simp add: t ok_after_def [of _ _ _ "EvPatch _ _ _ _"] ok_after_other fetched_def prepared_ok_label
        split: sum.splits)
next
  case False
  with none show ?thesis by (simp add: ok_after_def prepared_ok_label)
qed

text \<open>Given a trace \<open>t\<close> after which the patch is in order, the rest of \<open>Apply\<close> keeps the promise.\<close>

lemma patch_and_read_law:
  assumes "\<And>fm r. disciplined L ownedBy None (t @ [EvPatch (ssa_Client a) (m_Unstructured m') fm r])"
    and "list_all (apply_event (ssa_Client a)) t" and "status_for L m status" and "m_Origin m' = m_Origin m"
    and "list_all (\<lambda>e. \<not> is_object_write e) t" and "m_Unstructured m' = prepared L m ownedBy"
  shows "yields (\<lambda>res s. apply_promise L (ssa_Client a) ownedBy m res (t @ s)) (patch_and_read L E a m' status)"
proof -
  have read: "disciplined L ownedBy None (t @ [EvPatch (ssa_Client a) (m_Unstructured m') fm r, EvGet c g ns n r'])"
    for fm r c g ns n r'
    using disciplined_append [OF assms(1), of "[EvGet c g ns n r']"] by (simp add: ok_after_other)
  show ?thesis
    unfolding patch_and_read_def client_Patch_def Let_def
  proof (rule yields_call_bind)
    fix r
    show "yields (\<lambda>res s. apply_promise L (ssa_Client a) ownedBy m res (t @ EvPatch (ssa_Client a) (m_Unstructured m') (ssa_FieldManager a) r # s))
       (case r of
         Inl err \<Rightarrow> State_Monad.return (m', status\<lparr>rs_Health := HealthDegraded, rs_Message := Error err\<rparr>, Some err)
       | Inr u' \<Rightarrow> State_Monad.bind (SSA_Get L E a (m'\<lparr>m_Unstructured := u'\<rparr>)) (\<lambda>live. State_Monad.return
           (case live of
              Inl err \<Rightarrow>
                (m'\<lparr>m_Unstructured := u'\<rparr>, status\<lparr>rs_Health := HealthUnknown,
                   rs_Message := ''apply succeeded but read-back GET failed: '' @ Error err\<rparr>, None)
            | Inr l \<Rightarrow> (m'\<lparr>m_Unstructured := u'\<rparr>, status\<lparr>rs_Health := computeHealth L (Some l)\<rparr>, None))))"
    proof (cases r)
      case (Inl err)
      with assms show ?thesis
        by (auto intro!: yields_return simp: apply_promise_def status_for_def no_writes)
    next
      case (Inr u')
      with assms read show ?thesis
        by (auto intro!: yields_return yields_bind_wp [OF SSA_Get_law] split: sum.splits
            simp: apply_promise_def status_for_def get_trace_def no_writes)
    qed
  qed
qed

lemma SSA_Apply_law: "yields (apply_promise L (ssa_Client a) ownedBy m) (SSA_Apply L E a m ownedBy)"
  unfolding SSA_Apply_def Let_def time_Now_def
proof (rule yields_call_bind, rule yields_bind_wp [OF apply_guard_law], elim conjE)
  let ?u = "prepared L m ownedBy" and ?c = "ssa_Client a"
  fix now t and g :: "(string \<times> go_error) option"
  assume none: "\<not> IsClusterScoped (GetKind L ?u) \<longrightarrow> t = []"
    and ev: "list_all (apply_event ?c) t" and nw: "list_all (\<lambda>e. \<not> is_object_write e) t"
    and guard: "g = None \<longrightarrow> IsClusterScoped (GetKind L ?u) \<longrightarrow>
      (\<exists>r. t = [EvGet ?c (GroupVersionKind L ?u) (GetNamespace L ?u) (GetName L ?u) r] \<and>
         (case r of Inl e \<Rightarrow> IsNotFound L e
          | Inr live \<Rightarrow> label_of L live OwnedByLabel = [] \<or> label_of L live OwnedByLabel = ownedBy))"
  let ?st = "\<lparr>rs_Kind = GetKind L ?u, rs_APIVersion = GetAPIVersion L ?u, rs_Namespace = GetNamespace L ?u,
    rs_Name = GetName L ?u, rs_Health = HealthUnset, rs_LastApplied = Some now, rs_Message = []\<rparr>"
  show "yields (\<lambda>res s. apply_promise L ?c ownedBy m res (EvNow now # t @ s)) (case g of
        Some (msg, err) \<Rightarrow>
          State_Monad.return (m\<lparr>m_Unstructured := ?u\<rparr>, ?st\<lparr>rs_Health := HealthDegraded, rs_Message := msg\<rparr>, Some err)
      | None \<Rightarrow> patch_and_read L E a (m\<lparr>m_Unstructured := ?u\<rparr>) ?st)"
  proof (cases g)
    case None
    with guard none have "disciplined L ownedBy prev (t @ [EvPatch ?c ?u fm r])" for prev fm r
      by (intro patch_disciplined) auto
    then show ?thesis
      using None ev nw patch_and_read_law [of ownedBy "EvNow now # t" a "m\<lparr>m_Unstructured := ?u\<rparr>" m ?st E]
      by (simp add: ok_after_other status_for_def)
  next
    case (Some p)
    then show ?thesis
      using ev nw by (cases p) (auto intro!: yields_return simp: apply_promise_def status_for_def
          disciplined_other ok_after_other no_writes)
  qed
qed

lemma SSA_Delete_law: "yields (delete_promise L (ssa_Client a) ownedBy m) (SSA_Delete L E a m ownedBy)"
  unfolding SSA_Delete_def client_Delete_def
proof (rule yields_bind_wp [OF SSA_Get_law])
  fix res t
  assume "t = get_trace L (ssa_Client a) m res"
  then show "yields (\<lambda>err s. delete_promise L (ssa_Client a) ownedBy m err (t @ s))
     (case res of
        Inl err \<Rightarrow> State_Monad.return (if IsNotFound L err then None else Some err)
      | Inr live \<Rightarrow>
          if label_of L live OwnedByLabel \<noteq> ownedBy then State_Monad.return None
          else State_Monad.bind (call (eDelete E (ssa_Client a) (m_Unstructured m)) (EvDelete (ssa_Client a) (m_Unstructured m)))
            (\<lambda>del. State_Monad.return
              (case del of Inl err \<Rightarrow> (if IsNotFound L err then None else Some err) | Inr _ \<Rightarrow> None)))"
    by (cases res) (auto intro!: yields_return yields_call_bind split: sum.splits if_splits
        simp: delete_promise_def gone_def get_trace_def ok_after_def fetched_def)
qed

end

interpretation ssa: applier_contract documented_lib "ssa_Client a" "ssa documented_lib E a" for E a
  by unfold_locales (simp_all add: ssa_def doc.SSA_Apply_law doc.SSA_Delete_law doc.SSA_Get_law)

lemma ssa_contract: "unstructured_lib L err \<Longrightarrow> applier_contract L (ssa_Client a) (ssa L E a)"
  by unfold_locales
    (simp_all add: ssa_def unstructured_lib.SSA_Apply_law unstructured_lib.SSA_Delete_law
      unstructured_lib.SSA_Get_law)

end
