(* ===== verification/Controller.thy ===== *)
theory Controller
  imports Transform RenderSource Applier
begin

text \<open>
  \<open>internal/clients\<close> and \<open>internal/controller\<close>: the shoot REST configuration, and the reconciler
  with its two handlers \<open>Reconcile\<close> and \<open>reconcileDelete\<close>, in the order of the source file. A
  handler returns \<open>(after, err)\<close>: the \<open>RequeueAfter\<close> of \<open>ctrl.Result\<close> in seconds, 0 when unset,
  and the error. Log lines are not modelled.
\<close>

section \<open>The shoot client (clients.go)\<close>

definition shootRequestTimeout :: nat where
  "shootRequestTimeout = 30"

text \<open>\<open>client.New\<close> is an argument.\<close>

definition clients_SeedClient :: "('cfg \<Rightarrow> 'opts \<Rightarrow> 'client result) \<Rightarrow> 'cfg \<Rightarrow> 'opts \<Rightarrow> 'client result" where
  "clients_SeedClient client_New cfg opts = client_New cfg opts"

definition ShootRESTConfig :: "secret_data \<Rightarrow> string \<Rightarrow> string \<Rightarrow> string \<Rightarrow> rest_config result" where
  "ShootRESTConfig data tokenKey caKey server =
     (let tokenKey = (if tokenKey = [] then ''token'' else tokenKey);
          caKey = (if caKey = [] then ''bundle.crt'' else caKey);
          token = map_get data tokenKey;
          caData = map_get data caKey
      in if length token = 0 \<or> length caData = 0 then Inl (ErrSentinel ClientsErrShootCredentialsNotReady)
         else Inr \<lparr>rc_Host = server, rc_BearerToken = token, rc_CAData = caData, rc_Timeout = shootRequestTimeout\<rparr>)"

section \<open>Constants and the reconciler\<close>

definition FinalizerName :: string where
  "FinalizerName = ''dual-deployment-operator.cc.sap/finalizer''"

definition FieldManagerName :: string where
  "FieldManagerName = ''dual-deployment-operator''"

definition requeueInterval :: nat where
  "requeueInterval = 600"

definition ForceDeleteAnnotation :: string where
  "ForceDeleteAnnotation = ''dual-deployment-operator.cc.sap/force-delete''"

definition ReasonDeleting :: string where
  "ReasonDeleting = ''Deleting''"

text \<open>The libraries: \<open>meta.SetStatusCondition\<close> returns the condition list it has changed.\<close>

record libs =
  lib_k :: klib
  lib_src :: srclib
  lib_patch :: patchlib
  SetStatusCondition :: "condition list \<Rightarrow> condition \<Rightarrow> condition list"

text \<open>
  The reconciler's fields; \<open>rec_Recorder\<close> says whether an event recorder is set, and
  \<open>rec_shootApplierFor\<close> is the optional replacement of \<open>buildShootApplier\<close>.
\<close>

record Reconciler =
  rec_SeedApplier :: Applier
  rec_Recorder :: bool
  rec_SourceDeps :: Deps
  rec_shootApplierFor :: "(DualDeploymentOperator \<Rightarrow> (event, Applier result) io) option"

type_synonym reconcile_result = "nat \<times> go_error option"

section \<open>Status conditions\<close>

definition put_condition :: "libs \<Rightarrow> DualDeploymentOperator \<Rightarrow> condition \<Rightarrow> DualDeploymentOperator" where
  "put_condition B cr c =
     cr\<lparr>cr_Status := (cr_Status cr)\<lparr>st_Conditions := SetStatusCondition B (st_Conditions (cr_Status cr)) c\<rparr>\<rparr>"

definition setCondition ::
  "libs \<Rightarrow> DualDeploymentOperator \<Rightarrow> string \<Rightarrow> string \<Rightarrow> int \<Rightarrow> DualDeploymentOperator" where
  "setCondition B cr reason message generation =
     put_condition B cr \<lparr>cond_Type = ''Ready'', cond_Status = ''False'', cond_Reason = reason,
       cond_Message = message, cond_ObservedGeneration = generation\<rparr>"

definition record_event :: "Reconciler \<Rightarrow> string \<Rightarrow> string \<Rightarrow> string \<Rightarrow> (event, unit) io" where
  "record_event r reason action note =
     (if rec_Recorder r then report (EvRecord ''Warning'' reason action note) else State_Monad.return ())"

definition recordShootUnreachable ::
  "libs \<Rightarrow> Reconciler \<Rightarrow> DualDeploymentOperator \<Rightarrow> go_error \<Rightarrow> (event, DualDeploymentOperator) io" where
  "recordShootUnreachable B r cr err = do {
     _ \<leftarrow> record_event r ''ShootUnreachable'' ''RetainFinalizer''
       ''Shoot API server unreachable during deletion; proceeding with seed cleanup and retaining finalizer'';
     State_Monad.return
       (put_condition B cr \<lparr>cond_Type = ''Ready'', cond_Status = ''False'', cond_Reason = ''ShootUnreachable'',
          cond_Message = ''shoot unreachable during deletion: '' @ Error err,
          cond_ObservedGeneration = cr_Generation cr\<rparr>)
   }"

text \<open>\<open>%v\<close> of an error that may be nil.\<close>

definition show_error :: "go_error option \<Rightarrow> string" where
  "show_error e = (case e of None \<Rightarrow> ''<nil>'' | Some e \<Rightarrow> Error e)"

definition recordShootCleanupBlocked ::
  "libs \<Rightarrow> Reconciler \<Rightarrow> DualDeploymentOperator \<Rightarrow> go_error option \<Rightarrow> (event, DualDeploymentOperator) io" where
  "recordShootCleanupBlocked B r cr cause = do {
     _ \<leftarrow> record_event r ''ShootCleanupBlocked'' ''RetainFinalizer''
       (''Shoot cleanup incomplete; retaining finalizer. Set annotation '' @ ForceDeleteAnnotation @
        ''=true to force deletion (orphans remaining shoot resources)'');
     State_Monad.return
       (put_condition B cr \<lparr>cond_Type = ''ShootCleanup'', cond_Status = ''False'', cond_Reason = ''Blocked'',
          cond_Message = ''waiting on shoot cleanup; set '' @ ForceDeleteAnnotation @ ''=true to force: '' @ show_error cause,
          cond_ObservedGeneration = 0\<rparr>)
   }"

definition recordShootCleanupForceDeleted ::
  "libs \<Rightarrow> Reconciler \<Rightarrow> DualDeploymentOperator \<Rightarrow> go_error option \<Rightarrow> (event, DualDeploymentOperator) io" where
  "recordShootCleanupForceDeleted B r cr cause = do {
     _ \<leftarrow> record_event r ''ShootCleanupForceDeleted'' ''ForceDelete''
       ''Finalizer removed via force-delete annotation; remaining shoot resources may be orphaned'';
     let msg = ''shoot cleanup abandoned by operator force-delete; shoot resources may be orphaned'';
     State_Monad.return
       (put_condition B cr \<lparr>cond_Type = ''ShootCleanup'', cond_Status = ''False'', cond_Reason = ''ForceDeleted'',
          cond_Message = (case cause of None \<Rightarrow> msg | Some e \<Rightarrow> msg @ '' (last error: '' @ Error e @ '')''),
          cond_ObservedGeneration = 0\<rparr>)
   }"

definition set_LastReconcile :: "DualDeploymentOperator \<Rightarrow> time \<Rightarrow> DualDeploymentOperator" where
  "set_LastReconcile cr now = cr\<lparr>cr_Status := (cr_Status cr)\<lparr>st_LastReconcile := Some now\<rparr>\<rparr>"

definition set_inventory ::
  "DualDeploymentOperator \<Rightarrow> ResourceStatus list \<Rightarrow> ResourceStatus list \<Rightarrow> DualDeploymentOperator" where
  "set_inventory cr seed shoot =
     cr\<lparr>cr_Status := (cr_Status cr)\<lparr>st_SeedResources := seed, st_ShootResources := shoot\<rparr>\<rparr>"

definition errStatus ::
  "libs \<Rightarrow> api_env \<Rightarrow> DualDeploymentOperator \<Rightarrow> string \<Rightarrow> go_error \<Rightarrow> (event, reconcile_result) io" where
  "errStatus B E cr reason err =
     (let cr1 = setCondition B cr reason (Error err) (cr_Generation cr) in do {
        now \<leftarrow> time_Now E;
        _ \<leftarrow> status_Update E (set_LastReconcile cr1 now);
        State_Monad.return (0, Some err)
      })"

definition finishNotReady ::
  "api_env \<Rightarrow> DualDeploymentOperator \<Rightarrow> ResourceStatus list \<Rightarrow> ResourceStatus list \<Rightarrow> nat \<Rightarrow>
   (event, reconcile_result) io" where
  "finishNotReady E cr seed shoot backoff = do {
     now \<leftarrow> time_Now E;
     res \<leftarrow> status_Update E (set_LastReconcile (set_inventory cr seed shoot) now);
     State_Monad.return
       (case res of
          Inl e \<Rightarrow> (0, Some e)
        | Inr _ \<Rightarrow>
            if backoff = 0 then (0, Some (ErrNew ''shoot render unavailable; requeuing'')) else (backoff, None))
   }"

fun anyFailed :: "ResourceStatus list \<Rightarrow> bool" where
  "anyFailed [] = False"
| "anyFailed (s # ss) = (if rs_Health s = HealthDegraded then True else anyFailed ss)"

fun all_degraded :: "ResourceStatus list \<Rightarrow> bool" where
  "all_degraded [] = True"
| "all_degraded (s # ss) = (if rs_Health s \<noteq> HealthDegraded then False else all_degraded ss)"

definition allFailed :: "ResourceStatus list \<Rightarrow> bool" where
  "allFailed statuses = (if length statuses = 0 then False else all_degraded statuses)"

fun anyProgressing :: "ResourceStatus list \<Rightarrow> bool" where
  "anyProgressing [] = False"
| "anyProgressing (s # ss) =
     (if rs_Health s = HealthProgressing \<or> rs_Health s = HealthUnknown then True else anyProgressing ss)"

definition computeConditions :: "ResourceStatus list \<Rightarrow> ResourceStatus list \<Rightarrow> condition" where
  "computeConditions seed shoot =
     (if anyFailed seed \<or> anyFailed shoot then
        \<lparr>cond_Type = ''Ready'', cond_Status = ''False'', cond_Reason = ''ResourcesDegraded'',
         cond_Message = ''one or more managed resources are in a Degraded state'', cond_ObservedGeneration = 0\<rparr>
      else if anyProgressing seed \<or> anyProgressing shoot then
        \<lparr>cond_Type = ''Ready'', cond_Status = ''False'', cond_Reason = ''Progressing'',
         cond_Message = ''one or more managed resources are still Progressing or Unknown'',
         cond_ObservedGeneration = 0\<rparr>
      else
        \<lparr>cond_Type = ''Ready'', cond_Status = ''True'', cond_Reason = ''ReconcileSuccess'',
         cond_Message = ''all managed resources applied successfully'', cond_ObservedGeneration = 0\<rparr>)"

section \<open>Building the shoot applier\<close>

definition shoot_applier :: "klib \<Rightarrow> api_env \<Rightarrow> rest_config \<Rightarrow> Applier" where
  "shoot_applier L E rc =
     ssa L E \<lparr>ssa_Client = ShootClient rc, ssa_FieldManager = FieldManagerName, ssa_Cluster = ''shoot''\<rparr>"

definition buildShootApplier ::
  "klib \<Rightarrow> api_env \<Rightarrow> DualDeploymentOperator \<Rightarrow> (event, Applier result) io" where
  "buildShootApplier L E cr =
     (let ref = spec_ShootAccess (cr_Spec cr) in
      bind_io (wrap_io ''failed to get shoot access secret: '' []
        (get_Secret E (cr_Namespace cr) (sa_SecretName ref))) (\<lambda>secret.
      case ShootRESTConfig secret (sa_TokenKey ref) (sa_CAKey ref) (sa_Server ref) of
        Inl err \<Rightarrow>
          State_Monad.return
            (Inl (if errors_Is err ClientsErrShootCredentialsNotReady
                  then ErrSentinel ErrShootCredentialsNotReady else err))
      | Inr restCfg \<Rightarrow>
          bind_io (new_Client E restCfg) (\<lambda>_. State_Monad.return (Inr (shoot_applier L E restCfg)))))"

definition buildShootApplierOrDefault ::
  "klib \<Rightarrow> api_env \<Rightarrow> Reconciler \<Rightarrow> DualDeploymentOperator \<Rightarrow> (event, Applier result) io" where
  "buildShootApplierOrDefault L E r cr =
     (case rec_shootApplierFor r of Some f \<Rightarrow> f cr | None \<Rightarrow> buildShootApplier L E cr)"

section \<open>Applying a render\<close>

text \<open>
  The statuses in order, the aggregated error, and the manifests as the calls leave them.
\<close>

definition applyAll ::
  "klib \<Rightarrow> Applier \<Rightarrow> Manifest list \<Rightarrow> string \<Rightarrow>
   (event, Manifest list \<times> ResourceStatus list \<times> go_error option) io" where
  "applyAll L A ms ownedBy = do {
     rs \<leftarrow> for_each (\<lambda>m. ap_Apply A m ownedBy) ms;
     State_Monad.return
       (map fst rs, map (\<lambda>x. fst (snd x)) rs,
        NewAggregate L (filter (\<lambda>e. e \<noteq> None) (map (\<lambda>x. snd (snd x)) rs)))
   }"

section \<open>Pruning\<close>

definition retained_kind :: "DualDeploymentOperator \<Rightarrow> ResourceStatus \<Rightarrow> bool" where
  "retained_kind cr rs \<longleftrightarrow>
     rs_Kind rs = ''CustomResourceDefinition'' \<and> rp_CRDs (spec_RetentionPolicy (cr_Spec cr)) \<noteq> ''Delete''"

text \<open>One turn of the loop: the error that makes the entry be retained, if any.\<close>

definition prune_one ::
  "klib \<Rightarrow> Applier \<Rightarrow> string list \<Rightarrow> DualDeploymentOperator \<Rightarrow> string \<Rightarrow> ResourceStatus \<Rightarrow>
   (event, go_error option) io" where
  "prune_one L A currentKeys cr ownedBy rs =
     (if StatusIdentityKey L rs \<in> set currentKeys then State_Monad.return None
      else if retained_kind cr rs then State_Monad.return None
      else
        (let m = ManifestFromStatus L rs in do {
           res \<leftarrow> ap_Get A m;
           case res of
             Inl err \<Rightarrow>
               State_Monad.return (if IsNotFound L err \<or> IsNoMatchError L err then None else Some err)
           | Inr live \<Rightarrow>
               if label_of L live OwnedByLabel \<noteq> ownedBy then State_Monad.return None
               else ap_Delete A m ownedBy
         }))"

definition prune ::
  "klib \<Rightarrow> Applier \<Rightarrow> ResourceStatus list \<Rightarrow> Manifest list \<Rightarrow> DualDeploymentOperator \<Rightarrow> string \<Rightarrow>
   (event, ResourceStatus list \<times> go_error option) io" where
  "prune L A prev current cr ownedBy =
     (let keys = map (ManifestIdentityKey L) current; sorted_prev = SortStatusForDelete prev in do {
        errs \<leftarrow> for_each (prune_one L A keys cr ownedBy) sorted_prev;
        State_Monad.return
          (map fst (filter (\<lambda>p. snd p \<noteq> None) (zip sorted_prev errs)),
           NewAggregate L (filter (\<lambda>e. e \<noteq> None) errs))
      })"

section \<open>Deletion\<close>

definition deletable :: "DualDeploymentOperator \<Rightarrow> ResourceStatus list \<Rightarrow> nat" where
  "deletable cr statuses = length (filter (\<lambda>rs. \<not> retained_kind cr rs) statuses)"

text \<open>A nil applier deletes nothing. The loop collects the errors of the deletions.\<close>

definition deleteRender ::
  "klib \<Rightarrow> DualDeploymentOperator \<Rightarrow> string \<Rightarrow> Applier option \<Rightarrow> ResourceStatus list \<Rightarrow>
   (event, go_error option list) io" where
  "deleteRender L cr ownedBy applier statuses =
     (case applier of
        None \<Rightarrow> State_Monad.return []
      | Some A \<Rightarrow> do {
          errs \<leftarrow> for_each (\<lambda>rs. ap_Delete A (ManifestFromStatus L rs) ownedBy)
            (filter (\<lambda>rs. \<not> retained_kind cr rs) (SortStatusForDelete statuses));
          State_Monad.return (filter (\<lambda>e. e \<noteq> None) errs)
        })"

text \<open>The shoot applier of a deletion, built only when something is pending on the shoot.\<close>

definition deletion_shoot_applier ::
  "libs \<Rightarrow> api_env \<Rightarrow> Reconciler \<Rightarrow> DualDeploymentOperator \<Rightarrow>
   (event, DualDeploymentOperator \<times> Applier option \<times> go_error option) io" where
  "deletion_shoot_applier B E r cr =
     (if deletable cr (st_ShootResources (cr_Status cr)) > 0 then do {
        res \<leftarrow> buildShootApplierOrDefault (lib_k B) E r cr;
        case res of
          Inr A \<Rightarrow> State_Monad.return (cr, Some A, None)
        | Inl err \<Rightarrow> do {
            cr' \<leftarrow> recordShootUnreachable B r cr err;
            State_Monad.return (cr', None, Some err)
          }
      } else State_Monad.return (cr, None, None))"

text \<open>Both renders are deleted in the reverse of the apply order: shoot errors and seed errors.\<close>

definition delete_renders ::
  "klib \<Rightarrow> Reconciler \<Rightarrow> DualDeploymentOperator \<Rightarrow> string \<Rightarrow> Applier option \<Rightarrow>
   (event, go_error option list \<times> go_error option list) io" where
  "delete_renders L r cr ownedBy shootApplier =
     (if spec_ApplyOrder (cr_Spec cr) = ''SeedFirst'' then do {
        shootErrs \<leftarrow> deleteRender L cr ownedBy shootApplier (st_ShootResources (cr_Status cr));
        seedErrs \<leftarrow> deleteRender L cr ownedBy (Some (rec_SeedApplier r)) (st_SeedResources (cr_Status cr));
        State_Monad.return (shootErrs, seedErrs)
      } else do {
        seedErrs \<leftarrow> deleteRender L cr ownedBy (Some (rec_SeedApplier r)) (st_SeedResources (cr_Status cr));
        shootErrs \<leftarrow> deleteRender L cr ownedBy shootApplier (st_ShootResources (cr_Status cr));
        State_Monad.return (shootErrs, seedErrs)
      })"

definition remove_finalizer :: "klib \<Rightarrow> api_env \<Rightarrow> DualDeploymentOperator \<Rightarrow> (event, reconcile_result) io" where
  "remove_finalizer L E cr = do {
     res \<leftarrow> update_CR E (cr\<lparr>cr_Finalizers := RemoveFinalizer L (cr_Finalizers cr) FinalizerName\<rparr>);
     State_Monad.return (0, case res of Inl e \<Rightarrow> Some e | Inr _ \<Rightarrow> None)
   }"

text \<open>The object a status update leaves in memory: the server's response, or the object unchanged.\<close>

definition after_update :: "DualDeploymentOperator \<Rightarrow> DualDeploymentOperator result \<Rightarrow> DualDeploymentOperator" where
  "after_update cr res = (case res of Inl e \<Rightarrow> cr | Inr cr' \<Rightarrow> cr')"

text \<open>The last step: the finalizer goes when the shoot is done or the operator forces it.\<close>

definition finish_delete ::
  "libs \<Rightarrow> api_env \<Rightarrow> Reconciler \<Rightarrow> DualDeploymentOperator \<Rightarrow> bool \<Rightarrow> go_error option list \<Rightarrow>
   (event, reconcile_result) io" where
  "finish_delete B E r cr shootDone shootErrs =
     (let forceDelete = (map_get (cr_Annotations cr) ForceDeleteAnnotation = ''true'') in
      if shootDone then remove_finalizer (lib_k B) E cr
      else if forceDelete then do {
        cr1 \<leftarrow> recordShootCleanupForceDeleted B r cr (NewAggregate (lib_k B) shootErrs);
        res \<leftarrow> status_Update E cr1;
        remove_finalizer (lib_k B) E (after_update cr1 res)
      } else do {
        cr1 \<leftarrow> recordShootCleanupBlocked B r cr (NewAggregate (lib_k B) shootErrs);
        res \<leftarrow> status_Update E cr1;
        State_Monad.return (case res of Inl e \<Rightarrow> (0, Some e) | Inr _ \<Rightarrow> (30, None))
      })"

definition teardown ::
  "libs \<Rightarrow> api_env \<Rightarrow> Reconciler \<Rightarrow> DualDeploymentOperator \<Rightarrow> string \<Rightarrow> (event, reconcile_result) io" where
  "teardown B E r cr ownedBy =
     (let shootPending = deletable cr (st_ShootResources (cr_Status cr)) in do {
        (cr1, shootApplier, buildErr) \<leftarrow> deletion_shoot_applier B E r cr;
        (shootErrs, seedErrs) \<leftarrow> delete_renders (lib_k B) r cr1 ownedBy shootApplier;
        case NewAggregate (lib_k B) seedErrs of
          Some agg \<Rightarrow> State_Monad.return (0, Some agg)
        | None \<Rightarrow>
            finish_delete B E r cr1
              (shootPending = 0 \<or> buildErr = None \<and> length shootErrs = 0) shootErrs
      })"

definition reconcileDelete ::
  "libs \<Rightarrow> api_env \<Rightarrow> Reconciler \<Rightarrow> DualDeploymentOperator \<Rightarrow> (event, reconcile_result) io" where
  "reconcileDelete B E r cr =
     (let ownedBy = OwnedByValue (cr_Namespace cr) (cr_Name cr);
          cr1 = setCondition B cr ReasonDeleting ''CR deletion in progress'' (cr_Generation cr) in do {
        res \<leftarrow> status_Update E cr1;
        case res of
          Inl uErr \<Rightarrow>
            if \<not> IsNotFound (lib_k B) uErr then State_Monad.return (0, Some uErr)
            else teardown B E r cr1 ownedBy
        | Inr cr2 \<Rightarrow> teardown B E r cr2 ownedBy
      })"

section \<open>Reconciliation\<close>

text \<open>The loop over the transformations, which applies each to the seed and then to the shoot render.\<close>

fun transform_both ::
  "klib \<Rightarrow> patchlib \<Rightarrow> Transformation list \<Rightarrow> Manifest list \<Rightarrow> Manifest list \<Rightarrow>
   (string \<times> go_error) + (Manifest list \<times> Manifest list)" where
  "transform_both L P [] seed shoot = Inr (seed, shoot)"
| "transform_both L P (t # ts) seed shoot =
     (case Transformation_Apply L P t seed of
        Inl e \<Rightarrow> Inl (''SeedTransformFailed'', e)
      | Inr seed' \<Rightarrow>
          (case Transformation_Apply L P t shoot of
             Inl e \<Rightarrow> Inl (''ShootTransformFailed'', e)
           | Inr shoot' \<Rightarrow> transform_both L P ts seed' shoot'))"

definition with_reason :: "string \<Rightarrow> (event, 'a result) io \<Rightarrow> ('a \<Rightarrow> (event, (string \<times> go_error) + 'b) io) \<Rightarrow>
    (event, (string \<times> go_error) + 'b) io" where
  "with_reason reason m f = do {
     r \<leftarrow> m;
     case r of Inl e \<Rightarrow> State_Monad.return (Inl (reason, e)) | Inr a \<Rightarrow> f a
   }"

text \<open>Steps 1 to 4: the two transformed renders, or the condition reason and the error.\<close>

definition prepare_renders ::
  "libs \<Rightarrow> src_env \<Rightarrow> Reconciler \<Rightarrow> DualDeploymentOperator \<Rightarrow>
   (event, (string \<times> go_error) + (Manifest list \<times> Manifest list)) io" where
  "prepare_renders B S r cr =
     (let deps = (rec_SourceDeps r)\<lparr>deps_CredentialResolver := Some \<lparr>res_Namespace = cr_Namespace cr\<rparr>\<rparr> in
      with_reason ''InvalidSource'' (State_Monad.return (From (lib_src B) (spec_Source (cr_Spec cr)) deps)) (\<lambda>src.
      with_reason ''SeedRenderFailed''
        (source_Render (lib_k B) (lib_src B) S src ModeSeed (cr_Namespace cr)) (\<lambda>seedManifests.
      with_reason ''ShootRenderFailed''
        (source_Render (lib_k B) (lib_src B) S src ModeShoot (spec_ShootNamespace (cr_Spec cr))) (\<lambda>shootManifests.
      with_reason ''InvalidTransformation''
        (State_Monad.return (Build (spec_Transformations (cr_Spec cr)))) (\<lambda>transforms.
      State_Monad.return (transform_both (lib_k B) (lib_patch B) transforms seedManifests shootManifests))))))"

text \<open>\<open>applySeed\<close> followed by \<open>pruneSeed\<close>, on the paths where the shoot is skipped: the inventory.\<close>

definition seed_only ::
  "klib \<Rightarrow> Reconciler \<Rightarrow> DualDeploymentOperator \<Rightarrow> string \<Rightarrow> Manifest list \<Rightarrow> (event, ResourceStatus list) io" where
  "seed_only L r cr ownedBy seedManifests = do {
     (ms, seedStatuses, applyErr) \<leftarrow> applyAll L (rec_SeedApplier r) seedManifests ownedBy;
     (retained, pruneErr) \<leftarrow> prune L (rec_SeedApplier r) (st_SeedResources (cr_Status cr)) ms cr ownedBy;
     State_Monad.return (seedStatuses @ retained)
   }"

text \<open>The cases \<open>credsNotReady\<close> and \<open>clientFailed\<close>, which differ in the condition and the backoff.\<close>

definition shoot_skipped ::
  "libs \<Rightarrow> api_env \<Rightarrow> Reconciler \<Rightarrow> DualDeploymentOperator \<Rightarrow> string \<Rightarrow> Manifest list \<Rightarrow> bool \<Rightarrow>
   string \<Rightarrow> string \<Rightarrow> nat \<Rightarrow> (event, reconcile_result) io" where
  "shoot_skipped B E r cr ownedBy seedManifests shootFirst reason message backoff = do {
     seedOut \<leftarrow>
       (if \<not> shootFirst then seed_only (lib_k B) r cr ownedBy seedManifests
        else State_Monad.return (st_SeedResources (cr_Status cr)));
     finishNotReady E (setCondition B cr reason message (cr_Generation cr)) seedOut
       (st_ShootResources (cr_Status cr)) backoff
   }"

text \<open>Shoot first, and some shoot object failed: prune the shoot, keep the seed inventory.\<close>

definition shoot_degraded ::
  "libs \<Rightarrow> api_env \<Rightarrow> Applier \<Rightarrow> DualDeploymentOperator \<Rightarrow> string \<Rightarrow> Manifest list \<Rightarrow> ResourceStatus list \<Rightarrow>
   (event, reconcile_result) io" where
  "shoot_degraded B E A cr ownedBy shootManifests shootStatuses =
     (let reason = (if allFailed shootStatuses then ''ShootApplyFailed'' else ''ResourcesDegraded'');
          msg = (if allFailed shootStatuses then ''every resource in the shoot render failed to apply''
                 else ''some shoot resources failed to apply; seed render deferred until shoot converges'') in do {
        (retained, shootPruneErr) \<leftarrow>
          prune (lib_k B) A (st_ShootResources (cr_Status cr)) shootManifests cr ownedBy;
        (after, ferr) \<leftarrow> finishNotReady E (setCondition B cr reason msg (cr_Generation cr))
          (st_SeedResources (cr_Status cr)) (shootStatuses @ retained) 0;
        State_Monad.return (after, NewAggregate (lib_k B) [ferr, shootPruneErr])
      })"

text \<open>Step 9: the status with the computed condition, and the result of the cycle.\<close>

definition write_status ::
  "libs \<Rightarrow> api_env \<Rightarrow> DualDeploymentOperator \<Rightarrow> ResourceStatus list \<Rightarrow> ResourceStatus list \<Rightarrow>
   go_error option list \<Rightarrow> go_error option \<Rightarrow> (event, reconcile_result) io" where
  "write_status B E cr seedStatuses shootStatuses applyErrs pruneErr =
     (let readyCond = (computeConditions seedStatuses shootStatuses)\<lparr>cond_ObservedGeneration := cr_Generation cr\<rparr>;
          cr1 = put_condition B (set_inventory cr seedStatuses shootStatuses) readyCond in do {
        now \<leftarrow> time_Now E;
        res \<leftarrow> status_Update E (set_LastReconcile cr1 now);
        State_Monad.return
          (case res of
             Inl e \<Rightarrow> (0, Some e)
           | Inr _ \<Rightarrow>
               (case NewAggregate (lib_k B) (applyErrs @ [pruneErr]) of
                  Some e \<Rightarrow> (0, Some e)
                | None \<Rightarrow> (requeueInterval, None)))
      })"

definition non_nil :: "go_error option \<Rightarrow> go_error option list" where
  "non_nil e = (if e \<noteq> None then [e] else [])"

definition deliver_shoot_first ::
  "libs \<Rightarrow> api_env \<Rightarrow> Reconciler \<Rightarrow> Applier \<Rightarrow> DualDeploymentOperator \<Rightarrow> string \<Rightarrow> Manifest list \<Rightarrow>
   Manifest list \<Rightarrow> (event, reconcile_result) io" where
  "deliver_shoot_first B E r A cr ownedBy seedManifests shootManifests =
     (let L = lib_k B in do {
        (shootMs, shootStatuses, shootErr) \<leftarrow> applyAll L A shootManifests ownedBy;
        if anyFailed shootStatuses then shoot_degraded B E A cr ownedBy shootMs shootStatuses
        else do {
          (seedMs, seedStatuses, seedErr) \<leftarrow> applyAll L (rec_SeedApplier r) seedManifests ownedBy;
          (seedRetained, seedPruneErr) \<leftarrow>
            prune L (rec_SeedApplier r) (st_SeedResources (cr_Status cr)) seedMs cr ownedBy;
          (shootRetained, shootPruneErr) \<leftarrow>
            prune L A (st_ShootResources (cr_Status cr)) shootMs cr ownedBy;
          write_status B E cr (seedStatuses @ seedRetained) (shootStatuses @ shootRetained)
            (non_nil shootErr @ non_nil seedErr) (NewAggregate L [seedPruneErr, shootPruneErr])
        }
      })"

definition deliver_seed_first ::
  "libs \<Rightarrow> api_env \<Rightarrow> Reconciler \<Rightarrow> Applier \<Rightarrow> DualDeploymentOperator \<Rightarrow> string \<Rightarrow> Manifest list \<Rightarrow>
   Manifest list \<Rightarrow> (event, reconcile_result) io" where
  "deliver_seed_first B E r A cr ownedBy seedManifests shootManifests =
     (let L = lib_k B in do {
        (seedMs, seedStatuses, seedErr) \<leftarrow> applyAll L (rec_SeedApplier r) seedManifests ownedBy;
        (shootMs, shootStatuses, shootErr) \<leftarrow> applyAll L A shootManifests ownedBy;
        (shootRetained, shootPruneErr) \<leftarrow>
          prune L A (st_ShootResources (cr_Status cr)) shootMs cr ownedBy;
        (seedRetained, seedPruneErr) \<leftarrow>
          prune L (rec_SeedApplier r) (st_SeedResources (cr_Status cr)) seedMs cr ownedBy;
        write_status B E cr (seedStatuses @ seedRetained) (shootStatuses @ shootRetained)
          (non_nil seedErr @ non_nil shootErr) (NewAggregate L [shootPruneErr, seedPruneErr])
      })"

text \<open>The three ways on from the attempt to build the shoot applier.\<close>

definition deliver_built ::
  "libs \<Rightarrow> api_env \<Rightarrow> Reconciler \<Rightarrow> DualDeploymentOperator \<Rightarrow> string \<Rightarrow> Manifest list \<Rightarrow> Manifest list \<Rightarrow>
   Applier result \<Rightarrow> (event, reconcile_result) io" where
  "deliver_built B E r cr ownedBy seed shoot built =
     (let shootFirst = (spec_ApplyOrder (cr_Spec cr) \<noteq> ''SeedFirst'') in
      case built of
        Inl shootErr \<Rightarrow>
          if errors_Is shootErr ErrShootCredentialsNotReady then
            shoot_skipped B E r cr ownedBy seed shootFirst ''WaitingForShootCredentials''
              ''shoot token/CA not yet populated by Gardener; shoot render deferred'' 30
          else
            shoot_skipped B E r cr ownedBy seed shootFirst ''ShootApplyFailed''
              (''shoot render could not be applied: '' @ Error shootErr) 0
      | Inr A \<Rightarrow>
          if shootFirst then deliver_shoot_first B E r A cr ownedBy seed shoot
          else deliver_seed_first B E r A cr ownedBy seed shoot)"

text \<open>Steps 5 to 9, on the two transformed renders.\<close>

definition deliver_renders ::
  "libs \<Rightarrow> api_env \<Rightarrow> Reconciler \<Rightarrow> DualDeploymentOperator \<Rightarrow> Manifest list \<Rightarrow> Manifest list \<Rightarrow>
   (event, reconcile_result) io" where
  "deliver_renders B E r cr seedManifests shootManifests =
     (let L = lib_k B; ownedBy = OwnedByValue (cr_Namespace cr) (cr_Name cr) in do {
        built \<leftarrow> buildShootApplierOrDefault L E r cr;
        deliver_built B E r cr ownedBy (SortForApply L seedManifests) (SortForApply L shootManifests) built
      })"

definition reconcile_live ::
  "libs \<Rightarrow> src_env \<Rightarrow> Reconciler \<Rightarrow> DualDeploymentOperator \<Rightarrow> (event, reconcile_result) io" where
  "reconcile_live B S r cr = do {
     prepared \<leftarrow> prepare_renders B S r cr;
     case prepared of
       Inl (reason, err) \<Rightarrow> errStatus B (se_api S) cr reason err
     | Inr (seedManifests, shootManifests) \<Rightarrow> deliver_renders B (se_api S) r cr seedManifests shootManifests
   }"

definition Reconcile ::
  "libs \<Rightarrow> src_env \<Rightarrow> Reconciler \<Rightarrow> string \<Rightarrow> string \<Rightarrow> (event, reconcile_result) io" where
  "Reconcile B S r ns name =
     (let L = lib_k B; E = se_api S in do {
        got \<leftarrow> get_CR E ns name;
        case got of
          Inl err \<Rightarrow> State_Monad.return (0, IgnoreNotFound L err)
        | Inr cr \<Rightarrow>
            if cr_DeletionTimestamp cr \<noteq> None then reconcileDelete B E r cr
            else if \<not> ContainsFinalizer L (cr_Finalizers cr) FinalizerName then do {
              res \<leftarrow> update_CR E (cr\<lparr>cr_Finalizers := AddFinalizer L (cr_Finalizers cr) FinalizerName\<rparr>);
              State_Monad.return (0, case res of Inl e \<Rightarrow> Some e | Inr _ \<Rightarrow> None)
            }
            else reconcile_live B S r cr
      })"

end
