(* ===== verification/Delivery.thy ===== *)
theory Delivery
  imports Controller
begin

text \<open>
  What the loops of the reconciler guarantee when their applier keeps its contract: applying a
  render, pruning the orphans of a render, and deleting a render.
\<close>

section \<open>Health of a list of statuses\<close>

lemma anyFailed_iff: "anyFailed sts \<longleftrightarrow> (\<exists>s\<in>set sts. rs_Health s = HealthDegraded)"
  by (induction sts) auto

lemma all_degraded_iff: "all_degraded sts \<longleftrightarrow> (\<forall>s\<in>set sts. rs_Health s = HealthDegraded)"
  by (induction sts) auto

lemma allFailed_iff: "allFailed sts \<longleftrightarrow> sts \<noteq> [] \<and> (\<forall>s\<in>set sts. rs_Health s = HealthDegraded)"
  by (auto simp: allFailed_def all_degraded_iff)

lemma anyProgressing_iff:
  "anyProgressing sts \<longleftrightarrow> (\<exists>s\<in>set sts. rs_Health s = HealthProgressing \<or> rs_Health s = HealthUnknown)"
  by (induction sts) auto

section \<open>Applying\<close>

definition applied :: "klib \<Rightarrow> client_id \<Rightarrow> string \<Rightarrow> Manifest \<Rightarrow> event list \<Rightarrow> bool" where
  "applied L c ownedBy m t \<longleftrightarrow> (\<exists>fm u'. EvPatch c (prepared L m ownedBy) fm (Inr u') \<in> set t)"

lemma applied_append [simp]: "applied L c ownedBy m (s @ t) \<longleftrightarrow> applied L c ownedBy m s \<or> applied L c ownedBy m t"
  by (auto simp: applied_def)

lemma apply_promise_applied: "apply_promise L c ownedBy m res t \<Longrightarrow> snd (snd res) = None \<longleftrightarrow> applied L c ownedBy m t"
  by (simp add: apply_promise_def applied_def)

lemma apply_promise_health:
  "apply_promise L c ownedBy m res t \<Longrightarrow> rs_Health (fst (snd res)) = HealthDegraded \<longleftrightarrow> snd (snd res) \<noteq> None"
  unfolding apply_promise_def by (elim conjE)

text \<open>What a cluster answered to the applies that it accepted. An apply leaves the answer in its manifest.\<close>

definition answers :: "client_id \<Rightarrow> event list \<Rightarrow> jobj list" where
  "answers c t = List.map_filter (\<lambda>e. case e of EvPatch c' u fm (Inr u') \<Rightarrow> (if c' = c then Some u' else None) | _ \<Rightarrow> None) t"

lemma in_answers: "u' \<in> set (answers c t) \<longleftrightarrow> (\<exists>u fm. EvPatch c u fm (Inr u') \<in> set t)"
  by (induction t) (auto simp: answers_def List.map_filter_simps split: event.splits sum.splits)

lemma answers_append [simp]: "answers c (s @ t) = answers c s @ answers c t"
  by (simp add: answers_def List.map_filter_def)

text \<open>
  The outcome of applying a render: one status per manifest in order, the manifests sent in
  order, and no failure exactly when every manifest was accepted by the server, which leaves the
  server's answers in the manifests.
\<close>

definition render_applied ::
  "klib \<Rightarrow> client_id \<Rightarrow> string \<Rightarrow> Manifest list \<Rightarrow> Manifest list \<Rightarrow> ResourceStatus list \<Rightarrow> event list \<Rightarrow> bool" where
  "render_applied L c ownedBy ms ms' sts t \<longleftrightarrow>
     length ms' = length ms \<and> list_all2 (status_for L) ms sts \<and>
     subseq (patched t) (map (\<lambda>m. prepared L m ownedBy) ms) \<and>
     (\<not> anyFailed sts \<longrightarrow> (\<forall>m\<in>set ms. applied L c ownedBy m t)) \<and>
     (\<not> anyFailed sts \<longrightarrow> m_Unstructured ` set ms' \<subseteq> set (answers c t)) \<and>
     disciplined L ownedBy None t \<and> list_all (apply_event c) t"

lemma render_applied_Nil: "render_applied L c ownedBy [] [] [] []"
  by (simp add: render_applied_def)

lemma render_applied_Cons:
  assumes "apply_promise L c ownedBy m (m', st, err) t" and "render_applied L c ownedBy ms ms' sts s"
  shows "render_applied L c ownedBy (m # ms) (m' # ms') (st # sts) (t @ s)"
proof -
  have "subseq (patched t @ patched s) ([prepared L m ownedBy] @ map (\<lambda>m. prepared L m ownedBy) ms)"
    using assms by (intro list_emb_append_mono) (simp_all add: apply_promise_def render_applied_def)
  moreover have "rs_Health st \<noteq> HealthDegraded \<longrightarrow> applied L c ownedBy m t"
    using assms(1) apply_promise_applied [OF assms(1)] by (simp add: apply_promise_def)
  moreover have "rs_Health st \<noteq> HealthDegraded \<longrightarrow> m_Unstructured m' \<in> set (answers c t)"
    using assms(1) by (auto simp: apply_promise_def in_answers)
  ultimately show ?thesis
    using assms by (auto simp: apply_promise_def render_applied_def intro: disciplined_append)
qed

context applier_contract
begin

lemma applyAll_law:
  "yields (\<lambda>(ms', sts, err) t. render_applied L c ownedBy ms ms' sts t \<and>
       (errors_lib L \<longrightarrow> (err = None \<longleftrightarrow> \<not> anyFailed sts))) (applyAll L A ms ownedBy)"
proof -
  let ?Q = "\<lambda>ms rs t. render_applied L c ownedBy ms (map fst rs) (map (\<lambda>x. fst (snd x)) rs) t \<and>
    (\<forall>x\<in>set rs. rs_Health (fst (snd x)) = HealthDegraded \<longleftrightarrow> snd (snd x) \<noteq> None)"
  have loop: "yields (?Q ms) (for_each (\<lambda>m. ap_Apply A m ownedBy) ms)"
    by (rule yields_for_each [OF apply_law]) (auto simp: render_applied_Nil apply_promise_health intro!: render_applied_Cons)
  have err: "NewAggregate L (filter (\<lambda>e. e \<noteq> None) (map (\<lambda>x. snd (snd x)) rs)) = None \<longleftrightarrow>
      \<not> anyFailed (map (\<lambda>x. fst (snd x)) rs)"
    if "errors_lib L" "\<forall>x\<in>set rs. rs_Health (fst (snd x)) = HealthDegraded \<longleftrightarrow> snd (snd x) \<noteq> None"
    for rs :: "(Manifest \<times> ResourceStatus \<times> go_error option) list"
    using that by (auto simp: errors_lib.NewAggregate_nil anyFailed_iff)
  show ?thesis
    unfolding applyAll_def
    by (rule yields_bind_wp [OF loop], rule yields_return) (simp add: err del: not_None_eq)
qed

end

section \<open>Deleting\<close>

text \<open>
  Somewhere in the trace the deletion of the manifest was completed: its object was not found,
  not owned, or deleted.
\<close>

definition gone_in :: "klib \<Rightarrow> client_id \<Rightarrow> string \<Rightarrow> Manifest \<Rightarrow> event list \<Rightarrow> bool" where
  "gone_in L c ownedBy m t \<longleftrightarrow> (\<exists>s1 s2 s3. t = s1 @ s2 @ s3 \<and> gone L c ownedBy m s2)"

lemma gone_in_gone: "gone L c ownedBy m t \<Longrightarrow> gone_in L c ownedBy m t"
  unfolding gone_in_def by (metis append_Nil append_Nil2)

lemma gone_in_append: "gone_in L c ownedBy m s \<or> gone_in L c ownedBy m t \<Longrightarrow> gone_in L c ownedBy m (s @ t)"
  unfolding gone_in_def by (metis append.assoc)

text \<open>The same for pruning, where a kind that the cluster does not know also counts.\<close>

definition absent_in :: "klib \<Rightarrow> client_id \<Rightarrow> string \<Rightarrow> Manifest \<Rightarrow> event list \<Rightarrow> bool" where
  "absent_in L c ownedBy m t \<longleftrightarrow>
     gone_in L c ownedBy m t \<or> (\<exists>e. set (get_trace L c m (Inl e)) \<subseteq> set t \<and> IsNoMatchError L e)"

lemma absent_in_append:
  "absent_in L c ownedBy m s \<or> absent_in L c ownedBy m t \<Longrightarrow> absent_in L c ownedBy m (s @ t)"
  by (auto simp: absent_in_def intro: gone_in_append)

text \<open>Deleting a render: one deletion per entry, in the order of the entries.\<close>

definition render_deleted ::
  "klib \<Rightarrow> client_id \<Rightarrow> string \<Rightarrow> ResourceStatus list \<Rightarrow> go_error option list \<Rightarrow> event list \<Rightarrow> bool" where
  "render_deleted L c ownedBy xs es t \<longleftrightarrow>
     subseq (deleted t) (map (\<lambda>rs. m_Unstructured (ManifestFromStatus L rs)) xs) \<and>
     ((\<forall>e\<in>set es. e = None) \<longrightarrow> (\<forall>rs\<in>set xs. gone_in L c ownedBy (ManifestFromStatus L rs) t)) \<and>
     disciplined L ownedBy None t \<and> list_all (delete_event c) t"

lemma render_deleted_Cons:
  assumes "delete_promise L c ownedBy (ManifestFromStatus L rs) err t" and "render_deleted L c ownedBy xs es s"
  shows "render_deleted L c ownedBy (rs # xs) (err # es) (t @ s)"
proof -
  let ?u = "\<lambda>rs. m_Unstructured (ManifestFromStatus L rs)"
  have "subseq (deleted t @ deleted s) ([?u rs] @ map ?u xs)"
    using assms by (intro list_emb_append_mono) (simp_all add: delete_promise_def render_deleted_def)
  with assms show ?thesis
    by (auto simp: delete_promise_def render_deleted_def
        intro: disciplined_append gone_in_append gone_in_gone)
qed

section \<open>Pruning\<close>

definition orphan :: "klib \<Rightarrow> string list \<Rightarrow> DualDeploymentOperator \<Rightarrow> ResourceStatus \<Rightarrow> bool" where
  "orphan L keys cr rs \<longleftrightarrow> StatusIdentityKey L rs \<notin> set keys \<and> \<not> retained_kind cr rs"

text \<open>
  Pruning: only orphans are deleted, in order, and every orphan that is not retained with an
  error was seen to be absent, foreign or deleted.
\<close>

definition orphans_pruned ::
  "klib \<Rightarrow> client_id \<Rightarrow> string \<Rightarrow> (ResourceStatus \<Rightarrow> bool) \<Rightarrow> ResourceStatus list \<Rightarrow> go_error option list \<Rightarrow>
   event list \<Rightarrow> bool" where
  "orphans_pruned L c ownedBy cand xs es t \<longleftrightarrow>
     length es = length xs \<and>
     subseq (deleted t) (map (\<lambda>rs. m_Unstructured (ManifestFromStatus L rs)) (filter cand xs)) \<and>
     (\<forall>(rs, e)\<in>set (zip xs es). cand rs \<longrightarrow> e = None \<longrightarrow> absent_in L c ownedBy (ManifestFromStatus L rs) t) \<and>
     (\<forall>(rs, e)\<in>set (zip xs es). e \<noteq> None \<longrightarrow> cand rs) \<and>
     disciplined L ownedBy None t \<and> list_all (delete_event c) t"

definition prune_promise ::
  "klib \<Rightarrow> client_id \<Rightarrow> string \<Rightarrow> bool \<Rightarrow> Manifest \<Rightarrow> go_error option \<Rightarrow> event list \<Rightarrow> bool" where
  "prune_promise L c ownedBy cand m err t \<longleftrightarrow>
     subseq (deleted t) (if cand then [m_Unstructured m] else []) \<and>
     (cand \<longrightarrow> err = None \<longrightarrow> absent_in L c ownedBy m t) \<and> (err \<noteq> None \<longrightarrow> cand) \<and>
     disciplined L ownedBy None t \<and> list_all (delete_event c) t"

lemma orphans_pruned_Cons:
  assumes "prune_promise L c ownedBy (cand rs) (ManifestFromStatus L rs) err t"
    and "orphans_pruned L c ownedBy cand xs es s"
  shows "orphans_pruned L c ownedBy cand (rs # xs) (err # es) (t @ s)"
proof -
  let ?u = "\<lambda>rs. m_Unstructured (ManifestFromStatus L rs)"
  have "subseq (deleted t @ deleted s) ((if cand rs then [?u rs] else []) @ map ?u (filter cand xs))"
    using assms by (intro list_emb_append_mono) (simp_all add: prune_promise_def orphans_pruned_def)
  moreover have "(if cand rs then [?u rs] else []) @ map ?u (filter cand xs) = map ?u (filter cand (rs # xs))"
    by simp
  ultimately show ?thesis
    using assms by (auto simp: prune_promise_def orphans_pruned_def
        intro: disciplined_append absent_in_append)
qed

context applier_contract
begin

lemma prune_one_law:
  "yields (prune_promise L c ownedBy (orphan L keys cr rs) (ManifestFromStatus L rs))
     (prune_one L A keys cr ownedBy rs)"
proof (cases "orphan L keys cr rs")
  case False
  then show ?thesis
    by (auto simp: prune_one_def orphan_def prune_promise_def intro!: yields_return)
next
  case True
  let ?m = "ManifestFromStatus L rs"
  have after_get: "yields (\<lambda>err s. prune_promise L c ownedBy True ?m err (get_trace L c ?m res @ s))
     (case res of
        Inl err \<Rightarrow> State_Monad.return (if IsNotFound L err \<or> IsNoMatchError L err then None else Some err)
      | Inr live \<Rightarrow>
          if label_of L live OwnedByLabel \<noteq> ownedBy then State_Monad.return None
          else ap_Delete A ?m ownedBy)" for res
  proof (cases res)
    case (Inl err)
    then show ?thesis
      by (auto intro!: yields_return simp: prune_promise_def get_trace_def ok_after_other absent_in_def
          gone_def intro: gone_in_gone)
  next
    case (Inr live)
    show ?thesis
    proof (cases "label_of L live OwnedByLabel = ownedBy")
      case True
      have "prune_promise L c ownedBy True ?m err (get_trace L c ?m (Inr live) @ s)"
        if "delete_promise L c ownedBy ?m err s" for err s
        using that by (auto simp: prune_promise_def delete_promise_def absent_in_def get_trace_def ok_after_other
            intro: disciplined_None gone_in_append [of _ _ _ _ "[_]", simplified] gone_in_gone)
      with Inr True show ?thesis by (auto intro: yields_mono [OF delete_law])
    next
      case False
      with Inr show ?thesis
        by (auto intro!: yields_return simp: prune_promise_def get_trace_def ok_after_other absent_in_def
            gone_def intro: gone_in_gone)
    qed
  qed
  from True show ?thesis
    unfolding prune_one_def orphan_def Let_def
    by (auto intro!: yields_bind_wp [OF get_law] after_get)
qed

lemma prune_loop: "yields (orphans_pruned L c ownedBy (orphan L keys cr) xs) (for_each (prune_one L A keys cr ownedBy) xs)"
  by (rule yields_for_each [OF prune_one_law])
    (simp_all add: orphans_pruned_Cons, simp add: orphans_pruned_def)

lemma deleteRender_law:
  "yields (\<lambda>es t. render_deleted L c ownedBy
       (filter (\<lambda>rs. \<not> retained_kind cr rs) (SortStatusForDelete statuses)) es t \<and> list_all (\<lambda>e. e \<noteq> None) es)
     (deleteRender L cr ownedBy (Some A) statuses)"
proof -
  have "yields (render_deleted L c ownedBy xs) (for_each (\<lambda>rs. ap_Delete A (ManifestFromStatus L rs) ownedBy) xs)" for xs
    by (rule yields_for_each [OF delete_law])
      (simp_all add: render_deleted_Cons, simp add: render_deleted_def)
  from this [of "filter (\<lambda>rs. \<not> retained_kind cr rs) (SortStatusForDelete statuses)"] show ?thesis
    unfolding deleteRender_def option.case
    by (rule yields_bind_wp) (auto intro!: yields_return simp: render_deleted_def list_all_iff)
qed

end

text \<open>The outcome of pruning a render.\<close>

definition pruned ::
  "klib \<Rightarrow> client_id \<Rightarrow> string \<Rightarrow> DualDeploymentOperator \<Rightarrow> ResourceStatus list \<Rightarrow> Manifest list \<Rightarrow>
   ResourceStatus list \<Rightarrow> event list \<Rightarrow> bool" where
  "pruned L c ownedBy cr prev current retained t \<longleftrightarrow>
     (let cand = orphan L (map (ManifestIdentityKey L) current) cr in
      subseq (deleted t)
        (map (\<lambda>rs. m_Unstructured (ManifestFromStatus L rs)) (filter cand (SortStatusForDelete prev))) \<and>
      subseq retained (filter cand (SortStatusForDelete prev)) \<and>
      (\<forall>rs\<in>set prev. cand rs \<longrightarrow> rs \<in> set retained \<or> absent_in L c ownedBy (ManifestFromStatus L rs) t)) \<and>
     disciplined L ownedBy None t \<and> list_all (delete_event c) t"

lemma filter_zip_subseq:
  assumes "length es = length xs" and "\<forall>(x, e)\<in>set (zip xs es). e \<noteq> None \<longrightarrow> P x"
  shows "subseq (map fst (filter (\<lambda>p. snd p \<noteq> None) (zip xs es))) (filter P xs)"
  using assms by (induction es xs rule: list_induct2) auto

lemma in_filter_zip:
  assumes "length es = length xs" and "x \<in> set xs"
  shows "x \<in> set (map fst (filter (\<lambda>p. snd p \<noteq> None) (zip xs es))) \<or> (x, None) \<in> set (zip xs es)"
  using assms by (induction es xs rule: list_induct2) auto

lemma zip_all_None:
  "length es = length xs \<Longrightarrow> (\<forall>e\<in>set es. e = None) \<longleftrightarrow> (\<forall>p\<in>set (zip xs es). snd p = None)"
  by (induction es xs rule: list_induct2) auto

lemma orphans_pruned_pruned:
  assumes "orphans_pruned L c ownedBy (orphan L (map (ManifestIdentityKey L) current) cr) (SortStatusForDelete prev) es t"
  shows "pruned L c ownedBy cr prev current
    (map fst (filter (\<lambda>p. snd p \<noteq> None) (zip (SortStatusForDelete prev) es))) t"
proof -
  let ?xs = "SortStatusForDelete prev" and ?cand = "orphan L (map (ManifestIdentityKey L) current) cr"
  let ?ret = "map fst (filter (\<lambda>p. snd p \<noteq> None) (zip ?xs es))"
  from assms have len: "length es = length ?xs"
    and none: "\<forall>(rs, e)\<in>set (zip ?xs es). ?cand rs \<longrightarrow> e = None \<longrightarrow> absent_in L c ownedBy (ManifestFromStatus L rs) t"
    and some: "\<forall>(rs, e)\<in>set (zip ?xs es). e \<noteq> None \<longrightarrow> ?cand rs"
    by (simp_all add: orphans_pruned_def)
  have "rs \<in> set ?ret \<or> absent_in L c ownedBy (ManifestFromStatus L rs) t" if "rs \<in> set prev" "?cand rs" for rs
    using in_filter_zip [OF len, of rs] none that by auto
  moreover have "subseq ?ret (filter ?cand ?xs)" using len some by (rule filter_zip_subseq)
  ultimately show ?thesis using assms by (simp add: pruned_def orphans_pruned_def Let_def)
qed

context applier_contract
begin

lemma prune_law:
  "yields (\<lambda>(retained, err) t. pruned L c ownedBy cr prev current retained t \<and>
       (errors_lib L \<longrightarrow> (err = None \<longleftrightarrow> retained = []))) (prune L A prev current cr ownedBy)"
  unfolding prune_def Let_def
proof (rule yields_bind_wp [OF prune_loop], rule yields_return)
  let ?xs = "SortStatusForDelete prev"
  fix es t
  assume *: "orphans_pruned L c ownedBy (orphan L (map (ManifestIdentityKey L) current) cr) ?xs es t"
  then have "length es = length ?xs" by (simp add: orphans_pruned_def)
  then have "errors_lib L \<longrightarrow> NewAggregate L (filter (\<lambda>e. e \<noteq> None) es) = None \<longleftrightarrow>
      map fst (filter (\<lambda>p. snd p \<noteq> None) (zip ?xs es)) = []"
    using zip_all_None [of es ?xs] by (auto simp: errors_lib.NewAggregate_nil filter_empty_conv)
  with orphans_pruned_pruned [OF *]
  show "(case (map fst (filter (\<lambda>p. snd p \<noteq> None) (zip ?xs es)), NewAggregate L (filter (\<lambda>e. e \<noteq> None) es)) of
      (retained, err) \<Rightarrow> \<lambda>t. pruned L c ownedBy cr prev current retained t \<and>
        (errors_lib L \<longrightarrow> (err = None \<longleftrightarrow> retained = []))) (t @ [])"
    by (simp del: not_None_eq)
qed

end

end
