(* ===== verification/Reconciliation.thy ===== *)
theory Reconciliation
  imports Delivery
begin

text \<open>
  The handlers of the reconciler as a whole: a locale for what they are given (libraries and API
  server as documented, a seed applier that keeps its contract), a locale for properties of
  traces that every phase of a reconciliation keeps, and the shape of the traces on each path.
\<close>

section \<open>The setting\<close>

definition owner :: "DualDeploymentOperator \<Rightarrow> string" where
  "owner cr = OwnedByValue (cr_Namespace cr) (cr_Name cr)"

text \<open>
  \<open>SetStatusCondition\<close> sets the condition of its type; a status update that is accepted returns
  the object as sent, with a new resource version.
\<close>

locale reconciler_setup =
  fixes B :: libs and err :: "jobj \<Rightarrow> string list \<Rightarrow> go_error" and S :: src_env and r :: Reconciler
  assumes k_lib: "unstructured_lib (lib_k B) err"
    and e_lib: "errors_lib (lib_k B)"
    and f_lib: "controllerutil_lib (lib_k B)"
    and seed_contract: "applier_contract (lib_k B) SeedClient (rec_SeedApplier r)"
    and production: "rec_shootApplierFor r = None"
    and condition_law:
      "cond_of ty (SetStatusCondition B cs c) = (if ty = cond_Type c then Some c else cond_of ty cs)"
    and status_law: "eStatusUpdate (se_api S) cr h = Inr cr' \<Longrightarrow> \<exists>rv. cr' = cr\<lparr>cr_ResourceVersion := rv\<rparr>"
begin

lemma shoot_contract: "applier_contract (lib_k B) (ShootClient rc) (shoot_applier (lib_k B) (se_api S) rc)"
  unfolding shoot_applier_def
  using ssa_contract [OF k_lib, of "\<lparr>ssa_Client = ShootClient rc, ssa_FieldManager = FieldManagerName, ssa_Cluster = ''shoot''\<rparr>"]
  by simp

end

section \<open>Events that are neither applies nor deletions\<close>

text \<open>Secrets are read in the namespace of the custom resource, and only the two it refers to.\<close>

definition quiet :: "DualDeploymentOperator \<Rightarrow> event \<Rightarrow> bool" where
  "quiet cr ev =
     (case ev of
        EvPatch c u fm x \<Rightarrow> False
      | EvDelete c u x \<Rightarrow> False
      | EvGetSecret ns n x \<Rightarrow>
          ns = cr_Namespace cr \<and>
          (n = sa_SecretName (spec_ShootAccess (cr_Spec cr)) \<or>
           (\<exists>rf. source_secret (spec_Source (cr_Spec cr)) = Some rf \<and> n = ref_Name rf))
      | _ \<Rightarrow> True)"

lemma quiet_simps [simp]:
  "quiet cr (EvNow now)" "quiet cr (EvGet c g ns n live)" "quiet cr (EvGetCR ns n res)" "quiet cr (EvUpdateCR cr' res)"
  "quiet cr (EvStatusUpdate cr' res)" "quiet cr (EvNewClient rc built)" "quiet cr (EvRecord ty reason action note)"
  by (simp_all add: quiet_def)

text \<open>Silent events are quiet and do not write the custom resource.\<close>

fun is_cr_write :: "event \<Rightarrow> bool" where
  "is_cr_write (EvUpdateCR cr x) = True"
| "is_cr_write (EvStatusUpdate cr x) = True"
| "is_cr_write _ = False"

definition silent :: "DualDeploymentOperator \<Rightarrow> event \<Rightarrow> bool" where
  "silent cr ev \<longleftrightarrow> quiet cr ev \<and> \<not> is_cr_write ev"

lemma silent_quiet: "list_all (silent cr) t \<Longrightarrow> list_all (quiet cr) t"
  by (auto simp: list_all_iff silent_def)

lemma quiet_cong:
  "cr_Spec cr' = cr_Spec cr \<Longrightarrow> cr_Namespace cr' = cr_Namespace cr \<Longrightarrow> quiet cr' = quiet cr"
  by (auto simp: quiet_def fun_eq_iff split: event.split)

lemma source_event_silent:
  "source_event (Some (\<lparr>res_Namespace = cr_Namespace cr\<rparr>, source_secret (spec_Source (cr_Spec cr)))) ev \<Longrightarrow> silent cr ev"
  by (auto simp: source_event_def silent_def quiet_def split: event.splits option.splits)

lemma emits_with_reason [emits_intros]:
  "emits P m \<Longrightarrow> (\<And>a. emits P (f a)) \<Longrightarrow> emits P (with_reason reason m f)"
  unfolding with_reason_def by (intro emits_intros)

lemma with_reason_return:
  "with_reason reason (State_Monad.return res) f =
     (case res of Inl e \<Rightarrow> State_Monad.return (Inl (reason, e)) | Inr a \<Rightarrow> f a)"
  by (simp add: with_reason_def)

lemma emits_prepare_renders: "emits (silent cr) (prepare_renders B S r cr)"
proof -
  let ?deps = "(rec_SourceDeps r)\<lparr>deps_CredentialResolver := Some \<lparr>res_Namespace = cr_Namespace cr\<rparr>\<rparr>"
  have render: "emits (silent cr) (source_Render L X S src mode ns)"
    if "From X (spec_Source (cr_Spec cr)) ?deps = Inr src" for L X src mode ns
    using source.emits_source_Render [OF refl, where L = L and X = X and S = S and src = src and mode = mode and ns = ns]
      From_closure [OF that]
    by (auto elim!: emits_mono intro: source_event_silent)
  show ?thesis
    unfolding prepare_renders_def Let_def with_reason_return
    by (auto split: sum.split intro!: emits_intros render)
qed

lemma emits_prepare_quiet: "emits (quiet cr) (prepare_renders B S r cr)"
  by (rule emits_mono [OF emits_prepare_renders]) (simp add: silent_def)

lemma emits_buildShootApplier: "emits (silent cr) (buildShootApplier L E cr)"
  unfolding buildShootApplier_def Let_def new_Client_def
  by (auto split: sum.split intro!: emits_intros simp: silent_def quiet_def)

lemma yields_new_Client: "yields (\<lambda>x s. s = [EvNewClient rc x]) (new_Client E rc)"
  unfolding new_Client_def by (rule yields_call) simp

lemma buildShootApplier_built:
  "yields (\<lambda>res t. list_all (silent cr) t \<and>
      (\<forall>A. res = Inr A \<longrightarrow> (\<exists>rc. A = shoot_applier L E rc \<and> EvNewClient rc (Inr ()) \<in> set t)))
     (buildShootApplier L E cr)"
proof -
  have "yields (\<lambda>res t. \<forall>A. res = Inr A \<longrightarrow> (\<exists>rc. A = shoot_applier L E rc \<and> EvNewClient rc (Inr ()) \<in> set t))
     (buildShootApplier L E cr)"
    unfolding buildShootApplier_def Let_def get_Secret_def
    by (auto split: sum.splits
        intro!: yields_bind_io [OF yields_new_Client] yields_return
          yields_bind_io [where R = "\<lambda>_ _. True"] yields_wrap_io [where R = "\<lambda>_ _. True"] yields_call) blast
  then show ?thesis
    using emits_buildShootApplier [of cr L E] unfolding emits_yields by (rule yields_conj [rotated])
qed

section \<open>The custom resource during a deletion\<close>

text \<open>
  A deletion changes conditions in memory and takes over the server's response to a status
  update; everything that the deletion depends on stays the same.
\<close>

definition same_target :: "DualDeploymentOperator \<Rightarrow> DualDeploymentOperator \<Rightarrow> bool" where
  "same_target cr cr' \<longleftrightarrow>
     cr_Namespace cr' = cr_Namespace cr \<and> cr_Name cr' = cr_Name cr \<and> cr_Spec cr' = cr_Spec cr \<and>
     cr_Annotations cr' = cr_Annotations cr \<and> cr_Finalizers cr' = cr_Finalizers cr \<and>
     cr_Generation cr' = cr_Generation cr \<and>
     st_SeedResources (cr_Status cr') = st_SeedResources (cr_Status cr) \<and>
     st_ShootResources (cr_Status cr') = st_ShootResources (cr_Status cr)"

lemma same_target_refl [simp]: "same_target cr cr"
  by (simp add: same_target_def)

lemma same_target_trans: "same_target cr cr' \<Longrightarrow> same_target cr' cr'' \<Longrightarrow> same_target cr cr''"
  by (simp add: same_target_def)

lemma same_target_updates [simp]:
  "same_target cr (put_condition B cr c)" "same_target cr (setCondition B cr reason message gen)"
  "same_target cr (cr\<lparr>cr_ResourceVersion := rv\<rparr>)"
  by (simp_all add: same_target_def put_condition_def setCondition_def)

lemma same_target_quiet: "same_target cr cr' \<Longrightarrow> quiet cr' = quiet cr"
  by (rule quiet_cong) (simp_all add: same_target_def)

lemma same_target_owner: "same_target cr cr' \<Longrightarrow> owner cr' = owner cr"
  by (simp add: same_target_def owner_def)

lemma same_target_retained: "same_target cr cr' \<Longrightarrow> retained_kind cr' = retained_kind cr"
  by (auto simp: same_target_def retained_kind_def fun_eq_iff)

lemma record_event_silent: "emits (silent cr) (record_event r reason action note)"
  unfolding record_event_def report_def by (auto intro!: emits_intros simp: silent_def)

lemma record_event_quiet: "emits (quiet cr) (record_event r reason action note)"
  by (rule emits_mono [OF record_event_silent [where cr = cr]]) (simp add: silent_def)

lemma yields_record_bind:
  assumes "\<And>t. list_all (silent cr) t \<Longrightarrow> yields (\<lambda>y u. Q y (t @ u)) m"
  shows "yields Q (State_Monad.bind (record_event r reason action note) (\<lambda>_. m))"
  by (rule yields_bind_wp [OF record_event_silent [unfolded emits_yields]]) (rule assms)

context reconciler_setup
begin

lemma shoot_applier_law: 
  "yields (\<lambda>res t. list_all (silent cr) t \<and> (\<forall>A. res = Inr A \<longrightarrow> (\<exists>rc. EvNewClient rc (Inr ()) \<in> set t \<and>
      A = shoot_applier (lib_k B) (se_api S) rc))) (buildShootApplierOrDefault (lib_k B) (se_api S) r cr)"
  unfolding buildShootApplierOrDefault_def production option.case
  by (rule yields_mono [OF buildShootApplier_built]) auto

lemma after_update_same:
  "(\<And>cr'. res = Inr cr' \<Longrightarrow> \<exists>rv. cr' = cr\<lparr>cr_ResourceVersion := rv\<rparr>) \<Longrightarrow> same_target cr (after_update cr res)"
  by (auto simp: after_update_def split: sum.split)

lemma status_Update_law:
  "yields (\<lambda>res t. t = [EvStatusUpdate cr res] \<and> same_target cr (after_update cr res))
     (status_Update (se_api S) cr)"
  unfolding status_Update_def using status_law by (auto simp: yields_def intro!: after_update_same)

text \<open>The shoot applier of a deletion, with the error when it was needed and could not be built.\<close>

lemma deletion_shoot_applier_law:
  "yields (\<lambda>(cr1, sA, buildErr) t. list_all (silent cr) t \<and> same_target cr cr1 \<and>
      (sA = None \<longleftrightarrow> buildErr \<noteq> None \<or> deletable cr (st_ShootResources (cr_Status cr)) = 0) \<and>
      (\<forall>A. sA = Some A \<longrightarrow> (\<exists>rc. EvNewClient rc (Inr ()) \<in> set t \<and> A = shoot_applier (lib_k B) (se_api S) rc)))
     (deletion_shoot_applier B (se_api S) r cr)"
  unfolding deletion_shoot_applier_def recordShootUnreachable_def
  by (auto split: sum.split intro!: yields_return yields_bind_wp [OF shoot_applier_law]
      yields_record_bind [where cr = cr])

end

section \<open>Properties that every phase keeps\<close>

text \<open>
  \<open>reconcile_property\<close>: a property \<open>T\<close> of traces that holds of quiet events and of applying,
  pruning and deleting a render for the custom resource \<open>cr\<close> holds of every reconciliation of \<open>cr\<close>.
\<close>

locale reconcile_property = reconciler_setup B err S r + trace_property T
  for B :: libs and err :: "jobj \<Rightarrow> string list \<Rightarrow> go_error" and S :: src_env and r :: Reconciler
    and T :: "event list \<Rightarrow> bool" +
  fixes cr :: DualDeploymentOperator
  assumes quiet_T: "list_all (quiet cr) t \<Longrightarrow> T t"
    and applied_T: "render_applied (lib_k B) c (owner cr) ms ms' sts t \<Longrightarrow> T t"
    and pruned_T:
      "pruned (lib_k B) c (owner cr) cr' prev current retained t \<Longrightarrow> cr_Spec cr' = cr_Spec cr \<Longrightarrow> T t"
    and deleted_T:
      "render_deleted (lib_k B) c (owner cr) (filter (\<lambda>rs. \<not> retained_kind cr' rs) xs) es t \<Longrightarrow>
       cr_Spec cr' = cr_Spec cr \<Longrightarrow> T t"
begin

lemma emits_T: "emits (quiet cr) m \<Longrightarrow> yields (\<lambda>_. T) m"
  unfolding emits_yields by (erule yields_mono) (rule quiet_T)

lemma applyAll_T: "applier_contract (lib_k B) c A \<Longrightarrow> yields (\<lambda>_. T) (applyAll (lib_k B) A ms (owner cr))"
  by (rule yields_mono [OF applier_contract.applyAll_law]) (auto intro: applied_T)

lemma prune_T:
  "applier_contract (lib_k B) c A \<Longrightarrow> yields (\<lambda>_. T) (prune (lib_k B) A prev current cr (owner cr))"
  by (rule yields_mono [OF applier_contract.prune_law]) (auto intro: pruned_T)

lemma deleteRender_T:
  "applier_contract (lib_k B) c A \<Longrightarrow> cr_Spec cr' = cr_Spec cr \<Longrightarrow>
     yields (\<lambda>_. T) (deleteRender (lib_k B) cr' (owner cr) (Some A) statuses)"
  by (rule yields_mono [OF applier_contract.deleteRender_law]) (auto intro: deleted_T)

lemma finish_T: "yields (\<lambda>_. T) (finishNotReady E cr' seed shoot backoff)"
  unfolding finishNotReady_def time_Now_def status_Update_def
  by (intro emits_T emits_intros) simp_all

lemma write_status_T: "yields (\<lambda>_. T) (write_status B E cr' seed shoot errs e)"
  unfolding write_status_def Let_def time_Now_def status_Update_def
  by (intro emits_T emits_intros) simp_all

lemma case_prod_T: "(\<And>a b. yields (\<lambda>_. T) (f a b)) \<Longrightarrow> yields (\<lambda>_. T) (case p of (a, b) \<Rightarrow> f a b)"
  by (cases p) simp

lemma if_T: "yields (\<lambda>_. T) m \<Longrightarrow> yields (\<lambda>_. T) m' \<Longrightarrow> yields (\<lambda>_. T) (if b then m else m')"
  by simp

lemmas seed_T = applyAll_T [OF seed_contract] prune_T [OF seed_contract]

lemmas T_rules = trace_bind trace_return case_prod_T if_T finish_T write_status_T seed_T

lemma shoot_skipped_T: "yields (\<lambda>_. T) (shoot_skipped B E r cr (owner cr) seed shootFirst reason message backoff)"
  unfolding shoot_skipped_def seed_only_def by (intro T_rules)

lemma shoot_degraded_T:
  "applier_contract (lib_k B) c A \<Longrightarrow> yields (\<lambda>_. T) (shoot_degraded B E A cr (owner cr) shoot statuses)"
  unfolding shoot_degraded_def Let_def by (intro T_rules prune_T)

lemma deliver_T:
  assumes "applier_contract (lib_k B) c A"
  shows deliver_shoot_first_T: "yields (\<lambda>_. T) (deliver_shoot_first B E r A cr (owner cr) seed shoot)"
    and deliver_seed_first_T: "yields (\<lambda>_. T) (deliver_seed_first B E r A cr (owner cr) seed shoot)"
  unfolding deliver_shoot_first_def deliver_seed_first_def Let_def
  by (intro T_rules shoot_degraded_T [OF assms] applyAll_T [OF assms] prune_T [OF assms])+

lemma deliver_built_T:
  assumes "\<And>A. built = Inr A \<Longrightarrow> \<exists>rc. A = shoot_applier (lib_k B) (se_api S) rc"
  shows "yields (\<lambda>_. T) (deliver_built B E r cr (owner cr) seed shoot built)"
  unfolding deliver_built_def Let_def
  using assms by (auto split: sum.split intro!: shoot_skipped_T
      intro: deliver_shoot_first_T deliver_seed_first_T shoot_contract)

lemma deliver_renders_T: "yields (\<lambda>_. T) (deliver_renders B (se_api S) r cr seed shoot)"
  unfolding deliver_renders_def buildShootApplierOrDefault_def production option.case Let_def owner_def [symmetric]
  by (rule yields_bind_wp [OF buildShootApplier_built], rule yields_mono [OF deliver_built_T])
    (auto intro: quiet_T silent_quiet trace_append)

lemma errStatus_T: "yields (\<lambda>_. T) (errStatus B E cr' reason e)"
  unfolding errStatus_def time_Now_def status_Update_def Let_def
  by (intro emits_T emits_intros) simp_all

lemma reconcile_live_T: "yields (\<lambda>_. T) (reconcile_live B S r cr)"
  unfolding reconcile_live_def
  by (rule trace_bind [OF emits_T [OF emits_prepare_quiet]])
    (auto split: sum.split intro!: errStatus_T deliver_renders_T)

lemma nil_deleteRender_T:
  assumes "cr_Spec cr' = cr_Spec cr" and "\<And>A. sA = Some A \<Longrightarrow> \<exists>c. applier_contract (lib_k B) c A"
  shows "yields (\<lambda>_. T) (deleteRender (lib_k B) cr' (owner cr) sA statuses)"
proof (cases sA)
  case None
  then show ?thesis by (simp add: deleteRender_def trace_return)
next
  case (Some A)
  with assms show ?thesis by (auto intro: deleteRender_T)
qed

lemma delete_renders_T:
  assumes "cr_Spec cr' = cr_Spec cr" and "\<And>A. sA = Some A \<Longrightarrow> \<exists>c. applier_contract (lib_k B) c A"
  shows "yields (\<lambda>_. T) (delete_renders (lib_k B) r cr' (owner cr) sA)"
  unfolding delete_renders_def
  by (intro T_rules nil_deleteRender_T [OF assms] deleteRender_T [OF seed_contract] assms(1))

lemma finish_delete_T: "yields (\<lambda>_. T) (finish_delete B E r cr' shootDone errs)"
  unfolding finish_delete_def remove_finalizer_def recordShootCleanupForceDeleted_def update_CR_def
    recordShootCleanupBlocked_def status_Update_def Let_def
  by (intro emits_T emits_if emits_intros record_event_quiet) simp_all

lemma quiet_cons_T: "quiet cr e \<Longrightarrow> T t \<Longrightarrow> T (e # t)"
  using trace_append [of "[e]" t] quiet_T [of "[e]"] by simp

lemma teardown_T:
  assumes "same_target cr cr'" shows "yields (\<lambda>_. T) (teardown B (se_api S) r cr' (owner cr))"
  unfolding teardown_def Let_def
proof (rule yields_bind_wp [OF deletion_shoot_applier_law], clarify)
  fix cr1 sA e t
  assume t: "list_all (silent cr') t" and cr1: "same_target cr' cr1"
    and sA: "\<forall>A. sA = Some A \<longrightarrow> (\<exists>rc. EvNewClient rc (Inr ()) \<in> set t \<and> A = shoot_applier (lib_k B) (se_api S) rc)"
  have "yields (\<lambda>_. T) (delete_renders (lib_k B) r cr1 (owner cr) sA)"
    using assms cr1 sA by (intro delete_renders_T) (auto simp: same_target_def intro: shoot_contract)
  then have "yields (\<lambda>_. T) (delete_renders (lib_k B) r cr1 (owner cr) sA \<bind> (\<lambda>(shootErrs, seedErrs).
      case NewAggregate (lib_k B) seedErrs of Some agg \<Rightarrow> State_Monad.return (0, Some agg)
      | None \<Rightarrow> finish_delete B (se_api S) r cr1
          (deletable cr' (st_ShootResources (cr_Status cr')) = 0 \<or> e = None \<and> length shootErrs = 0) shootErrs))"
    by (rule trace_bind) (auto split: option.split intro!: trace_return finish_delete_T)
  then show "yields (\<lambda>_ u. T (t @ u)) (delete_renders (lib_k B) r cr1 (owner cr) sA \<bind> (\<lambda>(shootErrs, seedErrs).
      case NewAggregate (lib_k B) seedErrs of Some agg \<Rightarrow> State_Monad.return (0, Some agg)
      | None \<Rightarrow> finish_delete B (se_api S) r cr1
          (deletable cr' (st_ShootResources (cr_Status cr')) = 0 \<or> e = None \<and> length shootErrs = 0) shootErrs))"
    using silent_quiet [OF t] by (auto elim!: yields_mono intro: trace_append quiet_T simp: same_target_quiet [OF assms])
qed

lemma reconcileDelete_T: "yields (\<lambda>_. T) (reconcileDelete B (se_api S) r cr)"
  unfolding reconcileDelete_def Let_def owner_def [symmetric]
  by (rule yields_bind_wp [OF status_Update_law])
    (auto split: sum.split intro!: yields_return yields_mono [OF teardown_T] quiet_cons_T trace_Nil
      simp: after_update_def intro: same_target_trans [OF same_target_updates(2)])

end

section \<open>The shape of a delivery\<close>

text \<open>
  A delivery ends with one status update. \<open>finished cr0 x t\<close>: the events are the clock and the
  update of \<open>cr0\<close>, stamped, with the response \<open>x\<close>.
\<close>

definition finished :: "DualDeploymentOperator \<Rightarrow> DualDeploymentOperator result \<Rightarrow> event list \<Rightarrow> bool" where
  "finished cr0 x t \<longleftrightarrow> (\<exists>now. t = [EvNow now, EvStatusUpdate (set_LastReconcile cr0 now) x])"

definition ready_status ::
  "libs \<Rightarrow> DualDeploymentOperator \<Rightarrow> ResourceStatus list \<Rightarrow> ResourceStatus list \<Rightarrow> DualDeploymentOperator" where
  "ready_status B cr seed shoot =
     put_condition B (set_inventory cr seed shoot)
       ((computeConditions seed shoot)\<lparr>cond_ObservedGeneration := cr_Generation cr\<rparr>)"

definition not_ready_status ::
  "libs \<Rightarrow> DualDeploymentOperator \<Rightarrow> string \<Rightarrow> string \<Rightarrow> ResourceStatus list \<Rightarrow> ResourceStatus list \<Rightarrow>
   DualDeploymentOperator" where
  "not_ready_status B cr reason message seed shoot =
     set_inventory (setCondition B cr reason message (cr_Generation cr)) seed shoot"

definition seed_first :: "DualDeploymentOperator \<Rightarrow> bool" where
  "seed_first cr \<longleftrightarrow> spec_ApplyOrder (cr_Spec cr) = ''SeedFirst''"

text \<open>Both renders were applied and pruned.\<close>

definition both_delivered ::
  "libs \<Rightarrow> DualDeploymentOperator \<Rightarrow> client_id \<Rightarrow> Manifest list \<Rightarrow> Manifest list \<Rightarrow> reconcile_result \<Rightarrow>
   event list \<Rightarrow> bool" where
  "both_delivered B cr c seed shoot res t \<longleftrightarrow>
     (\<exists>seedMs seedSts shootMs shootSts seedRet shootRet tSeed tShoot pSeed pShoot tEnd x.
        render_applied (lib_k B) SeedClient (owner cr) seed seedMs seedSts tSeed \<and>
        render_applied (lib_k B) c (owner cr) shoot shootMs shootSts tShoot \<and>
        pruned (lib_k B) SeedClient (owner cr) cr (st_SeedResources (cr_Status cr)) seedMs seedRet pSeed \<and>
        pruned (lib_k B) c (owner cr) cr (st_ShootResources (cr_Status cr)) shootMs shootRet pShoot \<and>
        t = (if seed_first cr then tSeed @ tShoot @ pShoot @ pSeed else tShoot @ tSeed @ pSeed @ pShoot) @ tEnd \<and>
        finished (ready_status B cr (seedSts @ seedRet) (shootSts @ shootRet)) x tEnd \<and>
        (\<not> seed_first cr \<longrightarrow> \<not> anyFailed shootSts) \<and>
        (res = (requeueInterval, None) \<or> (\<exists>e. res = (0, Some e))) \<and>
        (snd res = None \<longleftrightarrow>
           (\<exists>cr'. x = Inr cr') \<and> \<not> anyFailed seedSts \<and> \<not> anyFailed shootSts \<and> seedRet = [] \<and> shootRet = []))"

text \<open>Shoot first, and some shoot object was refused: the seed is untouched.\<close>

definition shoot_refused ::
  "libs \<Rightarrow> DualDeploymentOperator \<Rightarrow> client_id \<Rightarrow> Manifest list \<Rightarrow> reconcile_result \<Rightarrow> event list \<Rightarrow> bool" where
  "shoot_refused B cr c shoot res t \<longleftrightarrow>
     (\<exists>shootMs shootSts shootRet tShoot pShoot tEnd x reason message.
        reason = (if allFailed shootSts then ''ShootApplyFailed'' else ''ResourcesDegraded'') \<and>
        \<not> seed_first cr \<and> anyFailed shootSts \<and>
        render_applied (lib_k B) c (owner cr) shoot shootMs shootSts tShoot \<and>
        pruned (lib_k B) c (owner cr) cr (st_ShootResources (cr_Status cr)) shootMs shootRet pShoot \<and>
        t = tShoot @ pShoot @ tEnd \<and>
        finished (not_ready_status B cr reason message (st_SeedResources (cr_Status cr)) (shootSts @ shootRet)) x tEnd \<and>
        (\<exists>e. res = (0, Some e)))"

text \<open>The seed was applied and pruned: its new inventory.\<close>

definition seed_delivered ::
  "libs \<Rightarrow> DualDeploymentOperator \<Rightarrow> Manifest list \<Rightarrow> ResourceStatus list \<Rightarrow> event list \<Rightarrow> bool" where
  "seed_delivered B cr seed seedOut t \<longleftrightarrow>
     (\<exists>seedMs seedSts seedRet t1 t2.
        render_applied (lib_k B) SeedClient (owner cr) seed seedMs seedSts t1 \<and>
        pruned (lib_k B) SeedClient (owner cr) cr (st_SeedResources (cr_Status cr)) seedMs seedRet t2 \<and>
        seedOut = seedSts @ seedRet \<and> t = t1 @ t2)"

text \<open>No shoot client: the shoot is untouched, and the seed is applied only when it goes first.\<close>

definition shoot_deferred ::
  "libs \<Rightarrow> DualDeploymentOperator \<Rightarrow> Manifest list \<Rightarrow> string \<Rightarrow> nat \<Rightarrow> reconcile_result \<Rightarrow> event list \<Rightarrow> bool" where
  "shoot_deferred B cr seed reason backoff res t \<longleftrightarrow>
     (\<exists>seedOut tSeed tEnd x message.
        (if seed_first cr then
           seed_delivered B cr seed seedOut tSeed
         else seedOut = st_SeedResources (cr_Status cr) \<and> tSeed = []) \<and>
        t = tSeed @ tEnd \<and>
        finished (not_ready_status B cr reason message seedOut (st_ShootResources (cr_Status cr))) x tEnd \<and>
        (if (\<exists>cr'. x = Inr cr') \<and> 0 < backoff then res = (backoff, None) else (\<exists>e. res = (0, Some e))))"

lemma finishNotReady_law:
  "yields (\<lambda>res t. \<exists>x. finished (set_inventory cr seed shoot) x t \<and>
      (if (\<exists>cr'. x = Inr cr') \<and> 0 < backoff then res = (backoff, None) else (\<exists>e. res = (0, Some e))))
     (finishNotReady E cr seed shoot backoff)"
  unfolding finishNotReady_def time_Now_def status_Update_def finished_def
  by (rule yields_call_bind, rule yields_call_bind, rule yields_return) (auto split: sum.split)

text \<open>
  A delivery builds the shoot client with silent events, and then defers the shoot, meets a
  refusal on the shoot, or delivers both renders.
\<close>

definition delivery ::
  "libs \<Rightarrow> DualDeploymentOperator \<Rightarrow> Manifest list \<Rightarrow> Manifest list \<Rightarrow> reconcile_result \<Rightarrow> event list \<Rightarrow> bool" where
  "delivery B cr seed shoot res t \<longleftrightarrow>
     (\<exists>tb td. t = tb @ td \<and> list_all (silent cr) tb \<and>
        ((\<exists>reason backoff.
            (reason, backoff) \<in> {(''WaitingForShootCredentials'', 30), (''ShootApplyFailed'', 0)} \<and>
            shoot_deferred B cr (SortForApply (lib_k B) seed) reason backoff res td) \<or>
         (\<exists>rc. EvNewClient rc (Inr ()) \<in> set tb \<and>
            (shoot_refused B cr (ShootClient rc) (SortForApply (lib_k B) shoot) res td \<or>
             both_delivered B cr (ShootClient rc) (SortForApply (lib_k B) seed) (SortForApply (lib_k B) shoot) res td))))"

context reconciler_setup
begin

lemmas aggregate_nil = errors_lib.NewAggregate_nil [OF e_lib]

lemma non_nil_None: "(\<forall>e\<in>set (non_nil e1 @ non_nil e2 @ [e3]). e = None) \<longleftrightarrow> e1 = None \<and> e2 = None \<and> e3 = None"
  by (auto simp: non_nil_def)

lemma write_status_law:
  "yields (\<lambda>res t. \<exists>x. finished (ready_status B cr seed shoot) x t \<and>
      (res = (requeueInterval, None) \<or> (\<exists>e. res = (0, Some e))) \<and>
      (snd res = None \<longleftrightarrow> (\<exists>cr'. x = Inr cr') \<and> e1 = None \<and> e2 = None \<and> e3 = None))
     (write_status B E cr seed shoot (non_nil e1 @ non_nil e2) e3)"
proof -
  have agg: "NewAggregate (lib_k B) (non_nil e1 @ non_nil e2 @ [e3]) = None \<longleftrightarrow> e1 = None \<and> e2 = None \<and> e3 = None"
    using aggregate_nil non_nil_None by simp
  show ?thesis
    unfolding write_status_def time_Now_def status_Update_def finished_def ready_status_def Let_def
    by (rule yields_call_bind, rule yields_call_bind, rule yields_return)
      (use agg in \<open>auto split: sum.split option.split\<close>)
qed

lemma applyAll_e:
  "applier_contract (lib_k B) c A \<Longrightarrow>
   yields (\<lambda>(ms', sts, err) t. render_applied (lib_k B) c own ms ms' sts t \<and> (err = None \<longleftrightarrow> \<not> anyFailed sts))
     (applyAll (lib_k B) A ms own)"
  using e_lib by (auto elim!: yields_mono [OF applier_contract.applyAll_law])

lemma prune_e:
  "applier_contract (lib_k B) c A \<Longrightarrow>
   yields (\<lambda>(retained, err) t. pruned (lib_k B) c own cr prev current retained t \<and> (err = None \<longleftrightarrow> retained = []))
     (prune (lib_k B) A prev current cr own)"
  using e_lib by (auto elim!: yields_mono [OF applier_contract.prune_law])

lemma shoot_degraded_law:
  assumes A: "applier_contract (lib_k B) c A" and order: "\<not> seed_first cr" and failed: "anyFailed shootSts"
    and ap: "render_applied (lib_k B) c (owner cr) shoot shootMs shootSts t1"
  shows "yields (\<lambda>res t. shoot_refused B cr c shoot res (t1 @ t)) (shoot_degraded B E A cr (owner cr) shootMs shootSts)"
  unfolding shoot_degraded_def Let_def
proof (rule yields_bind_wp [OF prune_e [OF A]], clarify, rule yields_bind_wp [OF finishNotReady_law], clarify,
    rule yields_return)
  fix ret t2 t3 x and after :: nat and ferr perr :: "go_error option"
  let ?all = "allFailed shootSts"
  let ?reason = "if ?all then ''ShootApplyFailed'' else ''ResourcesDegraded''"
  let ?msg = "if ?all then ''every resource in the shoot render failed to apply''
     else ''some shoot resources failed to apply; seed render deferred until shoot converges''"
  assume pr: "pruned (lib_k B) c (owner cr) cr (st_ShootResources (cr_Status cr)) shootMs ret t2"
    and fin: "finished (set_inventory (setCondition B cr ?reason ?msg (cr_Generation cr))
       (st_SeedResources (cr_Status cr)) (shootSts @ ret)) x t3"
    and res: "if (\<exists>cr'. x = Inr cr') \<and> (0::nat) < 0 then (after, ferr) = (0, None) else \<exists>e. (after, ferr) = (0, Some e)"
  from res obtain e where "after = 0" "ferr = Some e" by auto
  then have "\<exists>e. (after, NewAggregate (lib_k B) [ferr, perr]) = (0, Some e)"
    using aggregate_nil [of "[ferr, perr]"] by auto
  with ap pr fin order failed show "shoot_refused B cr c shoot (after, NewAggregate (lib_k B) [ferr, perr]) (t1 @ t2 @ t3 @ [])"
    unfolding shoot_refused_def not_ready_status_def
    by (intro exI [of _ shootMs] exI [of _ shootSts] exI [of _ ret] exI [of _ t1] exI [of _ t2] exI [of _ t3]
        exI [of _ x] exI [of _ ?reason] exI [of _ ?msg]) simp
qed

lemma both_delivered_law:
  assumes "render_applied (lib_k B) SeedClient (owner cr) seed seedMs seedSts tSeed"
    and "render_applied (lib_k B) c (owner cr) shoot shootMs shootSts tShoot"
    and "pruned (lib_k B) SeedClient (owner cr) cr (st_SeedResources (cr_Status cr)) seedMs seedRet pSeed"
    and "pruned (lib_k B) c (owner cr) cr (st_ShootResources (cr_Status cr)) shootMs shootRet pShoot"
    and "\<not> seed_first cr \<longrightarrow> \<not> anyFailed shootSts"
    and errs: "(e1 = None \<and> e2 = None \<and> e3 = None) \<longleftrightarrow>
      (\<not> anyFailed seedSts \<and> \<not> anyFailed shootSts \<and> seedRet = [] \<and> shootRet = [])"
    and "t0 = (if seed_first cr then tSeed @ tShoot @ pShoot @ pSeed else tShoot @ tSeed @ pSeed @ pShoot)"
  shows "yields (\<lambda>res t. both_delivered B cr c seed shoot res (t0 @ t))
     (write_status B E cr (seedSts @ seedRet) (shootSts @ shootRet) (non_nil e1 @ non_nil e2) e3)"
proof (rule yields_mono [OF write_status_law], elim exE conjE)
  fix res :: reconcile_result and t x
  assume "finished (ready_status B cr (seedSts @ seedRet) (shootSts @ shootRet)) x t"
    and "res = (requeueInterval, None) \<or> (\<exists>e. res = (0, Some e))"
    and "(snd res = None) = ((\<exists>cr'. x = Inr cr') \<and> e1 = None \<and> e2 = None \<and> e3 = None)"
  with assms show "both_delivered B cr c seed shoot res (t0 @ t)"
    unfolding both_delivered_def errs by (intro exI conjI) (assumption | simp)+
qed

lemma deliver_shoot_first_law:
  assumes A: "applier_contract (lib_k B) c A" and order: "\<not> seed_first cr"
  shows "yields (\<lambda>res t. both_delivered B cr c seed shoot res t \<or> shoot_refused B cr c shoot res t)
     (deliver_shoot_first B E r A cr (owner cr) seed shoot)"
  unfolding deliver_shoot_first_def Let_def
  apply (rule yields_bind_wp [OF applyAll_e [OF A]], clarify, rule yields_if)
  subgoal premises ap for shootMs shootSts shootErr tShoot
    using shoot_degraded_law [OF A order ap(3,1)] by (rule yields_mono) (rule disjI2)
  subgoal premises ap for shootMs shootSts shootErr tShoot
    apply (rule yields_bind_wp [OF applyAll_e [OF seed_contract]], clarify)
    apply (rule yields_bind_wp [OF prune_e [OF seed_contract]], clarify)
    apply (rule yields_bind_wp [OF prune_e [OF A]], clarify)
    subgoal premises s for seedMs seedSts seedErr tSeed seedRet seedPruneErr pSeed shootRet shootPruneErr pShoot
      by (rule yields_mono [OF both_delivered_law [OF s(1) ap(1) s(3,5) _ _ refl]])
        (simp_all add: aggregate_nil s(2,4,6) ap(2,3) order)
    done
  done

lemma deliver_seed_first_law:
  assumes A: "applier_contract (lib_k B) c A" and order: "seed_first cr"
  shows "yields (both_delivered B cr c seed shoot) (deliver_seed_first B E r A cr (owner cr) seed shoot)"
  unfolding deliver_seed_first_def Let_def
  apply (rule yields_bind_wp [OF applyAll_e [OF seed_contract]], clarify)
  apply (rule yields_bind_wp [OF applyAll_e [OF A]], clarify)
  apply (rule yields_bind_wp [OF prune_e [OF A]], clarify)
  apply (rule yields_bind_wp [OF prune_e [OF seed_contract]], clarify)
  subgoal premises s for seedMs seedSts seedErr tSeed shootMs shootSts shootErr tShoot shootRet shootPruneErr pShoot
      seedRet seedPruneErr pSeed
    by (rule yields_mono [OF both_delivered_law [OF s(1,3,7,5) _ _ refl]])
      (auto simp add: aggregate_nil s(2,4,6,8) order)
  done

lemma seed_only_law: "yields (seed_delivered B cr seed) (seed_only (lib_k B) r cr (owner cr) seed)"
  unfolding seed_delivered_def
  unfolding seed_only_def
  by (rule yields_bind_wp [OF applyAll_e [OF seed_contract]], clarify,
      rule yields_bind_wp [OF prune_e [OF seed_contract]], clarify, rule yields_return,
      intro exI conjI, assumption, assumption, rule refl, simp)

lemma shoot_skipped_law:
  "yields (shoot_deferred B cr seed reason backoff)
     (shoot_skipped B E r cr (owner cr) seed (\<not> seed_first cr) reason message backoff)"
proof (cases "seed_first cr")
  case True
  then show ?thesis
    unfolding shoot_skipped_def shoot_deferred_def not_ready_status_def
    by (simp only: simp_thms if_True if_False, intro yields_bind_wp [OF seed_only_law] yields_mono [OF finishNotReady_law])
      (elim exE conjE, intro exI conjI, assumption, rule refl, assumption, assumption)
next
  case False
  then show ?thesis
    unfolding shoot_skipped_def shoot_deferred_def not_ready_status_def
    by (simp only: simp_thms if_True if_False bind_return, intro yields_mono [OF finishNotReady_law])
      (elim exE conjE, intro exI conjI, rule refl, rule refl, simp, assumption, assumption)
qed

lemma deliver_renders_law: "yields (delivery B cr seed shoot) (deliver_renders B (se_api S) r cr seed shoot)"
  unfolding deliver_renders_def Let_def owner_def [symmetric]
proof (rule yields_bind_wp [OF shoot_applier_law])
  fix built :: "Applier result" and tb
  assume built: "list_all (silent cr) tb \<and> (\<forall>A. built = Inr A \<longrightarrow>
    (\<exists>rc. EvNewClient rc (Inr ()) \<in> set tb \<and> A = shoot_applier (lib_k B) (se_api S) rc))"
  let ?seed = "SortForApply (lib_k B) seed" and ?shoot = "SortForApply (lib_k B) shoot"
  show "yields (\<lambda>res t. delivery B cr seed shoot res (tb @ t))
      (deliver_built B (se_api S) r cr (owner cr) ?seed ?shoot built)"
  proof (cases built)
    case (Inl e)
    have "delivery B cr seed shoot res (tb @ t)" if "shoot_deferred B cr ?seed reason backoff res t"
      "(reason, backoff) \<in> {(''WaitingForShootCredentials'', 30), (''ShootApplyFailed'', 0)}" for res t reason backoff
      using built that unfolding delivery_def by (intro exI [of _ tb] exI [of _ t]) auto
    note d = this
    show ?thesis
      unfolding Inl deliver_built_def Let_def sum.case seed_first_def [symmetric]
      by (rule yields_if; rule yields_mono [OF shoot_skipped_law]; erule d; simp)
  next
    case (Inr A)
    with built obtain rc where rc: "EvNewClient rc (Inr ()) \<in> set tb" "A = shoot_applier (lib_k B) (se_api S) rc"
      by auto
    have "delivery B cr seed shoot res (tb @ t)"
      if "both_delivered B cr (ShootClient rc) ?seed ?shoot res t \<or> shoot_refused B cr (ShootClient rc) ?shoot res t" for res t
      using built that rc unfolding delivery_def by (intro exI [of _ tb] exI [of _ t]) auto
    note d = this
    show ?thesis
      unfolding Inr rc(2) deliver_built_def Let_def sum.case seed_first_def [symmetric]
      by (rule yields_if; rule yields_mono [OF deliver_shoot_first_law [OF shoot_contract]]
            yields_mono [OF deliver_seed_first_law [OF shoot_contract]]; (simp add: d)?)
  qed
qed

end

end
