(* ===== verification/Guarantees.thy ===== *)
theory Guarantees
  imports Reconciliation
begin

text \<open>
  Consequences of the shape of a delivery: which render is written when and in which order, what
  a status that is written says, and when a cycle counts as successful.
\<close>

section \<open>Writes in the parts of a trace\<close>

lemma silent_write: "silent cr e \<Longrightarrow> \<not> is_object_write e"
  by (cases e) (simp_all add: silent_def quiet_def)

lemma silent_no_writes: "list_all (silent cr) t \<Longrightarrow> list_all (\<lambda>e. \<not> is_object_write e) t"
  by (auto simp: list_all_iff dest: silent_write)

lemma finished_no_writes: "finished cr0 x t \<Longrightarrow> list_all (\<lambda>e. \<not> is_object_write e) t"
  by (auto simp: finished_def)

lemmas no_object_writes = no_writes [OF silent_no_writes] no_writes [OF finished_no_writes]

lemma apply_events:
  assumes "list_all (apply_event c) t"
  shows "deleted t = []" and "c' \<noteq> c \<Longrightarrow> EvPatch c' u fm x \<notin> set t" and "e \<in> set t \<Longrightarrow> \<not> is_cr_write e"
    and "EvDelete c' u d \<notin> set t"
  using assms by (induction t) (auto split: event.splits elim: apply_event.elims)

lemma delete_events:
  assumes "list_all (delete_event c) t"
  shows "patched t = []" and "c' \<noteq> c \<Longrightarrow> EvDelete c' u d \<notin> set t" and "e \<in> set t \<Longrightarrow> \<not> is_cr_write e"
    and "EvPatch c' u fm x \<notin> set t"
  using assms by (induction t) (auto split: event.splits elim: delete_event.elims)

lemma render_applied_events:
  assumes "render_applied L c own ms ms' sts t"
  shows "deleted t = []" and "c' \<noteq> c \<Longrightarrow> EvPatch c' u fm x \<notin> set t" and "e \<in> set t \<Longrightarrow> \<not> is_cr_write e"
    and "EvDelete c' u d \<notin> set t"
  using assms apply_events [of c t] by (auto simp: render_applied_def)

lemma pruned_events:
  assumes "pruned L c own cr prev current retained t"
  shows "patched t = []" and "c' \<noteq> c \<Longrightarrow> EvDelete c' u d \<notin> set t" and "e \<in> set t \<Longrightarrow> \<not> is_cr_write e"
    and "EvPatch c' u fm x \<notin> set t"
  using assms delete_events [of c t] by (auto simp: pruned_def)

lemma first_occurrence:
  assumes "xs @ ys = s @ e # rest" and "e \<notin> set xs"
  obtains s' where "s = xs @ s'"
proof -
  from assms consider us where "xs = s @ us" "us @ ys = e # rest" | us where "xs @ us = s"
    by (auto simp: append_eq_append_conv2)
  then show thesis
    using assms(2) that by cases (auto simp: append_eq_Cons_conv)
qed

lemma both_deliveredE:
  assumes "both_delivered B cr c seed shoot res t"
  obtains seedMs seedSts shootMs shootSts seedRet shootRet tSeed tShoot pSeed pShoot tEnd x where
    "render_applied (lib_k B) SeedClient (owner cr) seed seedMs seedSts tSeed"
    "render_applied (lib_k B) c (owner cr) shoot shootMs shootSts tShoot"
    "pruned (lib_k B) SeedClient (owner cr) cr (st_SeedResources (cr_Status cr)) seedMs seedRet pSeed"
    "pruned (lib_k B) c (owner cr) cr (st_ShootResources (cr_Status cr)) shootMs shootRet pShoot"
    "t = (if seed_first cr then tSeed @ tShoot @ pShoot @ pSeed else tShoot @ tSeed @ pSeed @ pShoot) @ tEnd"
    "finished (ready_status B cr (seedSts @ seedRet) (shootSts @ shootRet)) x tEnd"
    "\<not> seed_first cr \<longrightarrow> \<not> anyFailed shootSts"
    "res = (requeueInterval, None) \<or> (\<exists>e. res = (0, Some e))"
    "snd res = None \<longleftrightarrow>
       (\<exists>cr'. x = Inr cr') \<and> \<not> anyFailed seedSts \<and> \<not> anyFailed shootSts \<and> seedRet = [] \<and> shootRet = []"
  using assms unfolding both_delivered_def by (elim exE conjE) (rule that; assumption)

lemma shoot_refusedE:
  assumes "shoot_refused B cr c shoot res t"
  obtains shootMs shootSts shootRet tShoot pShoot tEnd x message e where
    "\<not> seed_first cr" "anyFailed shootSts"
    "render_applied (lib_k B) c (owner cr) shoot shootMs shootSts tShoot"
    "pruned (lib_k B) c (owner cr) cr (st_ShootResources (cr_Status cr)) shootMs shootRet pShoot"
    "t = tShoot @ pShoot @ tEnd"
    "finished (not_ready_status B cr (if allFailed shootSts then ''ShootApplyFailed'' else ''ResourcesDegraded'') message
       (st_SeedResources (cr_Status cr)) (shootSts @ shootRet)) x tEnd"
    "res = (0, Some e)"
  using assms unfolding shoot_refused_def by (elim exE conjE) (rule that; blast)

lemma shoot_deferredE:
  assumes "shoot_deferred B cr seed reason backoff res t"
  obtains out tSeed tEnd x message where
    "if seed_first cr then seed_delivered B cr seed out tSeed
     else out = st_SeedResources (cr_Status cr) \<and> tSeed = []"
    "t = tSeed @ tEnd"
    "finished (not_ready_status B cr reason message out (st_ShootResources (cr_Status cr))) x tEnd"
    "if (\<exists>cr'. x = Inr cr') \<and> 0 < backoff then res = (backoff, None) else \<exists>e. res = (0, Some e)"
  using assms unfolding shoot_deferred_def by (elim exE conjE) (rule that; assumption)

section \<open>Shoot first: the seed waits\<close>

text \<open>
  Before the first apply on the seed, a shoot client was built and every manifest of the shoot
  render was accepted by the shoot.
\<close>

definition shoot_converged :: "libs \<Rightarrow> DualDeploymentOperator \<Rightarrow> Manifest list \<Rightarrow> event list \<Rightarrow> bool" where
  "shoot_converged B cr shoot t \<longleftrightarrow>
     (\<exists>rc. EvNewClient rc (Inr ()) \<in> set t \<and> (\<forall>m\<in>set shoot. applied (lib_k B) (ShootClient rc) (owner cr) m t))"

lemma shoot_converged_append: "shoot_converged B cr shoot s \<Longrightarrow> shoot_converged B cr shoot (s @ t)"
  by (auto simp: shoot_converged_def)

lemma both_delivered_gate:
  assumes "both_delivered B cr (ShootClient rc) seed shoot res td" and "\<not> seed_first cr"
    and "EvNewClient rc (Inr ()) \<in> set tb" and "list_all (silent cr) tb"
    and "tb @ td = s @ EvPatch SeedClient u fm x # rest"
  shows "shoot_converged B cr shoot s"
proof -
  from assms(1) obtain shootMs shootSts tSeed pSeed tShoot pShoot tEnd where
    ap: "render_applied (lib_k B) (ShootClient rc) (owner cr) shoot shootMs shootSts tShoot"
    and td: "td = (if seed_first cr then tSeed @ tShoot @ pShoot @ pSeed else tShoot @ tSeed @ pSeed @ pShoot) @ tEnd"
    and ok: "\<not> seed_first cr \<longrightarrow> \<not> anyFailed shootSts"
    by (rule both_deliveredE)
  have "EvPatch SeedClient u fm x \<notin> set (tb @ tShoot)"
    using render_applied_events(2) [OF ap] no_object_writes(3) [OF assms(4)] by auto
  then obtain s' where "s = (tb @ tShoot) @ s'"
    using first_occurrence [of "tb @ tShoot" "tSeed @ pSeed @ pShoot @ tEnd" s] assms(2,5) td by auto
  with ap ok assms(2,3) show ?thesis
    by (auto simp: shoot_converged_def render_applied_def)
qed

lemma shoot_refused_no_seed:
  assumes "shoot_refused B cr (ShootClient rc) shoot res td"
  shows "EvPatch SeedClient u fm x \<notin> set td" and "EvDelete SeedClient u d \<notin> set td"
proof -
  from assms obtain shootMs shootSts shootRet tShoot pShoot tEnd x' cr0 where
    ap: "render_applied (lib_k B) (ShootClient rc) (owner cr) shoot shootMs shootSts tShoot"
    and pr: "pruned (lib_k B) (ShootClient rc) (owner cr) cr (st_ShootResources (cr_Status cr)) shootMs shootRet pShoot"
    and td: "td = tShoot @ pShoot @ tEnd" and fin: "finished cr0 x' tEnd"
    by (rule shoot_refusedE)
  show "EvPatch SeedClient u fm x \<notin> set td" "EvDelete SeedClient u d \<notin> set td"
    using td render_applied_events(2,4) [OF ap] pruned_events(2,4) [OF pr] no_object_writes(7,8) [OF fin] by auto
qed

lemma deferred_no_seed:
  assumes "shoot_deferred B cr seed reason backoff res td" and "\<not> seed_first cr"
  shows "EvPatch c u fm x \<notin> set td" and "EvDelete c u d \<notin> set td"
  using assms no_object_writes(7,8) by (auto simp: shoot_deferred_def)

text \<open>Every apply on the seed comes after the shoot render has been accepted in full.\<close>

lemma delivery_gate:
  assumes "delivery B cr seed shoot res t" and "\<not> seed_first cr"
    and "t = s @ EvPatch SeedClient u fm x # rest"
  shows "shoot_converged B cr shoot s"
proof -
  let ?shoot = "SortForApply (lib_k B) shoot"
  from assms(1) obtain tb td where t: "t = tb @ td" and tb: "list_all (silent cr) tb"
    and cases: "(\<exists>reason backoff. shoot_deferred B cr (SortForApply (lib_k B) seed) reason backoff res td) \<or>
      (\<exists>rc. EvNewClient rc (Inr ()) \<in> set tb \<and> (shoot_refused B cr (ShootClient rc) ?shoot res td \<or>
        both_delivered B cr (ShootClient rc) (SortForApply (lib_k B) seed) ?shoot res td))"
    unfolding delivery_def by blast
  have "EvPatch SeedClient u fm x \<in> set td"
    using assms(3) t no_object_writes(3) [OF tb] by (metis Un_iff in_set_conv_decomp set_append)
  with cases obtain rc where rc: "EvNewClient rc (Inr ()) \<in> set tb"
    and "both_delivered B cr (ShootClient rc) (SortForApply (lib_k B) seed) ?shoot res td"
    using deferred_no_seed [OF _ assms(2)] shoot_refused_no_seed by metis
  from both_delivered_gate [OF this(2) assms(2) rc tb, of s u fm x rest] show ?thesis
    using assms(3) t by (simp add: shoot_converged_def SortForApply_set)
qed

section \<open>Order of the writes\<close>

text \<open>The objects of the renders as they are sent, the render that goes first in front.\<close>

definition apply_sequence ::
  "libs \<Rightarrow> DualDeploymentOperator \<Rightarrow> Manifest list \<Rightarrow> Manifest list \<Rightarrow> jobj list" where
  "apply_sequence B cr seed shoot =
     (let sent = (\<lambda>ms. map (\<lambda>m. prepared (lib_k B) m (owner cr)) (SortForApply (lib_k B) ms)) in
      if seed_first cr then sent seed @ sent shoot else sent shoot @ sent seed)"

text \<open>The recorded objects that may be deleted, the render that goes first last, each in deletion order.\<close>

definition deletable_objects :: "libs \<Rightarrow> DualDeploymentOperator \<Rightarrow> ResourceStatus list \<Rightarrow> jobj list" where
  "deletable_objects B cr prev =
     map (\<lambda>rs. m_Unstructured (ManifestFromStatus (lib_k B) rs))
       (filter (\<lambda>rs. \<not> retained_kind cr rs) (SortStatusForDelete prev))"

definition delete_sequence :: "libs \<Rightarrow> DualDeploymentOperator \<Rightarrow> jobj list" where
  "delete_sequence B cr =
     (let seed = deletable_objects B cr (st_SeedResources (cr_Status cr));
          shoot = deletable_objects B cr (st_ShootResources (cr_Status cr)) in
      if seed_first cr then shoot @ seed else seed @ shoot)"

lemma pruned_deletes:
  assumes "pruned L c own cr prev current retained t" and "L = lib_k B"
  shows "subseq (deleted t) (deletable_objects B cr prev)"
proof -
  have "subseq (filter (orphan L keys cr) xs) (filter (\<lambda>rs. \<not> retained_kind cr rs) xs)" for keys xs
    by (induction xs) (auto simp: orphan_def)
  then have "subseq (map f (filter (orphan L keys cr) xs)) (map f (filter (\<lambda>rs. \<not> retained_kind cr rs) xs))"
    for keys xs and f :: "ResourceStatus \<Rightarrow> jobj"
    by (rule subseq_map)
  with assms show ?thesis
    by (auto simp: pruned_def Let_def deletable_objects_def intro: subseq_order.trans)
qed

lemma subseq_append_left: "subseq s a \<Longrightarrow> subseq s (a @ b)"
  using list_emb_append_mono [of _ s a "[]" b] by simp

lemma subseq_append_right: "subseq s b \<Longrightarrow> subseq s (a @ b)"
  by (rule list_emb_append2)

lemma both_delivered_order:
  assumes "both_delivered B cr c (SortForApply (lib_k B) seed) (SortForApply (lib_k B) shoot) res t"
  shows "subseq (patched t) (apply_sequence B cr seed shoot)" and "subseq (deleted t) (delete_sequence B cr)"
proof -
  from assms obtain seedMs seedSts shootMs shootSts seedRet shootRet tSeed tShoot pSeed pShoot tEnd x cr0 where
    ap: "render_applied (lib_k B) SeedClient (owner cr) (SortForApply (lib_k B) seed) seedMs seedSts tSeed"
    "render_applied (lib_k B) c (owner cr) (SortForApply (lib_k B) shoot) shootMs shootSts tShoot"
    and pr: "pruned (lib_k B) SeedClient (owner cr) cr (st_SeedResources (cr_Status cr)) seedMs seedRet pSeed"
    "pruned (lib_k B) c (owner cr) cr (st_ShootResources (cr_Status cr)) shootMs shootRet pShoot"
    and t: "t = (if seed_first cr then tSeed @ tShoot @ pShoot @ pSeed else tShoot @ tSeed @ pSeed @ pShoot) @ tEnd"
    and fin: "finished cr0 x tEnd"
    by (rule both_deliveredE)
  note simps = t pruned_events(1) [OF pr(1)] pruned_events(1) [OF pr(2)] render_applied_events(1) [OF ap(1)]
    render_applied_events(1) [OF ap(2)] no_object_writes(5,6) [OF fin]
  show "subseq (patched t) (apply_sequence B cr seed shoot)"
    using ap by (auto simp: simps apply_sequence_def render_applied_def intro: list_emb_append_mono)
  show "subseq (deleted t) (delete_sequence B cr)"
    using pruned_deletes [OF pr(1) refl] pruned_deletes [OF pr(2) refl]
    by (auto simp: simps delete_sequence_def intro: list_emb_append_mono)
qed

lemma shoot_refused_order:
  assumes "shoot_refused B cr c (SortForApply (lib_k B) shoot) res t"
  shows "subseq (patched t) (apply_sequence B cr seed shoot)" and "subseq (deleted t) (delete_sequence B cr)"
proof -
  from assms obtain shootMs shootSts shootRet tShoot pShoot tEnd x cr0 where
    order: "\<not> seed_first cr"
    and ap: "render_applied (lib_k B) c (owner cr) (SortForApply (lib_k B) shoot) shootMs shootSts tShoot"
    and pr: "pruned (lib_k B) c (owner cr) cr (st_ShootResources (cr_Status cr)) shootMs shootRet pShoot"
    and t: "t = tShoot @ pShoot @ tEnd" and fin: "finished cr0 x tEnd"
    by (rule shoot_refusedE)
  note simps = t order pruned_events(1) [OF pr] render_applied_events(1) [OF ap] no_object_writes(5,6) [OF fin]
  show "subseq (patched t) (apply_sequence B cr seed shoot)"
    using ap by (auto simp: simps apply_sequence_def render_applied_def Let_def intro: subseq_append_left)
  show "subseq (deleted t) (delete_sequence B cr)"
    using pruned_deletes [OF pr refl] by (auto simp: simps delete_sequence_def Let_def intro: subseq_append_right)
qed

lemma shoot_deferred_order:
  assumes "shoot_deferred B cr (SortForApply (lib_k B) seed) reason backoff res t"
  shows "subseq (patched t) (apply_sequence B cr seed shoot)" and "subseq (deleted t) (delete_sequence B cr)"
proof -
  from assms obtain out tSeed tEnd x cr0 where t: "t = tSeed @ tEnd" and fin: "finished cr0 x tEnd"
    and seed: "if seed_first cr then seed_delivered B cr (SortForApply (lib_k B) seed) out tSeed
      else out = st_SeedResources (cr_Status cr) \<and> tSeed = []"
    by (rule shoot_deferredE)
  have "subseq (patched tSeed) (apply_sequence B cr seed shoot) \<and> subseq (deleted tSeed) (delete_sequence B cr)"
  proof (cases "seed_first cr")
    case True
    with seed obtain seedMs seedSts seedRet t1 t2 where ts: "tSeed = t1 @ t2"
      and ap: "render_applied (lib_k B) SeedClient (owner cr) (SortForApply (lib_k B) seed) seedMs seedSts t1"
      and pr: "pruned (lib_k B) SeedClient (owner cr) cr (st_SeedResources (cr_Status cr)) seedMs seedRet t2"
      by (auto simp: seed_delivered_def)
    show ?thesis
      using ap pruned_deletes [OF pr refl] True
      by (auto simp: ts pruned_events(1) [OF pr] render_applied_events(1) [OF ap] apply_sequence_def
          delete_sequence_def Let_def render_applied_def intro: subseq_append_left subseq_append_right)
  qed (use seed in simp)
  then show "subseq (patched t) (apply_sequence B cr seed shoot)" and "subseq (deleted t) (delete_sequence B cr)"
    by (simp_all add: t no_object_writes(5,6) [OF fin])
qed

lemma delivery_order:
  assumes "delivery B cr seed shoot res t"
  shows "subseq (patched t) (apply_sequence B cr seed shoot)" and "subseq (deleted t) (delete_sequence B cr)"
  using assms by (auto simp: delivery_def no_object_writes(1,2)
      intro: both_delivered_order shoot_refused_order shoot_deferred_order)

section \<open>What a written status says\<close>

lemma cond_of_ready_status:
  assumes "reconciler_setup B err S r"
  shows "cond_of ''Ready'' (st_Conditions (cr_Status (set_LastReconcile (ready_status B cr seed shoot) now))) =
    Some ((computeConditions seed shoot)\<lparr>cond_ObservedGeneration := cr_Generation cr\<rparr>)"
  using reconciler_setup.condition_law [OF assms]
  by (simp add: ready_status_def put_condition_def set_LastReconcile_def computeConditions_def)

lemma cond_of_not_ready_status:
  assumes "reconciler_setup B err S r"
  shows "cond_of ''Ready'' (st_Conditions (cr_Status (set_LastReconcile (not_ready_status B cr reason message seed shoot) now))) =
    Some \<lparr>cond_Type = ''Ready'', cond_Status = ''False'', cond_Reason = reason, cond_Message = message,
      cond_ObservedGeneration = cr_Generation cr\<rparr>"
  using reconciler_setup.condition_law [OF assms]
  by (simp add: not_ready_status_def setCondition_def put_condition_def set_LastReconcile_def set_inventory_def)

text \<open>The status \<open>cr'\<close> reports the whole custom resource as ready.\<close>

definition reports_ready :: "DualDeploymentOperator \<Rightarrow> bool" where
  "reports_ready cr \<longleftrightarrow>
     (case cond_of ''Ready'' (st_Conditions (cr_Status cr)) of None \<Rightarrow> False | Some c \<Rightarrow> cond_Status c = ''True'')"

definition healthy :: "ResourceStatus \<Rightarrow> bool" where
  "healthy rs \<longleftrightarrow> rs_Health rs \<notin> {HealthDegraded, HealthProgressing, HealthUnknown}"

text \<open>Everything was delivered: both renders accepted in full, and every entry recorded as healthy.\<close>

definition fully_delivered ::
  "libs \<Rightarrow> DualDeploymentOperator \<Rightarrow> Manifest list \<Rightarrow> Manifest list \<Rightarrow> DualDeploymentOperator \<Rightarrow> event list \<Rightarrow> bool" where
  "fully_delivered B cr seed shoot cr' t \<longleftrightarrow>
     shoot_converged B cr shoot t \<and>
     (\<forall>m\<in>set seed. applied (lib_k B) SeedClient (owner cr) m t) \<and>
     list_all healthy (st_SeedResources (cr_Status cr')) \<and> list_all healthy (st_ShootResources (cr_Status cr'))"

lemma reports_ready_iff:
  assumes "reconciler_setup B err S r"
  shows "reports_ready (set_LastReconcile (ready_status B cr seed shoot) now) \<longleftrightarrow> list_all healthy (seed @ shoot)"
    and "\<not> reports_ready (set_LastReconcile (not_ready_status B cr reason message seed shoot) now)"
proof -
  show "reports_ready (set_LastReconcile (ready_status B cr seed shoot) now) \<longleftrightarrow> list_all healthy (seed @ shoot)"
    by (auto simp: reports_ready_def cond_of_ready_status [OF assms] computeConditions_def anyFailed_iff
        anyProgressing_iff list_all_iff healthy_def)
  show "\<not> reports_ready (set_LastReconcile (not_ready_status B cr reason message seed shoot) now)"
    by (simp add: reports_ready_def cond_of_not_ready_status [OF assms])
qed

lemma finished_update: "finished cr0 x t \<Longrightarrow> EvStatusUpdate cr' y \<in> set t \<Longrightarrow> \<exists>now. cr' = set_LastReconcile cr0 now"
  by (auto simp: finished_def)

lemma inventory_simps [simp]:
  "st_SeedResources (cr_Status (set_LastReconcile cr now)) = st_SeedResources (cr_Status cr)"
  "st_ShootResources (cr_Status (set_LastReconcile cr now)) = st_ShootResources (cr_Status cr)"
  "st_SeedResources (cr_Status (ready_status B cr seed shoot)) = seed"
  "st_ShootResources (cr_Status (ready_status B cr seed shoot)) = shoot"
  "st_SeedResources (cr_Status (not_ready_status B cr reason message seed shoot)) = seed"
  "st_ShootResources (cr_Status (not_ready_status B cr reason message seed shoot)) = shoot"
  by (simp_all add: set_LastReconcile_def ready_status_def not_ready_status_def put_condition_def set_inventory_def
      setCondition_def)

lemma both_delivered_update:
  assumes "both_delivered B cr c seed shoot res t" and "EvStatusUpdate cr' y \<in> set t"
  obtains seedMs seedSts shootMs shootSts seedRet shootRet tSeed tShoot now where
    "render_applied (lib_k B) SeedClient (owner cr) seed seedMs seedSts tSeed"
    "render_applied (lib_k B) c (owner cr) shoot shootMs shootSts tShoot"
    "set tSeed \<union> set tShoot \<subseteq> set t"
    "cr' = set_LastReconcile (ready_status B cr (seedSts @ seedRet) (shootSts @ shootRet)) now"
proof -
  from assms(1) obtain seedMs seedSts shootMs shootSts seedRet shootRet tSeed tShoot pSeed pShoot tEnd x where
    ap: "render_applied (lib_k B) SeedClient (owner cr) seed seedMs seedSts tSeed"
    "render_applied (lib_k B) c (owner cr) shoot shootMs shootSts tShoot"
    and pr: "pruned (lib_k B) SeedClient (owner cr) cr (st_SeedResources (cr_Status cr)) seedMs seedRet pSeed"
    "pruned (lib_k B) c (owner cr) cr (st_ShootResources (cr_Status cr)) shootMs shootRet pShoot"
    and t: "t = (if seed_first cr then tSeed @ tShoot @ pShoot @ pSeed else tShoot @ tSeed @ pSeed @ pShoot) @ tEnd"
    and fin: "finished (ready_status B cr (seedSts @ seedRet) (shootSts @ shootRet)) x tEnd"
    by (rule both_deliveredE)
  have "EvStatusUpdate cr' y \<in> set tEnd"
    using assms(2) render_applied_events(3) [OF ap(1)] render_applied_events(3) [OF ap(2)] pruned_events(3) [OF pr(1)]
      pruned_events(3) [OF pr(2)] by (force simp: t split: if_splits)
  from finished_update [OF fin this] that [OF ap] t show thesis by (auto split: if_splits)
qed

lemma applied_mono: "applied L c own m s \<Longrightarrow> set s \<subseteq> set t \<Longrightarrow> applied L c own m t"
  by (auto simp: applied_def)

lemma healthy_not_failed: "list_all healthy (sts @ ret) \<Longrightarrow> \<not> anyFailed sts"
  by (auto simp: anyFailed_iff list_all_iff healthy_def)

lemma both_delivered_ready:
  assumes B: "reconciler_setup B err S r" and "both_delivered B cr (ShootClient rc) seed shoot res t"
    and "EvStatusUpdate cr' y \<in> set t" and "reports_ready cr'" and "EvNewClient rc (Inr ()) \<in> set tb"
  shows "fully_delivered B cr seed shoot cr' (tb @ t)"
proof -
  from assms(2,3) obtain seedMs seedSts shootMs shootSts seedRet shootRet tSeed tShoot now where
    ap: "render_applied (lib_k B) SeedClient (owner cr) seed seedMs seedSts tSeed"
    "render_applied (lib_k B) (ShootClient rc) (owner cr) shoot shootMs shootSts tShoot"
    and sub: "set tSeed \<union> set tShoot \<subseteq> set t"
    and cr': "cr' = set_LastReconcile (ready_status B cr (seedSts @ seedRet) (shootSts @ shootRet)) now"
    by (rule both_delivered_update)
  from assms(4) have h: "list_all healthy (seedSts @ seedRet)" "list_all healthy (shootSts @ shootRet)"
    by (simp_all add: cr' reports_ready_iff(1) [OF B])
  then have "\<forall>m\<in>set seed. applied (lib_k B) SeedClient (owner cr) m tSeed"
    "\<forall>m\<in>set shoot. applied (lib_k B) (ShootClient rc) (owner cr) m tShoot"
    using ap healthy_not_failed by (auto simp: render_applied_def)
  with sub h assms(5) show ?thesis
    by (auto simp: fully_delivered_def shoot_converged_def cr' intro: applied_mono intro!: exI [of _ rc])
qed

lemma refused_not_ready:
  assumes B: "reconciler_setup B err S r" and "shoot_refused B cr c shoot res t" and "EvStatusUpdate cr' y \<in> set t"
  shows "\<not> reports_ready cr'" and "st_SeedResources (cr_Status cr') = st_SeedResources (cr_Status cr)"
proof -
  from assms(2) obtain shootMs shootSts shootRet tShoot pShoot tEnd x message reason where
    ap: "render_applied (lib_k B) c (owner cr) shoot shootMs shootSts tShoot"
    and pr: "pruned (lib_k B) c (owner cr) cr (st_ShootResources (cr_Status cr)) shootMs shootRet pShoot"
    and t: "t = tShoot @ pShoot @ tEnd"
    and fin: "finished (not_ready_status B cr reason message (st_SeedResources (cr_Status cr)) (shootSts @ shootRet)) x tEnd"
    by (rule shoot_refusedE)
  have "EvStatusUpdate cr' y \<in> set tEnd"
    using assms(3) render_applied_events(3) [OF ap] pruned_events(3) [OF pr] by (force simp: t)
  from finished_update [OF fin this]
  show "\<not> reports_ready cr'" "st_SeedResources (cr_Status cr') = st_SeedResources (cr_Status cr)"
    by (auto simp: reports_ready_iff(2) [OF B])
qed

lemma deferred_not_ready:
  assumes B: "reconciler_setup B err S r" and "shoot_deferred B cr seed reason backoff res t"
    and "EvStatusUpdate cr' y \<in> set t"
  shows "\<not> reports_ready cr'" and "st_ShootResources (cr_Status cr') = st_ShootResources (cr_Status cr)"
    and "\<not> seed_first cr \<Longrightarrow> st_SeedResources (cr_Status cr') = st_SeedResources (cr_Status cr)"
proof -
  from assms(2) obtain out tSeed tEnd x message where
    seed: "if seed_first cr then seed_delivered B cr seed out tSeed
      else out = st_SeedResources (cr_Status cr) \<and> tSeed = []"
    and t: "t = tSeed @ tEnd"
    and fin: "finished (not_ready_status B cr reason message out (st_ShootResources (cr_Status cr))) x tEnd"
    by (rule shoot_deferredE)
  have "EvStatusUpdate cr' y \<notin> set tSeed"
    using seed by (force simp: seed_delivered_def split: if_splits dest: render_applied_events(3) pruned_events(3))
  then have "EvStatusUpdate cr' y \<in> set tEnd" using assms(3) by (simp add: t)
  from finished_update [OF fin this] obtain now
    where "cr' = set_LastReconcile (not_ready_status B cr reason message out (st_ShootResources (cr_Status cr))) now"
    by blast
  with seed show "\<not> reports_ready cr'" "st_ShootResources (cr_Status cr') = st_ShootResources (cr_Status cr)"
    "\<not> seed_first cr \<Longrightarrow> st_SeedResources (cr_Status cr') = st_SeedResources (cr_Status cr)"
    by (auto simp: reports_ready_iff(2) [OF B])
qed

lemma delivery_cases:
  assumes "delivery B cr seed shoot res t" and "EvStatusUpdate cr' y \<in> set t"
  obtains (deferred) reason backoff tb td where "t = tb @ td" "EvStatusUpdate cr' y \<in> set td"
      "shoot_deferred B cr (SortForApply (lib_k B) seed) reason backoff res td"
  | (refused) rc tb td where "t = tb @ td" "EvStatusUpdate cr' y \<in> set td" "EvNewClient rc (Inr ()) \<in> set tb"
      "shoot_refused B cr (ShootClient rc) (SortForApply (lib_k B) shoot) res td"
  | (both) rc tb td where "t = tb @ td" "EvStatusUpdate cr' y \<in> set td" "EvNewClient rc (Inr ()) \<in> set tb"
      "both_delivered B cr (ShootClient rc) (SortForApply (lib_k B) seed) (SortForApply (lib_k B) shoot) res td"
proof -
  have "EvStatusUpdate cr' y \<notin> set tb" if "list_all (silent cr) tb" for tb
    using that by (auto simp: list_all_iff silent_def)
  with assms that show thesis unfolding delivery_def by (auto; blast)
qed

text \<open>A status that says ready is only ever written after both renders were delivered in full.\<close>

lemma delivery_ready:
  assumes B: "reconciler_setup B err S r" and "delivery B cr seed shoot res t"
    and "EvStatusUpdate cr' y \<in> set t" and "reports_ready cr'"
  shows "fully_delivered B cr seed shoot cr' t"
  using assms(2,3)
proof (cases rule: delivery_cases)
  case (both rc tb td)
  from both_delivered_ready [OF B both(4,2) assms(4) both(3)] both(1) show ?thesis
    by (simp add: fully_delivered_def shoot_converged_def)
qed (use assms(4) deferred_not_ready(1) [OF B] refused_not_ready(1) [OF B] in blast)+

text \<open>A render that is not delivered keeps its inventory.\<close>

lemma delivery_keeps_shoot:
  assumes B: "reconciler_setup B err S r" and "delivery B cr seed shoot res t"
    and "EvStatusUpdate cr' y \<in> set t" and "\<forall>rc. EvNewClient rc (Inr ()) \<notin> set t"
  shows "st_ShootResources (cr_Status cr') = st_ShootResources (cr_Status cr)"
  using assms(2,3) by (cases rule: delivery_cases) (use assms(4) deferred_not_ready(2) [OF B] in auto)

lemma delivery_keeps_seed:
  assumes B: "reconciler_setup B err S r" and "delivery B cr seed shoot res t"
    and "EvStatusUpdate cr' y \<in> set t" and "\<not> seed_first cr" and "\<not> shoot_converged B cr shoot t"
  shows "st_SeedResources (cr_Status cr') = st_SeedResources (cr_Status cr)"
  using assms(2,3)
proof (cases rule: delivery_cases)
  case (both rc tb td)
  from both(4) obtain shootMs shootSts tSeed tShoot pSeed pShoot tEnd where
    "render_applied (lib_k B) (ShootClient rc) (owner cr) (SortForApply (lib_k B) shoot) shootMs shootSts tShoot"
    "\<not> seed_first cr \<longrightarrow> \<not> anyFailed shootSts"
    "td = (if seed_first cr then tSeed @ tShoot @ pShoot @ pSeed else tShoot @ tSeed @ pSeed @ pShoot) @ tEnd"
    by (rule both_deliveredE)
  with assms(4,5) both(1,3) show ?thesis
    by (auto simp: shoot_converged_def render_applied_def)
qed (use assms(4) deferred_not_ready(3) [OF B] refused_not_ready(2) [OF B] in blast)+

section \<open>Results\<close>

text \<open>
  A delivery is retried or repeated in every case. It counts as successful only when both renders
  were accepted in full and every orphan of both inventories was seen to be gone. An orphan is a
  recorded object that is not retained and whose key is none of the objects with which the cluster
  answered the applies of this delivery.
\<close>

definition answered_keys :: "klib \<Rightarrow> client_id \<Rightarrow> event list \<Rightarrow> string list" where
  "answered_keys L c t = map (\<lambda>u. ManifestIdentityKey L \<lparr>m_Unstructured = u, m_Origin = OriginUnset\<rparr>) (answers c t)"

definition orphans_gone :: "libs \<Rightarrow> DualDeploymentOperator \<Rightarrow> client_id \<Rightarrow> ResourceStatus list \<Rightarrow> event list \<Rightarrow> bool" where
  "orphans_gone B cr c prev t \<longleftrightarrow>
     (\<forall>rs\<in>set prev. orphan (lib_k B) (answered_keys (lib_k B) c t) cr rs \<longrightarrow>
        absent_in (lib_k B) c (owner cr) (ManifestFromStatus (lib_k B) rs) t)"

lemma in_answered_keys:
  "m_Unstructured m \<in> set (answers c t) \<Longrightarrow> ManifestIdentityKey L m \<in> set (answered_keys L c t)"
  by (force simp: answered_keys_def ManifestIdentityKey_def Let_def)

lemma pruned_orphans_gone:
  assumes "pruned (lib_k B) c (owner cr) cr prev current [] p" and "t = s @ p @ u"
    and "m_Unstructured ` set current \<subseteq> set (answers c t)"
  shows "orphans_gone B cr c prev t"
proof -
  have "ManifestIdentityKey (lib_k B) m \<in> set (answered_keys (lib_k B) c t)" if "m \<in> set current" for m
    using that assms(3) by (intro in_answered_keys) blast
  then have "orphan (lib_k B) (answered_keys (lib_k B) c t) cr rs \<Longrightarrow>
      orphan (lib_k B) (map (ManifestIdentityKey (lib_k B)) current) cr rs" for rs
    by (auto simp: orphan_def)
  with assms(1,2) show ?thesis
    by (auto simp: pruned_def orphans_gone_def Let_def intro!: absent_in_append)
qed

lemma delivery_result:
  assumes "delivery B cr seed shoot res t"
  shows "res = (30, None) \<or> res = (requeueInterval, None) \<or> (\<exists>e. res = (0, Some e))"
  using assms unfolding delivery_def shoot_deferred_def shoot_refused_def both_delivered_def
  by (auto split: if_splits)

lemma delivery_success_both:
  assumes "delivery B cr seed shoot (requeueInterval, None) t"
  obtains tb td rc where "t = tb @ td" "EvNewClient rc (Inr ()) \<in> set tb"
    "both_delivered B cr (ShootClient rc) (SortForApply (lib_k B) seed) (SortForApply (lib_k B) shoot)
       (requeueInterval, None) td"
proof -
  have d: "\<not> shoot_deferred B cr ms reason backoff (requeueInterval, None) td"
    if "(reason, backoff) \<in> {(''WaitingForShootCredentials'', 30), (''ShootApplyFailed'', 0)}" for ms reason backoff td
    using that by (auto simp: shoot_deferred_def requeueInterval_def split: if_splits)
  have f: "\<not> shoot_refused B cr c ms (requeueInterval, None) td" for c ms td
    by (simp add: shoot_refused_def)
  from assms show thesis
    unfolding delivery_def
    by (elim exE conjE disjE) (use d in blast, use f in blast, use that in blast)
qed

lemma both_success:
  assumes "both_delivered B cr c seed shoot res t" and "snd res = None"
  shows "(\<forall>m\<in>set seed. applied (lib_k B) SeedClient (owner cr) m t) \<and>
    (\<forall>m\<in>set shoot. applied (lib_k B) c (owner cr) m t) \<and>
    orphans_gone B cr SeedClient (st_SeedResources (cr_Status cr)) (s @ t) \<and>
    orphans_gone B cr c (st_ShootResources (cr_Status cr)) (s @ t)"
proof -
  from assms(1) obtain seedMs seedSts shootMs shootSts seedRet shootRet tSeed tShoot pSeed pShoot tEnd and x :: "DualDeploymentOperator result" where
    ap: "render_applied (lib_k B) SeedClient (owner cr) seed seedMs seedSts tSeed"
    "render_applied (lib_k B) c (owner cr) shoot shootMs shootSts tShoot"
    and pr: "pruned (lib_k B) SeedClient (owner cr) cr (st_SeedResources (cr_Status cr)) seedMs seedRet pSeed"
    "pruned (lib_k B) c (owner cr) cr (st_ShootResources (cr_Status cr)) shootMs shootRet pShoot"
    and t: "t = (if seed_first cr then tSeed @ tShoot @ pShoot @ pSeed else tShoot @ tSeed @ pSeed @ pShoot) @ tEnd"
    and "snd res = None \<longleftrightarrow>
       (\<exists>cr'. x = Inr cr') \<and> \<not> anyFailed seedSts \<and> \<not> anyFailed shootSts \<and> seedRet = [] \<and> shootRet = []"
    by (rule both_deliveredE)
  then have ok: "\<not> anyFailed seedSts" "\<not> anyFailed shootSts" and ret: "seedRet = []" "shootRet = []" using assms(2) by simp_all
  have "m_Unstructured ` set seedMs \<subseteq> set (answers SeedClient (s @ t))" "m_Unstructured ` set shootMs \<subseteq> set (answers c (s @ t))"
    using ap ok by (auto simp: t render_applied_def)
  note seed = pruned_orphans_gone [OF pr(1) [unfolded ret] _ this(1)] and shoot = pruned_orphans_gone [OF pr(2) [unfolded ret] _ this(2)]
  have "orphans_gone B cr SeedClient (st_SeedResources (cr_Status cr)) (s @ t)"
    using seed [of "s @ tSeed @ tShoot @ pShoot" tEnd] seed [of "s @ tShoot @ tSeed" "pShoot @ tEnd"] by (simp add: t)
  moreover have "orphans_gone B cr c (st_ShootResources (cr_Status cr)) (s @ t)"
    using shoot [of "s @ tSeed @ tShoot" "pSeed @ tEnd"] shoot [of "s @ tShoot @ tSeed @ pSeed" tEnd] by (simp add: t)
  moreover have "\<forall>m\<in>set seed. applied (lib_k B) SeedClient (owner cr) m t" "\<forall>m\<in>set shoot. applied (lib_k B) c (owner cr) m t"
    using ap ok by (simp_all add: t render_applied_def)
  ultimately show ?thesis by blast
qed

lemma delivery_success:
  assumes "delivery B cr seed shoot (requeueInterval, None) t"
  shows "(\<forall>m\<in>set seed. applied (lib_k B) SeedClient (owner cr) m t) \<and>
    orphans_gone B cr SeedClient (st_SeedResources (cr_Status cr)) t \<and>
    (\<exists>rc. EvNewClient rc (Inr ()) \<in> set t \<and> (\<forall>m\<in>set shoot. applied (lib_k B) (ShootClient rc) (owner cr) m t) \<and>
      orphans_gone B cr (ShootClient rc) (st_ShootResources (cr_Status cr)) t)"
proof -
  from delivery_success_both [OF assms] obtain tb td rc where t: "t = tb @ td" and rc: "EvNewClient rc (Inr ()) \<in> set tb"
    and both: "both_delivered B cr (ShootClient rc) (SortForApply (lib_k B) seed) (SortForApply (lib_k B) shoot)
      (requeueInterval, None) td"
    by blast
  from both_success [OF both, of tb, simplified] rc show ?thesis
    unfolding t by (auto intro!: exI [of _ rc])
qed

end
