(* ===== verification/Teardown.thy ===== *)
theory Teardown
  imports Guarantees
begin

text \<open>
  The deletion of a custom resource: the order in which the objects of both renders are deleted,
  and what has been established when the finalizer is removed.
\<close>

section \<open>The steps of a deletion\<close>

text \<open>Every entry of an inventory that is not retained was completed with the client \<open>c\<close>.\<close>

definition render_gone ::
  "libs \<Rightarrow> DualDeploymentOperator \<Rightarrow> client_id \<Rightarrow> ResourceStatus list \<Rightarrow> event list \<Rightarrow> bool" where
  "render_gone B cr c prev t \<longleftrightarrow>
     (\<forall>rs\<in>set prev. \<not> retained_kind cr rs \<longrightarrow>
        gone_in (lib_k B) c (owner cr) (ManifestFromStatus (lib_k B) rs) t)"

lemma render_gone_mono: "render_gone B cr c prev s \<Longrightarrow> render_gone B cr c prev (a @ s @ b)"
  by (auto simp: render_gone_def intro!: gone_in_append)

definition force_delete :: "DualDeploymentOperator \<Rightarrow> bool" where
  "force_delete cr \<longleftrightarrow> map_get (cr_Annotations cr) ForceDeleteAnnotation = ''true''"

text \<open>Deleting one render with errors \<open>es\<close>; \<open>None\<close> when there is no client for it.\<close>

definition delete_step ::
  "libs \<Rightarrow> DualDeploymentOperator \<Rightarrow> client_id option \<Rightarrow> ResourceStatus list \<Rightarrow> go_error option list \<Rightarrow>
   event list \<Rightarrow> bool" where
  "delete_step B cr c prev es t \<longleftrightarrow>
     patched t = [] \<and> (\<forall>e\<in>set t. \<not> is_cr_write e) \<and> subseq (deleted t) (deletable_objects B cr prev) \<and>
     list_all (\<lambda>e. e \<noteq> None) es \<and>
     (case c of None \<Rightarrow> t = [] \<and> es = [] | Some c \<Rightarrow> es = [] \<longrightarrow> render_gone B cr c prev t)"

lemma render_deleted_step:
  assumes "render_deleted (lib_k B) c (owner cr) (filter (\<lambda>rs. \<not> retained_kind cr rs) (SortStatusForDelete prev)) es t"
    and "list_all (\<lambda>e. e \<noteq> None) es"
  shows "delete_step B cr (Some c) prev es t"
  using assms delete_events [of c t]
  by (auto simp: delete_step_def render_deleted_def deletable_objects_def render_gone_def)

definition done_or_forced :: "libs \<Rightarrow> DualDeploymentOperator \<Rightarrow> event list \<Rightarrow> bool" where
  "done_or_forced B cr t \<longleftrightarrow>
     render_gone B cr SeedClient (st_SeedResources (cr_Status cr)) t \<and>
     (force_delete cr \<or>
      (\<forall>rs\<in>set (st_ShootResources (cr_Status cr)). retained_kind cr rs) \<or>
      (\<exists>rc. EvNewClient rc (Inr ()) \<in> set t \<and>
         render_gone B cr (ShootClient rc) (st_ShootResources (cr_Status cr)) t))"

text \<open>
  What a deletion guarantees: it applies nothing, deletes in the reverse of the apply order, and
  touches the finalizers only to remove the operator's own one, when both renders are done or the
  operator has consented to leave the shoot behind.
\<close>

definition safe_teardown ::
  "libs \<Rightarrow> DualDeploymentOperator \<Rightarrow> reconcile_result \<Rightarrow> event list \<Rightarrow> bool" where
  "safe_teardown B cr res t \<longleftrightarrow>
     patched t = [] \<and> subseq (deleted t) (delete_sequence B cr) \<and>
     (\<forall>cr' x. EvUpdateCR cr' x \<in> set t \<longrightarrow>
        cr_Finalizers cr' = RemoveFinalizer (lib_k B) (cr_Finalizers cr) FinalizerName \<and> done_or_forced B cr t) \<and>
     (snd res = None \<longrightarrow> fst res = 30 \<or> (\<exists>cr' y. EvUpdateCR cr' (Inr y) \<in> set t))"

text \<open>The last events of a deletion.\<close>

definition last_steps ::
  "libs \<Rightarrow> DualDeploymentOperator \<Rightarrow> bool \<Rightarrow> reconcile_result \<Rightarrow> event list \<Rightarrow> bool" where
  "last_steps B cr shootDone res t \<longleftrightarrow>
     list_all (\<lambda>e. \<not> is_object_write e) t \<and>
     (\<forall>cr' x. EvUpdateCR cr' x \<in> set t \<longrightarrow> (shootDone \<or> force_delete cr) \<and>
        cr_Finalizers cr' = RemoveFinalizer (lib_k B) (cr_Finalizers cr) FinalizerName) \<and>
     (snd res = None \<longrightarrow> fst res = 30 \<or> (\<exists>cr' y. EvUpdateCR cr' (Inr y) \<in> set t))"

context reconciler_setup
begin

lemma deleteRender_step:
  assumes "same_target cr cr'" and "applier_contract (lib_k B) c A"
  shows "yields (delete_step B cr (Some c) prev) (deleteRender (lib_k B) cr' (owner cr) (Some A) prev)"
  using applier_contract.deleteRender_law [OF assms(2), of "owner cr" cr' prev]
  by (rule yields_mono) (auto intro: render_deleted_step simp: same_target_retained [OF assms(1)])

text \<open>The client of an applier of this reconciler.\<close>

lemma shoot_deleteRender_step:
  assumes "same_target cr cr'" and "\<forall>A. sA = Some A \<longrightarrow> A = shoot_applier (lib_k B) (se_api S) rc"
  shows "yields (delete_step B cr (map_option (\<lambda>_. ShootClient rc) sA) prev) (deleteRender (lib_k B) cr' (owner cr) sA prev)"
proof (cases sA)
  case None
  then show ?thesis
    by (auto simp: deleteRender_def delete_step_def deletable_objects_def intro!: yields_return)
next
  case (Some A)
  with assms deleteRender_step [OF assms(1) shoot_contract] show ?thesis by simp
qed

lemma delete_renders_step:
  assumes same: "same_target cr cr'" and "\<forall>A. sA = Some A \<longrightarrow> A = shoot_applier (lib_k B) (se_api S) rc"
  shows "yields (\<lambda>(shootEs, seedEs) t. \<exists>tSeed tShoot.
       delete_step B cr (Some SeedClient) (st_SeedResources (cr_Status cr)) seedEs tSeed \<and>
       delete_step B cr (map_option (\<lambda>_. ShootClient rc) sA) (st_ShootResources (cr_Status cr)) shootEs tShoot \<and>
       t = (if seed_first cr then tShoot @ tSeed else tSeed @ tShoot))
     (delete_renders (lib_k B) r cr' (owner cr) sA)"
proof -
  have eqs: "st_SeedResources (cr_Status cr') = st_SeedResources (cr_Status cr)"
    "st_ShootResources (cr_Status cr') = st_ShootResources (cr_Status cr)"
    "(spec_ApplyOrder (cr_Spec cr') = ''SeedFirst'') = seed_first cr"
    using same by (simp_all add: same_target_def seed_first_def)
  show ?thesis
    unfolding delete_renders_def eqs
    by (cases "seed_first cr")
      (auto intro!: yields_bind_wp [OF deleteRender_step [OF same seed_contract]]
        yields_bind_wp [OF shoot_deleteRender_step [OF assms]] yields_return)
qed

lemma remove_finalizer_law:
  "yields (\<lambda>res t. \<exists>x. t = [EvUpdateCR (cr\<lparr>cr_Finalizers := RemoveFinalizer (lib_k B) (cr_Finalizers cr) FinalizerName\<rparr>) x] \<and>
      (snd res = None \<longleftrightarrow> (\<exists>y. x = Inr y))) (remove_finalizer (lib_k B) E cr)"
  unfolding remove_finalizer_def update_CR_def
  by (rule yields_call_bind, rule yields_return) (auto split: sum.split)

lemma force_deleted_law:
  "yields (\<lambda>x t. list_all (silent target) t \<and> same_target cr x) (recordShootCleanupForceDeleted B r cr cause)"
  unfolding recordShootCleanupForceDeleted_def
  by (rule yields_record_bind [where cr = target]) (auto intro!: yields_return simp: Let_def)

lemma blocked_law:
  "yields (\<lambda>x t. list_all (silent target) t \<and> same_target cr x) (recordShootCleanupBlocked B r cr cause)"
  unfolding recordShootCleanupBlocked_def
  by (rule yields_record_bind [where cr = target]) (auto intro!: yields_return simp: Let_def)

lemma last_steps_prefix:
  assumes "list_all (silent target) s" and "last_steps B cr shootDone res t"
  shows "last_steps B cr shootDone res (s @ EvStatusUpdate a b # t)"
proof -
  have "EvUpdateCR cr' x \<notin> set s" for cr' x
    using assms(1) by (auto simp: list_all_iff silent_def)
  with assms silent_no_writes [OF assms(1)] show ?thesis
    by (auto simp: last_steps_def)
qed

lemma last_blocked: "last_steps B cr shootDone (case res of Inl e \<Rightarrow> (0, Some e) | Inr _ \<Rightarrow> (30, None)) []"
  by (auto simp: last_steps_def split: sum.split)

lemma remove_finalizer_last:
  assumes "same_target cr cr'" and "shootDone \<or> force_delete cr"
  shows "yields (last_steps B cr shootDone) (remove_finalizer (lib_k B) E cr')"
  by (rule yields_mono [OF remove_finalizer_law])
    (use assms in \<open>auto simp: last_steps_def same_target_def\<close>)

lemma finish_delete_law:
  assumes same: "same_target cr cr'"
  shows "yields (last_steps B cr shootDone) (finish_delete B (se_api S) r cr' shootDone errs)"
  unfolding finish_delete_def Let_def
proof (intro yields_if)
  assume "shootDone"
  then show "yields (last_steps B cr shootDone) (remove_finalizer (lib_k B) (se_api S) cr')"
    using remove_finalizer_last [OF same] by simp
next
  assume "map_get (cr_Annotations cr') ForceDeleteAnnotation = ''true''"
  then have "force_delete cr" using same by (simp add: same_target_def force_delete_def)
  note forced = remove_finalizer_last [OF _ disjI2 [OF this]]
  show "yields (last_steps B cr shootDone) (recordShootCleanupForceDeleted B r cr' (NewAggregate (lib_k B) errs) \<bind>
      (\<lambda>cr1. status_Update (se_api S) cr1 \<bind> (\<lambda>res. remove_finalizer (lib_k B) (se_api S) (after_update cr1 res))))"
    by (intro yields_bind_wp [OF force_deleted_law [where target = cr]] yields_bind_wp [OF status_Update_law])
      (auto intro!: yields_mono [OF forced] last_steps_prefix intro: same_target_trans [OF same] same_target_trans)
next
  assume "\<not> shootDone"
  show "yields (last_steps B cr shootDone) (recordShootCleanupBlocked B r cr' (NewAggregate (lib_k B) errs) \<bind>
      (\<lambda>cr1. status_Update (se_api S) cr1 \<bind>
        (\<lambda>res. State_Monad.return (case res of Inl e \<Rightarrow> (0, Some e) | Inr _ \<Rightarrow> (30, None)))))"
    by (intro yields_bind_wp [OF blocked_law [where target = cr]] yields_bind_wp [OF status_Update_law] yields_return)
      (auto intro!: last_steps_prefix last_blocked)
qed

end

text \<open>The parts of a deletion, put together.\<close>

definition teardown_parts ::
  "libs \<Rightarrow> DualDeploymentOperator \<Rightarrow> reconcile_result \<Rightarrow> event list \<Rightarrow> event list \<Rightarrow> event list \<Rightarrow> event list \<Rightarrow> bool" where
  "teardown_parts B cr res tb tSeed tShoot tEnd \<longleftrightarrow>
     (\<exists>c seedEs shootEs shootDone.
        list_all (silent cr) tb \<and>
        delete_step B cr (Some SeedClient) (st_SeedResources (cr_Status cr)) seedEs tSeed \<and>
        delete_step B cr c (st_ShootResources (cr_Status cr)) shootEs tShoot \<and>
        (if seedEs = [] then last_steps B cr shootDone res tEnd else tEnd = [] \<and> snd res \<noteq> None) \<and>
        (shootDone \<longrightarrow>
           (\<forall>rs\<in>set (st_ShootResources (cr_Status cr)). retained_kind cr rs) \<or>
           shootEs = [] \<and> (\<exists>rc. c = Some (ShootClient rc) \<and> EvNewClient rc (Inr ()) \<in> set tb)))"

lemma teardown_update:
  assumes "teardown_parts B cr res tb tSeed tShoot tEnd"
    and t: "t = tb @ (if seed_first cr then tShoot @ tSeed else tSeed @ tShoot) @ tEnd"
    and upd: "EvUpdateCR cr' x \<in> set t"
  shows "cr_Finalizers cr' = RemoveFinalizer (lib_k B) (cr_Finalizers cr) FinalizerName \<and> done_or_forced B cr t"
proof -
  from assms(1) obtain c seedEs shootEs shootDone where
    parts: "list_all (silent cr) tb"
      "delete_step B cr (Some SeedClient) (st_SeedResources (cr_Status cr)) seedEs tSeed"
      "delete_step B cr c (st_ShootResources (cr_Status cr)) shootEs tShoot"
      "if seedEs = [] then last_steps B cr shootDone res tEnd else tEnd = [] \<and> snd res \<noteq> None"
    and finish: "shootDone \<longrightarrow>
           (\<forall>rs\<in>set (st_ShootResources (cr_Status cr)). retained_kind cr rs) \<or>
           shootEs = [] \<and> (\<exists>rc. c = Some (ShootClient rc) \<and> EvNewClient rc (Inr ()) \<in> set tb)"
    unfolding teardown_parts_def by blast
  have "EvUpdateCR cr' x \<notin> set tb" using parts(1) by (auto simp: list_all_iff silent_def)
  with upd parts(2,3) have "EvUpdateCR cr' x \<in> set tEnd" by (force simp: t delete_step_def split: if_splits)
  with parts(4) have l: "seedEs = []" "shootDone \<or> force_delete cr"
    "cr_Finalizers cr' = RemoveFinalizer (lib_k B) (cr_Finalizers cr) FinalizerName"
    by (auto simp: last_steps_def split: if_splits)
  have "render_gone B cr SeedClient (st_SeedResources (cr_Status cr)) t"
    using parts(2) l(1) render_gone_mono [of B cr SeedClient _ tSeed "tb @ tShoot" tEnd]
      render_gone_mono [of B cr SeedClient _ tSeed tb "tShoot @ tEnd"] by (auto simp: t delete_step_def)
  moreover have "render_gone B cr (ShootClient rc) (st_ShootResources (cr_Status cr)) t"
    if "c = Some (ShootClient rc)" "shootEs = []" for rc
    using parts(3) that render_gone_mono [of B cr "ShootClient rc" _ tShoot tb "tSeed @ tEnd"]
      render_gone_mono [of B cr "ShootClient rc" _ tShoot "tb @ tSeed" tEnd] by (auto simp: t delete_step_def)
  moreover have "set tb \<subseteq> set t" by (auto simp: t)
  ultimately show ?thesis
    using l finish unfolding done_or_forced_def by blast
qed

lemma teardown_parts_safe:
  assumes parts: "teardown_parts B cr res tb tSeed tShoot tEnd"
    and t: "t = tb @ (if seed_first cr then tShoot @ tSeed else tSeed @ tShoot) @ tEnd"
  shows "safe_teardown B cr res t"
proof -
  have tEnd: "patched tEnd = [] \<and> deleted tEnd = []" and tb: "patched tb = [] \<and> deleted tb = []"
    using parts no_writes(1,2) [of tEnd] no_object_writes(1,2) [of cr tb]
    by (auto simp: teardown_parts_def last_steps_def split: if_splits)
  have "patched t = []" and "subseq (deleted t) (delete_sequence B cr)"
    using parts tEnd tb by (auto simp: t teardown_parts_def delete_step_def delete_sequence_def
        intro: list_emb_append_mono)
  moreover have "snd res = None \<longrightarrow> fst res = 30 \<or> (\<exists>cr' y. EvUpdateCR cr' (Inr y) \<in> set t)"
    using parts by (auto simp: t teardown_parts_def last_steps_def split: if_splits)
  ultimately show ?thesis
    unfolding safe_teardown_def using teardown_update [OF assms] by blast
qed

lemma deletable_zero: "deletable cr prev = 0 \<longleftrightarrow> (\<forall>rs\<in>set prev. retained_kind cr rs)"
  by (auto simp: deletable_def filter_empty_conv)

lemma safe_teardown_Cons: "safe_teardown B cr res t \<Longrightarrow> safe_teardown B cr res (EvStatusUpdate a b # t)"
proof -
  have "done_or_forced B cr t \<Longrightarrow> done_or_forced B cr (EvStatusUpdate a b # t)"
    using render_gone_mono [of B cr _ _ t "[EvStatusUpdate a b]" "[]"] unfolding done_or_forced_def by auto
  then show "safe_teardown B cr res t \<Longrightarrow> safe_teardown B cr res (EvStatusUpdate a b # t)"
    by (auto simp: safe_teardown_def)
qed

lemma safe_teardown_error: "safe_teardown B cr (0, Some e) [EvStatusUpdate a b]"
  by (simp add: safe_teardown_def)

context reconciler_setup
begin

lemma after_deletes_law:
  assumes same: "same_target cr cr'" and es: "list_all (\<lambda>e. e \<noteq> None) seedEs"
  shows "yields (\<lambda>res t. if seedEs = [] then last_steps B cr shootDone res t else t = [] \<and> snd res \<noteq> None)
     (case NewAggregate (lib_k B) seedEs of
        Some agg \<Rightarrow> State_Monad.return (0, Some agg) | None \<Rightarrow> finish_delete B (se_api S) r cr' shootDone shootEs)"
proof (cases seedEs)
  case Nil
  then have "NewAggregate (lib_k B) seedEs = None" by (simp add: aggregate_nil)
  with Nil show ?thesis using finish_delete_law [OF same] by simp
next
  case (Cons e es')
  with es have "NewAggregate (lib_k B) seedEs \<noteq> None" by (simp add: aggregate_nil)
  with Cons show ?thesis by (auto intro!: yields_return split: option.split)
qed

lemma teardown_law:
  assumes same: "same_target cr cr'"
  shows "yields (safe_teardown B cr) (teardown B (se_api S) r cr' (owner cr))"
  unfolding teardown_def Let_def
proof (rule yields_bind_wp [OF deletion_shoot_applier_law], clarify)
  fix cr1 sA tb and buildErr :: "go_error option"
  let ?pending = "deletable cr' (st_ShootResources (cr_Status cr'))"
  assume tb: "list_all (silent cr') tb" and cr1: "same_target cr' cr1"
    and sA: "(sA = None) = (buildErr \<noteq> None \<or> ?pending = 0)"
    and client: "\<forall>A. sA = Some A \<longrightarrow> (\<exists>rc. EvNewClient rc (Inr ()) \<in> set tb \<and> A = shoot_applier (lib_k B) (se_api S) rc)"
  obtain rc where rc: "\<forall>A. sA = Some A \<longrightarrow> A = shoot_applier (lib_k B) (se_api S) rc"
    "sA \<noteq> None \<longrightarrow> EvNewClient rc (Inr ()) \<in> set tb"
    using client by (cases sA) auto
  have same1: "same_target cr cr1" using same cr1 by (rule same_target_trans)
  have tb': "list_all (silent cr) tb" using tb same_target_quiet [OF same] by (simp add: list_all_iff silent_def)
  have pending: "?pending = 0 \<longleftrightarrow> (\<forall>rs\<in>set (st_ShootResources (cr_Status cr)). retained_kind cr rs)"
    using same by (simp add: deletable_zero same_target_retained [OF same]) (simp add: same_target_def)
  show "yields (\<lambda>res t. safe_teardown B cr res (tb @ t))
     (delete_renders (lib_k B) r cr1 (owner cr) sA \<bind> (\<lambda>(shootErrs, seedErrs).
        case NewAggregate (lib_k B) seedErrs of
          Some agg \<Rightarrow> State_Monad.return (0, Some agg)
        | None \<Rightarrow> finish_delete B (se_api S) r cr1 (?pending = 0 \<or> buildErr = None \<and> length shootErrs = 0) shootErrs))"
  proof (rule yields_bind_wp [OF delete_renders_step [OF same1 rc(1)]], clarify)
    fix tSeed tShoot and shootEs seedEs :: "go_error option list"
    let ?done = "?pending = 0 \<or> buildErr = None \<and> length shootEs = 0"
    assume seed: "delete_step B cr (Some SeedClient) (st_SeedResources (cr_Status cr)) seedEs tSeed"
      and shoot: "delete_step B cr (map_option (\<lambda>_. ShootClient rc) sA) (st_ShootResources (cr_Status cr)) shootEs tShoot"
    have finish: "?done \<longrightarrow> (\<forall>rs\<in>set (st_ShootResources (cr_Status cr)). retained_kind cr rs) \<or>
        shootEs = [] \<and> (\<exists>rc'. map_option (\<lambda>_. ShootClient rc) sA = Some (ShootClient rc') \<and> EvNewClient rc' (Inr ()) \<in> set tb)"
      using rc(2) sA pending by (cases sA) auto
    have parts: "teardown_parts B cr res tb tSeed tShoot t"
      if "if seedEs = [] then last_steps B cr ?done res t else t = [] \<and> snd res \<noteq> None" for res t
      unfolding teardown_parts_def
      by (intro exI conjI) (rule tb' seed shoot that finish)+
    show "yields (\<lambda>res t. safe_teardown B cr res (tb @ (if seed_first cr then tShoot @ tSeed else tSeed @ tShoot) @ t))
       (case NewAggregate (lib_k B) seedEs of
          Some agg \<Rightarrow> State_Monad.return (0, Some agg) | None \<Rightarrow> finish_delete B (se_api S) r cr1 ?done shootEs)"
      using seed by (intro yields_mono [OF after_deletes_law [OF same1]] teardown_parts_safe [OF parts refl])
        (simp_all add: delete_step_def)
  qed
qed

lemma reconcileDelete_law: "yields (safe_teardown B cr) (reconcileDelete B (se_api S) r cr)"
  unfolding reconcileDelete_def Let_def owner_def [symmetric]
  by (rule yields_bind_wp [OF status_Update_law])
    (auto split: sum.split intro!: yields_return yields_mono [OF teardown_law] safe_teardown_Cons safe_teardown_error
      simp: after_update_def intro: same_target_trans [OF same_target_updates(2)])

end

end
