(* ===== verification/Invariants.thy ===== *)
theory Invariants
  imports Teardown
begin

text \<open>
  Properties of traces that every reconciliation of a custom resource keeps, live or in deletion:
  the ownership discipline, the isolation of secrets and the retention of custom resource
  definitions. Each is an instance of \<open>reconcile_property\<close>.
\<close>

lemma quiet_no_writes: "list_all (quiet cr) t \<Longrightarrow> list_all (\<lambda>e. \<not> is_object_write e) t"
proof -
  have "quiet cr e \<Longrightarrow> \<not> is_object_write e" for e by (cases e) (simp_all add: quiet_def)
  then show "list_all (quiet cr) t \<Longrightarrow> list_all (\<lambda>e. \<not> is_object_write e) t" by (auto simp: list_all_iff)
qed

section \<open>Ownership\<close>

sublocale reconciler_setup \<subseteq> owned: reconcile_property B err S r "disciplined (lib_k B) (owner cr) None" cr for cr
proof unfold_locales
  show "list_all (quiet cr) t \<Longrightarrow> disciplined (lib_k B) (owner cr) None t" for t
    by (rule disciplined_other) (rule quiet_no_writes)
qed (auto intro: disciplined_append simp: render_applied_def pruned_def render_deleted_def)

section \<open>Secrets\<close>

text \<open>Only the shoot access secret and the source's auth secret are read, in the own namespace.\<close>

definition own_secret :: "DualDeploymentOperator \<Rightarrow> event \<Rightarrow> bool" where
  "own_secret cr ev =
     (case ev of
        EvGetSecret ns n x \<Rightarrow>
          ns = cr_Namespace cr \<and>
          (n = sa_SecretName (spec_ShootAccess (cr_Spec cr)) \<or>
           (\<exists>rf. source_secret (spec_Source (cr_Spec cr)) = Some rf \<and> n = ref_Name rf))
      | _ \<Rightarrow> True)"

lemma own_secret_events:
  "quiet cr e \<Longrightarrow> own_secret cr e" "apply_event c e \<Longrightarrow> own_secret cr e" "delete_event c e \<Longrightarrow> own_secret cr e"
  by (cases e; simp add: own_secret_def quiet_def)+

sublocale reconciler_setup \<subseteq> secrets: reconcile_property B err S r "list_all (own_secret cr)" cr for cr
  by unfold_locales
    (auto simp: render_applied_def pruned_def render_deleted_def list_all_iff intro: own_secret_events)

section \<open>Retention of custom resource definitions\<close>

definition keeps_crds :: "libs \<Rightarrow> DualDeploymentOperator \<Rightarrow> event list \<Rightarrow> bool" where
  "keeps_crds B cr t \<longleftrightarrow>
     rp_CRDs (spec_RetentionPolicy (cr_Spec cr)) \<noteq> ''Delete'' \<longrightarrow>
     (\<forall>u\<in>set (deleted t). GetKind (lib_k B) u \<noteq> ''CustomResourceDefinition'')"

context reconciler_setup
begin

lemma subseq_keeps_crds:
  assumes "subseq (deleted t) (map (\<lambda>rs. m_Unstructured (ManifestFromStatus (lib_k B) rs)) xs)"
    and "\<forall>rs\<in>set xs. \<not> retained_kind cr' rs" and "cr_Spec cr' = cr_Spec cr"
  shows "keeps_crds B cr t"
proof -
  have "GetKind (lib_k B) (m_Unstructured (ManifestFromStatus (lib_k B) rs)) = rs_Kind rs" for rs
    by (simp add: unstructured_lib.ManifestFromStatus_reads [OF k_lib])
  with assms show ?thesis
    by (fastforce simp: keeps_crds_def retained_kind_def elim: list_emb_set)
qed

end

sublocale reconciler_setup \<subseteq> crds: reconcile_property B err S r "keeps_crds B cr" cr for cr
proof unfold_locales
  show "keeps_crds B cr []" by (simp add: keeps_crds_def)
  show "keeps_crds B cr (s @ t)" if "keeps_crds B cr s" "keeps_crds B cr t" for s t
    using that by (auto simp: keeps_crds_def)
  show "keeps_crds B cr t" if "list_all (quiet cr) t" for t
    using no_writes(2) [OF quiet_no_writes [OF that]] by (simp add: keeps_crds_def)
  show "keeps_crds B cr t" if "render_applied (lib_k B) c (owner cr) ms ms' sts t" for c ms ms' sts t
    using render_applied_events(1) [OF that] by (simp add: keeps_crds_def)
  show "keeps_crds B cr t"
    if "pruned (lib_k B) c (owner cr) cr' prev current retained t" "cr_Spec cr' = cr_Spec cr" for c cr' prev current retained t
    using that by (auto simp: pruned_def Let_def orphan_def intro: subseq_keeps_crds)
  show "keeps_crds B cr t"
    if "render_deleted (lib_k B) c (owner cr) (filter (\<lambda>rs. \<not> retained_kind cr' rs) xs) es t" "cr_Spec cr' = cr_Spec cr"
    for c cr' xs es t
    using that by (auto simp: render_deleted_def intro: subseq_keeps_crds)
qed

section \<open>The whole handler\<close>

text \<open>
  A reconciliation reads the custom resource; when it exists, it deletes, adds the finalizer and
  stops, or goes through a live cycle.
\<close>

lemma Reconcile_phases:
  assumes "\<And>e. Q (0, IgnoreNotFound (lib_k B) e) [EvGetCR ns name (Inl e)]"
    and "\<And>cr. cr_DeletionTimestamp cr \<noteq> None \<Longrightarrow>
      yields (\<lambda>res t. Q res (EvGetCR ns name (Inr cr) # t)) (reconcileDelete B (se_api S) r cr)"
    and "\<And>cr x. cr_DeletionTimestamp cr = None \<Longrightarrow> \<not> ContainsFinalizer (lib_k B) (cr_Finalizers cr) FinalizerName \<Longrightarrow>
      Q (0, case x of Inl e \<Rightarrow> Some e | Inr _ \<Rightarrow> None)
        [EvGetCR ns name (Inr cr),
         EvUpdateCR (cr\<lparr>cr_Finalizers := AddFinalizer (lib_k B) (cr_Finalizers cr) FinalizerName\<rparr>) x]"
    and "\<And>cr. cr_DeletionTimestamp cr = None \<Longrightarrow> ContainsFinalizer (lib_k B) (cr_Finalizers cr) FinalizerName \<Longrightarrow>
      yields (\<lambda>res t. Q res (EvGetCR ns name (Inr cr) # t)) (reconcile_live B S r cr)"
  shows "yields Q (Reconcile B S r ns name)"
  unfolding Reconcile_def Let_def get_CR_def update_CR_def
proof (rule yields_call_bind)
  fix got
  show "yields (\<lambda>res t. Q res (EvGetCR ns name got # t))
     (case got of Inl err \<Rightarrow> State_Monad.return (0, IgnoreNotFound (lib_k B) err)
      | Inr cr \<Rightarrow>
          if cr_DeletionTimestamp cr \<noteq> None then reconcileDelete B (se_api S) r cr
          else if \<not> ContainsFinalizer (lib_k B) (cr_Finalizers cr) FinalizerName then
            call (eUpdateCR (se_api S) (cr\<lparr>cr_Finalizers := AddFinalizer (lib_k B) (cr_Finalizers cr) FinalizerName\<rparr>))
              (EvUpdateCR (cr\<lparr>cr_Finalizers := AddFinalizer (lib_k B) (cr_Finalizers cr) FinalizerName\<rparr>)) \<bind>
            (\<lambda>res. State_Monad.return (0, case res of Inl e \<Rightarrow> Some e | Inr _ \<Rightarrow> None))
          else reconcile_live B S r cr)"
    using assms by (cases got) (auto intro!: yields_return yields_call_bind)
qed

text \<open>
  A property of both handlers of an existing custom resource that does not look at the finalizer
  update is a property of the whole handler.
\<close>

lemma Reconcile_both:
  assumes "\<And>cr. yields (\<lambda>_. P cr) (reconcileDelete B (se_api S) r cr)"
    and "\<And>cr. yields (\<lambda>_. P cr) (reconcile_live B S r cr)"
    and "\<And>cr cr' x. P cr [EvUpdateCR cr' x]"
  shows "yields (\<lambda>_ t. \<forall>cr u. t = EvGetCR ns name (Inr cr) # u \<longrightarrow> P cr u) (Reconcile B S r ns name)"
  using assms by (intro Reconcile_phases) (auto elim!: yields_mono)

text \<open>A live cycle: rendering and transforming is silent, and a failure ends it.\<close>

definition live_cycle :: "libs \<Rightarrow> DualDeploymentOperator \<Rightarrow> reconcile_result \<Rightarrow> event list \<Rightarrow> bool" where
  "live_cycle B cr res t \<longleftrightarrow>
     (\<exists>tp td. t = tp @ td \<and> list_all (silent cr) tp \<and>
        ((\<exists>reason e x. finished (setCondition B cr reason (Error e) (cr_Generation cr)) x td \<and> res = (0, Some e)) \<or>
         (\<exists>seed shoot. delivery B cr seed shoot res td)))"

lemma live_cycleI:
  assumes "list_all (silent cr) tp"
  shows "finished (setCondition B cr reason (Error e) (cr_Generation cr)) x td \<Longrightarrow> live_cycle B cr (0, Some e) (tp @ td)"
    and "delivery B cr seed shoot res td \<Longrightarrow> live_cycle B cr res (tp @ td)"
  using assms unfolding live_cycle_def by blast+

context reconciler_setup
begin

lemma handler_ownership:
  "yields (\<lambda>_ t. \<forall>cr u. t = EvGetCR ns name (Inr cr) # u \<longrightarrow> disciplined (lib_k B) (owner cr) None u)
     (Reconcile B S r ns name)"
  by (rule Reconcile_both [OF owned.reconcileDelete_T owned.reconcile_live_T]) (simp add: ok_after_def)

lemma handler_secrets:
  "yields (\<lambda>_ t. \<forall>cr u. t = EvGetCR ns name (Inr cr) # u \<longrightarrow> list_all (own_secret cr) u) (Reconcile B S r ns name)"
  by (rule Reconcile_both [OF secrets.reconcileDelete_T secrets.reconcile_live_T]) (simp add: own_secret_def)

lemma handler_crds:
  "yields (\<lambda>_ t. \<forall>cr u. t = EvGetCR ns name (Inr cr) # u \<longrightarrow> keeps_crds B cr u) (Reconcile B S r ns name)"
  by (rule Reconcile_both [OF crds.reconcileDelete_T crds.reconcile_live_T]) (simp add: keeps_crds_def)

lemma errStatus_law:
  "yields (\<lambda>res t. (\<exists>x. finished (setCondition B cr reason (Error e) (cr_Generation cr)) x t) \<and> res = (0, Some e))
     (errStatus B E cr reason e)"
  unfolding errStatus_def Let_def time_Now_def status_Update_def finished_def
  by (rule yields_call_bind, rule yields_call_bind, rule yields_return) auto

lemma reconcile_live_law: "yields (live_cycle B cr) (reconcile_live B S r cr)"
  unfolding reconcile_live_def
  by (rule yields_bind_wp [OF emits_prepare_renders [unfolded emits_yields]])
    (auto split: sum.split intro!: yields_mono [OF errStatus_law] yields_mono [OF deliver_renders_law] intro: live_cycleI)

end

end
