(* ===== verification/Manager.thy ===== *)
theory Manager
  imports Invariants
begin

text \<open>
  The program around the reconciler (cmd/main.go): the command line flags, the options of the
  manager and its two servers, the start-up sequence, and the reconciler as it is wired together.
  The flag values and the environment variables are arguments; controller-runtime's manager is
  the function \<open>step\<close> that says whether a step of the start-up succeeds.
\<close>

section \<open>Flags and options\<close>

record flags =
  metricsAddr :: string
  metricsCertPath :: string
  metricsCertName :: string
  metricsCertKey :: string
  webhookCertPath :: string
  webhookCertName :: string
  webhookCertKey :: string
  enableLeaderElection :: bool
  probeAddr :: string
  secureMetrics :: bool
  enableHTTP2 :: bool
  sourceScratchDir :: string

definition default_flags :: flags where
  "default_flags =
     \<lparr>metricsAddr = ''0'',
      metricsCertPath = [], metricsCertName = ''tls.crt'', metricsCertKey = ''tls.key'',
      webhookCertPath = [], webhookCertName = ''tls.crt'', webhookCertKey = ''tls.key'',
      enableLeaderElection = False, probeAddr = '':8081'', secureMetrics = True, enableHTTP2 = False,
      sourceScratchDir = []\<rparr>"

text \<open>The part of a \<open>tls.Config\<close> that the program sets.\<close>

record tls_config =
  NextProtos :: "string list"

definition disableHTTP2 :: "tls_config \<Rightarrow> tls_config" where
  "disableHTTP2 c = c\<lparr>NextProtos := [''http/1.1'']\<rparr>"

definition tlsOpts :: "flags \<Rightarrow> (tls_config \<Rightarrow> tls_config) list" where
  "tlsOpts f = (if \<not> enableHTTP2 f then [disableHTTP2] else [])"

record webhook_Options =
  wo_TLSOpts :: "(tls_config \<Rightarrow> tls_config) list"
  wo_CertDir :: string
  wo_CertName :: string
  wo_KeyName :: string

definition webhookServerOptions :: "flags \<Rightarrow> webhook_Options" where
  "webhookServerOptions f =
     (let o1 = \<lparr>wo_TLSOpts = tlsOpts f, wo_CertDir = [], wo_CertName = [], wo_KeyName = []\<rparr> in
      if webhookCertPath f \<noteq> [] then
        o1\<lparr>wo_CertDir := webhookCertPath f, wo_CertName := webhookCertName f, wo_KeyName := webhookCertKey f\<rparr>
      else o1)"

text \<open>\<open>mo_FilterProvider\<close>: requests to the metrics endpoint are authenticated and authorised.\<close>

record metrics_Options =
  mo_BindAddress :: string
  mo_SecureServing :: bool
  mo_TLSOpts :: "(tls_config \<Rightarrow> tls_config) list"
  mo_FilterProvider :: bool
  mo_CertDir :: string
  mo_CertName :: string
  mo_KeyName :: string

definition metricsServerOptions :: "flags \<Rightarrow> metrics_Options" where
  "metricsServerOptions f =
     (let o1 = \<lparr>mo_BindAddress = metricsAddr f, mo_SecureServing = secureMetrics f, mo_TLSOpts = tlsOpts f,
                mo_FilterProvider = False, mo_CertDir = [], mo_CertName = [], mo_KeyName = []\<rparr>;
          o2 = (if secureMetrics f then o1\<lparr>mo_FilterProvider := True\<rparr> else o1) in
      if metricsCertPath f \<noteq> [] then
        o2\<lparr>mo_CertDir := metricsCertPath f, mo_CertName := metricsCertName f, mo_KeyName := metricsCertKey f\<rparr>
      else o2)"

text \<open>The namespaces the cache watches; none means all of them.\<close>

definition cacheOpts :: "(string \<Rightarrow> string) \<Rightarrow> string list" where
  "cacheOpts getenv = (let namespace = getenv ''POD_NAMESPACE'' in if namespace \<noteq> [] then [namespace] else [])"

record ctrl_Options =
  co_Metrics :: metrics_Options
  co_WebhookServer :: webhook_Options
  co_Cache :: "string list"
  co_HealthProbeBindAddress :: string
  co_LeaderElection :: bool
  co_LeaderElectionID :: string
  co_LeaderElectionReleaseOnCancel :: bool

definition managerOptions :: "flags \<Rightarrow> (string \<Rightarrow> string) \<Rightarrow> ctrl_Options" where
  "managerOptions f getenv =
     \<lparr>co_Metrics = metricsServerOptions f, co_WebhookServer = webhookServerOptions f, co_Cache = cacheOpts getenv,
      co_HealthProbeBindAddress = probeAddr f, co_LeaderElection = enableLeaderElection f,
      co_LeaderElectionID = ''9ca8e82a.cc.sap'', co_LeaderElectionReleaseOnCancel = True\<rparr>"

section \<open>Start-up\<close>

text \<open>The calls of \<open>main\<close> that can fail; what controller-runtime answers is an argument.\<close>

datatype setup_step =
    NewManager ctrl_Options
  | SetupReconciler
  | SetupWebhook
  | AddHealthzCheck string
  | AddReadyzCheck string
  | StartManager

datatype setup_event = Setup setup_step "unit result"

definition attempt ::
  "(setup_step \<Rightarrow> setup_event list \<Rightarrow> unit result) \<Rightarrow> setup_step \<Rightarrow> (setup_event, unit result) io" where
  "attempt runtime s = call (runtime s) (Setup s)"

text \<open>The result is the exit code: \<open>os.Exit(1)\<close> after a call that failed, 0 when \<open>main\<close> returns.\<close>

definition main ::
  "(setup_step \<Rightarrow> setup_event list \<Rightarrow> unit result) \<Rightarrow> flags \<Rightarrow> (string \<Rightarrow> string) \<Rightarrow> (setup_event, nat) io" where
  "main runtime f getenv = do {
     mgr \<leftarrow> attempt runtime (NewManager (managerOptions f getenv));
     case mgr of Inl err \<Rightarrow> State_Monad.return 1 | Inr _ \<Rightarrow> do {
     res \<leftarrow> attempt runtime SetupReconciler;
     case res of Inl err \<Rightarrow> State_Monad.return 1 | Inr _ \<Rightarrow> do {
     res \<leftarrow> (if getenv ''ENABLE_WEBHOOKS'' \<noteq> ''false'' then attempt runtime SetupWebhook else State_Monad.return (Inr ()));
     case res of Inl err \<Rightarrow> State_Monad.return 1 | Inr _ \<Rightarrow> do {
     res \<leftarrow> attempt runtime (AddHealthzCheck ''healthz'');
     case res of Inl err \<Rightarrow> State_Monad.return 1 | Inr _ \<Rightarrow> do {
     res \<leftarrow> attempt runtime (AddReadyzCheck ''readyz'');
     case res of Inl err \<Rightarrow> State_Monad.return 1 | Inr _ \<Rightarrow> do {
     res \<leftarrow> attempt runtime StartManager;
     case res of Inl err \<Rightarrow> State_Monad.return 1 | Inr _ \<Rightarrow> State_Monad.return 0
   }}}}}}"

section \<open>The reconciler as it is wired together\<close>

definition defaultRenderCacheSize :: int where
  "defaultRenderCacheSize = 32"

text \<open>\<open>lru.New\<close> is an argument; the cache's content is part of the environment.\<close>

definition newRenderCache :: "(int \<Rightarrow> unit result) \<Rightarrow> int \<Rightarrow> unit result" where
  "newRenderCache lru_New n =
     (case lru_New (if n \<le> 0 then defaultRenderCacheSize else n) of Inl e \<Rightarrow> Inl e | Inr c \<Rightarrow> Inr c)"

definition NewRenderCache :: "(int \<Rightarrow> unit result) \<Rightarrow> bool" where
  "NewRenderCache lru_New = (case newRenderCache lru_New defaultRenderCacheSize of Inl e \<Rightarrow> False | Inr c \<Rightarrow> True)"

definition newHelmLoader :: "resolve_closure \<Rightarrow> helmLoader" where
  "newHelmLoader resolve = \<lparr>hl_resolve = resolve, hl_scratchDir = []\<rparr>"

definition NewHelmLoader :: "string \<Rightarrow> helmLoader" where
  "NewHelmLoader scratchDir = (newHelmLoader None)\<lparr>hl_scratchDir := scratchDir\<rparr>"

definition NewGitResolver :: gitResolver where
  "NewGitResolver = \<lparr>gr_resolve = None\<rparr>"

definition main_Reconciler :: "klib \<Rightarrow> api_env \<Rightarrow> (int \<Rightarrow> unit result) \<Rightarrow> flags \<Rightarrow> Reconciler" where
  "main_Reconciler L E lru_New f =
     \<lparr>rec_SeedApplier = ssa L E \<lparr>ssa_Client = SeedClient, ssa_FieldManager = FieldManagerName, ssa_Cluster = ''seed''\<rparr>,
      rec_Recorder = True,
      rec_SourceDeps =
        \<lparr>deps_ChartLoader = Some (NewHelmLoader (sourceScratchDir f)), deps_RootResolver = Some NewGitResolver,
         deps_CredentialResolver = None, deps_RenderCache = NewRenderCache lru_New\<rparr>,
      rec_shootApplierFor = None\<rparr>"

section \<open>The wired reconciler is in the setting of the theorems\<close>

text \<open>\<open>meta.SetStatusCondition\<close> as documented: the condition of the type is replaced, or added.\<close>

fun documented_SetStatusCondition :: "condition list \<Rightarrow> condition \<Rightarrow> condition list" where
  "documented_SetStatusCondition [] c = [c]"
| "documented_SetStatusCondition (x # xs) c =
     (if cond_Type x = cond_Type c then c # xs else x # documented_SetStatusCondition xs c)"

definition documented_libs :: "srclib \<Rightarrow> patchlib \<Rightarrow> libs" where
  "documented_libs X P =
     \<lparr>lib_k = documented_lib, lib_src = X, lib_patch = P, SetStatusCondition = documented_SetStatusCondition\<rparr>"

text \<open>An API server that stores the statuses it is sent.\<close>

definition documented_server :: "src_env \<Rightarrow> src_env" where
  "documented_server S = S\<lparr>se_api := (se_api S)\<lparr>eStatusUpdate := \<lambda>cr h. Inr cr\<rparr>\<rparr>"

lemma documented_condition:
  "cond_of ty (documented_SetStatusCondition cs c) = (if ty = cond_Type c then Some c else cond_of ty cs)"
  by (induction cs) (auto simp: cond_of_def)

lemma main_Reconciler_setup:
  assumes "unstructured_lib (lib_k B) err" "errors_lib (lib_k B)" "controllerutil_lib (lib_k B)"
    and "\<And>ty cs c. cond_of ty (SetStatusCondition B cs c) = (if ty = cond_Type c then Some c else cond_of ty cs)"
    and "\<And>cr h cr'. eStatusUpdate (se_api S) cr h = Inr cr' \<Longrightarrow> \<exists>rv. cr' = cr\<lparr>cr_ResourceVersion := rv\<rparr>"
  shows "reconciler_setup B err S (main_Reconciler (lib_k B) E lru_New f)"
  using assms ssa_contract [OF assms(1), of "\<lparr>ssa_Client = SeedClient, ssa_FieldManager = FieldManagerName, ssa_Cluster = ''seed''\<rparr>" E]
  by (simp add: reconciler_setup_def main_Reconciler_def)

interpretation wired: reconciler_setup "documented_libs X P" documented_err "documented_server S"
    "main_Reconciler documented_lib (se_api (documented_server S)) lru_New f" for X P S lru_New f
proof -
  have "\<exists>rv. cr = cr\<lparr>cr_ResourceVersion := rv\<rparr>" for cr :: DualDeploymentOperator
    by (rule exI [of _ "cr_ResourceVersion cr"]) simp
  then show "reconciler_setup (documented_libs X P) documented_err (documented_server S)
      (main_Reconciler documented_lib (se_api (documented_server S)) lru_New f)"
    using main_Reconciler_setup [of "documented_libs X P" documented_err "documented_server S"]
    by (simp add: documented_libs_def documented_server_def documented_condition
        doc.unstructured_lib_axioms doc_errors.errors_lib_axioms doc_finalizers.controllerutil_lib_axioms)
qed

section \<open>Properties\<close>

text \<open>All the steps succeeded and the code is 0, or the first that failed ended the program with code 1.\<close>

definition started :: "setup_step list \<Rightarrow> nat \<Rightarrow> setup_event list \<Rightarrow> bool" where
  "started steps code t \<longleftrightarrow>
     code = 0 \<and> t = map (\<lambda>s. Setup s (Inr ())) steps \<or>
     (\<exists>pre s e post. steps = pre @ s # post \<and> code = 1 \<and> t = map (\<lambda>s. Setup s (Inr ())) pre @ [Setup s (Inl e)])"

lemma started_failed: "started (s # steps) 1 [Setup s (Inl e)]"
  by (auto simp: started_def intro: exI [of _ "[]"])

lemma started_step: "started steps code t \<Longrightarrow> started (s # steps) code (Setup s (Inr ()) # t)"
  unfolding started_def
proof (elim disjE exE conjE)
  fix pre s' e post
  assume "steps = pre @ s' # post" "code = 1" "t = map (\<lambda>s. Setup s (Inr ())) pre @ [Setup s' (Inl e)]"
  then show "code = 0 \<and> Setup s (Inr ()) # t = map (\<lambda>s. Setup s (Inr ())) (s # steps) \<or>
    (\<exists>pre s' e post. s # steps = pre @ s' # post \<and> code = 1 \<and>
      Setup s (Inr ()) # t = map (\<lambda>s. Setup s (Inr ())) pre @ [Setup s' (Inl e)])"
    by (intro disjI2 exI [of _ "s # pre"] exI [of _ s'] exI [of _ e] exI [of _ post]) simp
qed simp

lemma yields_attempt:
  assumes "yields (started steps) m"
  shows "yields (started (s # steps))
    (State_Monad.bind (attempt runtime s) (\<lambda>res. case res of Inl err \<Rightarrow> State_Monad.return 1 | Inr u \<Rightarrow> m))"
  unfolding attempt_def
proof (rule yields_call_bind)
  fix res :: "unit result"
  show "yields (\<lambda>code t. started (s # steps) code (Setup s res # t)) (case res of Inl err \<Rightarrow> State_Monad.return 1 | Inr u \<Rightarrow> m)"
    by (cases res) (auto simp del: One_nat_def intro: yields_return started_failed yields_mono [OF assms started_step])
qed

lemma started_end: "yields (started []) (State_Monad.return 0)"
  by (rule yields_return) (simp add: started_def)

text \<open>
  (C24) Start-up is exact: whatever controller-runtime answers, the calls are made in the order
  manager, reconciler, webhook (unless it is disabled), health check, ready check, start, with the
  options of the flags. Either all of them were made and succeeded and the exit code is 0, or the
  first that failed was the last one and the exit code is 1; so the manager is only started when
  everything else is set up.
\<close>

theorem main_exact:
  fixes f getenv
  defines "steps \<equiv> [NewManager (managerOptions f getenv), SetupReconciler] @
    (if getenv ''ENABLE_WEBHOOKS'' = ''false'' then [] else [SetupWebhook]) @
    [AddHealthzCheck ''healthz'', AddReadyzCheck ''readyz'', StartManager]"
  shows "yields (\<lambda>code t.
      code = 0 \<and> t = map (\<lambda>s. Setup s (Inr ())) steps \<or>
      (\<exists>pre s e post. steps = pre @ s # post \<and> code = 1 \<and> t = map (\<lambda>s. Setup s (Inr ())) pre @ [Setup s (Inl e)]))
    (main runtime f getenv)"
proof -
  have "yields (started steps) (main runtime f getenv)"
    unfolding main_def steps_def
    by (cases "getenv ''ENABLE_WEBHOOKS'' = ''false''") (simp_all add: yields_attempt started_end del: One_nat_def)
  then show ?thesis by (rule yields_mono) (simp only: started_def)
qed

end
