(* ===== verification/Scenario.thy ===== *)
theory Scenario
  imports Manager
begin

text \<open>
  A small concrete world in which the reconciler runs: an API server that accepts every request,
  a git repository with one overlay per cluster, and one custom resource. The theorems about
  whole reconciliations are applied to it.
\<close>

section \<open>A cluster\<close>

text \<open>The live objects carry the ownership value \<open>own\<close>.\<close>

definition example_live :: "string \<Rightarrow> jobj" where
  "example_live own =
     [(''kind'', JStr ''ConfigMap''), (''metadata'', JObj [(''labels'', JObj [(OwnedByLabel, JStr own)])])]"

definition example_api :: "string \<Rightarrow> DualDeploymentOperator \<Rightarrow> api_env" where
  "example_api own cr =
     \<lparr>eNow = \<lambda>h. 0,
      eGet = \<lambda>c g ns n h. Inr (example_live own),
      ePatch = \<lambda>c u fm h. Inr u,
      eDelete = \<lambda>c u h. Inr (),
      eGetCR = \<lambda>ns n h. if ns = cr_Namespace cr \<and> n = cr_Name cr then Inr cr else Inl (ErrLib ''NotFound'' ''not found''),
      eUpdateCR = \<lambda>cr' h. Inr cr',
      eStatusUpdate = \<lambda>cr' h. Inr cr',
      eGetSecret = \<lambda>ns n h. Inr [(''token'', ''t0ken''), (''bundle.crt'', ''ca'')],
      eNewClient = \<lambda>rc h. Inr ()\<rparr>"

section \<open>A repository\<close>

definition example_fs :: fs_env where
  "example_fs =
     \<lparr>eMkdirTemp = \<lambda>base pattern h. Inr ''/tmp/work'', eMkdirAll = \<lambda>p h. Inr (), eReadDir = \<lambda>p h. Inr [],
      eStat = \<lambda>p h. Inr True, eGlob = \<lambda>p h. Inr [], eOpen = \<lambda>p h. Inr (),
      eReadFile = \<lambda>p h. Inr []\<rparr>"

definition example_helm :: helm_env where
  "example_helm =
     \<lparr>eRegistryNewClient = \<lambda>a h. Inr (), ePull = \<lambda>a r v d h. Inr (), eResolve = \<lambda>a r h. Inr [],
      eExpand = \<lambda>d f h. Inr (), eLoadChartfile = \<lambda>p h. Inr \<lparr>cf_Name = [], cf_Dependencies = []\<rparr>,
      eDepBuild = \<lambda>a p h. Inr (), eLoadChart = \<lambda>p h. Inr [], eInstall = \<lambda>c v r n h. Inr [],
      eKustomizeRun = \<lambda>root h. Inr root, eAsYaml = \<lambda>m h. Inr m\<rparr>"

definition example_git :: git_env where
  "example_git =
     \<lparr>ePlainClone = \<lambda>d u r a h. Inr (), ePlainInit = \<lambda>d h. Inr (), eCreateRemote = \<lambda>d u h. Inr (),
      eFetch = \<lambda>d rs a h. Inr (), eWorktree = \<lambda>d h. Inr (), eCheckout = \<lambda>d s h. Inr (), eListRemote = \<lambda>u a h. Inr []\<rparr>"

definition example_env :: "string \<Rightarrow> DualDeploymentOperator \<Rightarrow> src_env" where
  "example_env own cr =
     \<lparr>se_api = example_api own cr, se_fs = example_fs, se_helm = example_helm, se_git = example_git,
      se_cacheGet = \<lambda>k h. None\<rparr>"

text \<open>Each overlay has one config map.\<close>

definition example_object :: "string \<Rightarrow> jobj" where
  "example_object name =
     [(''apiVersion'', JStr ''v1''), (''kind'', JStr ''ConfigMap''), (''metadata'', JObj [(''name'', JStr name)])]"

definition example_src :: srclib where
  "example_src =
     \<lparr>CoalesceTables = \<lambda>d s. s, IsOCI = \<lambda>s. False, NewTagReferenceName = \<lambda>r. ''refs/tags/'' @ r,
      NewBranchReferenceName = \<lambda>r. ''refs/heads/'' @ r, NewHash = \<lambda>s. s,
      DecodeYAML = \<lambda>s. [Inr (example_object (if s = ''/tmp/work/seed'' then ''a'' else ''b''))]\<rparr>"

definition example_patch :: patchlib where
  "example_patch =
     \<lparr>SchemeNew = \<lambda>g. Inr False, StrategicMergePatch = \<lambda>a b g. Inr a, MergePatch = \<lambda>a b. Inr a,
      MarshalOps = \<lambda>ops. Inr [], DecodePatch = \<lambda>s. Inr (\<lambda>d. Inr d), UnmarshalJSON = \<lambda>s. Inr []\<rparr>"

section \<open>A custom resource\<close>

definition example_spec :: "string \<Rightarrow> DualDeploymentOperatorSpec" where
  "example_spec applyOrder =
     \<lparr>spec_Source = \<lparr>src_Helm = None,
        src_Kustomize = Some \<lparr>kust_URL = ''https://git.example/repo?ref=v1'', kust_SeedPath = ''seed'',
          kust_ShootPath = ''shoot'', kust_AuthSecretRef = None\<rparr>\<rparr>,
      spec_ShootAccess = \<lparr>sa_SecretName = ''access'', sa_Server = ''https://shoot'', sa_TokenKey = [], sa_CAKey = []\<rparr>,
      spec_ShootNamespace = ''kube-system'', spec_Transformations = [],
      spec_RetentionPolicy = \<lparr>rp_CRDs = ''Retain''\<rparr>, spec_ApplyOrder = applyOrder\<rparr>"

definition example_cr :: "string \<Rightarrow> DualDeploymentOperator" where
  "example_cr applyOrder =
     \<lparr>cr_Namespace = ''garden'', cr_Name = ''ops'', cr_Generation = 1, cr_ResourceVersion = ''1'',
      cr_DeletionTimestamp = None, cr_Finalizers = [FinalizerName], cr_Annotations = [],
      cr_Spec = example_spec applyOrder,
      cr_Status = \<lparr>st_SeedResources = [], st_ShootResources = [], st_Conditions = [], st_LastReconcile = None\<rparr>\<rparr>"

text \<open>The reconciler without a render cache.\<close>

definition no_lru :: "int \<Rightarrow> unit result" where
  "no_lru n = Inl (ErrNew ''no cache'')"

definition example_libs :: libs where
  "example_libs = documented_libs example_src example_patch"

definition example_reconciler :: "string \<Rightarrow> DualDeploymentOperator \<Rightarrow> Reconciler" where
  "example_reconciler own cr = main_Reconciler documented_lib (example_api own cr) no_lru default_flags"

lemma example_server: "documented_server (example_env own cr) = example_env own cr"
  by (simp add: documented_server_def example_env_def example_api_def)

lemma example_setup: "reconciler_setup example_libs documented_err (example_env own cr) (example_reconciler own cr)"
  using wired.reconciler_setup_axioms [of example_src example_patch "example_env own cr" no_lru default_flags]
  by (simp add: example_libs_def example_reconciler_def example_server) (simp add: example_env_def)


definition example_manifest :: "string \<Rightarrow> string \<Rightarrow> Manifest" where
  "example_manifest ns name =
     \<lparr>m_Unstructured = [(''apiVersion'', JStr ''v1''), (''kind'', JStr ''ConfigMap''),
        (''metadata'', JObj [(''name'', JStr name), (''namespace'', JStr ns)])], m_Origin = OriginUpstream\<rparr>"

definition example_sent :: "string \<Rightarrow> string \<Rightarrow> string \<Rightarrow> jobj" where
  "example_sent own ns name =
     [(''apiVersion'', JStr ''v1''), (''kind'', JStr ''ConfigMap''),
      (''metadata'', JObj [(''name'', JStr name), (''namespace'', JStr ns), (''labels'', JObj [(OwnedByLabel, JStr own)])])]"

definition example_status :: "string \<Rightarrow> string \<Rightarrow> ResourceStatus" where
  "example_status ns name =
     \<lparr>rs_Kind = ''ConfigMap'', rs_APIVersion = ''v1'', rs_Namespace = ns, rs_Name = name, rs_Health = HealthHealthy,
      rs_LastApplied = Some 0, rs_Message = []\<rparr>"

definition example_apply_trace :: "client_id \<Rightarrow> string \<Rightarrow> string \<Rightarrow> string \<Rightarrow> event list" where
  "example_apply_trace c own ns name =
     [EvNow 0, EvPatch c (example_sent own ns name) FieldManagerName (Inr (example_sent own ns name)),
      EvGet c \<lparr>gvk_Group = [], gvk_Version = ''v1'', gvk_Kind = ''ConfigMap''\<rparr> ns name (Inr (example_live own))]"

section \<open>Runs\<close>

lemma run_bind: "run_state (State_Monad.bind m f) h = (case run_state m h of (x, h') \<Rightarrow> run_state (f x) h')"
  by (simp add: State_Monad.bind_def)

lemma run_return: "run_state (State_Monad.return x) h = (x, h)"
  by (simp add: State_Monad.return_def)

lemmas run_steps_simps = run_bind run_return run_call

lemma run_apply:
  "run_state (ap_Apply (ssa documented_lib (example_api own cr) \<lparr>ssa_Client = c, ssa_FieldManager = FieldManagerName, ssa_Cluster = cl\<rparr>)
       (example_manifest ns name) own) h =
     ((\<lparr>m_Unstructured = example_sent own ns name, m_Origin = OriginUpstream\<rparr>, example_status ns name, None),
      ((h @ take 1 (example_apply_trace c own ns name)) @ [example_apply_trace c own ns name ! 1]) @
      [example_apply_trace c own ns name ! 2])"
  by code_simp

lemma run_applyAll:
  "run_state (applyAll documented_lib (ssa documented_lib (example_api own cr)
       \<lparr>ssa_Client = c, ssa_FieldManager = FieldManagerName, ssa_Cluster = cl\<rparr>) [example_manifest ns name] own) h =
     (([\<lparr>m_Unstructured = example_sent own ns name, m_Origin = OriginUpstream\<rparr>], [example_status ns name], None),
      h @ example_apply_trace c own ns name)"
  by (simp add: applyAll_def run_steps_simps run_apply example_apply_trace_def doc_errors.NewAggregate_nil)

lemma run_prune: "run_state (prune documented_lib A [] current cr own) h = (([], None), h)"
  by (simp add: prune_def SortStatusForDelete_def run_steps_simps doc_errors.NewAggregate_nil)

definition example_rc :: rest_config where
  "example_rc = \<lparr>rc_Host = ''https://shoot'', rc_BearerToken = ''t0ken'', rc_CAData = ''ca'', rc_Timeout = shootRequestTimeout\<rparr>"

definition example_client_trace :: "event list" where
  "example_client_trace =
     [EvGetSecret ''garden'' ''access'' (Inr [(''token'', ''t0ken''), (''bundle.crt'', ''ca'')]), EvNewClient example_rc (Inr ())]"

lemma run_buildShootApplier:
  assumes "cr_Spec cr = example_spec order" and "cr_Namespace cr = ''garden''"
  shows "run_state (buildShootApplierOrDefault documented_lib (example_api own cr0) (example_reconciler own cr0) cr) h =
     (Inr (shoot_applier documented_lib (example_api own cr0) example_rc), h @ example_client_trace)"
  using assms
  by (simp add: buildShootApplierOrDefault_def example_reconciler_def main_Reconciler_def buildShootApplier_def
      example_spec_def bind_io_def wrap_io_def get_Secret_def new_Client_def run_steps_simps example_api_def
      ShootRESTConfig_def example_rc_def example_client_trace_def map_get_def Let_def)

lemma example_cr_simps:
  "cr_Spec (example_cr order) = example_spec order" "cr_Namespace (example_cr order) = ''garden''"
  by (simp_all add: example_cr_def)

text \<open>The status that the delivery writes.\<close>

definition example_written :: "string \<Rightarrow> DualDeploymentOperator" where
  "example_written order =
     set_LastReconcile (ready_status example_libs (example_cr order) [example_status ''garden'' ''a'']
       [example_status ''kube-system'' ''b'']) 0"

definition example_delivery_trace :: "string \<Rightarrow> event list" where
  "example_delivery_trace order =
     (let own = owner (example_cr order);
          seed = example_apply_trace SeedClient own ''garden'' ''a'';
          shoot = example_apply_trace (ShootClient example_rc) own ''kube-system'' ''b'' in
      example_client_trace @ (if order = ''SeedFirst'' then seed @ shoot else shoot @ seed) @
      [EvNow 0, EvStatusUpdate (example_written order) (Inr (example_written order))])"

lemma SortForApply_single [simp]: "SortForApply L [m] = [m]"
  by (simp add: SortForApply_def)

lemma run_deliver_renders:
  "run_state (deliver_renders example_libs (example_api (owner (example_cr order)) cr0)
       (example_reconciler (owner (example_cr order)) cr0) (example_cr order)
       [example_manifest ''garden'' ''a''] [example_manifest ''kube-system'' ''b'']) h =
     ((requeueInterval, None), h @ example_delivery_trace order)"
proof -
  have L: "lib_k example_libs = documented_lib" by (simp add: example_libs_def documented_libs_def)
  have A: "rec_SeedApplier (example_reconciler own cr0) = ssa documented_lib (example_api own cr0)
      \<lparr>ssa_Client = SeedClient, ssa_FieldManager = FieldManagerName, ssa_Cluster = ''seed''\<rparr>" for own
    by (simp add: example_reconciler_def main_Reconciler_def)
  have cr: "st_SeedResources (cr_Status (example_cr order)) = []" "st_ShootResources (cr_Status (example_cr order)) = []"
    "spec_ApplyOrder (cr_Spec (example_cr order)) = order"
    by (simp_all add: example_cr_def example_spec_def)
  have ok: "rs_Health (example_status ns n) = HealthHealthy" for ns n by (simp add: example_status_def)
  have agg: "\<forall>e\<in>set es. e = None \<Longrightarrow> NewAggregate documented_lib es = None" for es
    by (simp add: doc_errors.NewAggregate_nil)
  show ?thesis
    unfolding deliver_renders_def deliver_built_def deliver_shoot_first_def deliver_seed_first_def write_status_def
      Let_def L A cr shoot_applier_def owner_def [symmetric]
    by (simp add: run_steps_simps run_buildShootApplier [OF example_cr_simps] run_applyAll run_prune ok cr L A shoot_applier_def
        time_Now_def status_Update_def non_nil_def agg example_delivery_trace_def Let_def
        example_written_def ready_status_def) (simp add: example_api_def agg non_nil_def)
qed

definition example_prepare_trace :: "event list" where
  "example_prepare_trace =
     concat (map (\<lambda>dir.
       [EvFS (MkdirTemp [] ''ddo-kustomize-'' (Inr ''/tmp/work'')),
        EvGit (PlainClone ''/tmp/work'' ''https://git.example/repo'' ''refs/tags/v1'' None (Inr ())),
        EvHelm (KustomizeRun dir (Inr dir)), EvHelm (AsYaml dir (Inr dir)), EvFS (RemoveAll ''/tmp/work'')])
       [''/tmp/work/seed'', ''/tmp/work/shoot''])"

lemma run_prepare:
  "run_state (prepare_renders example_libs (example_env own (example_cr order)) (example_reconciler own (example_cr order))
       (example_cr order)) [e] =
     (Inr ([example_manifest ''garden'' ''a''], [example_manifest ''kube-system'' ''b'']), e # example_prepare_trace)"
  by code_simp

text \<open>A whole reconciliation of the example.\<close>

definition example_trace :: "string \<Rightarrow> event list" where
  "example_trace order =
     EvGetCR ''garden'' ''ops'' (Inr (example_cr order)) # example_prepare_trace @ example_delivery_trace order"

lemma run_Reconcile:
  fixes order defines "own \<equiv> owner (example_cr order)"
  shows "run_state (Reconcile example_libs (example_env own (example_cr order)) (example_reconciler own (example_cr order))
       ''garden'' ''ops'') [] = ((requeueInterval, None), example_trace order)"
proof -
  have L: "lib_k example_libs = documented_lib" by (simp add: example_libs_def documented_libs_def)
  have E: "se_api (example_env own cr) = example_api own cr" for cr by (simp add: example_env_def)
  have cr: "cr_DeletionTimestamp (example_cr order) = None" "cr_Finalizers (example_cr order) = [FinalizerName]"
    by (simp_all add: example_cr_def)
  have get: "eGetCR (example_api own (example_cr order)) ''garden'' ''ops'' h = Inr (example_cr order)" for h
    by (simp add: example_api_def example_cr_def)
  show ?thesis
    by (simp add: Reconcile_def reconcile_live_def Let_def get_CR_def run_steps_simps L E cr get run_prepare
        doc_finalizers.ContainsFinalizer_law run_deliver_renders [where order = order, folded own_def] example_trace_def)
qed

section \<open>A deletion\<close>

definition example_dying :: "string \<Rightarrow> DualDeploymentOperator" where
  "example_dying order =
     (example_cr order)\<lparr>cr_DeletionTimestamp := Some 5,
        cr_Status := \<lparr>st_SeedResources = [example_status ''garden'' ''a''],
          st_ShootResources = [example_status ''kube-system'' ''b''], st_Conditions = [], st_LastReconcile = None\<rparr>\<rparr>"

definition example_delete_trace :: "client_id \<Rightarrow> string \<Rightarrow> string \<Rightarrow> string \<Rightarrow> event list" where
  "example_delete_trace c own ns name =
     [EvGet c \<lparr>gvk_Group = [], gvk_Version = ''v1'', gvk_Kind = ''ConfigMap''\<rparr> ns name (Inr (example_live own)),
      EvDelete c (m_Unstructured (ManifestFromStatus documented_lib (example_status ns name))) (Inr ())]"

lemma run_delete_seed:
  "run_state (ap_Delete (ssa documented_lib (example_api own cr) \<lparr>ssa_Client = c, ssa_FieldManager = fm, ssa_Cluster = cl\<rparr>)
       (ManifestFromStatus documented_lib (example_status ''garden'' ''a'')) own) h =
     (None, (h @ [example_delete_trace c own ''garden'' ''a'' ! 0]) @ [example_delete_trace c own ''garden'' ''a'' ! 1])"
  by code_simp

lemma run_delete_shoot:
  "run_state (ap_Delete (ssa documented_lib (example_api own cr) \<lparr>ssa_Client = c, ssa_FieldManager = fm, ssa_Cluster = cl\<rparr>)
       (ManifestFromStatus documented_lib (example_status ''kube-system'' ''b'')) own) h =
     (None, (h @ [example_delete_trace c own ''kube-system'' ''b'' ! 0]) @ [example_delete_trace c own ''kube-system'' ''b'' ! 1])"
  by code_simp

definition example_deleting :: "string \<Rightarrow> DualDeploymentOperator" where
  "example_deleting order = setCondition example_libs (example_dying order) ReasonDeleting ''CR deletion in progress'' 1"

definition example_teardown_trace :: "string \<Rightarrow> event list" where
  "example_teardown_trace order =
     (let own = owner (example_dying order); cr = example_deleting order;
          seed = example_delete_trace SeedClient own ''garden'' ''a'';
          shoot = example_delete_trace (ShootClient example_rc) own ''kube-system'' ''b'';
          released = cr\<lparr>cr_Finalizers := []\<rparr> in
      [EvGetCR ''garden'' ''ops'' (Inr (example_dying order)), EvStatusUpdate cr (Inr cr)] @ example_client_trace @
      (if order = ''SeedFirst'' then shoot @ seed else seed @ shoot) @ [EvUpdateCR released (Inr released)])"

lemma run_deleteRender:
  fixes own cr defines "A \<equiv> \<lambda>c cl. ssa documented_lib (example_api own cr)
      \<lparr>ssa_Client = c, ssa_FieldManager = FieldManagerName, ssa_Cluster = cl\<rparr>"
  shows "run_state (deleteRender documented_lib cr' own (Some (A c cl)) [example_status ''garden'' ''a'']) h =
      ([], h @ example_delete_trace c own ''garden'' ''a'')"
    and "run_state (deleteRender documented_lib cr' own (Some (A c cl)) [example_status ''kube-system'' ''b'']) h =
      ([], h @ example_delete_trace c own ''kube-system'' ''b'')"
  by (simp_all add: A_def deleteRender_def SortStatusForDelete_def run_steps_simps run_delete_seed run_delete_shoot
      retained_kind_def example_delete_trace_def) (simp_all add: example_status_def)

lemma run_teardown:
  fixes order defines "own \<equiv> owner (example_dying order)"
  shows "run_state (Reconcile example_libs (example_env own (example_dying order)) (example_reconciler own (example_dying order))
       ''garden'' ''ops'') [] = ((0, None), example_teardown_trace order)"
proof -
  have L: "lib_k example_libs = documented_lib" by (simp add: example_libs_def documented_libs_def)
  have E: "se_api (example_env own cr) = example_api own cr" for cr by (simp add: example_env_def)
  have get: "eGetCR (example_api own (example_dying order)) ''garden'' ''ops'' h = Inr (example_dying order)"
    "eStatusUpdate (example_api own (example_dying order)) cr h = Inr cr"
    "eUpdateCR (example_api own (example_dying order)) cr h = Inr cr" for h cr
    by (simp_all add: example_api_def example_cr_def example_dying_def)
  have dying: "cr_DeletionTimestamp (example_dying order) = Some 5" "cr_Generation (example_dying order) = 1"
    by (simp_all add: example_dying_def example_cr_def)
  let ?cr = "example_deleting order"
  have cr: "st_SeedResources (cr_Status ?cr) = [example_status ''garden'' ''a'']" "cr_Finalizers ?cr = [FinalizerName]"
    "st_ShootResources (cr_Status ?cr) = [example_status ''kube-system'' ''b'']"
    and spec: "cr_Spec ?cr = example_spec order" "cr_Namespace ?cr = ''garden''"
    by (simp_all add: example_deleting_def setCondition_def put_condition_def example_dying_def example_cr_def)
  define first where "first \<longleftrightarrow> order = ''SeedFirst''"
  have order: "(spec_ApplyOrder (cr_Spec ?cr) = ''SeedFirst'') = first" by (simp add: spec example_spec_def first_def)
  note trace = example_teardown_trace_def [of order, folded own_def first_def]
  have del: "\<not> retained_kind cr' (example_status ns n)" for cr' ns n by (simp add: retained_kind_def example_status_def)
  have A: "rec_SeedApplier (example_reconciler own cr') = ssa documented_lib (example_api own cr')
      \<lparr>ssa_Client = SeedClient, ssa_FieldManager = FieldManagerName, ssa_Cluster = ''seed''\<rparr>" for cr'
    by (simp add: example_reconciler_def main_Reconciler_def)
  have agg: "NewAggregate documented_lib [] = None" by (simp add: doc_errors.NewAggregate_nil)
  have own: "OwnedByValue (cr_Namespace (example_dying order)) (cr_Name (example_dying order)) = own"
    by (simp add: own_def owner_def)
  show ?thesis
    unfolding Reconcile_def reconcileDelete_def teardown_def deletion_shoot_applier_def delete_renders_def
      finish_delete_def remove_finalizer_def Let_def L E get_CR_def status_Update_def update_CR_def
    by (cases first; simp add: run_steps_simps get dying example_deleting_def [symmetric] cr order deletable_def del
        run_buildShootApplier [OF spec] shoot_applier_def A own run_deleteRender agg doc_finalizers.RemoveFinalizer_law
        trace Let_def)
qed

section \<open>A shoot whose credentials are not there yet\<close>

definition example_recorded :: "string \<Rightarrow> DualDeploymentOperator" where
  "example_recorded order = (example_dying order)\<lparr>cr_DeletionTimestamp := None\<rparr>"

definition waiting_env :: "string \<Rightarrow> DualDeploymentOperator \<Rightarrow> src_env" where
  "waiting_env own cr =
     (example_env own cr)\<lparr>se_api := (example_api own cr)\<lparr>eGetSecret := \<lambda>ns n h. Inr [(''token'', [])]\<rparr>\<rparr>"

definition waiting_reconciler :: "string \<Rightarrow> DualDeploymentOperator \<Rightarrow> Reconciler" where
  "waiting_reconciler own cr = main_Reconciler documented_lib (se_api (waiting_env own cr)) no_lru default_flags"

lemma waiting_setup: "reconciler_setup example_libs documented_err (waiting_env own cr) (waiting_reconciler own cr)"
proof -
  have "documented_server (waiting_env own cr) = waiting_env own cr"
    by (simp add: documented_server_def waiting_env_def example_env_def example_api_def)
  then show ?thesis
    using wired.reconciler_setup_axioms [of example_src example_patch "waiting_env own cr" no_lru default_flags]
    by (simp add: example_libs_def waiting_reconciler_def)
qed

definition waiting_written :: "string \<Rightarrow> DualDeploymentOperator" where
  "waiting_written order =
     set_LastReconcile (set_inventory (setCondition example_libs (example_recorded order) ''WaitingForShootCredentials''
       ''shoot token/CA not yet populated by Gardener; shoot render deferred'' 1)
       [example_status ''garden'' ''a''] [example_status ''kube-system'' ''b'']) 0"

definition waiting_trace :: "string \<Rightarrow> event list" where
  "waiting_trace order =
     [EvGetSecret ''garden'' ''access'' (Inr [(''token'', [])]), EvNow 0,
      EvStatusUpdate (waiting_written order) (Inr (waiting_written order))]"

lemma run_waiting:
  "run_state (deliver_renders example_libs (se_api (waiting_env own (example_recorded ''ShootFirst'')))
       (waiting_reconciler own (example_recorded ''ShootFirst'')) (example_recorded ''ShootFirst'') seed shoot) [] =
     ((30, None), waiting_trace ''ShootFirst'')"
proof -
  let ?cr = "example_recorded ''ShootFirst''"
  have cr: "st_SeedResources (cr_Status ?cr) = [example_status ''garden'' ''a'']" "cr_Generation ?cr = 1"
    "st_ShootResources (cr_Status ?cr) = [example_status ''kube-system'' ''b'']" "cr_Namespace ?cr = ''garden''"
    "spec_ApplyOrder (cr_Spec ?cr) = ''ShootFirst''"
    "spec_ShootAccess (cr_Spec ?cr) = \<lparr>sa_SecretName = ''access'', sa_Server = ''https://shoot'', sa_TokenKey = [], sa_CAKey = []\<rparr>"
    by (simp_all add: example_recorded_def example_dying_def example_cr_def example_spec_def)
  show ?thesis
    by (simp add: deliver_renders_def Let_def buildShootApplierOrDefault_def waiting_reconciler_def main_Reconciler_def
        buildShootApplier_def bind_io_def wrap_io_def get_Secret_def run_steps_simps cr waiting_env_def
        ShootRESTConfig_def map_get_def deliver_built_def shoot_skipped_def finishNotReady_def time_Now_def status_Update_def
        waiting_trace_def waiting_written_def) (simp add: example_api_def)
qed

lemma waiting_run:
  assumes "yields R (deliver_renders example_libs (se_api (waiting_env own (example_recorded ''ShootFirst'')))
       (waiting_reconciler own (example_recorded ''ShootFirst'')) (example_recorded ''ShootFirst'') seed shoot)"
  shows "R (30, None) (waiting_trace ''ShootFirst'')"
  using yields_emitted [OF assms, of "[]"] run_waiting by (simp add: emitted_def outcome_def history_def)

section \<open>A delivery that prunes\<close>

text \<open>Both renders have become empty, so both recorded objects are orphans.\<close>

definition example_prune_trace :: "client_id \<Rightarrow> string \<Rightarrow> string \<Rightarrow> string \<Rightarrow> event list" where
  "example_prune_trace c own ns name = hd (example_delete_trace c own ns name) # example_delete_trace c own ns name"

lemma run_prune_one:
  "run_state (prune_one documented_lib (ssa documented_lib (example_api own cr0) \<lparr>ssa_Client = c, ssa_FieldManager = fm, ssa_Cluster = cl\<rparr>)
       [] cr own (example_status ''garden'' ''a'')) h =
     (None, ((h @ [example_prune_trace c own ''garden'' ''a'' ! 0]) @ [example_prune_trace c own ''garden'' ''a'' ! 1]) @
       [example_prune_trace c own ''garden'' ''a'' ! 2])"
  "run_state (prune_one documented_lib (ssa documented_lib (example_api own cr0) \<lparr>ssa_Client = c, ssa_FieldManager = fm, ssa_Cluster = cl\<rparr>)
       [] cr own (example_status ''kube-system'' ''b'')) h =
     (None, ((h @ [example_prune_trace c own ''kube-system'' ''b'' ! 0]) @ [example_prune_trace c own ''kube-system'' ''b'' ! 1]) @
       [example_prune_trace c own ''kube-system'' ''b'' ! 2])"
  by code_simp+

lemma run_prune_orphan:
  fixes own cr0 c cl defines "A \<equiv> ssa documented_lib (example_api own cr0) \<lparr>ssa_Client = c, ssa_FieldManager = FieldManagerName, ssa_Cluster = cl\<rparr>"
  shows "run_state (prune documented_lib A [example_status ''garden'' ''a''] [] cr own) h =
      (([], None), h @ example_prune_trace c own ''garden'' ''a'')"
    and "run_state (prune documented_lib A [example_status ''kube-system'' ''b''] [] cr own) h =
      (([], None), h @ example_prune_trace c own ''kube-system'' ''b'')"
  by (simp_all add: A_def prune_def SortStatusForDelete_def run_steps_simps run_prune_one doc_errors.NewAggregate_nil
      example_prune_trace_def example_delete_trace_def)

definition emptied_written :: DualDeploymentOperator where
  "emptied_written = set_LastReconcile (ready_status example_libs (example_recorded ''ShootFirst'') [] []) 0"

definition emptied_trace :: "event list" where
  "emptied_trace =
     (let own = owner (example_recorded ''ShootFirst'') in
      example_client_trace @ example_prune_trace SeedClient own ''garden'' ''a'' @
      example_prune_trace (ShootClient example_rc) own ''kube-system'' ''b'' @
      [EvNow 0, EvStatusUpdate emptied_written (Inr emptied_written)])"

lemma run_emptied:
  fixes own cr defines "cr \<equiv> example_recorded ''ShootFirst''" and "own \<equiv> owner cr"
  shows "run_state (deliver_renders example_libs (example_api own cr) (example_reconciler own cr) cr [] []) [] =
     ((requeueInterval, None), emptied_trace)"
proof -
  have L: "lib_k example_libs = documented_lib" by (simp add: example_libs_def documented_libs_def)
  have A: "rec_SeedApplier (example_reconciler own cr0) = ssa documented_lib (example_api own cr0)
      \<lparr>ssa_Client = SeedClient, ssa_FieldManager = FieldManagerName, ssa_Cluster = ''seed''\<rparr>" for cr0
    by (simp add: example_reconciler_def main_Reconciler_def)
  have cr: "st_SeedResources (cr_Status cr) = [example_status ''garden'' ''a'']"
    "st_ShootResources (cr_Status cr) = [example_status ''kube-system'' ''b'']"
    "spec_ApplyOrder (cr_Spec cr) = ''ShootFirst''"
    and spec: "cr_Spec cr = example_spec ''ShootFirst''" "cr_Namespace cr = ''garden''"
    by (simp_all add: cr_def example_recorded_def example_dying_def example_cr_def example_spec_def)
  have agg: "\<forall>e\<in>set es. e = None \<Longrightarrow> NewAggregate documented_lib es = None" for es
    by (simp add: doc_errors.NewAggregate_nil)
  have none: "run_state (applyAll documented_lib X [] o') h = (([], [], None), h)" for X o' h
    by (simp add: applyAll_def run_steps_simps agg)
  have sort: "SortForApply documented_lib [] = []" by (simp add: SortForApply_def)
  show ?thesis
    unfolding deliver_renders_def deliver_built_def deliver_shoot_first_def deliver_seed_first_def write_status_def
      Let_def L A cr shoot_applier_def owner_def [symmetric] own_def [symmetric]
    by (simp add: run_steps_simps run_buildShootApplier [OF spec] none sort run_prune_orphan cr L A shoot_applier_def
        time_Now_def status_Update_def non_nil_def agg emptied_trace_def Let_def own_def [symmetric] cr_def [symmetric]
        emptied_written_def ready_status_def) (simp add: example_api_def agg non_nil_def)
qed

section \<open>Applying a statement about all runs to the example\<close>

lemma example_lib [simp]: "lib_k example_libs = documented_lib"
  by (simp add: example_libs_def documented_libs_def)

lemma example_run:
  fixes order defines "own \<equiv> owner (example_cr order)"
  assumes "yields R (Reconcile example_libs (example_env own (example_cr order)) (example_reconciler own (example_cr order))
    ''garden'' ''ops'')"
  shows "R (requeueInterval, None) (example_trace order)"
  using yields_emitted [OF assms(2), of "[]"] run_Reconcile [of order, folded own_def]
  by (simp add: emitted_def outcome_def history_def)

lemma example_teardown_run:
  fixes order defines "own \<equiv> owner (example_dying order)"
  assumes "yields R (Reconcile example_libs (example_env own (example_dying order)) (example_reconciler own (example_dying order))
    ''garden'' ''ops'')"
  shows "R (0, None) (example_teardown_trace order)"
  using yields_emitted [OF assms(2), of "[]"] run_teardown [of order, folded own_def]
  by (simp add: emitted_def outcome_def history_def)

lemma example_delivery_run:
  fixes order defines "own \<equiv> owner (example_cr order)"
  assumes "yields R (deliver_renders example_libs (se_api (example_env own (example_cr order)))
    (example_reconciler own (example_cr order)) (example_cr order)
    [example_manifest ''garden'' ''a''] [example_manifest ''kube-system'' ''b''])"
  shows "R (requeueInterval, None) (example_delivery_trace order)"
  using yields_emitted [OF assms(2), of "[]"] run_deliver_renders [where h = "[]" and order = order and ?cr0.0 = "example_cr order", folded own_def]
  by (simp add: emitted_def outcome_def history_def example_env_def)

lemma emptied_run:
  fixes own cr defines "cr \<equiv> example_recorded ''ShootFirst''" and "own \<equiv> owner cr"
  assumes "yields R (deliver_renders example_libs (se_api (example_env own cr)) (example_reconciler own cr) cr [] [])"
  shows "R (requeueInterval, None) emptied_trace"
  using yields_emitted [OF assms(3), of "[]"] run_emptied [folded cr_def, folded own_def]
  by (simp add: emitted_def outcome_def history_def example_env_def)

lemmas example_trace_simps = example_trace_def example_delivery_trace_def Let_def example_apply_trace_def

end
