(* ===== verification/Comparison.thy ===== *)
theory Comparison
  imports Transform
begin

text \<open>
  The comparing half of \<open>internal/equivalence\<close>: object sets and their keys (set.go), the
  allowlist of incidental labels (allowlist.go), normalisation (normalize.go) and the comparison
  with its report (compare.go). A Go map is an association list in
  the order in which one iteration visits it; the theorems say where that order cannot be seen.
  \<open>Compare\<close> changes the objects it has compared in place, so it also returns the two sets.
\<close>

section \<open>Deep equality\<close>

text \<open>Two floats are compared by value; the smaller exponent is the common scale.\<close>

definition float_eq :: "int \<Rightarrow> int \<Rightarrow> int \<Rightarrow> int \<Rightarrow> bool" where
  "float_eq m e m' e' \<longleftrightarrow> m * 10 ^ nat (e - min e e') = m' * 10 ^ nat (e' - min e e')"

lemma size_zip_left [termination_simp]: "(a, b) \<in> set (zip xs ys) \<Longrightarrow> size a < Suc (size_list size xs)"
  by (drule set_zip_leftD) (simp add: size_list_estimation less_Suc_eq_le size_list_estimation')

lemma size_nth [termination_simp]: "i < length xs \<Longrightarrow> size (xs ! i) < Suc (size_list size xs)"
  by (simp add: less_Suc_eq_le size_list_estimation' [OF nth_mem])

lemma size_lookup [termination_simp]:
  "map_of m k = Some v \<Longrightarrow> size v < Suc (size_list (\<lambda>kv. Suc (size (snd kv))) m)"
  by (induction m) (auto split: if_splits)

text \<open>
  \<open>reflect.DeepEqual\<close> on decoded values: values of different types differ, maps are equal when
  they have as many entries and every entry of the first has an equal one in the second.
\<close>

fun deep_equal :: "jval \<Rightarrow> jval \<Rightarrow> bool" where
  "deep_equal (JObj a) w =
     (case w of
        JObj b \<Rightarrow>
          length a = length b \<and>
          list_all (\<lambda>kv. case map_of b (fst kv) of None \<Rightarrow> False | Some v \<Rightarrow> deep_equal (snd kv) v) a
      | _ \<Rightarrow> False)"
| "deep_equal (JArr xs) w =
     (case w of
        JArr ys \<Rightarrow> length xs = length ys \<and> list_all (\<lambda>p. deep_equal (fst p) (snd p)) (zip xs ys)
      | _ \<Rightarrow> False)"
| "deep_equal (JFloat m e) w = (case w of JFloat m' e' \<Rightarrow> float_eq m e m' e' | _ \<Rightarrow> False)"
| "deep_equal v w = (v = w)"

section \<open>Object sets (set.go)\<close>

definition KeyOf :: "klib \<Rightarrow> jobj \<Rightarrow> string" where
  "KeyOf L u =
     (let g = GroupVersionKind L u
      in gvk_Group g @ ''/'' @ gvk_Kind g @ ''/'' @ GetNamespace L u @ ''/'' @ GetName L u)"

definition schemaGVK :: "klib \<Rightarrow> string \<Rightarrow> string \<Rightarrow> gvk" where
  "schemaGVK L apiVersion kind =
     (case ParseGroupVersion L apiVersion of
        Inl err \<Rightarrow> no_gvk
      | Inr gv \<Rightarrow> \<lparr>gvk_Group = fst gv, gvk_Version = snd gv, gvk_Kind = kind\<rparr>)"

type_synonym ObjectSet = "(string \<times> jobj) list"

definition Keys :: "ObjectSet \<Rightarrow> string list" where
  "Keys s = sort (map fst s)"

section \<open>The allowlist (allowlist.go)\<close>

definition allowlistedLabelKeys :: "string list" where
  "allowlistedLabelKeys =
    [''helm.sh/chart'', ''helm.sh/resource-policy'', ''app.kubernetes.io/managed-by'',
     ''app.kubernetes.io/version'', ''app.kubernetes.io/instance'',
     ''dual-deployment-operator.cc.sap/origin'', ''dual-deployment-operator.cc.sap/owned-by'']"

definition stripKeys :: "klib \<Rightarrow> jobj \<Rightarrow> string list \<Rightarrow> jobj" where
  "stripKeys L u path =
     (case NestedMap L u path of
        Inl err \<Rightarrow> u
      | Inr None \<Rightarrow> u
      | Inr (Some m) \<Rightarrow>
          (let m' = fold AList.delete allowlistedLabelKeys m in
           if length m' = 0 then RemoveNestedField L u path
           else (case SetNestedMap L u m' path of Inl err \<Rightarrow> u | Inr u' \<Rightarrow> u')))"

definition StripAllowlist :: "klib \<Rightarrow> jobj \<Rightarrow> jobj" where
  "StripAllowlist L u =
     stripKeys L (stripKeys L u [''metadata'', ''labels'']) [''metadata'', ''annotations'']"

section \<open>Normalisation (normalize.go)\<close>

definition isEmpty :: "jval \<Rightarrow> bool" where
  "isEmpty v = (case v of JNull \<Rightarrow> True | JObj m \<Rightarrow> length m = 0 | _ \<Rightarrow> False)"

fun pruneEmpties :: "jval \<Rightarrow> jval" where
  "pruneEmpties (JObj m) =
     JObj (filter (\<lambda>kv. \<not> isEmpty (snd kv)) (map (\<lambda>kv. (fst kv, pruneEmpties (snd kv))) m))"
| "pruneEmpties (JArr xs) = JArr (map pruneEmpties xs)"
| "pruneEmpties v = v"

definition Normalize :: "jobj \<Rightarrow> jobj" where
  "Normalize u = the (as_obj (Some (pruneEmpties (JObj u))))"

section \<open>The comparison (compare.go)\<close>

record Report =
  Mismatched :: "string list"
  MissingOp :: "string list"
  ExtraOp :: "string list"

definition Report_Equal :: "Report \<Rightarrow> bool" where
  "Report_Equal r \<longleftrightarrow> length (Mismatched r) = 0 \<and> length (MissingOp r) = 0 \<and> length (ExtraOp r) = 0"

definition Report_String :: "Report \<Rightarrow> string" where
  "Report_String r =
     concat (map (\<lambda>m. ''MISMATCH '' @ m @ [CHR 0x0A]) (Mismatched r)) @
     concat (map (\<lambda>m. ''MISSING on operator side: '' @ m @ [CHR 0x0A]) (MissingOp r)) @
     concat (map (\<lambda>e. ''EXTRA on operator side: '' @ e @ [CHR 0x0A]) (ExtraOp r))"

definition displayKey :: "klib \<Rightarrow> jobj \<Rightarrow> string" where
  "displayKey L u = GetAPIVersion L u @ ''/'' @ GetKind L u @ ''/'' @ GetNamespace L u @ ''/'' @ GetName L u"

definition nextPath :: "string \<Rightarrow> string \<Rightarrow> string" where
  "nextPath pfx key = (if pfx = [] then key else pfx @ ''.'' @ key)"

definition idxPath :: "string \<Rightarrow> nat \<Rightarrow> string" where
  "idxPath pfx i = pfx @ ''['' @ show_nat i @ '']''"

text \<open>The keys of both maps in order, each once.\<close>

definition sortedKeys :: "jobj \<Rightarrow> jobj \<Rightarrow> string list" where
  "sortedKeys ta tb = sort (remdups (map fst ta @ map fst tb))"

fun diffPaths :: "jval \<Rightarrow> jval \<Rightarrow> string \<Rightarrow> string list" where
  "diffPaths (JObj ta) b pfx =
     (case b of
        JObj tb \<Rightarrow>
          concat (map (\<lambda>k.
            (case map_of ta k of
               None \<Rightarrow> [nextPath pfx k]
             | Some va \<Rightarrow>
                 (case map_of tb k of
                    None \<Rightarrow> [nextPath pfx k]
                  | Some vb \<Rightarrow> diffPaths va vb (nextPath pfx k)))) (sortedKeys ta tb))
      | _ \<Rightarrow> [pfx])"
| "diffPaths (JArr ta) b pfx =
     (case b of
        JArr tb \<Rightarrow>
          if length ta \<noteq> length tb then [pfx]
          else concat (map (\<lambda>i. diffPaths (ta ! i) (tb ! i) (idxPath pfx i)) [0..<length ta])
      | _ \<Rightarrow> [pfx])"
| "diffPaths a b pfx = (if deep_equal a b then [] else [pfx])"

text \<open>\<open>prep\<close> changes the object in place; here it returns it.\<close>

definition prep :: "klib \<Rightarrow> jobj \<Rightarrow> jobj" where
  "prep L u = Normalize (StripAllowlist L u)"

definition mismatch :: "klib \<Rightarrow> jobj \<Rightarrow> jobj \<Rightarrow> string list" where
  "mismatch L gobj oobj =
     (let gPrep = prep L gobj; oPrep = prep L oobj in
      if deep_equal (JObj gPrep) (JObj oPrep) then []
      else
        (let paths = diffPaths (JObj gPrep) (JObj oPrep) []
         in [displayKey L gPrep @ '' (fields differ: '' @ strings_Join paths '', '' @ '')'']))"

text \<open>The loops over the two sets.\<close>

fun compare_golden :: "klib \<Rightarrow> ObjectSet \<Rightarrow> ObjectSet \<Rightarrow> Report \<Rightarrow> Report" where
  "compare_golden L op [] r = r"
| "compare_golden L op ((k, gobj) # golden) r =
     (case map_of op k of
        None \<Rightarrow> compare_golden L op golden (r\<lparr>MissingOp := MissingOp r @ [displayKey L gobj]\<rparr>)
      | Some oobj \<Rightarrow>
          compare_golden L op golden (r\<lparr>Mismatched := Mismatched r @ mismatch L gobj oobj\<rparr>))"

fun compare_op :: "klib \<Rightarrow> ObjectSet \<Rightarrow> ObjectSet \<Rightarrow> Report \<Rightarrow> Report" where
  "compare_op L golden [] r = r"
| "compare_op L golden ((k, oobj) # op) r =
     (if map_of golden k = None then compare_op L golden op (r\<lparr>ExtraOp := ExtraOp r @ [displayKey L oobj]\<rparr>)
      else compare_op L golden op r)"

text \<open>The objects of a set that have been compared with one of another set are prepared.\<close>

definition prepared_set :: "klib \<Rightarrow> ObjectSet \<Rightarrow> ObjectSet \<Rightarrow> ObjectSet" where
  "prepared_set L other s = map (\<lambda>(k, u). (k, if map_of other k = None then u else prep L u)) s"

definition Compare :: "klib \<Rightarrow> ObjectSet \<Rightarrow> ObjectSet \<Rightarrow> Report \<times> ObjectSet \<times> ObjectSet" where
  "Compare L golden op =
     (let r = compare_golden L op golden \<lparr>Mismatched = [], MissingOp = [], ExtraOp = []\<rparr>;
          r = compare_op L golden op r
      in (\<lparr>Mismatched = sort (Mismatched r), MissingOp = sort (MissingOp r), ExtraOp = sort (ExtraOp r)\<rparr>,
          prepared_set L op golden, prepared_set L golden op))"

section \<open>Deep equality is an equivalence\<close>

lemma float_eq_refl: "float_eq m e m e"
  by (simp add: float_eq_def)

lemma float_eq_sym: "float_eq m e m' e' \<Longrightarrow> float_eq m' e' m e"
  by (simp add: float_eq_def min.commute)

text \<open>Any scale below both exponents will do.\<close>

lemma float_eq_scale:
  assumes "k \<le> e" and "k \<le> e'"
  shows "float_eq m e m' e' \<longleftrightarrow> m * 10 ^ nat (e - k) = m' * 10 ^ nat (e' - k)"
proof -
  let ?k = "min e e'" and ?c = "10 ^ nat (min e e' - k) :: int"
  have "nat (e - k) = nat (e - ?k) + nat (?k - k)" "nat (e' - k) = nat (e' - ?k) + nat (?k - k)"
    using assms by auto
  then have "m * 10 ^ nat (e - k) = (m * 10 ^ nat (e - ?k)) * ?c"
    "m' * 10 ^ nat (e' - k) = (m' * 10 ^ nat (e' - ?k)) * ?c"
    by (simp_all only: power_add mult.assoc)
  then show ?thesis unfolding float_eq_def by (simp only: mult_cancel_right) simp
qed

lemma float_eq_trans: "float_eq a i b j \<Longrightarrow> float_eq b j c k \<Longrightarrow> float_eq a i c k"
proof -
  define n where "n = min i (min j k)"
  then have "n \<le> i" "n \<le> j" "n \<le> k" by auto
  then show "float_eq a i b j \<Longrightarrow> float_eq b j c k \<Longrightarrow> float_eq a i c k"
    by (simp add: float_eq_scale [where k = n])
qed

lemma deep_equal_arr: "deep_equal (JArr xs) (JArr ys) \<longleftrightarrow> list_all2 deep_equal xs ys"
  by (auto simp: list_all2_iff list_all_iff)

lemma map_of_dom: "k \<in> fst ` set m \<longleftrightarrow> map_of m k \<noteq> None"
  by (simp add: map_of_eq_None_iff)

lemma ball_lookup:
  "distinct (map fst m) \<Longrightarrow> (\<forall>kv\<in>set m. P (fst kv) (snd kv)) \<longleftrightarrow> (\<forall>k v. map_of m k = Some v \<longrightarrow> P k v)"
  by auto

text \<open>Two maps are equal exactly when all lookups agree.\<close>

lemma deep_equal_obj:
  assumes "distinct (map fst a)" and "distinct (map fst b)"
  shows "deep_equal (JObj a) (JObj b) \<longleftrightarrow> (\<forall>k. rel_option deep_equal (map_of a k) (map_of b k))"
    (is "?lhs \<longleftrightarrow> ?rhs")
proof -
  have card: "card (fst ` set a) = length a" "card (fst ` set b) = length b"
    using assms by (metis distinct_card length_map list.set_map)+
  define each where
    "each \<longleftrightarrow> (\<forall>k x. map_of a k = Some x \<longrightarrow> (case map_of b k of None \<Rightarrow> False | Some y \<Rightarrow> deep_equal x y))"
  have lhs: "?lhs \<longleftrightarrow> length a = length b \<and> each"
    using ball_lookup [OF assms(1), of "\<lambda>k x. case map_of b k of None \<Rightarrow> False | Some y \<Rightarrow> deep_equal x y"]
    by (simp add: each_def list_all_iff)
  have "each \<Longrightarrow> fst ` set a \<subseteq> fst ` set b"
    unfolding subset_iff map_of_dom each_def by (auto split: option.splits simp del: map_of_eq_Some_iff)
  then have same: "length a = length b \<and> each \<longleftrightarrow> fst ` set a = fst ` set b \<and> each"
    using card by (metis card_subset_eq finite_imageI finite_set)
  have "rel_option deep_equal (map_of a k) (map_of b k) \<longleftrightarrow>
      (k \<in> fst ` set a \<longleftrightarrow> k \<in> fst ` set b) \<and>
      (\<forall>x. map_of a k = Some x \<longrightarrow> (case map_of b k of None \<Rightarrow> False | Some y \<Rightarrow> deep_equal x y))" for k
    unfolding map_of_dom by (cases "map_of a k"; cases "map_of b k") simp_all
  then show ?thesis
    unfolding lhs same by (simp add: each_def set_eq_iff) blast
qed

lemma wf_obj: "jobj_wf m \<Longrightarrow> distinct (map fst m)"
  by simp

lemma deep_equal_objD:
  "deep_equal (JObj a) (JObj b) \<Longrightarrow> jobj_wf a \<Longrightarrow> jobj_wf b \<Longrightarrow> rel_option deep_equal (map_of a k) (map_of b k)"
  using deep_equal_obj [of a b] by (simp del: deep_equal.simps)

lemma deep_equal_objI:
  "(\<And>k. rel_option deep_equal (map_of a k) (map_of b k)) \<Longrightarrow> jobj_wf a \<Longrightarrow> jobj_wf b \<Longrightarrow> deep_equal (JObj a) (JObj b)"
  using deep_equal_obj [of a b] by (simp del: deep_equal.simps)

lemma deep_equal_refl: "jval_wf v \<Longrightarrow> deep_equal v v"
proof (induction v rule: jval_wf.induct)
  case (1 xs)
  then show ?case by (simp add: deep_equal_arr list_all_iff list_all2_same del: deep_equal.simps)
next
  case (2 m)
  then have "deep_equal x x" if "map_of m k = Some x" for k x
    using that by (auto simp: list_all_iff dest!: map_of_SomeD)
  then have "rel_option deep_equal (map_of m k) (map_of m k)" for k
    by (cases "map_of m k") simp_all
  with 2 show ?case by (subst deep_equal_obj) simp_all
qed (auto simp: float_eq_refl)

lemma deep_equal_sym: "deep_equal v w \<Longrightarrow> jval_wf v \<Longrightarrow> jval_wf w \<Longrightarrow> deep_equal w v"
proof (induction v w rule: deep_equal.induct)
  case (1 a w)
  then obtain b where w: "w = JObj b" by (auto split: jval.splits)
  note eq = "1.prems" [unfolded w]
  have "rel_option deep_equal (map_of b k) (map_of a k)" for k
  proof -
    from eq have "rel_option deep_equal (map_of a k) (map_of b k)" by (rule deep_equal_objD)
    then show ?thesis
    proof (cases rule: option.rel_cases)
      case (Some x y)
      then show ?thesis
        using "1.IH" [OF w, of "(k, x)" y] jobj_wf_lookup [OF eq(2), of k x] jobj_wf_lookup [OF eq(3), of k y]
        by (auto dest: map_of_SomeD)
    qed simp
  qed
  then show ?case unfolding w using eq by (intro deep_equal_objI)
next
  case (2 xs w)
  then obtain ys where w: "w = JArr ys" by (auto split: jval.splits)
  with 2 have "list_all2 deep_equal xs ys" by (simp add: deep_equal_arr del: deep_equal.simps)
  moreover have "deep_equal (ys ! i) (xs ! i)" if "i < length ys" "length xs = length ys" "deep_equal (xs ! i) (ys ! i)" for i
    using "2.IH" [OF w, of "(xs ! i, ys ! i)"] "2.prems" that w by (auto simp: set_zip list_all_length)
  ultimately have "list_all2 deep_equal ys xs" by (simp add: list_all2_conv_all_nth)
  then show ?case by (simp add: w deep_equal_arr del: deep_equal.simps)
qed (auto split: jval.splits intro: float_eq_sym)

lemma deep_equal_trans:
  "deep_equal u v \<Longrightarrow> deep_equal v w \<Longrightarrow> jval_wf u \<Longrightarrow> jval_wf v \<Longrightarrow> jval_wf w \<Longrightarrow> deep_equal u w"
proof (induction u v arbitrary: w rule: deep_equal.induct)
  case (1 a v)
  from "1.prems"(1) obtain b where v: "v = JObj b" by (auto split: jval.splits)
  from "1.prems"(2) obtain c where w: "w = JObj c" unfolding v by (auto split: jval.splits)
  note eq = "1.prems" [unfolded v w]
  have "rel_option deep_equal (map_of a k) (map_of c k)" for k
  proof -
    note ab = deep_equal_objD [OF eq(1,3,4), of k] and bc = deep_equal_objD [OF eq(2,4,5), of k]
    show ?thesis
      using ab
    proof (cases rule: option.rel_cases)
      case (Some x y)
      with bc obtain z where "map_of c k = Some z" "deep_equal y z" by (cases "map_of c k") auto
      with Some show ?thesis
        using "1.IH" [OF v, of "(k, x)" y z] jobj_wf_lookup [OF eq(3), of k x] jobj_wf_lookup [OF eq(4), of k y]
          jobj_wf_lookup [OF eq(5), of k z]
        by (auto dest: map_of_SomeD)
    qed (use bc in simp)
  qed
  then show ?case unfolding w using eq by (intro deep_equal_objI)
next
  case (2 xs v)
  from "2.prems"(1) obtain ys where v: "v = JArr ys" by (auto split: jval.splits)
  from "2.prems"(2) obtain zs where w: "w = JArr zs" unfolding v by (auto split: jval.splits)
  from "2.prems" v w have eqs: "list_all2 deep_equal xs ys" "list_all2 deep_equal ys zs"
    by (simp_all add: deep_equal_arr del: deep_equal.simps)
  have "list_all2 deep_equal xs zs"
  proof (rule list_all2_all_nthI)
    fix i assume "i < length xs"
    then show "deep_equal (xs ! i) (zs ! i)"
      using "2.IH" [OF v, of "(xs ! i, ys ! i)" "zs ! i"] "2.prems"(3,4,5) eqs v w
      by (auto simp: set_zip list_all_length list_all2_conv_all_nth)
  qed (use eqs in \<open>simp add: list_all2_conv_all_nth\<close>)
  then show ?case by (simp add: w deep_equal_arr del: deep_equal.simps)
next
  case (3 m e v)
  then show ?case by (auto split: jval.splits) (erule (1) float_eq_trans)
qed auto

section \<open>The differing paths\<close>

lemma set_sortedKeys [simp]: "set (sortedKeys ta tb) = fst ` set ta \<union> fst ` set tb"
  by (simp add: sortedKeys_def)

lemma diffPaths_Nil: "jval_wf a \<Longrightarrow> jval_wf b \<Longrightarrow> diffPaths a b pfx = [] \<longleftrightarrow> deep_equal a b"
proof (induction a b pfx rule: diffPaths.induct)
  case (1 ta b pfx)
  show ?case
  proof (cases "\<exists>tb. b = JObj tb")
    case True
    then obtain tb where b: "b = JObj tb" by blast
    let ?part = "\<lambda>k. case map_of ta k of None \<Rightarrow> [nextPath pfx k]
      | Some va \<Rightarrow> (case map_of tb k of None \<Rightarrow> [nextPath pfx k] | Some vb \<Rightarrow> diffPaths va vb (nextPath pfx k))"
    have part: "?part k = [] \<longleftrightarrow> rel_option deep_equal (map_of ta k) (map_of tb k)"
      if "k \<in> set (sortedKeys ta tb)" for k
    proof (cases "map_of ta k"; cases "map_of tb k")
      fix x y assume xy: "map_of ta k = Some x" "map_of tb k = Some y"
      then show ?thesis
        using "1.IH" [OF b that xy] jobj_wf_lookup [OF "1.prems"(1) xy(1)]
          jobj_wf_lookup [OF "1.prems"(2) [unfolded b] xy(2)] by simp
    qed (use that in \<open>auto simp: map_of_dom\<close>)
    have "k \<notin> set (sortedKeys ta tb) \<Longrightarrow> rel_option deep_equal (map_of ta k) (map_of tb k)" for k
      by (simp add: map_of_dom)
    with part have "(\<forall>k\<in>set (sortedKeys ta tb). ?part k = []) \<longleftrightarrow>
        (\<forall>k. rel_option deep_equal (map_of ta k) (map_of tb k))" by blast
    then show ?thesis
      using "1.prems" unfolding b
      by (subst deep_equal_obj) (simp_all only: wf_obj diffPaths.simps jval.case concat_eq_Nil_conv set_map ball_simps)
  qed (auto split: jval.splits)
next
  case (2 ta b pfx)
  show ?case
  proof (cases "\<exists>tb. b = JArr tb")
    case True
    with 2 show ?thesis
      by (auto simp: deep_equal_arr list_all2_conv_all_nth list_all_length split: if_splits simp del: deep_equal.simps)
  qed (auto split: jval.splits)
qed auto

section \<open>Reports\<close>

lemma compare_golden_eq:
  "compare_golden L op golden r =
     r\<lparr>Mismatched := Mismatched r @ concat (map (\<lambda>(k, g). case map_of op k of None \<Rightarrow> [] | Some u \<Rightarrow> mismatch L g u) golden),
       MissingOp := MissingOp r @ concat (map (\<lambda>(k, g). if map_of op k = None then [displayKey L g] else []) golden)\<rparr>"
  by (induction L op golden r rule: compare_golden.induct) (simp_all split: option.splits)

lemma compare_op_eq:
  "compare_op L golden op r =
     r\<lparr>ExtraOp := ExtraOp r @ concat (map (\<lambda>(k, u). if map_of golden k = None then [displayKey L u] else []) op)\<rparr>"
  by (induction L golden op r rule: compare_op.induct) simp_all

text \<open>The three lists of a report in closed form.\<close>

lemma Compare_report:
  "fst (Compare L golden op) =
     \<lparr>Mismatched = sort (concat (map (\<lambda>(k, g). case map_of op k of None \<Rightarrow> [] | Some u \<Rightarrow> mismatch L g u) golden)),
      MissingOp = sort (concat (map (\<lambda>(k, g). if map_of op k = None then [displayKey L g] else []) golden)),
      ExtraOp = sort (concat (map (\<lambda>(k, u). if map_of golden k = None then [displayKey L u] else []) op))\<rparr>"
  by (simp add: Compare_def Let_def compare_golden_eq compare_op_eq)

lemma sort_Nil_iff [simp]: "sort xs = [] \<longleftrightarrow> xs = []"
  by (metis length_0_conv length_sort)

lemma mismatch_Nil: "mismatch L g u = [] \<longleftrightarrow> deep_equal (JObj (prep L g)) (JObj (prep L u))"
  by (simp add: mismatch_def Let_def del: deep_equal.simps)

definition same_object :: "klib \<Rightarrow> jobj \<Rightarrow> jobj \<Rightarrow> bool" where
  "same_object L g u \<longleftrightarrow> deep_equal (JObj (prep L g)) (JObj (prep L u))"

lemma Mismatched_Nil:
  assumes "distinct (map fst golden)"
  shows "Mismatched (fst (Compare L golden op)) = [] \<longleftrightarrow>
    (\<forall>k g u. map_of golden k = Some g \<longrightarrow> map_of op k = Some u \<longrightarrow> same_object L g u)"
proof -
  have "(\<forall>kv\<in>set golden. case map_of op (fst kv) of None \<Rightarrow> True | Some u \<Rightarrow> same_object L (snd kv) u) \<longleftrightarrow>
      (\<forall>k g. map_of golden k = Some g \<longrightarrow> (case map_of op k of None \<Rightarrow> True | Some u \<Rightarrow> same_object L g u))"
    using ball_lookup [OF assms, of "\<lambda>k g. case map_of op k of None \<Rightarrow> True | Some u \<Rightarrow> same_object L g u"] by simp
  moreover have "(case map_of op k of None \<Rightarrow> [] | Some u \<Rightarrow> mismatch L g u) = [] \<longleftrightarrow>
      (case map_of op k of None \<Rightarrow> True | Some u \<Rightarrow> same_object L g u)" for k g
    by (simp add: mismatch_Nil same_object_def split: option.split)
  moreover have "(case map_of op k of None \<Rightarrow> True | Some u \<Rightarrow> same_object L g u) \<longleftrightarrow>
      (\<forall>u. map_of op k = Some u \<longrightarrow> same_object L g u)" for k g
    by (simp split: option.split)
  ultimately show ?thesis
    by (simp only: Compare_report Report.simps sort_Nil_iff concat_eq_Nil_conv set_map ball_simps case_prod_beta)
      blast
qed

lemma MissingOp_Nil: "MissingOp (fst (Compare L golden op)) = [] \<longleftrightarrow> fst ` set golden \<subseteq> fst ` set op"
  by (auto simp: Compare_report map_of_eq_None_iff split: if_splits) force

lemma ExtraOp_Nil: "ExtraOp (fst (Compare L golden op)) = [] \<longleftrightarrow> fst ` set op \<subseteq> fst ` set golden"
  by (auto simp: Compare_report map_of_eq_None_iff split: if_splits) force

lemma Report_Equal_iff:
  assumes "distinct (map fst golden)"
  shows "Report_Equal (fst (Compare L golden op)) \<longleftrightarrow>
    (\<forall>k. rel_option (same_object L) (map_of golden k) (map_of op k))"
proof -
  have "rel_option (same_object L) (map_of golden k) (map_of op k) \<longleftrightarrow>
      (k \<in> fst ` set golden \<longleftrightarrow> k \<in> fst ` set op) \<and>
      (\<forall>g u. map_of golden k = Some g \<longrightarrow> map_of op k = Some u \<longrightarrow> same_object L g u)" for k
    unfolding map_of_dom by (cases "map_of golden k"; cases "map_of op k") simp_all
  then show ?thesis
    by (auto simp: Report_Equal_def Mismatched_Nil [OF assms] MissingOp_Nil ExtraOp_Nil)
qed

text \<open>The order in which a map is visited cannot be seen in a report.\<close>

lemma sort_concat_perm:
  "mset xs = mset ys \<Longrightarrow> sort (concat (map f xs)) = sort (concat (map f ys))" for f :: "'a \<Rightarrow> string list"
proof (rule properties_for_sort)
  assume eq: "mset xs = mset ys"
  have "mset (concat (map f zs)) = sum_mset (image_mset (mset \<circ> f) (mset zs))" for zs
    by (simp add: mset_concat flip: sum_mset_sum_list)
  with eq have "mset (concat (map f xs)) = mset (concat (map f ys))" by simp
  then show "mset (sort (concat (map f ys))) = mset (concat (map f xs))" by simp
qed simp

lemma map_of_perm: "mset xs = mset ys \<Longrightarrow> distinct (map fst xs) \<Longrightarrow> map_of xs = map_of ys"
  by (metis map_of_inject_set mset_eq_setD mset_map distinct_map mset_eq_imp_distinct_iff)

lemma Compare_perm:
  assumes "mset golden = mset golden'" "mset op = mset op'" "distinct (map fst golden)" "distinct (map fst op)"
  shows "fst (Compare L golden op) = fst (Compare L golden' op')"
  using sort_concat_perm [OF assms(1)] sort_concat_perm [OF assms(2)]
    map_of_perm [OF assms(1,3)] map_of_perm [OF assms(2,4)]
  by (simp add: Compare_report)

section \<open>Paths through stripped and normalised objects\<close>

lemma nested_at_append:
  "nested_at v (fs @ gs) = (case nested_at v fs of Found w \<Rightarrow> nested_at w gs | r \<Rightarrow> r)"
  by (induction v fs rule: nested_at.induct) (simp_all add: path_eval split: option.split)

lemma remove_nested_Absent:
  "nested_at (JObj m) fs = Found v \<Longrightarrow> fs \<noteq> [] \<Longrightarrow> nested_at (JObj (remove_nested m fs)) fs = Absent"
proof (induction m fs rule: remove_nested.induct)
  case (3 m f g fs)
  then show ?case by (auto simp: path_eval split: option.splits jval.splits)
qed (auto simp: path_eval)

lemma nested_at_wf: "nested_at v fs = Found w \<Longrightarrow> jval_wf v \<Longrightarrow> jval_wf w"
proof (induction v fs rule: nested_at.induct)
  case (3 m f fs)
  then show ?case by (auto simp: path_eval split: option.splits simp del: jval_wf.simps dest: jobj_wf_lookup)
qed (auto simp: path_eval)

lemma update_same: "map_of m k = Some v \<Longrightarrow> AList.update k v m = m"
  by (induction m) (auto split: if_splits)

lemma set_nested_same: "nested_at (JObj m) fs = Found v \<Longrightarrow> fs \<noteq> [] \<Longrightarrow> set_nested m fs v = Some m"
proof (induction m fs v rule: set_nested.induct)
  case (3 m f g fs v)
  then show ?case by (auto simp: path_eval update_same split: option.splits jval.splits)
qed (auto simp: path_eval update_same split: option.splits)

lemma set_nested_over: "nested_at (JObj m) fs = Found v \<Longrightarrow> fs \<noteq> [] \<Longrightarrow> \<exists>m'. set_nested m fs w = Some m'"
proof (induction m fs v arbitrary: w rule: set_nested.induct)
  case (3 m f g fs v)
  then show ?case by (auto simp: path_eval split: option.splits jval.splits)
qed (auto simp: path_eval)

lemma map_of_delete_all: "map_of (fold AList.delete ks m) k = (if k \<in> set ks then None else map_of m k)"
  by (induction ks arbitrary: m) auto

lemma delete_all_wf: "jobj_wf m \<Longrightarrow> jobj_wf (fold AList.delete ks m)"
  by (induction ks arbitrary: m) (simp_all del: jval_wf.simps)

lemma delete_absent: "map_of m k = None \<Longrightarrow> AList.delete k m = m"
  by (induction m) (auto simp: AList.delete_eq split: if_splits)

lemma delete_all_absent: "(\<And>k. k \<in> set ks \<Longrightarrow> map_of m k = None) \<Longrightarrow> fold AList.delete ks m = m"
  by (induction ks) (simp_all add: delete_absent)

context unstructured_lib
begin

text \<open>What \<open>stripKeys\<close> does: nothing, or it replaces the map at the path by a smaller one.\<close>

lemma stripKeys_cases:
  assumes "path \<noteq> []"
  obtains (unchanged) "\<And>m. nested_at (JObj u) path \<noteq> Found (JObj m)" "stripKeys L u path = u"
  | (emptied) m where "nested_at (JObj u) path = Found (JObj m)" "fold AList.delete allowlistedLabelKeys m = []"
      "stripKeys L u path = remove_nested u path"
  | (shrunk) m where "nested_at (JObj u) path = Found (JObj m)" "fold AList.delete allowlistedLabelKeys m \<noteq> []"
      "set_nested u path (JObj (fold AList.delete allowlistedLabelKeys m)) = Some (stripKeys L u path)"
proof (cases "\<exists>m. nested_at (JObj u) path = Found (JObj m)")
  case True
  then obtain m where m: "nested_at (JObj u) path = Found (JObj m)" by blast
  show thesis
  proof (cases "fold AList.delete allowlistedLabelKeys m = []")
    case True
    with m show thesis by (intro emptied [of m]) (simp_all add: stripKeys_def NestedMap_law RemoveNestedField_law)
  next
    case False
    moreover obtain u' where "set_nested u path (JObj (fold AList.delete allowlistedLabelKeys m)) = Some u'"
      using set_nested_over [OF m assms] by blast
    ultimately show thesis
      using m by (intro shrunk [of m]) (simp_all add: stripKeys_def NestedMap_law SetNestedMap_law)
  qed
next
  case False
  then show thesis
    by (intro unchanged) (auto simp: stripKeys_def NestedMap_law split: nested.splits jval.splits)
qed

lemma stripKeys_frame:
  "path \<noteq> [] \<Longrightarrow> apart path gs \<Longrightarrow> nested_at (JObj (stripKeys L u path)) gs = nested_at (JObj u) gs"
  by (rule stripKeys_cases [of path u]) (simp_all add: remove_nested_frame set_nested_frame)

lemma stripKeys_inside:
  assumes "path \<noteq> []" and "nested_at (JObj u) path = Found (JObj m)"
  shows "nested_at (JObj (stripKeys L u path)) (path @ k # rest) =
    (if k \<in> set allowlistedLabelKeys then Absent else nested_at (JObj u) (path @ k # rest))"
proof -
  have map: "map_of (fold AList.delete allowlistedLabelKeys m) k =
      (if k \<in> set allowlistedLabelKeys then None else map_of m k)"
    by (rule map_of_delete_all)
  show ?thesis
    by (rule stripKeys_cases [OF assms(1), of u])
      (use assms map in \<open>auto simp: nested_at_append set_nested_get remove_nested_Absent path_eval split: option.splits\<close>)
qed

lemma stripKeys_wf:
  assumes "path \<noteq> []" and "jobj_wf u"
  shows "jobj_wf (stripKeys L u path)"
  by (rule stripKeys_cases [OF assms(1), of u])
    (use assms(2) in \<open>auto simp del: jval_wf.simps
       intro: remove_nested_wf set_nested_wf delete_all_wf dest: nested_at_wf\<close>)

text \<open>A value that is not a map, reached by a path that no allowlisted key is on, is kept.\<close>

lemma stripKeys_leaf:
  assumes v: "\<not> is_obj v"
    and keep: "\<And>k rest. p = [f, g, k] @ rest \<Longrightarrow> k \<notin> set allowlistedLabelKeys"
  shows "nested_at (JObj (stripKeys L u [f, g])) p = Found v \<longleftrightarrow> nested_at (JObj u) p = Found v"
proof -
  consider "apart [f, g] p" | "p = []" | "p = [f]" | "p = [f, g]" | k rest where "p = [f, g] @ k # rest"
    by (cases p; cases "tl p"; cases "tl (tl p)") auto
  then show ?thesis
  proof cases
    case 1
    then show ?thesis by (simp add: stripKeys_frame)
  next
    case (5 k rest)
    show ?thesis
    proof (cases "\<exists>m. nested_at (JObj u) [f, g] = Found (JObj m)")
      case True
      then obtain m where "nested_at (JObj u) [f, g] = Found (JObj m)" by blast
      from stripKeys_inside [OF _ this, of k rest] keep [of k rest] 5 show ?thesis by simp
    next
      case False
      have "stripKeys L u [f, g] = u"
        by (rule stripKeys_cases [of "[f, g]" u]) (use False in simp_all)
      then show ?thesis by simp
    qed
  next
    case 2
    with v show ?thesis by (auto simp: is_obj_def)
  next
    case 3
    show ?thesis
      by (rule stripKeys_cases [of "[f, g]" u])
        (use v 3 in \<open>auto simp: path_eval is_obj_def dest!: sym [of "AList.update _ _ _"]
           split: option.splits jval.splits\<close>)
  next
    case 4
    show ?thesis
      by (rule stripKeys_cases [of "[f, g]" u])
        (use v 4 in \<open>auto simp: is_obj_def set_nested_get remove_nested_Absent\<close>)
  qed
qed

lemma stripKeys_fixed:
  assumes "path \<noteq> []" and "\<And>k x. k \<in> set allowlistedLabelKeys \<Longrightarrow> nested_at (JObj u) (path @ [k]) \<noteq> Found x"
    and "nested_at (JObj u) path \<noteq> Found (JObj [])"
  shows "stripKeys L u path = u"
proof (cases "\<exists>m. nested_at (JObj u) path = Found (JObj m)")
  case True
  then obtain m where m: "nested_at (JObj u) path = Found (JObj m)" by blast
  have "map_of m k = None" if "k \<in> set allowlistedLabelKeys" for k
    using assms(2) [OF that] m by (cases "map_of m k") (auto simp: nested_at_append path_eval)
  then have "fold AList.delete allowlistedLabelKeys m = m" by (rule delete_all_absent)
  then show ?thesis
    using assms(1,3) m set_nested_same [OF m assms(1)]
    by (auto simp: stripKeys_def NestedMap_law SetNestedMap_law RemoveNestedField_law)
next
  case False
  show ?thesis by (rule stripKeys_cases [OF assms(1), of u]) (use False in simp_all)
qed

end

text \<open>A path on which a key of the allowlist lies.\<close>

definition allowlisted :: "string list \<Rightarrow> bool" where
  "allowlisted p =
     (case p of
        f # g # k # rest \<Rightarrow>
          f = ''metadata'' \<and> (g = ''labels'' \<or> g = ''annotations'') \<and> k \<in> set allowlistedLabelKeys
      | _ \<Rightarrow> False)"

context unstructured_lib
begin

lemma StripAllowlist_leaf:
  "\<not> is_obj v \<Longrightarrow> \<not> allowlisted p \<Longrightarrow>
     nested_at (JObj (StripAllowlist L u)) p = Found v \<longleftrightarrow> nested_at (JObj u) p = Found v"
  unfolding StripAllowlist_def by (subst stripKeys_leaf; (subst stripKeys_leaf)?) (auto simp: allowlisted_def)

lemma StripAllowlist_wf: "jobj_wf u \<Longrightarrow> jobj_wf (StripAllowlist L u)"
  unfolding StripAllowlist_def by (intro stripKeys_wf) simp_all

lemma stripKeys_gone:
  assumes "k \<in> set allowlistedLabelKeys"
  shows "nested_at (JObj (stripKeys L u [f, g])) ([f, g] @ k # rest) \<noteq> Found v"
proof (cases "\<exists>m. nested_at (JObj u) [f, g] = Found (JObj m)")
  case True
  then obtain m where "nested_at (JObj u) [f, g] = Found (JObj m)" by blast
  from stripKeys_inside [OF _ this, of k rest] assms show ?thesis by simp
next
  case False
  have "stripKeys L u [f, g] = u"
    by (rule stripKeys_cases [of "[f, g]" u]) (use False in simp_all)
  moreover have "nested_at w (k # rest) \<noteq> Found v" if "\<not> is_obj w" for w
    using that by (cases w) (simp_all add: path_eval is_obj_def)
  ultimately show ?thesis
    using False by (subst nested_at_append) (auto simp: is_obj_def split: nested.splits jval.splits)
qed

lemma StripAllowlist_gone:
  assumes "allowlisted p"
  shows "nested_at (JObj (StripAllowlist L u)) p \<noteq> Found v"
proof -
  from assms obtain g k rest where p: "p = [''metadata'', g] @ k # rest"
    and g: "g = ''labels'' \<or> g = ''annotations''" and k: "k \<in> set allowlistedLabelKeys"
    by (auto simp: allowlisted_def split: list.splits)
  from g show ?thesis
  proof
    assume "g = ''labels''"
    then show ?thesis
      unfolding StripAllowlist_def
      using stripKeys_gone [OF k, of u "''metadata''" "''labels''" rest v] by (simp add: p stripKeys_frame)
  next
    assume "g = ''annotations''"
    then show ?thesis
      unfolding StripAllowlist_def p using stripKeys_gone [OF k] by simp
  qed
qed

end

section \<open>Normal objects\<close>

lemma pruneEmpties_obj [simp]: "is_obj (pruneEmpties v) = is_obj v"
  by (cases v) (simp_all add: is_obj_def)

lemma isEmpty_JObj [simp]: "isEmpty (JObj m) \<longleftrightarrow> m = []"
  by (simp add: isEmpty_def)

lemma isEmpty_leaf: "\<not> is_obj v \<Longrightarrow> isEmpty (pruneEmpties v) \<longleftrightarrow> v = JNull"
  by (cases v) (auto simp: isEmpty_def is_obj_def)

lemma pruneEmpties_idem: "pruneEmpties (pruneEmpties v) = pruneEmpties v"
proof (induction v rule: pruneEmpties.induct)
  case (1 m)
  then show ?case by (induction m) auto
qed simp_all

lemma pruneEmpties_wf: "jval_wf v \<Longrightarrow> jval_wf (pruneEmpties v)"
proof (induction v rule: pruneEmpties.induct)
  case (1 m)
  then show ?case by (auto simp: list_all_iff distinct_map_filter comp_def)
qed (simp_all add: list_all_iff)

lemma map_of_prune:
  "distinct (map fst m) \<Longrightarrow>
   map_of (filter (\<lambda>kv. \<not> isEmpty (snd kv)) (map (\<lambda>kv. (fst kv, pruneEmpties (snd kv))) m)) k =
     (case map_of m k of None \<Rightarrow> None | Some v \<Rightarrow> if isEmpty (pruneEmpties v) then None else Some (pruneEmpties v))"
proof (induction m)
  case (Cons kv m)
  have "map_of m (fst kv) = None" using Cons.prems by (simp add: map_of_eq_None_iff)
  with Cons show ?case by (cases kv) (auto simp del: map_of_eq_None_iff split: option.splits)
qed simp

text \<open>Inside a value that is pruned away there are only values that are.\<close>

lemma isEmpty_inside:
  "isEmpty (pruneEmpties v) \<Longrightarrow> nested_at v p = Absent \<or> (\<exists>w. nested_at v p = Found w \<and> isEmpty (pruneEmpties w))"
proof (induction v p rule: nested_at.induct)
  case (3 m f fs)
  have "isEmpty (pruneEmpties x)" if "map_of m f = Some x" for x
    using 3(2) map_of_SomeD [OF that] by (auto simp: filter_empty_conv)
  with 3(1) show ?case by (auto simp: path_eval split: option.split)
qed (auto simp: path_eval isEmpty_def)

lemma prune_at:
  "jval_wf v \<Longrightarrow> nested_at (pruneEmpties v) p =
     (case nested_at v p of
        Found w \<Rightarrow> if p \<noteq> [] \<and> isEmpty (pruneEmpties w) then Absent else Found (pruneEmpties w)
      | r \<Rightarrow> r)"
proof (induction v p rule: nested_at.induct)
  case (3 m f fs)
  show ?case
  proof (cases "map_of m f")
    case (Some x)
    then have "jval_wf x" using "3.prems" by (rule jobj_wf_lookup [rotated])
    with 3 Some isEmpty_inside [of x fs] show ?thesis
      by (auto simp: path_eval map_of_prune split: nested.splits if_splits)
  qed (use 3 in \<open>simp add: path_eval map_of_prune\<close>)
qed (auto simp: path_eval)

lemma Normalize_JObj: "JObj (Normalize u) = pruneEmpties (JObj u)"
  by (simp add: Normalize_def)

lemma Normalize_wf: "jobj_wf u \<Longrightarrow> jobj_wf (Normalize u)"
  unfolding Normalize_JObj by (rule pruneEmpties_wf)

lemma Normalize_leaf:
  assumes "jobj_wf u" and "\<not> is_obj v" and "v \<noteq> JNull"
  shows "nested_at (JObj u) p = Found v \<Longrightarrow> nested_at (JObj (Normalize u)) p = Found (pruneEmpties v)"
    and "nested_at (JObj (Normalize u)) p = Found v \<Longrightarrow> \<exists>w. nested_at (JObj u) p = Found w \<and> v = pruneEmpties w"
  using assms prune_at [OF assms(1), of p] isEmpty_leaf [OF assms(2)]
  by (auto simp: Normalize_JObj split: nested.splits if_splits)

text \<open>Equal values agree along every path.\<close>

lemma deep_equal_at:
  "deep_equal v w \<Longrightarrow> jval_wf v \<Longrightarrow> jval_wf w \<Longrightarrow> nested_at v p = Found x \<Longrightarrow>
     \<exists>y. nested_at w p = Found y \<and> deep_equal x y"
proof (induction v p arbitrary: w rule: nested_at.induct)
  case (3 m f fs)
  from "3.prems"(1) obtain m' where w: "w = JObj m'" by (auto split: jval.splits)
  from "3.prems"(4) obtain a where a: "map_of m f = Some a" "nested_at a fs = Found x"
    by (auto simp: path_eval split: option.splits)
  note eq = "3.prems" [unfolded w]
  from deep_equal_objD [OF eq(1-3), of f] a(1) obtain b where b: "map_of m' f = Some b" "deep_equal a b"
    by (cases "map_of m' f") auto
  from "3.IH" [OF a(1) b(2) _ _ a(2)] jobj_wf_lookup [OF eq(2) a(1)] jobj_wf_lookup [OF eq(3) b(1)]
  show ?case by (auto simp: w path_eval b(1))
qed (auto simp: path_eval)

context unstructured_lib
begin

lemma prep_wf: "jobj_wf u \<Longrightarrow> jobj_wf (prep L u)"
  unfolding prep_def by (intro Normalize_wf StripAllowlist_wf)

lemma prep_leaf:
  assumes "jobj_wf u" and "\<not> is_obj v" and "v \<noteq> JNull" and "\<not> allowlisted p"
  shows "nested_at (JObj u) p = Found v \<Longrightarrow> nested_at (JObj (prep L u)) p = Found (pruneEmpties v)"
    and "nested_at (JObj (prep L u)) p = Found v \<Longrightarrow> \<exists>w. nested_at (JObj u) p = Found w \<and> v = pruneEmpties w"
proof -
  note wf = StripAllowlist_wf [OF assms(1)]
  show "nested_at (JObj u) p = Found v \<Longrightarrow> nested_at (JObj (prep L u)) p = Found (pruneEmpties v)"
    unfolding prep_def using assms by (intro Normalize_leaf wf) (simp_all add: StripAllowlist_leaf)
  assume "nested_at (JObj (prep L u)) p = Found v"
  then obtain w where w: "nested_at (JObj (StripAllowlist L u)) p = Found w" "v = pruneEmpties w"
    unfolding prep_def using Normalize_leaf(2) [OF wf assms(2,3)] by blast
  with assms(2) have "\<not> is_obj w" by simp
  with w assms(4) show "\<exists>w. nested_at (JObj u) p = Found w \<and> v = pruneEmpties w"
    by (auto simp: StripAllowlist_leaf)
qed

lemma prep_gone: "jobj_wf u \<Longrightarrow> allowlisted p \<Longrightarrow> nested_at (JObj (prep L u)) p \<noteq> Found v"
  using prune_at [OF StripAllowlist_wf, of u p] StripAllowlist_gone [of p u]
  by (auto simp: prep_def Normalize_JObj split: nested.splits if_splits)

lemma prep_str: "jobj_wf u \<Longrightarrow> \<not> allowlisted p \<Longrightarrow> str_at (prep L u) p = str_at u p"
proof -
  assume u: "jobj_wf u" "\<not> allowlisted p"
  have "nested_at (JObj (prep L u)) p = Found (JStr s) \<longleftrightarrow> nested_at (JObj u) p = Found (JStr s)" for s
  proof -
    have "JStr s = pruneEmpties w \<Longrightarrow> w = JStr s" for w by (cases w) simp_all
    with prep_leaf [OF u(1) _ _ u(2), of "JStr s"] show ?thesis by (auto simp: is_obj_def)
  qed
  note same = this
  show ?thesis
  proof (cases "\<exists>s. nested_at (JObj u) p = Found (JStr s)")
    case True
    then obtain s where s: "nested_at (JObj u) p = Found (JStr s)" by blast
    with same [of s] have "nested_at (JObj (prep L u)) p = Found (JStr s)" by simp
    with s show ?thesis by (simp add: str_at_def)
  next
    case False
    moreover from this same have "\<not> (\<exists>s. nested_at (JObj (prep L u)) p = Found (JStr s))" by simp
    ultimately show ?thesis by (simp add: str_at_def split: nested.split jval.split)
  qed
qed

lemma prep_reads:
  assumes "jobj_wf u"
  shows "displayKey L (prep L u) = displayKey L u" and "KeyOf L (prep L u) = KeyOf L u"
    and "GetKind L (prep L u) = GetKind L u"
proof -
  have "str_at (prep L u) [f] = str_at u [f]" "str_at (prep L u) [f, g] = str_at u [f, g]" for f g
    using prep_str [OF assms, of "[f]"] prep_str [OF assms, of "[f, g]"] by (simp_all add: allowlisted_def)
  then show "displayKey L (prep L u) = displayKey L u" and "KeyOf L (prep L u) = KeyOf L u"
    and "GetKind L (prep L u) = GetKind L u"
    by (simp_all add: displayKey_def KeyOf_def getter_laws split: option.split)
qed

text \<open>Preparing an object again changes nothing.\<close>

lemma stripKeys_prep:
  assumes "jobj_wf u" and "g = ''labels'' \<or> g = ''annotations''"
  shows "stripKeys L (prep L u) [''metadata'', g] = prep L u"
proof (rule stripKeys_fixed)
  let ?v = "JObj (prep L u)"
  have pruned: "?v = pruneEmpties (JObj (StripAllowlist L u))"
    by (simp only: prep_def Normalize_JObj)
  show "nested_at ?v [''metadata'', g] \<noteq> Found (JObj [])"
    using prune_at [OF StripAllowlist_wf [OF assms(1)], of "[''metadata'', g]"]
    unfolding pruned by (auto split: nested.splits if_splits simp: isEmpty_def)
  show "nested_at ?v ([''metadata'', g] @ [k]) \<noteq> Found x" if "k \<in> set allowlistedLabelKeys" for k x
    using prep_gone [OF assms(1), of "[''metadata'', g, k]"] that assms(2) by (simp add: allowlisted_def)
qed simp

lemma prep_idem: "jobj_wf u \<Longrightarrow> prep L (prep L u) = prep L u"
proof -
  assume u: "jobj_wf u"
  then have "StripAllowlist L (prep L u) = prep L u" by (simp add: StripAllowlist_def stripKeys_prep)
  moreover have "JObj (Normalize (prep L u)) = JObj (prep L u)"
    by (simp only: prep_def Normalize_JObj pruneEmpties_idem)
  ultimately show ?thesis by (simp add: prep_def [of L "prep L u"])
qed

text \<open>What a match of two objects means for their content.\<close>

lemma same_object_leaf:
  assumes "same_object L g u" and "jobj_wf g" "jobj_wf u" and "\<not> is_obj v" "v \<noteq> JNull" "\<not> allowlisted p"
    and "nested_at (JObj g) p = Found v"
  shows "\<exists>w. nested_at (JObj u) p = Found w \<and> deep_equal (pruneEmpties v) (pruneEmpties w)"
proof -
  have "nested_at (JObj (prep L g)) p = Found (pruneEmpties v)"
    using assms by (intro prep_leaf) 
  then obtain y where y: "nested_at (JObj (prep L u)) p = Found y" "deep_equal (pruneEmpties v) y"
    using deep_equal_at [OF assms(1) [unfolded same_object_def] prep_wf [OF assms(2)] prep_wf [OF assms(3)]] by blast
  moreover from y(2) assms(4,5) have "\<not> is_obj y" "y \<noteq> JNull"
    by (cases v; auto simp: is_obj_def split: jval.splits)+
  ultimately show ?thesis
    using prep_leaf(2) [OF assms(3) _ _ assms(6)] by blast
qed

lemma mismatch_prep: "jobj_wf g \<Longrightarrow> jobj_wf u \<Longrightarrow> mismatch L (prep L g) (prep L u) = mismatch L g u"
  by (simp add: mismatch_def prep_idem del: deep_equal.simps)

lemma map_of_prepared_set:
  "map_of (prepared_set L other s) k = map_option (\<lambda>u. if map_of other k = None then u else prep L u) (map_of s k)"
  by (induction s) (auto simp: prepared_set_def)

lemma concat_prepared_set:
  "(\<And>k u. (k, u) \<in> set s \<Longrightarrow> f (k, if map_of other k = None then u else prep L u) = g (k, u)) \<Longrightarrow>
   concat (map f (prepared_set L other s)) = concat (map g s)"
  by (intro arg_cong [where f = concat]) (auto simp: prepared_set_def)

lemma Compare_again:
  assumes "\<And>k u. (k, u) \<in> set golden \<Longrightarrow> jobj_wf u" and "\<And>k u. (k, u) \<in> set op \<Longrightarrow> jobj_wf u"
  shows "fst (Compare L (prepared_set L op golden) (prepared_set L golden op)) = fst (Compare L golden op)"
proof -
  have wf: "map_of op k = Some u \<Longrightarrow> jobj_wf u" "map_of golden k = Some u \<Longrightarrow> jobj_wf u" for k u
    using assms map_of_SomeD by fastforce+
  have keys: "map_of (prepared_set L other s) k = None \<longleftrightarrow> map_of s k = None" for other s k
    by (simp add: map_of_prepared_set)
  have "(case map_of (prepared_set L golden op) k of None \<Rightarrow> [] | Some u \<Rightarrow>
          mismatch L (if map_of op k = None then g else prep L g) u) =
        (case map_of op k of None \<Rightarrow> [] | Some u \<Rightarrow> mismatch L g u)" if "(k, g) \<in> set golden" for k g
  proof (cases "map_of op k")
    case (Some u)
    moreover from that have "map_of golden k \<noteq> None" by (auto simp: map_of_eq_None_iff rev_image_eqI)
    ultimately show ?thesis
      using assms(1) [OF that] wf(1) [OF Some] by (auto simp: map_of_prepared_set mismatch_prep)
  qed (simp add: map_of_prepared_set)
  then have "concat (map (\<lambda>(k, g). case map_of (prepared_set L golden op) k of None \<Rightarrow> [] | Some u \<Rightarrow> mismatch L g u)
        (prepared_set L op golden)) =
      concat (map (\<lambda>(k, g). case map_of op k of None \<Rightarrow> [] | Some u \<Rightarrow> mismatch L g u) golden)"
    by (intro concat_prepared_set) simp
  moreover have "concat (map (\<lambda>(k, u). if map_of other k = None then [displayKey L u] else []) (prepared_set L other s)) =
      concat (map (\<lambda>(k, u). if map_of other k = None then [displayKey L u] else []) s)" for other s
    by (rule concat_prepared_set) simp
  ultimately show ?thesis
    unfolding Compare_report keys by simp
qed

end

text \<open>The objects of a set are decoded ones: no map in them has a key twice.\<close>

definition wf_set :: "ObjectSet \<Rightarrow> bool" where
  "wf_set s = list_all (\<lambda>(k, u). jobj_wf u) s"

lemma wf_setD: "wf_set s \<Longrightarrow> (k, u) \<in> set s \<Longrightarrow> jobj_wf u"
  by (auto simp: wf_set_def list_all_iff simp del: jval_wf.simps)

section \<open>Properties\<close>

text \<open>
  (C27) The field report agrees with the verdict: for two decoded values the list of differing
  paths is empty exactly when \<open>reflect.DeepEqual\<close> finds them equal, whatever the prefix.
\<close>

theorem diffPaths_exact:
  assumes "jval_wf a" and "jval_wf b"
  shows "diffPaths a b pfx = [] \<longleftrightarrow> deep_equal a b"
  using assms by (rule diffPaths_Nil)

theorem diffPaths_exact_witness:
  "diffPaths (JObj [(''x'', JArr [JInt 1, JInt 2]), (''y'', JNull)]) (JObj [(''y'', JNull), (''x'', JArr [JInt 1, JInt 3])]) [] = [''x[1]''] \<and>
   \<not> deep_equal (JObj [(''x'', JArr [JInt 1, JInt 2]), (''y'', JNull)]) (JObj [(''y'', JNull), (''x'', JArr [JInt 1, JInt 3])])"
proof -
  let ?a = "JObj [(''x'', JArr [JInt 1, JInt 2]), (''y'', JNull)]"
  let ?b = "JObj [(''y'', JNull), (''x'', JArr [JInt 1, JInt 3])]"
  have "diffPaths ?a ?b [] = [''x[1]'']" by code_simp
  moreover have "jval_wf ?a" "jval_wf ?b" by simp_all
  ultimately show ?thesis using diffPaths_exact [of ?a ?b "[]"] by simp
qed

text \<open>
  (C19) A clean report is a proof of agreement: when the comparison reports nothing, the two sets
  have the same keys, and every string, number, boolean or list of a golden object that is not
  under an allowlisted label or annotation is at the same place of the operator's object, equal
  up to empty maps and nulls inside lists.
\<close>

theorem Compare_sound:
  assumes "unstructured_lib L err" and "distinct (map fst golden)"
    and "wf_set golden" "wf_set op" and "Report_Equal (fst (Compare L golden op))"
  shows "fst ` set golden = fst ` set op \<and>
    (\<forall>k g p v. map_of golden k = Some g \<longrightarrow> \<not> allowlisted p \<longrightarrow> \<not> is_obj v \<longrightarrow> v \<noteq> JNull \<longrightarrow>
       nested_at (JObj g) p = Found v \<longrightarrow>
       (\<exists>u w. map_of op k = Some u \<and> nested_at (JObj u) p = Found w \<and> deep_equal (pruneEmpties v) (pruneEmpties w)))"
proof -
  from assms(5) have eq: "rel_option (same_object L) (map_of golden k) (map_of op k)" for k
    by (simp add: Report_Equal_iff [OF assms(2)])
  have "k \<in> fst ` set golden \<longleftrightarrow> k \<in> fst ` set op" for k
    using eq [of k] by (cases "map_of golden k"; cases "map_of op k") (simp_all add: map_of_dom)
  moreover have "\<exists>u w. map_of op k = Some u \<and> nested_at (JObj u) p = Found w \<and> deep_equal (pruneEmpties v) (pruneEmpties w)"
    if g: "map_of golden k = Some g" and rest: "\<not> allowlisted p" "\<not> is_obj v" "v \<noteq> JNull" "nested_at (JObj g) p = Found v" for k g p v
  proof -
    from eq [of k] g obtain u where u: "map_of op k = Some u" "same_object L g u" by (cases "map_of op k") auto
    then have "jobj_wf g" "jobj_wf u" using assms(3,4) g by (blast dest: map_of_SomeD wf_setD)+
    with u rest show ?thesis
      using unstructured_lib.same_object_leaf [OF assms(1) u(2)] by blast
  qed
  ultimately show ?thesis by blast
qed

definition example_deployment :: "strmap \<Rightarrow> jval \<Rightarrow> jobj" where
  "example_deployment labels replicas =
     [(''apiVersion'', JStr ''apps/v1''), (''kind'', JStr ''Deployment''),
      (''metadata'', JObj [(''name'', JStr ''web''), (''labels'', JObj (of_strmap labels))]),
      (''spec'', JObj [(''replicas'', replicas), (''paused'', JNull)])]"

theorem Compare_sound_witness:
  "\<exists>w. nested_at (JObj (example_deployment [] (JInt 2))) [''spec'', ''replicas''] = Found w \<and>
     deep_equal (JInt 2) (pruneEmpties w)"
proof -
  let ?g = "example_deployment [(''helm.sh/chart'', ''web-1.0'')] (JInt 2)" and ?u = "example_deployment [] (JInt 2)"
  have clean: "Report_Equal (fst (Compare documented_lib [(''k'', ?g)] [(''k'', ?u)]))" by code_simp
  have wf: "wf_set [(''k'', ?g)]" "wf_set [(''k'', ?u)]" by code_simp+
  have at: "nested_at (JObj ?g) [''spec'', ''replicas''] = Found (JInt 2)" by code_simp
  have "\<exists>u w. map_of [(''k'', ?u)] ''k'' = Some u \<and> nested_at (JObj u) [''spec'', ''replicas''] = Found w \<and>
      deep_equal (pruneEmpties (JInt 2)) (pruneEmpties w)"
    using Compare_sound [OF doc.unstructured_lib_axioms _ wf clean, THEN conjunct2, rule_format, of "''k''", OF _ _ _ _ _ at]
    by (simp add: allowlisted_def is_obj_def)
  then show ?thesis by simp
qed

text \<open>
  (C32) A report is a function of the two sets: the order in which Go's maps are visited cannot be
  seen in it, and neither can the changes in place that an earlier comparison has made.
\<close>

theorem Compare_stable:
  assumes "unstructured_lib L err" and "mset golden' = mset golden" "mset op' = mset op"
    and "distinct (map fst golden)" "distinct (map fst op)"
    and "wf_set golden" "wf_set op"
  shows "fst (Compare L golden' op') = fst (Compare L golden op) \<and>
    fst (case_prod (Compare L) (snd (Compare L golden op))) = fst (Compare L golden op)"
proof -
  have "fst (Compare L (prepared_set L op golden) (prepared_set L golden op)) = fst (Compare L golden op)"
    using assms(6,7) by (intro unstructured_lib.Compare_again [OF assms(1)]) (blast dest: wf_setD)+
  with Compare_perm [of golden golden' op op' L] assms show ?thesis
    by (simp add: Compare_def [of L golden op] Let_def)
qed

theorem Compare_stable_witness:
  "fst (Compare documented_lib [(''b'', example_deployment [] (JInt 2)), (''a'', example_deployment [] (JInt 1))] []) =
   fst (Compare documented_lib [(''a'', example_deployment [] (JInt 1)), (''b'', example_deployment [] (JInt 2))] [])"
proof -
  let ?a = "(''a'', example_deployment [] (JInt 1))" and ?b = "(''b'', example_deployment [] (JInt 2))"
  have "wf_set [?a, ?b]" "wf_set []" by code_simp+
  then show ?thesis
    using Compare_stable [OF doc.unstructured_lib_axioms, of "[?b, ?a]" "[?a, ?b]" "[]" "[]"] by simp
qed

end
