(* ===== verification/Scoping.thy ===== *)
theory Scoping
  imports Comparison
begin

text \<open>
  The scope of a comparison (scope.go): which kinds are compared, which labels are ignored, the
  canonical namespace, and the known divergences that are dropped from a report.
\<close>

section \<open>Definitions\<close>

record ExclusionEntry =
  ex_Kind :: string
  ex_Name :: string

record Scope =
  sc_ComparedKinds :: "string list"
  sc_KnownDivergences :: "ExclusionEntry list"
  sc_IgnoreLabels :: "string list"
  sc_CanonicalNamespace :: string

definition comparesKind :: "Scope \<Rightarrow> string \<Rightarrow> bool" where
  "comparesKind s kind =
     (if length (sc_ComparedKinds s) = 0 then True else kind \<in> set (sc_ComparedKinds s))"

definition stripIgnoredLabels :: "klib \<Rightarrow> Scope \<Rightarrow> jobj \<Rightarrow> jobj" where
  "stripIgnoredLabels L s u =
     (if length (sc_IgnoreLabels s) = 0 then u
      else
        (case NestedMap L u [''metadata'', ''labels''] of
           Inl err \<Rightarrow> u
         | Inr None \<Rightarrow> u
         | Inr (Some labels) \<Rightarrow>
             (let labels' = fold AList.delete (sc_IgnoreLabels s) labels in
              if length labels' = 0 then RemoveNestedField L u [''metadata'', ''labels'']
              else
                (case SetNestedMap L u labels' [''metadata'', ''labels''] of Inl err \<Rightarrow> u | Inr u' \<Rightarrow> u'))))"

text \<open>One turn of the loop over the subjects: whether the entry changed, and the entry.\<close>

definition canonical_subject :: "string \<Rightarrow> jval \<Rightarrow> bool \<times> jval" where
  "canonical_subject canon raw =
     (case as_obj (Some raw) of
        None \<Rightarrow> (False, raw)
      | Some m \<Rightarrow>
          (let ns = as_str (map_of m ''namespace'') in
           if ns \<noteq> [] \<and> ns \<noteq> canon then (True, JObj (AList.update ''namespace'' (JStr canon) m))
           else (False, raw)))"

text \<open>The two steps: the namespace of the object, then the namespaces of its subjects.\<close>

definition canonical_placement :: "klib \<Rightarrow> string \<Rightarrow> jobj \<Rightarrow> jobj" where
  "canonical_placement L canon u =
     (if GetNamespace L u \<noteq> [] \<and> GetNamespace L u \<noteq> canon then SetNamespace L u canon else u)"

definition canonical_subjects :: "klib \<Rightarrow> string \<Rightarrow> jobj \<Rightarrow> jobj" where
  "canonical_subjects L canon c =
     (case NestedSlice L c [''subjects''] of
        Inl err \<Rightarrow> c
      | Inr None \<Rightarrow> c
      | Inr (Some subjects) \<Rightarrow>
          (let res = map (canonical_subject canon) subjects in
           if list_ex fst res then
             (case SetNestedSlice L c (map snd res) [''subjects''] of Inl err \<Rightarrow> c | Inr c' \<Rightarrow> c')
           else c))"

definition canonicalizeNamespace :: "klib \<Rightarrow> Scope \<Rightarrow> jobj \<Rightarrow> jobj" where
  "canonicalizeNamespace L s u =
     (let canon = sc_CanonicalNamespace s in
      if canon = [] then u else canonical_subjects L canon (canonical_placement L canon u))"

definition scoped :: "klib \<Rightarrow> Scope \<Rightarrow> jobj \<Rightarrow> jobj" where
  "scoped L s u = canonicalizeNamespace L s (stripIgnoredLabels L s u)"

fun scope_loop :: "klib \<Rightarrow> Scope \<Rightarrow> ObjectSet \<Rightarrow> ObjectSet \<Rightarrow> ObjectSet" where
  "scope_loop L s [] out = out"
| "scope_loop L s ((k, u) # objs) out =
     (if \<not> comparesKind s (GetKind L u) then scope_loop L s objs out
      else scope_loop L s objs (AList.update (KeyOf L (scoped L s u)) (scoped L s u) out))"

definition Scope_Apply :: "klib \<Rightarrow> Scope \<Rightarrow> ObjectSet \<Rightarrow> ObjectSet" where
  "Scope_Apply L s objs = scope_loop L s objs []"

text \<open>The kind is the third part from the end and the name the last one.\<close>

definition keyIsKnownDivergence :: "Scope \<Rightarrow> string \<Rightarrow> bool" where
  "keyIsKnownDivergence s key =
     (let parts = strings_Split key (CHR ''/'') in
      if length parts < 4 then False
      else
        (let kind = parts ! (length parts - 3); name = parts ! (length parts - 1)
         in list_ex (\<lambda>e. ex_Kind e = kind \<and> ex_Name e = name) (sc_KnownDivergences s)))"

definition dropKnownDivergent :: "Scope \<Rightarrow> string list \<Rightarrow> string list" where
  "dropKnownDivergent s keys = filter (\<lambda>k. \<not> keyIsKnownDivergence s k) keys"

definition CompareScoped :: "klib \<Rightarrow> Scope \<Rightarrow> ObjectSet \<Rightarrow> ObjectSet \<Rightarrow> Report \<times> ObjectSet \<times> ObjectSet" where
  "CompareScoped L s golden op =
     (let (r, golden', op') = Compare L golden op in
      if length (sc_KnownDivergences s) = 0 then (r, golden', op')
      else
        (r\<lparr>MissingOp := dropKnownDivergent s (MissingOp r), ExtraOp := dropKnownDivergent s (ExtraOp r)\<rparr>,
         golden', op'))"

section \<open>Known divergences\<close>

definition slash_free :: "string \<Rightarrow> bool" where
  "slash_free s \<longleftrightarrow> CHR ''/'' \<notin> set s"

text \<open>The parts of an object's identity have no slash, as the API server guarantees.\<close>

definition named :: "klib \<Rightarrow> jobj \<Rightarrow> bool" where
  "named L u \<longleftrightarrow> slash_free (GetKind L u) \<and> slash_free (GetNamespace L u) \<and> slash_free (GetName L u)"

definition named_set :: "klib \<Rightarrow> ObjectSet \<Rightarrow> bool" where
  "named_set L s = list_all (\<lambda>(k, u). named L u) s"

definition divergent :: "klib \<Rightarrow> Scope \<Rightarrow> jobj \<Rightarrow> bool" where
  "divergent L s u \<longleftrightarrow> list_ex (\<lambda>e. ex_Kind e = GetKind L u \<and> ex_Name e = GetName L u) (sc_KnownDivergences s)"

lemma strings_Split_last3:
  assumes "c \<notin> set k" "c \<notin> set n" "c \<notin> set x"
  shows "strings_Split (a @ c # k @ c # n @ c # x) c = strings_Split a c @ [k, n, x]"
  using strings_Split_snoc [OF assms(3), of "a @ c # k @ c # n"] strings_Split_snoc [OF assms(2), of "a @ c # k"]
    strings_Split_snoc [OF assms(1), of a] by simp

lemma keyIsKnownDivergence_displayKey:
  assumes "named L u"
  shows "keyIsKnownDivergence s (displayKey L u) \<longleftrightarrow> divergent L s u"
proof -
  have parts: "strings_Split (displayKey L u) (CHR ''/'') =
      strings_Split (GetAPIVersion L u) (CHR ''/'') @ [GetKind L u, GetNamespace L u, GetName L u]"
    using assms by (simp add: displayKey_def strings_Split_last3 named_def slash_free_def)
  have "0 < length (strings_Split (GetAPIVersion L u) (CHR ''/''))" by simp
  then show ?thesis
    by (simp add: keyIsKnownDivergence_def parts divergent_def Let_def nth_append)
qed

lemma CompareScoped_report:
  "Mismatched (fst (CompareScoped L s golden op)) = Mismatched (fst (Compare L golden op))"
  "MissingOp (fst (CompareScoped L s golden op)) =
     filter (\<lambda>k. \<not> keyIsKnownDivergence s k) (MissingOp (fst (Compare L golden op)))"
  "ExtraOp (fst (CompareScoped L s golden op)) =
     filter (\<lambda>k. \<not> keyIsKnownDivergence s k) (ExtraOp (fst (Compare L golden op)))"
proof -
  have "sc_KnownDivergences s = [] \<Longrightarrow> \<not> keyIsKnownDivergence s k" for k
    by (simp add: keyIsKnownDivergence_def Let_def)
  then show
    "Mismatched (fst (CompareScoped L s golden op)) = Mismatched (fst (Compare L golden op))"
    "MissingOp (fst (CompareScoped L s golden op)) =
       filter (\<lambda>k. \<not> keyIsKnownDivergence s k) (MissingOp (fst (Compare L golden op)))"
    "ExtraOp (fst (CompareScoped L s golden op)) =
       filter (\<lambda>k. \<not> keyIsKnownDivergence s k) (ExtraOp (fst (Compare L golden op)))"
    by (simp_all add: CompareScoped_def dropKnownDivergent_def Let_def split: prod.split)
qed

text \<open>A clean scoped report, in terms of the displayed keys of the objects on one side only.\<close>

lemma CompareScoped_Equal_keys:
  assumes "distinct (map fst golden)"
  shows "Report_Equal (fst (CompareScoped L s golden op)) \<longleftrightarrow>
    (\<forall>k g u. map_of golden k = Some g \<longrightarrow> map_of op k = Some u \<longrightarrow> same_object L g u) \<and>
    (\<forall>(k, g)\<in>set golden. k \<notin> fst ` set op \<longrightarrow> keyIsKnownDivergence s (displayKey L g)) \<and>
    (\<forall>(k, u)\<in>set op. k \<notin> fst ` set golden \<longrightarrow> keyIsKnownDivergence s (displayKey L u))"
proof -
  have one_sided: "filter (\<lambda>k. \<not> keyIsKnownDivergence s k)
        (sort (concat (map (\<lambda>(k, u). if map_of b k = None then [displayKey L u] else []) a))) = [] \<longleftrightarrow>
      (\<forall>(k, u)\<in>set a. k \<notin> fst ` set b \<longrightarrow> keyIsKnownDivergence s (displayKey L u))" for a b :: ObjectSet
    by (auto simp: filter_empty_conv map_of_eq_None_iff split: if_splits)
  show ?thesis
    unfolding Report_Equal_def CompareScoped_report length_0_conv Mismatched_Nil [OF assms]
    by (simp only: Compare_report Report.simps one_sided)
qed

lemma CompareScoped_Equal_iff:
  assumes "distinct (map fst golden)" and "named_set L golden" "named_set L op"
  shows "Report_Equal (fst (CompareScoped L s golden op)) \<longleftrightarrow>
    (\<forall>k g u. map_of golden k = Some g \<longrightarrow> map_of op k = Some u \<longrightarrow> same_object L g u) \<and>
    (\<forall>(k, g)\<in>set golden. k \<notin> fst ` set op \<longrightarrow> divergent L s g) \<and>
    (\<forall>(k, u)\<in>set op. k \<notin> fst ` set golden \<longrightarrow> divergent L s u)"
proof -
  have "keyIsKnownDivergence s (displayKey L u) \<longleftrightarrow> divergent L s u" if "(k, u) \<in> set golden \<union> set op" for k u
    using that assms(2,3) by (intro keyIsKnownDivergence_displayKey) (auto simp: named_set_def list_all_iff)
  then show ?thesis unfolding CompareScoped_Equal_keys [OF assms(1)] by blast
qed

section \<open>The canonical namespace\<close>

lemma canonical_subject_idem: "canon \<noteq> [] \<Longrightarrow> \<not> fst (canonical_subject canon (snd (canonical_subject canon raw)))"
  by (auto simp: canonical_subject_def Let_def as_str_def split: option.splits)

context unstructured_lib
begin

lemma canonical_subjects_frame:
  "apart [''subjects''] p \<Longrightarrow> nested_at (JObj (canonical_subjects L canon c)) p = nested_at (JObj c) p"
  by (auto simp: canonical_subjects_def Let_def NestedSlice_law SetNestedSlice_law set_nested_frame
      split: nested.splits jval.splits option.splits)

lemma canonicalizeNamespace_frame:
  assumes "apart [''metadata'', ''namespace''] p" and "apart [''subjects''] p"
  shows "nested_at (JObj (canonicalizeNamespace L s u)) p = nested_at (JObj u) p"
  using assms
  by (simp add: canonicalizeNamespace_def Let_def canonical_subjects_frame canonical_placement_def SetNamespace_law)

lemma canonicalizeNamespace_str:
  "apart [''metadata'', ''namespace''] p \<Longrightarrow> apart [''subjects''] p \<Longrightarrow>
     str_at (canonicalizeNamespace L s u) p = str_at u p"
  by (simp add: str_at_def canonicalizeNamespace_frame)

lemma canonicalizeNamespace_namespace:
  assumes "meta_ok u"
  shows "GetNamespace L (canonicalizeNamespace L s u) =
    (if sc_CanonicalNamespace s = [] \<or> GetNamespace L u = [] then GetNamespace L u else sc_CanonicalNamespace s)"
proof -
  have "str_at (canonical_subjects L canon c) [''metadata'', f] = str_at c [''metadata'', f]" for canon c f
    by (simp add: str_at_def canonical_subjects_frame)
  with assms show ?thesis
    by (auto simp: canonicalizeNamespace_def Let_def canonical_placement_def GetNamespace_law SetNamespace_law)
qed

text \<open>Afterwards the key of an object does not depend on the namespace it was in.\<close>

lemma KeyOf_canonical:
  assumes "meta_ok u" and "sc_CanonicalNamespace s \<noteq> []" and "GetNamespace L u \<noteq> []"
  shows "KeyOf L (canonicalizeNamespace L s u) =
    gvk_Group (GroupVersionKind L u) @ ''/'' @ gvk_Kind (GroupVersionKind L u) @ ''/'' @
      sc_CanonicalNamespace s @ ''/'' @ GetName L u"
  using canonicalizeNamespace_namespace [OF assms(1), of s] assms(2,3)
  by (simp add: KeyOf_def Let_def GroupVersionKind_law GetName_law canonicalizeNamespace_str
      split: option.split)

end

section \<open>What is in scope\<close>

definition in_scope :: "klib \<Rightarrow> Scope \<Rightarrow> ObjectSet \<Rightarrow> ObjectSet" where
  "in_scope L s objs = filter (\<lambda>(k, u). comparesKind s (GetKind L u)) objs"

definition rekeyed :: "klib \<Rightarrow> Scope \<Rightarrow> ObjectSet \<Rightarrow> ObjectSet" where
  "rekeyed L s objs = map (\<lambda>(k, u). (KeyOf L (scoped L s u), scoped L s u)) (in_scope L s objs)"

lemma update_new: "k \<notin> fst ` set m \<Longrightarrow> AList.update k v m = m @ [(k, v)]"
  by (induction m) auto

lemma scope_loop_distinct:
  "distinct (map fst (out @ rekeyed L s objs)) \<Longrightarrow> scope_loop L s objs out = out @ rekeyed L s objs"
  by (induction L s objs out rule: scope_loop.induct)
    (auto simp: rekeyed_def in_scope_def update_new)

text \<open>Without collisions of the new keys nothing that is in scope is lost.\<close>

lemma Scope_Apply_distinct:
  "distinct (map fst (rekeyed L s objs)) \<Longrightarrow> Scope_Apply L s objs = rekeyed L s objs"
  by (simp add: Scope_Apply_def scope_loop_distinct)

lemma Scope_Apply_keys: "fst ` set (Scope_Apply L s objs) = fst ` set (rekeyed L s objs)"
proof -
  have "fst ` set (scope_loop L s objs out) = fst ` set out \<union> fst ` set (rekeyed L s objs)" for out
    by (induction L s objs out rule: scope_loop.induct)
      (auto simp: rekeyed_def in_scope_def dom_update [unfolded dom_map_of_conv_image_fst])
  then show ?thesis by (simp add: Scope_Apply_def)
qed

lemma Scope_Apply_key_distinct: "distinct (map fst (Scope_Apply L s objs))"
proof -
  have "distinct (map fst out) \<Longrightarrow> distinct (map fst (scope_loop L s objs out))" for out
    by (induction L s objs out rule: scope_loop.induct) simp_all
  then show ?thesis by (simp add: Scope_Apply_def)
qed

section \<open>Properties\<close>

text \<open>
  (C20) A declared divergence cannot hide drift: a scoped report is clean exactly when every object
  that is on both sides matches, and every object that is on one side only is declared with its
  kind and name.
\<close>

theorem CompareScoped_exact:
  assumes "distinct (map fst golden)" and "named_set L golden" "named_set L op"
  shows "Report_Equal (fst (CompareScoped L s golden op)) \<longleftrightarrow>
    (\<forall>k g u. map_of golden k = Some g \<longrightarrow> map_of op k = Some u \<longrightarrow> deep_equal (JObj (prep L g)) (JObj (prep L u))) \<and>
    (\<forall>(k, g)\<in>set golden. k \<notin> fst ` set op \<longrightarrow> divergent L s g) \<and>
    (\<forall>(k, u)\<in>set op. k \<notin> fst ` set golden \<longrightarrow> divergent L s u)"
  using CompareScoped_Equal_iff [of golden L op s] assms unfolding same_object_def by blast

theorem CompareScoped_exact_witness:
  "\<not> Report_Equal (fst (CompareScoped documented_lib
      \<lparr>sc_ComparedKinds = [], sc_KnownDivergences = [\<lparr>ex_Kind = ''Deployment'', ex_Name = ''web''\<rparr>],
       sc_IgnoreLabels = [], sc_CanonicalNamespace = []\<rparr>
      [(''k'', example_deployment [] (JInt 1))] [(''k'', example_deployment [] (JInt 2))]))"
proof -
  let ?s = "\<lparr>sc_ComparedKinds = [], sc_KnownDivergences = [\<lparr>ex_Kind = ''Deployment'', ex_Name = ''web''\<rparr>],
       sc_IgnoreLabels = [], sc_CanonicalNamespace = []\<rparr>"
  let ?g = "example_deployment [] (JInt 1)" and ?u = "example_deployment [] (JInt 2)"
  have "named_set documented_lib [(''k'', ?g)]" "named_set documented_lib [(''k'', ?u)]" by code_simp+
  moreover have "\<not> deep_equal (JObj (prep documented_lib ?g)) (JObj (prep documented_lib ?u))" by code_simp
  ultimately show ?thesis
    using CompareScoped_exact [of "[(''k'', ?g)]" documented_lib "[(''k'', ?u)]" ?s] by simp
qed

text \<open>
  (C29) Scoping keeps what it compares: when the canonical keys of the objects in scope do not
  collide, the scoped set holds exactly these objects, each under its canonical key, and an object
  with a namespace gets the canonical one.
\<close>

theorem Scope_Apply_complete:
  assumes "unstructured_lib L err" and "distinct (map fst (rekeyed L s objs))"
  shows "Scope_Apply L s objs = rekeyed L s objs \<and>
    (\<forall>u. meta_ok u \<longrightarrow> sc_CanonicalNamespace s \<noteq> [] \<longrightarrow> GetNamespace L u \<noteq> [] \<longrightarrow>
       GetNamespace L (canonicalizeNamespace L s u) = sc_CanonicalNamespace s)"
  using Scope_Apply_distinct [OF assms(2)] unstructured_lib.canonicalizeNamespace_namespace [OF assms(1)] by simp

section \<open>Two objects under one canonical key\<close>

definition config_map :: "string \<Rightarrow> string \<Rightarrow> string \<Rightarrow> jobj" where
  "config_map ns name v =
     [(''apiVersion'', JStr ''v1''), (''kind'', JStr ''ConfigMap''),
      (''metadata'', JObj [(''namespace'', JStr ns), (''name'', JStr name)]),
      (''data'', JObj [(''v'', JStr v)])]"

definition config_set :: "(string \<times> string) list \<Rightarrow> ObjectSet" where
  "config_set nvs =
     map (\<lambda>(ns, v). (KeyOf documented_lib (config_map ns ''app'' v), config_map ns ''app'' v)) nvs"

definition canonical_scope :: Scope where
  "canonical_scope =
     \<lparr>sc_ComparedKinds = [], sc_KnownDivergences = [], sc_IgnoreLabels = [], sc_CanonicalNamespace = ''kube-system''\<rparr>"

theorem Scope_Apply_complete_witness:
  "Scope_Apply documented_lib canonical_scope (config_set [(''a'', ''1'')]) =
     rekeyed documented_lib canonical_scope (config_set [(''a'', ''1'')])"
proof -
  have "distinct (map fst (rekeyed documented_lib canonical_scope (config_set [(''a'', ''1'')])))" by code_simp
  with Scope_Apply_complete [OF doc.unstructured_lib_axioms] show ?thesis by blast
qed

text \<open>
  When they do collide, the object that is kept is the one that is visited last: drift in the
  other one is not reported, or is, depending on the order in which the map is visited.
\<close>

theorem canonical_hides_drift:
  "\<not> Report_Equal (fst (Compare documented_lib (config_set [(''b'', ''1''), (''a'', ''1'')]) (config_set [(''b'', ''2''), (''a'', ''1'')]))) \<and>
   Report_Equal (fst (CompareScoped documented_lib canonical_scope
     (Scope_Apply documented_lib canonical_scope (config_set [(''b'', ''1''), (''a'', ''1'')]))
     (Scope_Apply documented_lib canonical_scope (config_set [(''b'', ''2''), (''a'', ''1'')])))) \<and>
   \<not> Report_Equal (fst (CompareScoped documented_lib canonical_scope
     (Scope_Apply documented_lib canonical_scope (config_set [(''a'', ''1''), (''b'', ''1'')]))
     (Scope_Apply documented_lib canonical_scope (config_set [(''a'', ''1''), (''b'', ''2'')]))))"
  by code_simp

end
