(* ===== verification/Base64.thy ===== *)
theory Base64
  imports Unstructured
begin

text \<open>
  \<open>encoding/base64.StdEncoding.DecodeString\<close>, as the golden unwrapping uses it: the standard
  alphabet with padding, newlines ignored, trailing bits not checked, and the offset of the
  offending byte in the error. The encoder is the reference for the round trip.
\<close>

section \<open>The alphabet\<close>

definition encodeStd :: string where
  "encodeStd = ''ABCDEFGHIJKLMNOPQRSTUVWXYZabcdefghijklmnopqrstuvwxyz0123456789+/''"

definition padChar :: char where
  "padChar = CHR ''=''"

text \<open>The position of a byte in the alphabet.\<close>

definition decodeMap :: "char \<Rightarrow> nat option" where
  "decodeMap c = map_of (zip encodeStd [0..<64]) c"

definition is_newline :: "char \<Rightarrow> bool" where
  "is_newline c \<longleftrightarrow> c = CHR 0x0A \<or> c = CHR 0x0D"

section \<open>Decoding\<close>

text \<open>The bytes that two, three or four digits stand for.\<close>

definition quantum_value :: "nat list \<Rightarrow> nat" where
  "quantum_value ds =
     (let d = (\<lambda>i. if i < length ds then ds ! i else 0) in d 0 * 2 ^ 18 + d 1 * 2 ^ 12 + d 2 * 2 ^ 6 + d 3)"

definition quantum_bytes :: "nat list \<Rightarrow> string" where
  "quantum_bytes ds =
     (let v = quantum_value ds in
      take (length ds - 1) [char_of (v div 2 ^ 16), char_of (v div 2 ^ 8), char_of v])"

text \<open>
  \<open>decodeQuantum\<close> on the rest of an input of length \<open>n\<close>, with the digits read so far: the offset
  of an error, or the bytes and what is left of the input.
\<close>

definition after_padding :: "nat \<Rightarrow> nat list \<Rightarrow> string \<Rightarrow> nat + string \<times> string" where
  "after_padding n ds src =
     (let src' = dropWhile is_newline src in
      if src' \<noteq> [] then Inl (n - length src') else Inr (quantum_bytes ds, []))"

definition padding :: "nat \<Rightarrow> nat list \<Rightarrow> string \<Rightarrow> nat + string \<times> string" where
  "padding n ds src =
     (if length ds < 2 then Inl (n - length src - 1)
      else if length ds = 2 then
        (case dropWhile is_newline src of
           [] \<Rightarrow> Inl n
         | c # cs \<Rightarrow> if c \<noteq> padChar then Inl (n - length (c # cs) - 1) else after_padding n ds cs)
      else after_padding n ds src)"

fun decodeQuantum :: "nat \<Rightarrow> nat list \<Rightarrow> string \<Rightarrow> nat + string \<times> string" where
  "decodeQuantum n ds [] =
     (if length ds = 4 then Inr (quantum_bytes ds, [])
      else if ds = [] then Inr ([], [])
      else Inl (n - length ds))"
| "decodeQuantum n ds (c # cs) =
     (if length ds = 4 then Inr (quantum_bytes ds, c # cs)
      else
        (case decodeMap c of
           Some d \<Rightarrow> decodeQuantum n (ds @ [d]) cs
         | None \<Rightarrow>
             if is_newline c then decodeQuantum n ds cs
             else if c \<noteq> padChar then Inl (n - length cs - 1)
             else padding n ds cs))"

lemma after_padding_rest: "after_padding n ds src = Inr (bs, rest) \<Longrightarrow> rest = []"
  by (auto simp: after_padding_def Let_def split: if_splits)

lemma padding_rest: "padding n ds src = Inr (bs, rest) \<Longrightarrow> rest = []"
  by (auto simp: padding_def after_padding_rest split: if_splits list.splits)

lemma decodeQuantum_le: "decodeQuantum n ds src = Inr (bs, rest) \<Longrightarrow> length rest \<le> length src"
  by (induction n ds src rule: decodeQuantum.induct)
    (auto split: if_splits option.splits dest: padding_rest)

lemma decodeQuantum_less:
  "decodeQuantum n ds src = Inr (bs, rest) \<Longrightarrow> src \<noteq> [] \<Longrightarrow> length ds < 4 \<Longrightarrow> length rest < length src"
  by (cases src) (auto split: if_splits option.splits dest: padding_rest decodeQuantum_le simp: less_Suc_eq_le)

function decode_loop :: "nat \<Rightarrow> string \<Rightarrow> nat + string" where
  "decode_loop n src =
     (if src = [] then Inr []
      else
        (case decodeQuantum n [] src of
           Inl off \<Rightarrow> Inl off
         | Inr (bs, rest) \<Rightarrow> (case decode_loop n rest of Inl off \<Rightarrow> Inl off | Inr out \<Rightarrow> Inr (bs @ out))))"
  by pat_completeness auto
termination
  by (relation "measure (\<lambda>(n, src). length src)") (auto dest: decodeQuantum_less)

declare decode_loop.simps [simp del]

definition base64_DecodeString :: "string \<Rightarrow> string result" where
  "base64_DecodeString s =
     (case decode_loop (length s) s of
        Inl off \<Rightarrow> Inl (ErrNew (''illegal base64 data at input byte '' @ show_nat off))
      | Inr bs \<Rightarrow> Inr bs)"

section \<open>The encoder, and the round trip\<close>

definition encode_digit :: "nat \<Rightarrow> char" where
  "encode_digit d = encodeStd ! d"

definition byte_val :: "char \<Rightarrow> nat" where
  "byte_val c = of_char c"

fun base64_encode :: "string \<Rightarrow> string" where
  "base64_encode [] = []"
| "base64_encode [a] =
     (let v = byte_val a * 2 ^ 16
      in [encode_digit (v div 2 ^ 18), encode_digit (v div 2 ^ 12 mod 64), padChar, padChar])"
| "base64_encode [a, b] =
     (let v = byte_val a * 2 ^ 16 + byte_val b * 2 ^ 8
      in [encode_digit (v div 2 ^ 18), encode_digit (v div 2 ^ 12 mod 64), encode_digit (v div 2 ^ 6 mod 64), padChar])"
| "base64_encode (a # b # c # rest) =
     (let v = byte_val a * 2 ^ 16 + byte_val b * 2 ^ 8 + byte_val c
      in [encode_digit (v div 2 ^ 18), encode_digit (v div 2 ^ 12 mod 64), encode_digit (v div 2 ^ 6 mod 64),
          encode_digit (v mod 64)] @ base64_encode rest)"

lemma encode_digits: "list_all (\<lambda>d. decodeMap (encode_digit d) = Some d) [0..<64]"
  by code_simp

lemma decodeMap_encode [simp]: "d < 64 \<Longrightarrow> decodeMap (encode_digit d) = Some d"
  using encode_digits by (simp add: list_all_iff)

lemma decodeMap_pad [simp]: "decodeMap padChar = None"
  by code_simp

lemma pad_not_newline [simp]: "\<not> is_newline padChar"
  by (simp add: is_newline_def padChar_def)

lemma byte_val_less: "byte_val c < 256"
  by (simp add: byte_val_def)

lemma char_of_byte_val: "char_of (byte_val c) = c"
  by (simp add: byte_val_def)

text \<open>The four digits of a number of 24 bits give it back.\<close>

lemma digits_value:
  "v div 2 ^ 18 * 2 ^ 18 + v div 2 ^ 12 mod 64 * 2 ^ 12 + v div 2 ^ 6 mod 64 * 2 ^ 6 + v mod 64 = (v::nat)"
proof -
  have "v div 262144 * 64 + v div 4096 mod 64 = v div 4096"
    using div_mult_mod_eq [of "v div 4096" 64] by (simp flip: div_mult2_eq)
  moreover have "v div 4096 * 64 + v div 64 mod 64 = v div 64"
    using div_mult_mod_eq [of "v div 64" 64] by (simp flip: div_mult2_eq)
  moreover have "v div 64 * 64 + v mod 64 = v" by (rule div_mult_mod_eq)
  ultimately have "v div 262144 * 262144 + v div 4096 mod 64 * 4096 + v div 64 mod 64 * 64 + v mod 64 = v"
    by linarith
  then show ?thesis by simp
qed

lemma decode_loop_step:
  "decodeQuantum n [] src = Inr (bs, rest) \<Longrightarrow> src \<noteq> [] \<Longrightarrow> decode_loop n rest = Inr out \<Longrightarrow>
   decode_loop n src = Inr (bs @ out)"
  by (subst decode_loop.simps) simp

lemma decode_loop_Nil: "decode_loop n [] = Inr []"
  by (simp add: decode_loop.simps)

text \<open>One group of digits, with the padding it ends in.\<close>

lemma decodeQuantum_full:
  assumes "d0 < 64" "d1 < 64" "d2 < 64" "d3 < 64"
  shows "decodeQuantum n [] (encode_digit d0 # encode_digit d1 # encode_digit d2 # encode_digit d3 # rest) =
    Inr (quantum_bytes [d0, d1, d2, d3], rest)"
  using assms by (cases rest) simp_all

lemma decodeQuantum_pad:
  assumes "d0 < 64" "d1 < 64" "d2 < 64"
  shows "decodeQuantum n [] [encode_digit d0, encode_digit d1, padChar, padChar] = Inr (quantum_bytes [d0, d1], [])"
    and "decodeQuantum n [] [encode_digit d0, encode_digit d1, encode_digit d2, padChar] = Inr (quantum_bytes [d0, d1, d2], [])"
  using assms by (simp_all add: padding_def after_padding_def)

lemma div_small: "v < 2 ^ 24 \<Longrightarrow> v div 2 ^ 18 < (64::nat)"
  by (simp add: less_mult_imp_div_less)

lemma bytes_of:
  fixes a b c :: char
  defines "v \<equiv> byte_val a * 2 ^ 16 + byte_val b * 2 ^ 8 + byte_val c"
  shows "v < 2 ^ 24" and "char_of (v div 2 ^ 16) = a" and "char_of (v div 2 ^ 8) = b" and "char_of v = c"
proof -
  note less = byte_val_less [of a] byte_val_less [of b] byte_val_less [of c]
  show "v < 2 ^ 24" using less by (simp add: v_def)
  have "v div 2 ^ 16 = byte_val a" using less by (simp add: v_def)
  then show "char_of (v div 2 ^ 16) = a" by (simp add: char_of_byte_val)
  have low: "char_of (k * 256 + byte_val x) = x" for x k
    by (subst char_of_mod_256 [symmetric]) (simp add: byte_val_less char_of_byte_val)
  have "v div 2 ^ 8 = byte_val a * 256 + byte_val b" using less by (simp add: v_def)
  then show "char_of (v div 2 ^ 8) = b" by (simp add: low)
  have "v = (byte_val a * 256 + byte_val b) * 256 + byte_val c" by (simp add: v_def)
  then show "char_of v = c" by (simp only: low)
qed

lemma byte_val_0: "byte_val (CHR 0x00) = 0"
  by (simp add: byte_val_def)

lemma decode_loop_encode: "decode_loop n (base64_encode bs) = Inr bs"
proof (induction bs rule: base64_encode.induct)
  case 1
  show ?case by (simp add: decode_loop_Nil)
next
  case (2 a)
  define v where "v = byte_val a * 2 ^ 16"
  note v = bytes_of [of a "CHR 0x00" "CHR 0x00", unfolded byte_val_0]
  have "v div 2 ^ 18 * 2 ^ 18 + v div 2 ^ 12 mod 64 * 2 ^ 12 = v"
    using digits_value [of v] by (simp add: v_def)
  then have "quantum_bytes [v div 2 ^ 18, v div 2 ^ 12 mod 64] = [a]"
    using v by (simp add: quantum_bytes_def quantum_value_def v_def)
  moreover have "v div 2 ^ 18 < 64" using v by (intro div_small) (simp add: v_def)
  ultimately show ?case
    using decode_loop_step [OF decodeQuantum_pad(1) [of "v div 2 ^ 18" "v div 2 ^ 12 mod 64" 0 n] _ decode_loop_Nil]
    by (simp add: v_def Let_def)
next
  case (3 a b)
  define v where "v = byte_val a * 2 ^ 16 + byte_val b * 2 ^ 8"
  note v = bytes_of [of a b "CHR 0x00", unfolded byte_val_0]
  have "v = (byte_val a * 1024 + byte_val b * 4) * 64" by (simp add: v_def)
  then have "v mod 64 = 0" by (simp only: mod_mult_self2_is_0)
  then have "v div 2 ^ 18 * 2 ^ 18 + v div 2 ^ 12 mod 64 * 2 ^ 12 + v div 2 ^ 6 mod 64 * 2 ^ 6 = v"
    using digits_value [of v] by simp
  then have "quantum_bytes [v div 2 ^ 18, v div 2 ^ 12 mod 64, v div 2 ^ 6 mod 64] = [a, b]"
    using v by (simp add: quantum_bytes_def quantum_value_def v_def)
  moreover have "v div 2 ^ 18 < 64" using v by (intro div_small) (simp add: v_def)
  ultimately show ?case
    using decode_loop_step [OF decodeQuantum_pad(2) [of "v div 2 ^ 18" "v div 2 ^ 12 mod 64" "v div 2 ^ 6 mod 64" n] _ decode_loop_Nil]
    by (simp add: v_def Let_def)
next
  case (4 a b c rest)
  define v where "v = byte_val a * 2 ^ 16 + byte_val b * 2 ^ 8 + byte_val c"
  note v = bytes_of [of a b c, folded v_def]
  have "quantum_bytes [v div 2 ^ 18, v div 2 ^ 12 mod 64, v div 2 ^ 6 mod 64, v mod 64] = [a, b, c]"
    using v digits_value [of v] by (simp add: quantum_bytes_def quantum_value_def)
  moreover have "v div 2 ^ 18 < 64" using v(1) by (rule div_small)
  ultimately show ?case
    using decode_loop_step [OF decodeQuantum_full [of "v div 2 ^ 18" "v div 2 ^ 12 mod 64" "v div 2 ^ 6 mod 64" "v mod 64" n] _ 4 [OF refl]]
    by (simp add: v_def Let_def)
qed

lemma DecodeString_encode: "base64_DecodeString (base64_encode bs) = Inr bs"
  by (simp add: base64_DecodeString_def decode_loop_encode)

end
