(* ===== verification/Golden.thy ===== *)
theory Golden
  imports Scoping RenderSource Base64
begin

text \<open>
  The golden half of \<open>internal/equivalence\<close>: unwrapping and classifying a rendered chart
  (golden_classify.go), rendering it from git (golden_render.go) and loading a fixture
  (fixture.go). Decoding of YAML into maps and structs and the name of a loaded chart belong to
  libraries: they are the fields of \<open>goldlib\<close>.
\<close>

record goldlib =
  YAMLMap :: "string \<Rightarrow> jobj result"
  ChartName :: "chart \<Rightarrow> string"

section \<open>Documents (golden\_classify.go)\<close>

fun split_docs :: "jobj result list \<Rightarrow> jobj list result" where
  "split_docs [] = Inr []"
| "split_docs (Inl e # docs) = Inl (ErrWrap ''equivalence: decode YAML doc: '' e [])"
| "split_docs (Inr m # docs) =
     (if length m = 0 then split_docs docs else bind_res (split_docs docs) (\<lambda>out. Inr (m # out)))"

definition splitYAMLDocs :: "srclib \<Rightarrow> string \<Rightarrow> jobj list result" where
  "splitYAMLDocs X b = split_docs (DecodeYAML X b)"

section \<open>Classification\<close>

record GoldenOpts =
  go_ChartFullname :: string
  go_Exclusions :: "ExclusionEntry list"

record Classified =
  cl_Seed :: ObjectSet
  cl_Shoot :: ObjectSet

fun isExcluded :: "klib \<Rightarrow> jobj \<Rightarrow> ExclusionEntry list \<Rightarrow> bool" where
  "isExcluded L u [] = False"
| "isExcluded L u (e # es) = (if GetKind L u = ex_Kind e \<and> GetName L u = ex_Name e then True else isExcluded L u es)"

definition isManagedResource :: "klib \<Rightarrow> jobj \<Rightarrow> bool" where
  "isManagedResource L u \<longleftrightarrow>
     GetKind L u = ''ManagedResource'' \<and> gvk_Group (GroupVersionKind L u) = ''resources.gardener.cloud''"

definition isInjectorConfigMap :: "klib \<Rightarrow> jobj \<Rightarrow> string \<Rightarrow> bool" where
  "isInjectorConfigMap L u fullname =
     (if GetKind L u \<noteq> ''ConfigMap'' \<or> GetName L u \<noteq> fullname @ ''-webhook-config'' then False
      else
        (case NestedMap L u [''data''] of
           Inr (Some data) \<Rightarrow> if length data \<noteq> 1 then False else map_of data ''webhooks.yaml'' \<noteq> None
         | _ \<Rightarrow> False))"

definition decodeWebhooks :: "klib \<Rightarrow> srclib \<Rightarrow> jobj \<Rightarrow> jobj list result" where
  "decodeWebhooks L X u =
     bind_res (NestedString L u [''data'', ''webhooks.yaml''])
       (\<lambda>raw. splitYAMLDocs X (case raw of None \<Rightarrow> [] | Some s \<Rightarrow> s))"

text \<open>\<open>set[KeyOf(u)] = u\<close> for every object in turn.\<close>

fun put_all :: "klib \<Rightarrow> jobj list \<Rightarrow> ObjectSet \<Rightarrow> ObjectSet" where
  "put_all L [] s = s"
| "put_all L (u # us) s = put_all L us (AList.update (KeyOf L u) u s)"

fun classify_docs :: "klib \<Rightarrow> srclib \<Rightarrow> GoldenOpts \<Rightarrow> jobj list \<Rightarrow> Classified \<Rightarrow> Classified result" where
  "classify_docs L X opts [] out = Inr out"
| "classify_docs L X opts (d # docs) out =
     (if isExcluded L d (go_Exclusions opts) then classify_docs L X opts docs out
      else if isManagedResource L d then classify_docs L X opts docs out
      else if isInjectorConfigMap L d (go_ChartFullname opts) then
        (case decodeWebhooks L X d of
           Inl err \<Rightarrow>
             Inl (ErrWrap (''equivalence: unwrap injector ConfigMap '' @ strconv_Quote (GetName L d) @ '': '') err [])
         | Inr whs \<Rightarrow> classify_docs L X opts docs (out\<lparr>cl_Shoot := put_all L whs (cl_Shoot out)\<rparr>))
      else classify_docs L X opts docs (out\<lparr>cl_Seed := put_all L [d] (cl_Seed out)\<rparr>))"

definition ClassifyGolden ::
  "klib \<Rightarrow> srclib \<Rightarrow> jobj list \<Rightarrow> jobj list \<Rightarrow> GoldenOpts \<Rightarrow> Classified result" where
  "ClassifyGolden L X docs shootFromMR opts =
     classify_docs L X opts docs
       \<lparr>cl_Seed = [], cl_Shoot = put_all L (filter (\<lambda>d. \<not> isExcluded L d (go_Exclusions opts)) shootFromMR) []\<rparr>"

section \<open>Managed resources\<close>

text \<open>The rendered secrets by name; a later one of the same name wins.\<close>

fun secretsByName :: "klib \<Rightarrow> jobj list \<Rightarrow> (string \<times> jobj) list \<Rightarrow> (string \<times> jobj) list" where
  "secretsByName L [] m = m"
| "secretsByName L (d # docs) m =
     secretsByName L docs (if GetKind L d = ''Secret'' then AList.update (GetName L d) d m else m)"

definition payload :: "klib \<Rightarrow> srclib \<Rightarrow> string \<Rightarrow> jobj \<Rightarrow> jobj list result" where
  "payload L X name sec =
     bind_res (NestedString L sec [''data'', ''objects.yaml'']) (\<lambda>found.
       (let enc = (case found of None \<Rightarrow> [] | Some s \<Rightarrow> s) in
        if found = None \<or> enc = [] then
          Inl (ErrNew (''equivalence: MR secret '' @ strconv_Quote name @ '' has no non-empty data[objects.yaml]''))
        else
          (case base64_DecodeString enc of
             Inl decErr \<Rightarrow>
               Inl (ErrWrap (''equivalence: decode MR secret '' @ strconv_Quote name @ '' objects.yaml: '') decErr [])
           | Inr raw \<Rightarrow>
               (case splitYAMLDocs X raw of
                  Inl splitErr \<Rightarrow>
                    Inl (ErrWrap (''equivalence: split MR secret '' @ strconv_Quote name @ '' payload: '') splitErr [])
                | Inr objs \<Rightarrow> Inr objs))))"

text \<open>The references of one managed resource: the objects they carry and the names they mention.\<close>

fun unwrap_refs ::
  "klib \<Rightarrow> srclib \<Rightarrow> (string \<times> jobj) list \<Rightarrow> string \<Rightarrow> jval list \<Rightarrow> (jobj list \<times> string list) result" where
  "unwrap_refs L X secrets mr [] = Inr ([], [])"
| "unwrap_refs L X secrets mr (r # refs) =
     (case as_obj (Some r) of
        None \<Rightarrow> unwrap_refs L X secrets mr refs
      | Some m \<Rightarrow>
          (let name = as_str (map_of m ''name'') in
           case map_of secrets name of
             None \<Rightarrow>
               Inl (ErrNew (''equivalence: MR '' @ strconv_Quote mr @ '' references Secret '' @ strconv_Quote name @
                 '' not found in render''))
           | Some sec \<Rightarrow>
               bind_res (payload L X name sec) (\<lambda>objs.
               bind_res (unwrap_refs L X secrets mr refs) (\<lambda>(os, ns). Inr (objs @ os, name # ns)))))"

definition unwrap_one ::
  "klib \<Rightarrow> srclib \<Rightarrow> (string \<times> jobj) list \<Rightarrow> jobj \<Rightarrow> (jobj list \<times> string list) result" where
  "unwrap_one L X secrets d =
     bind_res (NestedSlice L d [''spec'', ''secretRefs'']) (\<lambda>refs.
       unwrap_refs L X secrets (GetName L d) (case refs of None \<Rightarrow> [] | Some rs \<Rightarrow> rs))"

definition UnwrapManagedResources :: "klib \<Rightarrow> srclib \<Rightarrow> jobj list \<Rightarrow> (jobj list \<times> jobj list) result" where
  "UnwrapManagedResources L X docs =
     (let secrets = secretsByName L docs [] in
      bind_res (map_res (unwrap_one L X secrets) (filter (isManagedResource L) docs)) (\<lambda>parts.
        let fromMR = concat (map fst parts); referenced = concat (map snd parts)
        in Inr (fromMR,
             filter (\<lambda>d. \<not> isManagedResource L d \<and> \<not> (GetKind L d = ''Secret'' \<and> GetName L d \<in> set referenced)) docs)))"

section \<open>Values (golden\_render.go)\<close>

fun deepMerge :: "jobj \<Rightarrow> jobj \<Rightarrow> jobj" where
  "deepMerge base [] = base"
| "deepMerge base ((k, v) # over) =
     deepMerge
       (case (as_obj (map_of base k), v) of
          (Some bv, JObj ov) \<Rightarrow> AList.update k (JObj (deepMerge bv ov)) base
        | _ \<Rightarrow> AList.update k v base) over"

fun merge_docs :: "goldlib \<Rightarrow> jobj \<Rightarrow> string list \<Rightarrow> jobj result" where
  "merge_docs G out [] = Inr out"
| "merge_docs G out (d # docs) =
     (if length d = 0 then merge_docs G out docs
      else
        (case YAMLMap G d of
           Inl err \<Rightarrow> Inl (ErrWrap ''golden: parse values: '' err [])
         | Inr m \<Rightarrow> merge_docs G (deepMerge out m) docs))"

definition mergeValuesYAML :: "goldlib \<Rightarrow> string list \<Rightarrow> jobj result" where
  "mergeValuesYAML G docs = merge_docs G [] docs"

section \<open>Rendering the golden chart\<close>

record GoldenRenderReq =
  gr_RepoURL :: string
  gr_SHA :: string
  gr_ChartPath :: string
  gr_ValuesYAML :: "string list"
  gr_Namespace :: string

text \<open>Step 1: clone at the pinned commit.\<close>

definition golden_clone :: "srclib \<Rightarrow> src_env \<Rightarrow> GoldenRenderReq \<Rightarrow> string \<Rightarrow> (event, unit result) io" where
  "golden_clone X S req tmp =
     bind_io (wrap_io ''golden: git init: '' [] (git_call S (\<lambda>G. ePlainInit G tmp) (PlainInit tmp))) (\<lambda>_.
     bind_io (wrap_io ''golden: git remote: '' []
       (git_call S (\<lambda>G. eCreateRemote G tmp (gr_RepoURL req)) (CreateRemote tmp (gr_RepoURL req)))) (\<lambda>_.
     let refspecs = [''+refs/heads/*:refs/heads/*'', ''+refs/tags/*:refs/tags/*''] in
     bind_io (wrap_io ''golden: git fetch: '' []
       (git_call S (\<lambda>G. eFetch G tmp refspecs None) (Fetch tmp refspecs None))) (\<lambda>_.
     bind_io (wrap_io ''golden: worktree: '' [] (git_call S (\<lambda>G. eWorktree G tmp) (Worktree tmp))) (\<lambda>_.
     wrap_io (''golden: checkout '' @ gr_SHA req @ '': '') []
       (git_call S (\<lambda>G. eCheckout G tmp (NewHash X (gr_SHA req))) (Checkout tmp (NewHash X (gr_SHA req))))))))"

text \<open>Steps 2 and 3: build the dependencies, load and template the chart.\<close>

definition golden_template ::
  "srclib \<Rightarrow> goldlib \<Rightarrow> src_env \<Rightarrow> GoldenRenderReq \<Rightarrow> string \<Rightarrow> (event, jobj list result) io" where
  "golden_template X G S req chartDir =
     bind_io (wrap_io ''golden: registry client: '' []
       (helm_call S (\<lambda>H. eRegistryNewClient H None) (RegistryNewClient None))) (\<lambda>_.
     bind_io (wrap_io (''golden: dependency build '' @ gr_ChartPath req @ '': '') []
       (helm_call S (\<lambda>H. eDepBuild H None chartDir) (DepBuild None chartDir))) (\<lambda>_.
     bind_io (wrap_io ''golden: load chart: '' []
       (helm_call S (\<lambda>H. eLoadChart H chartDir) (LoadChart chartDir))) (\<lambda>ch.
     bind_io (State_Monad.return (mergeValuesYAML G (gr_ValuesYAML req))) (\<lambda>vals.
     bind_io (wrap_io (''golden: template '' @ gr_ChartPath req @ '': '') []
       (helm_call S (\<lambda>H. eInstall H ch vals (ChartName G ch) (gr_Namespace req))
         (Install ch vals (ChartName G ch) (gr_Namespace req)))) (\<lambda>rendered.
     State_Monad.return (splitYAMLDocs X rendered))))))"

definition RenderGolden ::
  "srclib \<Rightarrow> goldlib \<Rightarrow> src_env \<Rightarrow> GoldenRenderReq \<Rightarrow> (event, jobj list result) io" where
  "RenderGolden X G S req =
     bind_io (fs_call S (\<lambda>F. eMkdirTemp F [] ''ddo-golden-git-'') (MkdirTemp [] ''ddo-golden-git-'')) (\<lambda>tmp. do {
       res \<leftarrow> bind_io (golden_clone X S req tmp) (\<lambda>_.
         golden_template X G S req (filepath_Join [tmp, gr_ChartPath req]));
       _ \<leftarrow> report (EvFS (RemoveAll tmp));
       State_Monad.return res
     })"

section \<open>Fixtures (fixture.go)\<close>

text \<open>Unset until it has been loaded, the custom resource is an option.\<close>

record Fixture =
  fx_Operator :: string
  fx_ChartFullname :: string
  fx_RepoURL :: string
  fx_SHA :: string
  fx_ChartPath :: string
  fx_OverlayValues :: string
  fx_CRFile :: string
  fx_Exclusions :: "ExclusionEntry list"
  fx_ComparedKinds :: "string list"
  fx_KnownDivergences :: "ExclusionEntry list"
  fx_IgnoreLabels :: "string list"
  fx_CanonicalNamespace :: string
  fx_CR :: "DualDeploymentOperator option"
  fx_OverlayRaw :: string
  fx_Dir :: string

text \<open>\<open>yaml.Unmarshal\<close> into a fixture and into a custom resource are arguments.\<close>

definition LoadFixture ::
  "(string \<Rightarrow> Fixture result) \<Rightarrow> (string \<Rightarrow> DualDeploymentOperator result) \<Rightarrow> src_env \<Rightarrow> string \<Rightarrow>
   (event, Fixture result) io" where
  "LoadFixture yamlFixture yamlCR S dir =
     (let read = (\<lambda>p. fs_call S (\<lambda>F. eReadFile F p) (ReadFile p)) in
      bind_io (read (filepath_Join [dir, ''fixture.yaml''])) (\<lambda>b.
      bind_io (wrap_io ''fixture: parse fixture.yaml: '' [] (State_Monad.return (yamlFixture b))) (\<lambda>f.
      let f = f\<lparr>fx_Dir := dir\<rparr> in
      bind_io (read (filepath_Join [dir, fx_CRFile f])) (\<lambda>crBytes.
      bind_io (wrap_io ''fixture: parse cr: '' [] (State_Monad.return (yamlCR crBytes))) (\<lambda>cr.
      let f = f\<lparr>fx_CR := Some cr\<rparr> in
      bind_io (read (filepath_Join [dir, fx_OverlayValues f])) (\<lambda>raw.
      State_Monad.return (Inr (f\<lparr>fx_OverlayRaw := raw\<rparr>))))))))"

section \<open>Object sets from lists\<close>

lemma put_all_keys: "fst ` set (put_all L us s) = KeyOf L ` set us \<union> fst ` set s"
  by (induction us arbitrary: s) (auto simp: dom_update [unfolded dom_map_of_conv_image_fst])

lemma put_all_distinct: "distinct (map fst s) \<Longrightarrow> distinct (map fst (put_all L us s))"
  by (induction us arbitrary: s) simp_all

lemma put_all_append: "put_all L (us @ vs) s = put_all L vs (put_all L us s)"
  by (induction us arbitrary: s) simp_all

text \<open>The object under a key is the last one with that key.\<close>

lemma put_all_lookup:
  "map_of (put_all L us s) k =
     (case filter (\<lambda>u. KeyOf L u = k) us of [] \<Rightarrow> map_of s k | vs \<Rightarrow> Some (last vs))"
  by (induction us arbitrary: s) (auto split: list.splits)

definition stored :: "klib \<Rightarrow> ObjectSet \<Rightarrow> jobj \<Rightarrow> bool" where
  "stored L s u \<longleftrightarrow> map_of s (KeyOf L u) = Some u"

lemma put_all_stored:
  assumes "inj_on (KeyOf L) (set us)" and "u \<in> set us"
  shows "stored L (put_all L us s) u"
proof -
  let ?vs = "filter (\<lambda>v. KeyOf L v = KeyOf L u) us"
  from assms(2) have ne: "?vs \<noteq> []" by (auto simp: filter_empty_conv)
  then have "last ?vs \<in> set ?vs" by (rule last_in_set)
  then have "last ?vs = u" using assms by (auto dest: inj_onD)
  with ne show ?thesis by (auto simp: stored_def put_all_lookup split: list.split)
qed

lemma put_all_member:
  assumes "map_of (put_all L us []) k = Some u"
  shows "u \<in> set us \<and> KeyOf L u = k"
proof -
  let ?vs = "filter (\<lambda>v. KeyOf L v = k) us"
  from assms have "?vs \<noteq> [] \<and> u = last ?vs" by (auto simp: put_all_lookup split: list.splits)
  then have "u \<in> set ?vs" using last_in_set by blast
  then show ?thesis by simp
qed

section \<open>Classification loses nothing\<close>

text \<open>The documents that go to the seed set as they are, and the webhooks in the injector's config map.\<close>

definition plain_doc :: "klib \<Rightarrow> GoldenOpts \<Rightarrow> jobj \<Rightarrow> bool" where
  "plain_doc L opts d \<longleftrightarrow>
     \<not> isExcluded L d (go_Exclusions opts) \<and> \<not> isManagedResource L d \<and> \<not> isInjectorConfigMap L d (go_ChartFullname opts)"

definition injector_doc :: "klib \<Rightarrow> GoldenOpts \<Rightarrow> jobj \<Rightarrow> bool" where
  "injector_doc L opts d \<longleftrightarrow>
     \<not> isExcluded L d (go_Exclusions opts) \<and> \<not> isManagedResource L d \<and> isInjectorConfigMap L d (go_ChartFullname opts)"

definition webhooks_in :: "klib \<Rightarrow> srclib \<Rightarrow> jobj \<Rightarrow> jobj list" where
  "webhooks_in L X d = (case decodeWebhooks L X d of Inl e \<Rightarrow> [] | Inr whs \<Rightarrow> whs)"

lemma classify_docs_eq:
  "classify_docs L X opts docs out = Inr res \<longleftrightarrow>
     (\<forall>d\<in>set docs. injector_doc L opts d \<longrightarrow> (\<exists>whs. decodeWebhooks L X d = Inr whs)) \<and>
     res = \<lparr>cl_Seed = put_all L (filter (plain_doc L opts) docs) (cl_Seed out),
            cl_Shoot = put_all L (concat (map (webhooks_in L X) (filter (injector_doc L opts) docs))) (cl_Shoot out)\<rparr>"
proof (induction docs arbitrary: out)
  case (Cons d docs)
  consider "plain_doc L opts d" "\<not> injector_doc L opts d" | "injector_doc L opts d" "\<not> plain_doc L opts d"
    | "isExcluded L d (go_Exclusions opts) \<or> isManagedResource L d" "\<not> plain_doc L opts d" "\<not> injector_doc L opts d"
    unfolding plain_doc_def injector_doc_def by blast
  then show ?case
  proof cases
    case 1
    then show ?thesis by (simp add: Cons.IH) (auto simp: plain_doc_def)
  next
    case 2
    then show ?thesis
      by (cases "decodeWebhooks L X d") (auto simp: injector_doc_def webhooks_in_def put_all_append Cons.IH)
  next
    case 3
    then show ?thesis by (auto simp: Cons.IH)
  qed
qed auto

lemma ClassifyGolden_eq:
  "ClassifyGolden L X docs shootFromMR opts = Inr res \<longleftrightarrow>
     (\<forall>d\<in>set docs. injector_doc L opts d \<longrightarrow> (\<exists>whs. decodeWebhooks L X d = Inr whs)) \<and>
     res = \<lparr>cl_Seed = put_all L (filter (plain_doc L opts) docs) [],
            cl_Shoot = put_all L (filter (\<lambda>d. \<not> isExcluded L d (go_Exclusions opts)) shootFromMR @
              concat (map (webhooks_in L X) (filter (injector_doc L opts) docs))) []\<rparr>"
  by (simp add: ClassifyGolden_def classify_docs_eq put_all_append)

lemma isExcluded_iff: "isExcluded L u es \<longleftrightarrow> (\<exists>e\<in>set es. GetKind L u = ex_Kind e \<and> GetName L u = ex_Name e)"
  by (induction es) auto

section \<open>Unwrapping loses nothing\<close>

definition secret_refs :: "klib \<Rightarrow> jobj \<Rightarrow> string list" where
  "secret_refs L d =
     (case NestedSlice L d [''spec'', ''secretRefs''] of
        Inr (Some rs) \<Rightarrow> map (\<lambda>m. as_str (map_of m ''name'')) (List.map_filter (\<lambda>r. as_obj (Some r)) rs)
      | _ \<Rightarrow> [])"

definition mentioned :: "klib \<Rightarrow> jobj list \<Rightarrow> string list" where
  "mentioned L docs = concat (map (secret_refs L) (filter (isManagedResource L) docs))"

lemma secretsByName_lookup:
  "map_of (secretsByName L docs m) n =
     (case filter (\<lambda>d. GetKind L d = ''Secret'' \<and> GetName L d = n) docs of [] \<Rightarrow> map_of m n | ds \<Rightarrow> Some (last ds))"
  by (induction docs arbitrary: m) (auto split: list.splits)

lemma secretsByName_found:
  assumes "map_of (secretsByName L docs []) n = Some sec"
  shows "sec \<in> set docs" and "GetKind L sec = ''Secret''" and "GetName L sec = n"
proof -
  let ?ds = "filter (\<lambda>d. GetKind L d = ''Secret'' \<and> GetName L d = n) docs"
  have "?ds \<noteq> [] \<and> sec = last ?ds"
  proof (cases ?ds)
    case Nil
    then show ?thesis using assms by (simp add: secretsByName_lookup)
  next
    case (Cons d ds)
    then show ?thesis using assms unfolding secretsByName_lookup by simp
  qed
  then have "sec \<in> set ?ds" using last_in_set by blast
  then show "sec \<in> set docs" and "GetKind L sec = ''Secret''" and "GetName L sec = n" by simp_all
qed

lemma unwrap_refs_names:
  "unwrap_refs L X secrets mr refs = Inr (objs, names) \<Longrightarrow>
     names = map (\<lambda>m. as_str (map_of m ''name'')) (List.map_filter (\<lambda>r. as_obj (Some r)) refs)"
  by (induction L X secrets mr refs arbitrary: objs names rule: unwrap_refs.induct)
    (auto simp: bind_res_eq_Inr Let_def List.map_filter_simps split: option.splits)

text \<open>The objects are, in order, the payloads of the secrets under the mentioned names.\<close>

lemma unwrap_refs_payloads:
  "unwrap_refs L X secrets mr refs = Inr (objs, names) \<Longrightarrow>
     \<exists>ps. objs = concat ps \<and> list_all2 (\<lambda>n os. \<exists>sec. map_of secrets n = Some sec \<and> payload L X n sec = Inr os) names ps"
proof (induction L X secrets mr refs arbitrary: objs names rule: unwrap_refs.induct)
  case (2 L X secrets mr r refs)
  show ?case
  proof (cases "as_obj (Some r)")
    case None
    with 2 show ?thesis by simp
  next
    case (Some m)
    let ?n = "as_str (map_of m ''name'')"
    from Some "2.prems" obtain sec os1 os2 ns where sec: "map_of secrets ?n = Some sec" "payload L X ?n sec = Inr os1"
      and rest: "unwrap_refs L X secrets mr refs = Inr (os2, ns)" and eq: "objs = os1 @ os2" "names = ?n # ns"
      by (auto simp: Let_def bind_res_eq_Inr split: option.splits)
    from "2.IH"(2) [OF Some refl sec(1) rest] obtain ps where
      "os2 = concat ps" "list_all2 (\<lambda>n os. \<exists>sec. map_of secrets n = Some sec \<and> payload L X n sec = Inr os) ns ps" by blast
    with sec eq show ?thesis by (intro exI [of _ "os1 # ps"]) simp
  qed
qed simp

lemma unwrap_one_names: "unwrap_one L X secrets d = Inr (objs, names) \<Longrightarrow> names = secret_refs L d"
  by (auto simp: unwrap_one_def secret_refs_def bind_res_eq_Inr List.map_filter_simps
      dest!: unwrap_refs_names split: option.splits)

lemma unwrap_all_names:
  "list_all2 (\<lambda>d p. unwrap_one L X secrets d = Inr p) ds parts \<Longrightarrow> map snd parts = map (secret_refs L) ds"
  by (induction rule: list_all2_induct) (auto dest: unwrap_one_names)

lemma list_all2_partner: "list_all2 P xs ys \<Longrightarrow> x \<in> set xs \<Longrightarrow> \<exists>y. y \<in> set ys \<and> P x y"
  by (induction rule: list_all2_induct) auto

lemma UnwrapManagedResources_parts:
  assumes "UnwrapManagedResources L X docs = Inr (fromMR, pass)"
  obtains parts where "list_all2 (\<lambda>d p. unwrap_one L X (secretsByName L docs []) d = Inr p) (filter (isManagedResource L) docs) parts"
    "fromMR = concat (map fst parts)" "concat (map snd parts) = mentioned L docs"
    "pass = filter (\<lambda>d. \<not> isManagedResource L d \<and> \<not> (GetKind L d = ''Secret'' \<and> GetName L d \<in> set (mentioned L docs))) docs"
proof -
  from assms obtain parts where parts: "map_res (unwrap_one L X (secretsByName L docs [])) (filter (isManagedResource L) docs) = Inr parts"
    and fromMR: "fromMR = concat (map fst parts)"
    and pass: "pass = filter (\<lambda>d. \<not> isManagedResource L d \<and> \<not> (GetKind L d = ''Secret'' \<and> GetName L d \<in> set (concat (map snd parts)))) docs"
    by (auto simp: UnwrapManagedResources_def Let_def bind_res_eq_Inr)
  from parts have all: "list_all2 (\<lambda>d p. unwrap_one L X (secretsByName L docs []) d = Inr p) (filter (isManagedResource L) docs) parts"
    by (simp add: map_res_Inr_iff)
  then have "map snd parts = map (secret_refs L) (filter (isManagedResource L) docs)" by (rule unwrap_all_names)
  then have "concat (map snd parts) = mentioned L docs" by (simp add: mentioned_def)
  with all fromMR pass show thesis by (intro that [of parts]) auto
qed

lemma unwrap_all_payloads:
  "list_all2 (\<lambda>d p. unwrap_one L X secrets d = Inr p) ds parts \<Longrightarrow>
     \<exists>ps. concat (map fst parts) = concat ps \<and>
       list_all2 (\<lambda>n os. \<exists>sec. map_of secrets n = Some sec \<and> payload L X n sec = Inr os) (concat (map snd parts)) ps"
proof (induction rule: list_all2_induct)
  case (Cons d ds p parts)
  from Cons(1) obtain mr refs where "unwrap_refs L X secrets mr refs = Inr (fst p, snd p)"
    by (auto simp: unwrap_one_def bind_res_eq_Inr)
  from unwrap_refs_payloads [OF this] Cons(3) obtain ps qs where
    "fst p = concat ps" "concat (map fst parts) = concat qs"
    "list_all2 (\<lambda>n os. \<exists>sec. map_of secrets n = Some sec \<and> payload L X n sec = Inr os) (snd p) ps"
    "list_all2 (\<lambda>n os. \<exists>sec. map_of secrets n = Some sec \<and> payload L X n sec = Inr os) (concat (map snd parts)) qs" by blast
  then show ?case by (intro exI [of _ "ps @ qs"]) (simp add: list_all2_appendI)
qed simp

text \<open>A secret that was rendered, with what it carries.\<close>

definition carries :: "klib \<Rightarrow> srclib \<Rightarrow> jobj list \<Rightarrow> string \<Rightarrow> jobj list \<Rightarrow> bool" where
  "carries L X docs n objs \<longleftrightarrow>
     (\<exists>sec\<in>set docs. GetKind L sec = ''Secret'' \<and> GetName L sec = n \<and> payload L X n sec = Inr objs)"

lemma unwrapped_payloads:
  assumes "UnwrapManagedResources L X docs = Inr (fromMR, pass)"
  obtains payloads where "fromMR = concat payloads" "list_all2 (carries L X docs) (mentioned L docs) payloads"
proof -
  obtain parts where parts: "list_all2 (\<lambda>d p. unwrap_one L X (secretsByName L docs []) d = Inr p) (filter (isManagedResource L) docs) parts"
    and fromMR: "fromMR = concat (map fst parts)" and names: "concat (map snd parts) = mentioned L docs"
    by (rule UnwrapManagedResources_parts [OF assms])
  from unwrap_all_payloads [OF parts] obtain ps where ps: "fromMR = concat ps"
    and all: "list_all2 (\<lambda>n os. \<exists>sec. map_of (secretsByName L docs []) n = Some sec \<and> payload L X n sec = Inr os) (mentioned L docs) ps"
    unfolding fromMR names by blast
  have "list_all2 (carries L X docs) (mentioned L docs) ps"
    by (rule list_all2_mono [OF all]) (auto simp: carries_def dest: secretsByName_found)
  with ps show thesis by (rule that)
qed

lemma mentioned_carried:
  assumes "UnwrapManagedResources L X docs = Inr (fromMR, pass)" and "n \<in> set (mentioned L docs)"
  shows "\<exists>objs. carries L X docs n objs \<and> set objs \<subseteq> set fromMR"
proof -
  from unwrapped_payloads [OF assms(1)] obtain ps where "fromMR = concat ps" "list_all2 (carries L X docs) (mentioned L docs) ps" .
  with list_all2_partner [OF this(2) assms(2)] show ?thesis by auto
qed

text \<open>When the names of the secrets are unique, a dropped secret is one whose payload was unwrapped.\<close>

lemma dropped_secret_carried:
  assumes "UnwrapManagedResources L X docs = Inr (fromMR, pass)"
    and "inj_on (GetName L) {d \<in> set docs. GetKind L d = ''Secret''}"
    and "d \<in> set docs" "GetKind L d = ''Secret''" "GetName L d \<in> set (mentioned L docs)"
  shows "\<exists>objs. payload L X (GetName L d) d = Inr objs \<and> set objs \<subseteq> set fromMR"
proof -
  from mentioned_carried [OF assms(1,5)] obtain sec objs where sec: "sec \<in> set docs" "GetKind L sec = ''Secret''"
    "GetName L sec = GetName L d" and objs: "payload L X (GetName L d) sec = Inr objs" "set objs \<subseteq> set fromMR"
    by (auto simp: carries_def)
  from sec assms(3,4) have "sec = d" by (intro inj_onD [OF assms(2)]) simp_all
  with objs show ?thesis by blast
qed

lemma passed_through:
  assumes "UnwrapManagedResources L X docs = Inr (fromMR, pass)"
  shows "set pass \<subseteq> set docs"
    and "d \<in> set docs \<Longrightarrow> d \<in> set pass \<or> isManagedResource L d \<or> GetKind L d = ''Secret'' \<and> GetName L d \<in> set (mentioned L docs)"
proof -
  have "pass = filter (\<lambda>d. \<not> isManagedResource L d \<and> \<not> (GetKind L d = ''Secret'' \<and> GetName L d \<in> set (mentioned L docs))) docs"
    by (rule UnwrapManagedResources_parts [OF assms])
  then have "set pass = {d \<in> set docs. \<not> isManagedResource L d \<and> \<not> (GetKind L d = ''Secret'' \<and> GetName L d \<in> set (mentioned L docs))}"
    by (simp only: set_filter)
  then show "set pass \<subseteq> set docs" and "d \<in> set docs \<Longrightarrow> d \<in> set pass \<or> isManagedResource L d \<or> GetKind L d = ''Secret'' \<and> GetName L d \<in> set (mentioned L docs)"
    by blast+
qed

lemma classified_sets:
  assumes "ClassifyGolden L X docs shootFromMR opts = Inr res"
  shows "\<forall>d\<in>set docs. injector_doc L opts d \<longrightarrow> (\<exists>whs. decodeWebhooks L X d = Inr whs)"
    and "cl_Seed res = put_all L (filter (plain_doc L opts) docs) []"
    and "cl_Shoot res = put_all L (filter (\<lambda>d. \<not> isExcluded L d (go_Exclusions opts)) shootFromMR @
      concat (map (webhooks_in L X) (filter (injector_doc L opts) docs))) []"
  using assms by (simp_all add: ClassifyGolden_eq)

section \<open>Payloads\<close>

lemma payload_encoded:
  assumes "unstructured_lib L err" and "nested_at (JObj sec) [''data'', ''objects.yaml''] = Found (JStr (base64_encode raw))"
    and "raw \<noteq> []"
  shows "payload L X name sec =
    (case splitYAMLDocs X raw of
       Inl e \<Rightarrow> Inl (ErrWrap (''equivalence: split MR secret '' @ strconv_Quote name @ '' payload: '') e [])
     | Inr objs \<Rightarrow> Inr objs)"
proof -
  have "base64_encode raw \<noteq> []" using assms(3) by (cases raw rule: base64_encode.cases) (simp_all add: Let_def)
  with assms show ?thesis
    by (simp add: payload_def unstructured_lib.NestedString_law DecodeString_encode Let_def)
qed

lemma split_docs_exact:
  "split_docs docs = Inr out \<longleftrightarrow> (\<forall>d\<in>set docs. \<exists>m. d = Inr m) \<and> out = filter (\<lambda>m. m \<noteq> []) (map projr docs)"
  by (induction docs arbitrary: out rule: split_docs.induct) (auto simp: bind_res_eq_Inr)

section \<open>Merging values\<close>

definition merged_value :: "jval option \<Rightarrow> jval \<Rightarrow> jval" where
  "merged_value b v = (case (as_obj b, v) of (Some bv, JObj ov) \<Rightarrow> JObj (deepMerge bv ov) | _ \<Rightarrow> v)"

lemma deepMerge_Cons: "deepMerge base ((k, v) # over) = deepMerge (AList.update k (merged_value (map_of base k) v) base) over"
  by (simp add: merged_value_def split: option.split jval.split)

lemma map_of_deepMerge:
  "distinct (map fst over) \<Longrightarrow> map_of (deepMerge base over) k =
     (case map_of over k of None \<Rightarrow> map_of base k | Some v \<Rightarrow> Some (merged_value (map_of base k) v))"
proof (induction over arbitrary: base)
  case (Cons kv over)
  have "map_of over (fst kv) = None" using Cons.prems by (simp add: map_of_eq_None_iff)
  with Cons show ?case
    by (cases kv) (auto simp: deepMerge_Cons simp del: deepMerge.simps(2) map_of_eq_None_iff split: option.split)
qed simp

text \<open>A leaf of the overlay wins.\<close>

lemma deepMerge_leaf:
  "jobj_wf over \<Longrightarrow> \<not> is_obj v \<Longrightarrow> nested_at (JObj over) p = Found v \<Longrightarrow>
     nested_at (JObj (deepMerge base over)) p = Found v"
proof (induction p arbitrary: base over)
  case (Cons f p)
  then obtain x where x: "map_of over f = Some x" "nested_at x p = Found v"
    by (auto simp: path_eval split: option.splits)
  have "nested_at (merged_value b x) p = Found v" for b
  proof (cases "\<exists>bv ov. as_obj b = Some bv \<and> x = JObj ov")
    case True
    then obtain bv ov where "as_obj b = Some bv" "x = JObj ov" by blast
    with Cons.IH [of ov bv] Cons.prems x jobj_wf_lookup [OF Cons.prems(1) x(1)] show ?thesis
      by (simp add: merged_value_def)
  qed (use x in \<open>auto simp: merged_value_def split: option.split jval.split\<close>)
  with Cons.prems x show ?case by (simp add: path_eval map_of_deepMerge)
qed (auto simp: is_obj_def)

text \<open>A path that ends in a map of the overlay at a missing key.\<close>

fun untouched :: "jobj \<Rightarrow> string list \<Rightarrow> bool" where
  "untouched over [] = False"
| "untouched over (f # p) = (case map_of over f of None \<Rightarrow> True | Some (JObj o') \<Rightarrow> untouched o' p | Some _ \<Rightarrow> False)"

lemma deepMerge_keep:
  "jobj_wf over \<Longrightarrow> untouched over p \<Longrightarrow> nested_at (JObj base) p = Found v \<Longrightarrow>
     nested_at (JObj (deepMerge base over)) p = Found v"
proof (induction p arbitrary: base over)
  case (Cons f p)
  show ?case
  proof (cases "map_of over f")
    case None
    with Cons.prems show ?thesis by (simp add: path_eval map_of_deepMerge)
  next
    case (Some x)
    with Cons.prems(2) obtain ov where ov: "x = JObj ov" "untouched ov p" by (auto split: jval.splits)
    from Cons.prems(3) obtain b where b: "map_of base f = Some b" "nested_at b p = Found v"
      by (auto simp: path_eval split: option.splits)
    from ov(2) have "p \<noteq> []" by auto
    show ?thesis
    proof (cases b)
      case (JObj bv)
      with Cons.IH [of ov bv] Cons.prems ov b Some jobj_wf_lookup [OF Cons.prems(1) Some] show ?thesis
        by (simp add: path_eval map_of_deepMerge merged_value_def)
    qed (use b(2) \<open>p \<noteq> []\<close> in \<open>cases p; simp add: path_eval\<close>)+
  qed
qed simp

section \<open>What rendering the golden chart does\<close>

text \<open>The calls of a render that succeeds.\<close>

definition clone_trace :: "srclib \<Rightarrow> GoldenRenderReq \<Rightarrow> string \<Rightarrow> event list" where
  "clone_trace X req tmp =
     (let refspecs = [''+refs/heads/*:refs/heads/*'', ''+refs/tags/*:refs/tags/*''] in
      map EvGit
        [PlainInit tmp (Inr ()), CreateRemote tmp (gr_RepoURL req) (Inr ()), Fetch tmp refspecs None (Inr ()),
         Worktree tmp (Inr ()), Checkout tmp (NewHash X (gr_SHA req)) (Inr ())])"

definition template_trace :: "goldlib \<Rightarrow> GoldenRenderReq \<Rightarrow> string \<Rightarrow> chart \<Rightarrow> jobj \<Rightarrow> string \<Rightarrow> event list" where
  "template_trace G req chartDir ch vals rendered =
     map EvHelm
       [RegistryNewClient None (Inr ()), DepBuild None chartDir (Inr ()), LoadChart chartDir (Inr ch),
        Install ch vals (ChartName G ch) (gr_Namespace req) (Inr rendered)]"

lemma wrap_git:
  "yields (\<lambda>r s. \<exists>r0. s = [EvGit (ev r0)] \<and> (\<forall>a. r = Inr a \<longrightarrow> r0 = Inr a)) (wrap_io pre post (git_call S f ev))"
  by (rule yields_wrap_io [OF yields_git_call [where R = "\<lambda>r s. s = [EvGit (ev r)]"]]) (auto split: sum.splits)

lemma wrap_helm:
  "yields (\<lambda>r s. \<exists>r0. s = [EvHelm (ev r0)] \<and> (\<forall>a. r = Inr a \<longrightarrow> r0 = Inr a)) (wrap_io pre post (helm_call S f ev))"
  by (rule yields_wrap_io [OF yields_helm_call [where R = "\<lambda>r s. s = [EvHelm (ev r)]"]]) (auto split: sum.splits)

lemma golden_clone_law:
  "yields (\<lambda>r t. list_all no_mkdtemp t \<and> (\<forall>a. r = Inr a \<longrightarrow> t = clone_trace X req tmp)) (golden_clone X S req tmp)"
  unfolding golden_clone_def clone_trace_def Let_def
  by (auto intro!: yields_bind_io [OF wrap_git] yields_mono [OF wrap_git] simp: no_mkdtemp_def)

lemma golden_template_law:
  "yields (\<lambda>r t. list_all no_mkdtemp t \<and>
       (\<forall>docs. r = Inr docs \<longrightarrow> (\<exists>ch vals rendered. t = template_trace G req chartDir ch vals rendered \<and>
          mergeValuesYAML G (gr_ValuesYAML req) = Inr vals \<and> splitYAMLDocs X rendered = Inr docs)))
     (golden_template X G S req chartDir)"
  unfolding golden_template_def template_trace_def
  by (auto intro!: yields_bind_io [OF wrap_helm] yields_bind_io [OF yields_return [where R = "\<lambda>r s. r = mergeValuesYAML G (gr_ValuesYAML req) \<and> s = []"]] yields_return
      simp: no_mkdtemp_def)

definition golden_trace ::
  "srclib \<Rightarrow> goldlib \<Rightarrow> GoldenRenderReq \<Rightarrow> string \<Rightarrow> chart \<Rightarrow> jobj \<Rightarrow> string \<Rightarrow> event list" where
  "golden_trace X G req tmp ch vals rendered =
     EvFS (MkdirTemp [] ''ddo-golden-git-'' (Inr tmp)) # clone_trace X req tmp @
     template_trace G req (filepath_Join [tmp, gr_ChartPath req]) ch vals rendered @ [EvFS (RemoveAll tmp)]"

lemma golden_body_law:
  "yields (\<lambda>r t. list_all no_mkdtemp t \<and>
       (\<forall>docs. r = Inr docs \<longrightarrow> (\<exists>ch vals rendered. t = clone_trace X req tmp @ template_trace G req chartDir ch vals rendered \<and>
          mergeValuesYAML G (gr_ValuesYAML req) = Inr vals \<and> splitYAMLDocs X rendered = Inr docs)))
     (bind_io (golden_clone X S req tmp) (\<lambda>_. golden_template X G S req chartDir))"
  by (rule yields_bind_io [OF golden_clone_law]) (auto intro!: yields_mono [OF golden_template_law])

lemma RenderGolden_law:
  "yields (\<lambda>r t. cleaned t \<and>
       (\<forall>docs. r = Inr docs \<longrightarrow> (\<exists>tmp ch vals rendered. t = golden_trace X G req tmp ch vals rendered \<and>
          mergeValuesYAML G (gr_ValuesYAML req) = Inr vals \<and> splitYAMLDocs X rendered = Inr docs)))
     (RenderGolden X G S req)"
  unfolding RenderGolden_def golden_trace_def
  by (auto intro!: yields_bind_io [OF yields_mkdtemp] yields_bind_wp [OF golden_body_law] yields_report_bind
      yields_return cleaned_removed)

lemma LoadFixture_law:
  "yields (\<lambda>r t. \<forall>f. r = Inr f \<longrightarrow> (\<exists>b f0 c cr raw.
       t = map EvFS [ReadFile (filepath_Join [dir, ''fixture.yaml'']) (Inr b), ReadFile (filepath_Join [dir, fx_CRFile f0]) (Inr c),
         ReadFile (filepath_Join [dir, fx_OverlayValues f0]) (Inr raw)] \<and>
       yamlFixture b = Inr f0 \<and> yamlCR c = Inr cr \<and> f = f0\<lparr>fx_Dir := dir, fx_CR := Some cr, fx_OverlayRaw := raw\<rparr>))
     (LoadFixture yamlFixture yamlCR S dir)"
proof -
  have read: "yields (\<lambda>r s. s = [EvFS (ReadFile p r)]) (fs_call S (\<lambda>F. eReadFile F p) (ReadFile p))" for p
    by (rule yields_fs_call) simp
  have parse: "yields (\<lambda>r s. s = [] \<and> (\<forall>a. r = Inr a \<longrightarrow> x = Inr a)) (wrap_io pre post (State_Monad.return x))"
    for x :: "'a result" and pre post
    by (rule yields_wrap_io [OF yields_return [where R = "\<lambda>r s. r = x \<and> s = []"]]) (auto split: sum.splits)
  show ?thesis
    unfolding LoadFixture_def Let_def
    by (auto intro!: yields_bind_io [OF read] yields_bind_io [OF parse] yields_return)
qed

section \<open>Properties\<close>

text \<open>
  (C26) Unwrapping is exact and fails closed. When it succeeds, the unwrapped objects are, in the
  order of the references of the managed resources, the payloads of rendered secrets with the
  mentioned names. The documents that are passed through are, in order, all but the managed
  resources and the secrets that have a mentioned name. As long as no two rendered secrets share a
  name, a document is only dropped when it is a managed resource or a secret whose payload is among
  the unwrapped objects; when two do, the other one is lost (\<open>namesake_secret_dropped\<close>).
\<close>

theorem UnwrapManagedResources_exact:
  assumes "UnwrapManagedResources L X docs = Inr (fromMR, pass)"
  shows "(\<exists>payloads. fromMR = concat payloads \<and>
      list_all2 (\<lambda>n objs. \<exists>sec\<in>set docs. GetKind L sec = ''Secret'' \<and> GetName L sec = n \<and> payload L X n sec = Inr objs)
        (mentioned L docs) payloads) \<and>
    pass = filter (\<lambda>d. \<not> isManagedResource L d \<and> \<not> (GetKind L d = ''Secret'' \<and> GetName L d \<in> set (mentioned L docs))) docs \<and>
    (inj_on (GetName L) {d \<in> set docs. GetKind L d = ''Secret''} \<longrightarrow>
      (\<forall>d\<in>set docs. d \<notin> set pass \<longrightarrow> isManagedResource L d \<or>
         GetKind L d = ''Secret'' \<and> (\<exists>objs. payload L X (GetName L d) d = Inr objs \<and> set objs \<subseteq> set fromMR)))"
proof -
  from unwrapped_payloads [OF assms] obtain ps where ps: "fromMR = concat ps" "list_all2 (carries L X docs) (mentioned L docs) ps" .
  have pass: "pass = filter (\<lambda>d. \<not> isManagedResource L d \<and> \<not> (GetKind L d = ''Secret'' \<and> GetName L d \<in> set (mentioned L docs))) docs"
    by (rule UnwrapManagedResources_parts [OF assms])
  have dropped: "isManagedResource L d \<or> GetKind L d = ''Secret'' \<and> (\<exists>objs. payload L X (GetName L d) d = Inr objs \<and> set objs \<subseteq> set fromMR)"
    if inj: "inj_on (GetName L) {d \<in> set docs. GetKind L d = ''Secret''}" and d: "d \<in> set docs" "d \<notin> set pass" for d
    using passed_through(2) [OF assms d(1)] d(2) dropped_secret_carried [OF assms inj d(1)] by blast
  from ps have "\<exists>payloads. fromMR = concat payloads \<and>
      list_all2 (\<lambda>n objs. \<exists>sec\<in>set docs. GetKind L sec = ''Secret'' \<and> GetName L sec = n \<and> payload L X n sec = Inr objs) (mentioned L docs) payloads"
    unfolding carries_def [abs_def] by blast
  with pass dropped show ?thesis by (intro conjI impI ballI)
qed

definition example_yaml :: srclib where
  "example_yaml =
     \<lparr>CoalesceTables = \<lambda>_ b. b, IsOCI = \<lambda>_. False, NewTagReferenceName = \<lambda>s. s, NewBranchReferenceName = \<lambda>s. s, NewHash = \<lambda>s. s,
      DecodeYAML = \<lambda>s. if s = ''cm'' then [Inr (config_map ''kube-system'' ''inner'' ''1'')] else []\<rparr>"

definition example_mr :: jobj where
  "example_mr =
     [(''apiVersion'', JStr ''resources.gardener.cloud/v1alpha1''), (''kind'', JStr ''ManagedResource''),
      (''metadata'', JObj [(''name'', JStr ''mr''), (''namespace'', JStr ''a'')]),
      (''spec'', JObj [(''secretRefs'', JArr [JObj [(''name'', JStr ''s'')]])])]"

definition example_secret :: "string \<Rightarrow> string \<Rightarrow> jobj" where
  "example_secret ns enc =
     [(''apiVersion'', JStr ''v1''), (''kind'', JStr ''Secret''),
      (''metadata'', JObj [(''name'', JStr ''s''), (''namespace'', JStr ns)]),
      (''data'', JObj [(''objects.yaml'', JStr enc)])]"

definition example_golden :: "jobj list" where
  "example_golden = [example_mr, example_secret ''a'' (base64_encode ''cm''), config_map ''a'' ''web'' ''1'']"

lemma example_reads:
  "isManagedResource documented_lib example_mr" "\<not> isManagedResource documented_lib (example_secret ns enc)"
  "\<not> isManagedResource documented_lib (config_map ns n v)"
  "GetKind documented_lib example_mr = ''ManagedResource''" "GetKind documented_lib (example_secret ns enc) = ''Secret''"
  "GetName documented_lib (example_secret ns enc) = ''s''" "GetKind documented_lib (config_map ns n v) = ''ConfigMap''"
  "NestedSlice documented_lib example_mr [''spec'', ''secretRefs''] = Inr (Some [JObj [(''name'', JStr ''s'')]])"
  by (simp_all add: isManagedResource_def doc.lib_laws example_mr_def example_secret_def config_map_def str_at_def path_eval gv_split_def)

lemma example_payload:
  "payload documented_lib example_yaml ''s'' (example_secret ns (base64_encode ''cm'')) =
     Inr [config_map ''kube-system'' ''inner'' ''1'']"
  by (subst payload_encoded [OF doc.unstructured_lib_axioms, of _ "''cm''"])
    (simp_all add: example_secret_def path_eval splitYAMLDocs_def example_yaml_def config_map_def)

lemma example_unwrapped:
  "UnwrapManagedResources documented_lib example_yaml example_golden =
     Inr ([config_map ''kube-system'' ''inner'' ''1''], [config_map ''a'' ''web'' ''1''])"
  by (simp add: UnwrapManagedResources_def example_golden_def Let_def unwrap_one_def example_reads example_payload as_str_def del: base64_encode.simps)

theorem UnwrapManagedResources_exact_witness:
  "\<exists>payloads. [config_map ''kube-system'' ''inner'' ''1''] = concat payloads \<and>
     list_all2 (\<lambda>n objs. \<exists>sec\<in>set example_golden. GetKind documented_lib sec = ''Secret'' \<and> GetName documented_lib sec = n \<and>
       payload documented_lib example_yaml n sec = Inr objs) (mentioned documented_lib example_golden) payloads"
  by (rule conjunct1 [OF UnwrapManagedResources_exact [OF example_unwrapped]])

text \<open>
  (C25) Nothing of a golden render is lost, and nothing is added. As long as no two rendered secrets
  share a name and no two objects for the same cluster share a key, every rendered document is
  accounted for after unwrapping and classifying: it is enumerated as excluded; or it is in the seed
  set, under its key; or it is the injector's config map and all its webhooks are in the shoot set;
  or it is a secret whose payload was unwrapped; or it is a managed resource and every secret it
  mentions was rendered and unwrapped. Every unwrapped object that is not excluded is in the shoot
  set. And both sets hold nothing else.
\<close>

theorem golden_nothing_lost:
  assumes "UnwrapManagedResources L X docs = Inr (fromMR, pass)"
    and "ClassifyGolden L X pass fromMR opts = Inr res"
    and "inj_on (GetName L) {d \<in> set docs. GetKind L d = ''Secret''}"
    and "inj_on (KeyOf L) (set docs)"
    and "inj_on (KeyOf L) (set fromMR \<union> (\<Union>d\<in>set docs. set (webhooks_in L X d)))"
  shows "(\<forall>d\<in>set docs.
      isExcluded L d (go_Exclusions opts) \<or> stored L (cl_Seed res) d \<or>
      isInjectorConfigMap L d (go_ChartFullname opts) \<and>
        (\<exists>whs. decodeWebhooks L X d = Inr whs \<and> (\<forall>u\<in>set whs. stored L (cl_Shoot res) u)) \<or>
      GetKind L d = ''Secret'' \<and> (\<exists>objs. payload L X (GetName L d) d = Inr objs \<and> set objs \<subseteq> set fromMR) \<or>
      isManagedResource L d \<and> (\<forall>n\<in>set (secret_refs L d). \<exists>objs. carries L X docs n objs \<and> set objs \<subseteq> set fromMR)) \<and>
    (\<forall>u\<in>set fromMR. isExcluded L u (go_Exclusions opts) \<or> stored L (cl_Shoot res) u) \<and>
    (\<forall>k u. map_of (cl_Seed res) k = Some u \<longrightarrow> k = KeyOf L u \<and> u \<in> set docs) \<and>
    (\<forall>k u. map_of (cl_Shoot res) k = Some u \<longrightarrow> k = KeyOf L u \<and>
      (u \<in> set fromMR \<or> (\<exists>d\<in>set docs. u \<in> set (webhooks_in L X d))))"
proof (intro conjI ballI allI impI)
  note sets = classified_sets [OF assms(2)] and through = passed_through [OF assms(1)]
  have shoot: "stored L (cl_Shoot res) u"
    if "u \<in> set (filter (\<lambda>d. \<not> isExcluded L d (go_Exclusions opts)) fromMR @ concat (map (webhooks_in L X) (filter (injector_doc L opts) pass)))" for u
    unfolding sets(3) using that through(1) by (intro put_all_stored inj_on_subset [OF assms(5)]) auto
  show "isExcluded L u (go_Exclusions opts) \<or> stored L (cl_Shoot res) u" if "u \<in> set fromMR" for u
    using that shoot by auto
  show "k = KeyOf L u" and "u \<in> set docs" if "map_of (cl_Seed res) k = Some u" for k u
    using put_all_member [OF that [unfolded sets(2)]] through(1) by auto
  show "k = KeyOf L u" and "u \<in> set fromMR \<or> (\<exists>d\<in>set docs. u \<in> set (webhooks_in L X d))"
    if "map_of (cl_Shoot res) k = Some u" for k u
    using put_all_member [OF that [unfolded sets(3)]] through(1) by auto
  fix d assume d: "d \<in> set docs"
  consider (excluded) "isExcluded L d (go_Exclusions opts)" | (plain) "d \<in> set pass" "plain_doc L opts d"
    | (injector) "d \<in> set pass" "injector_doc L opts d" | (mr) "isManagedResource L d"
    | (secret) "GetKind L d = ''Secret''" "GetName L d \<in> set (mentioned L docs)"
    using through(2) [OF d] unfolding plain_doc_def injector_doc_def by blast
  then show "isExcluded L d (go_Exclusions opts) \<or> stored L (cl_Seed res) d \<or>
      isInjectorConfigMap L d (go_ChartFullname opts) \<and>
        (\<exists>whs. decodeWebhooks L X d = Inr whs \<and> (\<forall>u\<in>set whs. stored L (cl_Shoot res) u)) \<or>
      GetKind L d = ''Secret'' \<and> (\<exists>objs. payload L X (GetName L d) d = Inr objs \<and> set objs \<subseteq> set fromMR) \<or>
      isManagedResource L d \<and> (\<forall>n\<in>set (secret_refs L d). \<exists>objs. carries L X docs n objs \<and> set objs \<subseteq> set fromMR)"
  proof cases
    case plain
    then have "stored L (cl_Seed res) d"
      unfolding sets(2) using through(1) by (intro put_all_stored inj_on_subset [OF assms(4)]) auto
    then show ?thesis by blast
  next
    case injector
    with sets(1) obtain whs where whs: "decodeWebhooks L X d = Inr whs" by blast
    with injector have "\<forall>u\<in>set whs. stored L (cl_Shoot res) u" by (auto simp: webhooks_in_def intro!: shoot)
    with whs injector(2) show ?thesis unfolding injector_doc_def by blast
  next
    case mr
    with d have "secret_refs L d \<in> set (map (secret_refs L) (filter (isManagedResource L) docs))" by simp
    then have "set (secret_refs L d) \<subseteq> set (mentioned L docs)" unfolding mentioned_def set_concat by blast
    with mr show ?thesis using mentioned_carried [OF assms(1)] by blast
  qed (use dropped_secret_carried [OF assms(1,3) d] in blast)+
qed

definition example_opts :: GoldenOpts where
  "example_opts = \<lparr>go_ChartFullname = ''web'', go_Exclusions = []\<rparr>"

lemma example_keys:
  "KeyOf documented_lib example_mr = ''resources.gardener.cloud/ManagedResource/a/mr''"
  "KeyOf documented_lib (example_secret ns enc) = ''/Secret/'' @ ns @ ''/s''"
  "KeyOf documented_lib (config_map ns n v) = ''/ConfigMap/'' @ ns @ ''/'' @ n"
  by (simp_all add: KeyOf_def Let_def doc.lib_laws example_mr_def example_secret_def config_map_def str_at_def path_eval gv_split_def)

lemma example_webhooks:
  "webhooks_in documented_lib example_yaml example_mr = []" "webhooks_in documented_lib example_yaml (example_secret ns enc) = []"
  "webhooks_in documented_lib example_yaml (config_map ns n v) = []"
  by (simp_all add: webhooks_in_def decodeWebhooks_def doc.lib_laws example_mr_def example_secret_def config_map_def path_eval
      splitYAMLDocs_def example_yaml_def)

theorem golden_nothing_lost_witness:
  "\<exists>res. ClassifyGolden documented_lib example_yaml [config_map ''a'' ''web'' ''1''] [config_map ''kube-system'' ''inner'' ''1''] example_opts = Inr res \<and>
     stored documented_lib (cl_Shoot res) (config_map ''kube-system'' ''inner'' ''1'')"
proof -
  let ?m = "config_map ''kube-system'' ''inner'' ''1''" and ?w = "config_map ''a'' ''web'' ''1''"
  obtain res where res: "ClassifyGolden documented_lib example_yaml [?w] [?m] example_opts = Inr res"
    unfolding ClassifyGolden_eq by (simp add: injector_doc_def example_opts_def isInjectorConfigMap_def doc.GetName_law config_map_def str_at_def path_eval)
  have "distinct (map (KeyOf documented_lib) example_golden)"
    by (simp add: example_golden_def example_keys del: base64_encode.simps)
  then have keys: "inj_on (KeyOf documented_lib) (set example_golden)" by (simp add: distinct_map)
  have names: "inj_on (GetName documented_lib) {d \<in> set example_golden. GetKind documented_lib d = ''Secret''}"
    by (auto simp: inj_on_def example_golden_def example_reads simp del: base64_encode.simps)
  have shoot: "inj_on (KeyOf documented_lib) (set [?m] \<union> (\<Union>d\<in>set example_golden. set (webhooks_in documented_lib example_yaml d)))"
    by (simp add: example_golden_def example_webhooks del: base64_encode.simps)
  have "\<not> isExcluded documented_lib ?m (go_Exclusions example_opts)" by (simp add: example_opts_def)
  with golden_nothing_lost [OF example_unwrapped res names keys shoot] have "stored documented_lib (cl_Shoot res) ?m" by simp
  with res show ?thesis by blast
qed

text \<open>
  (C31) Payload round trip: a secret that carries the base64 encoding of a text yields exactly the
  documents of that text.
\<close>

theorem payload_roundtrip:
  assumes "unstructured_lib L err" and "nested_at (JObj sec) [''data'', ''objects.yaml''] = Found (JStr (base64_encode raw))"
    and "raw \<noteq> []"
  shows "payload L X name sec = Inr objs \<longleftrightarrow> splitYAMLDocs X raw = Inr objs"
  using payload_encoded [OF assms] by (simp split: sum.split)

theorem payload_roundtrip_witness:
  "payload documented_lib example_yaml ''s'' (example_secret ''a'' (base64_encode ''cm'')) =
     Inr [config_map ''kube-system'' ''inner'' ''1'']"
proof -
  have "nested_at (JObj (example_secret ''a'' (base64_encode ''cm''))) [''data'', ''objects.yaml''] = Found (JStr (base64_encode ''cm''))"
    by (simp add: example_secret_def path_eval)
  moreover have "splitYAMLDocs example_yaml ''cm'' = Inr [config_map ''kube-system'' ''inner'' ''1'']"
    by (simp add: splitYAMLDocs_def example_yaml_def config_map_def)
  ultimately show ?thesis using payload_roundtrip [OF doc.unstructured_lib_axioms] by blast
qed

text \<open>
  A secret of another namespace that has the name of a mentioned one is dropped with it, without an
  error and although no managed resource refers to it.
\<close>

theorem namesake_secret_dropped:
  "UnwrapManagedResources documented_lib example_yaml
     [example_mr, example_secret ''b'' ''unrelated'', example_secret ''a'' (base64_encode ''cm'')] =
   Inr ([config_map ''kube-system'' ''inner'' ''1''], [])"
  by (simp add: UnwrapManagedResources_def Let_def unwrap_one_def example_reads example_payload as_str_def del: base64_encode.simps)

text \<open>
  (C30) Values are layered: a value of the overlay that is not a map wins, and a value of the base
  survives where the overlay has nothing on its path.
\<close>

theorem deepMerge_layers:
  assumes "jobj_wf over"
  shows "(\<not> is_obj v \<longrightarrow> nested_at (JObj over) p = Found v \<longrightarrow> nested_at (JObj (deepMerge base over)) p = Found v) \<and>
    (untouched over p \<longrightarrow> nested_at (JObj base) p = Found v \<longrightarrow> nested_at (JObj (deepMerge base over)) p = Found v)"
  using deepMerge_leaf [OF assms] deepMerge_keep [OF assms] by blast

theorem deepMerge_layers_witness:
  "nested_at (JObj (deepMerge [(''image'', JObj [(''repo'', JStr ''r''), (''tag'', JStr ''1'')])] [(''image'', JObj [(''tag'', JStr ''2'')])]))
     [''image'', ''tag''] = Found (JStr ''2'') \<and>
   nested_at (JObj (deepMerge [(''image'', JObj [(''repo'', JStr ''r''), (''tag'', JStr ''1'')])] [(''image'', JObj [(''tag'', JStr ''2'')])]))
     [''image'', ''repo''] = Found (JStr ''r'')"
  using deepMerge_layers [of "[(''image'', JObj [(''tag'', JStr ''2'')])]" "JStr ''2''" "[''image'', ''tag'']"
      "[(''image'', JObj [(''repo'', JStr ''r''), (''tag'', JStr ''1'')])]"]
    deepMerge_layers [of "[(''image'', JObj [(''tag'', JStr ''2'')])]" "JStr ''r''" "[''image'', ''repo'']"
      "[(''image'', JObj [(''repo'', JStr ''r''), (''tag'', JStr ''1'')])]"]
  by (simp add: is_obj_def path_eval del: deepMerge.simps)

end
