(* ===== verification/Harness.thy ===== *)
theory Harness
  imports Scenario Golden
begin

text \<open>
  The operator half of the equivalence harness (operator\_capture.go) and the body of its suite
  (equivalence\_test.go), which compares the golden render of a fixture with the operator's.
\<close>

section \<open>Capturing the operator's objects (operator\_capture.go)\<close>

definition object_set :: "klib \<Rightarrow> Manifest list \<Rightarrow> ObjectSet" where
  "object_set L ms = put_all L (map m_Unstructured ms) []"

definition renderMode ::
  "libs \<Rightarrow> src_env \<Rightarrow> Source_impl \<Rightarrow> Mode \<Rightarrow> string \<Rightarrow> Transformation list \<Rightarrow> (event, ObjectSet result) io" where
  "renderMode B S src mode ns transforms =
     bind_io (source_Render (lib_k B) (lib_src B) S src mode ns) (\<lambda>ms.
     State_Monad.return (bind_res (run_transforms (lib_k B) (lib_patch B) transforms ms) (\<lambda>ms'.
       Inr (object_set (lib_k B) ms'))))"

definition CaptureOperator ::
  "libs \<Rightarrow> src_env \<Rightarrow> DualDeploymentOperator \<Rightarrow> Deps \<Rightarrow> (event, (ObjectSet \<times> ObjectSet) result) io" where
  "CaptureOperator B S cr deps =
     bind_io (wrap_io ''capture: source.From: '' []
       (State_Monad.return (From (lib_src B) (spec_Source (cr_Spec cr)) deps))) (\<lambda>src.
     bind_io (wrap_io ''capture: transform.Build: '' []
       (State_Monad.return (Build (spec_Transformations (cr_Spec cr))))) (\<lambda>transforms.
     bind_io (wrap_io ''capture: seed: '' []
       (renderMode B S src ModeSeed (cr_Namespace cr) transforms)) (\<lambda>seed.
     bind_io (wrap_io ''capture: shoot: '' []
       (renderMode B S src ModeShoot (spec_ShootNamespace (cr_Spec cr)) transforms)) (\<lambda>shoot.
     State_Monad.return (Inr (seed, shoot))))))"

section \<open>The suite (equivalence\_test.go)\<close>

definition suite_deps :: Deps where
  "suite_deps =
     \<lparr>deps_ChartLoader = Some (NewHelmLoader []), deps_RootResolver = Some NewGitResolver,
      deps_CredentialResolver = None, deps_RenderCache = False\<rparr>"

definition suite_scope :: "Fixture \<Rightarrow> Scope" where
  "suite_scope f =
     \<lparr>sc_ComparedKinds = fx_ComparedKinds f, sc_KnownDivergences = fx_KnownDivergences f,
      sc_IgnoreLabels = fx_IgnoreLabels f, sc_CanonicalNamespace = fx_CanonicalNamespace f\<rparr>"

definition suite_request :: "Fixture \<Rightarrow> DualDeploymentOperator \<Rightarrow> GoldenRenderReq" where
  "suite_request f cr =
     \<lparr>gr_RepoURL = fx_RepoURL f, gr_SHA = fx_SHA f, gr_ChartPath = fx_ChartPath f,
      gr_ValuesYAML = [fx_OverlayRaw f], gr_Namespace = cr_Namespace cr\<rparr>"

definition suite_opts :: "Fixture \<Rightarrow> GoldenOpts" where
  "suite_opts f = \<lparr>go_ChartFullname = fx_ChartFullname f, go_Exclusions = fx_Exclusions f\<rparr>"

text \<open>The dash of the messages, in its three bytes.\<close>

definition em_dash :: string where
  "em_dash = [CHR 0xE2, CHR 0x80, CHR 0x94]"

text \<open>The comparison of both clusters: the messages of \<open>t.Errorf\<close>, or the one of \<open>t.Fatalf\<close>.\<close>

definition suite_compare :: "klib \<Rightarrow> Scope \<Rightarrow> Classified \<Rightarrow> ObjectSet \<Rightarrow> ObjectSet \<Rightarrow> string list result" where
  "suite_compare L scope golden opSeed opShoot =
     (let goldenShoot = Scope_Apply L scope (cl_Shoot golden); opShootScoped = Scope_Apply L scope opShoot in
      if length goldenShoot = 0 then
        Inl (ErrNew (''scoped golden shoot set is empty '' @ em_dash @ '' fixture comparedKinds/scoping likely wrong''))
      else if length opShootScoped = 0 then
        Inl (ErrNew (''scoped operator shoot set is empty '' @ em_dash @ '' fixture CR/scoping likely wrong''))
      else
        (let seedReport = fst (CompareScoped L scope (Scope_Apply L scope (cl_Seed golden)) (Scope_Apply L scope opSeed));
             shootReport = fst (CompareScoped L scope goldenShoot opShootScoped)
         in Inr ((if \<not> Report_Equal seedReport then [''seed render mismatch:'' @ [CHR 10] @ Report_String seedReport] else []) @
              (if \<not> Report_Equal shootReport then [''shoot render mismatch:'' @ [CHR 10] @ Report_String shootReport] else []))))"

text \<open>One subtest after its fixture is loaded. Without a custom resource it would dereference nil.\<close>

definition subtest_body :: "libs \<Rightarrow> goldlib \<Rightarrow> src_env \<Rightarrow> Fixture \<Rightarrow> (event, string list result) io" where
  "subtest_body B G S f =
     (case fx_CR f of
        None \<Rightarrow> State_Monad.return (Inl (ErrNew ''nil pointer dereference''))
      | Some cr \<Rightarrow>
          bind_io (wrap_io ''golden render: '' [] (RenderGolden (lib_src B) G S (suite_request f cr))) (\<lambda>goldenDocs.
          bind_io (wrap_io ''golden unwrap: '' []
            (State_Monad.return (UnwrapManagedResources (lib_k B) (lib_src B) goldenDocs))) (\<lambda>(shootFromMR, passthrough).
          bind_io (wrap_io ''golden classify: '' []
            (State_Monad.return (ClassifyGolden (lib_k B) (lib_src B) passthrough shootFromMR (suite_opts f)))) (\<lambda>golden.
          bind_io (wrap_io ''operator capture: '' [] (CaptureOperator B S cr suite_deps)) (\<lambda>(opSeed, opShoot).
          State_Monad.return (suite_compare (lib_k B) (suite_scope f) golden opSeed opShoot))))))"

definition equivalence_subtest ::
  "libs \<Rightarrow> goldlib \<Rightarrow> (string \<Rightarrow> Fixture result) \<Rightarrow> (string \<Rightarrow> DualDeploymentOperator result) \<Rightarrow> src_env \<Rightarrow> string \<Rightarrow>
   (event, string list result) io" where
  "equivalence_subtest B G yamlFixture yamlCR S op =
     bind_io (wrap_io ''load fixture: '' [] (LoadFixture yamlFixture yamlCR S (''../../testdata/fixtures/'' @ op)))
       (subtest_body B G S)"

section \<open>Runs of sequenced calls\<close>

lemma run_bind_io_Inr:
  "run_state (bind_io m f) h = (Inr b, h') \<longleftrightarrow>
     (\<exists>a h1. run_state m h = (Inr a, h1) \<and> run_state (f a) h1 = (Inr b, h'))"
  by (auto simp: bind_io_def split: prod.splits sum.splits)

lemma run_wrap_io_Inr: "run_state (wrap_io pre post m) h = (Inr a, h') \<longleftrightarrow> run_state m h = (Inr a, h')"
  by (auto simp: wrap_io_def split: prod.splits sum.splits)

lemma run_with_reason_Inr:
  "run_state (with_reason reason m f) h = (Inr b, h') \<longleftrightarrow>
     (\<exists>a h1. run_state m h = (Inr a, h1) \<and> run_state (f a) h1 = (Inr b, h'))"
  by (auto simp: with_reason_def split: prod.splits sum.splits)

lemma run_return_Inr: "run_state (State_Monad.return x) h = (Inr a, h') \<longleftrightarrow> x = Inr a \<and> h' = h"
  by auto

text \<open>The same as elimination rules, for one wrapped step at a time.\<close>

lemma wrapped_bindE:
  assumes "run_state (bind_io (wrap_io pre post m) f) h = (Inr b, h')"
  obtains a h1 where "run_state m h = (Inr a, h1)" and "run_state (f a) h1 = (Inr b, h')"
  using assms unfolding run_bind_io_Inr run_wrap_io_Inr by blast

lemma pair_run:
  assumes "run_state ((\<lambda>(x, y). f x y) p) h = out"
  obtains x y where "p = (x, y)" and "run_state (f x y) h = out"
  using assms by (cases p) simp

lemmas run_Inr = run_bind_io_Inr run_wrap_io_Inr run_with_reason_Inr run_return_Inr

text \<open>The two renders go through the transformations independently of each other.\<close>

lemma transform_both_Inr:
  "transform_both L P ts seed shoot = Inr (a, b) \<longleftrightarrow> run_transforms L P ts seed = Inr a \<and> run_transforms L P ts shoot = Inr b"
  by (induction ts arbitrary: seed shoot) (auto split: sum.splits)

text \<open>The successful runs of both, step by step.\<close>

definition renders_run ::
  "libs \<Rightarrow> src_env \<Rightarrow> DualDeploymentOperator \<Rightarrow> Deps \<Rightarrow> event list \<Rightarrow> Manifest list \<Rightarrow> Manifest list \<Rightarrow> event list \<Rightarrow> bool" where
  "renders_run B S cr deps h seed shoot h' \<longleftrightarrow>
     (\<exists>src ts a b h1. From (lib_src B) (spec_Source (cr_Spec cr)) deps = Inr src \<and> Build (spec_Transformations (cr_Spec cr)) = Inr ts \<and>
        run_state (source_Render (lib_k B) (lib_src B) S src ModeSeed (cr_Namespace cr)) h = (Inr a, h1) \<and>
        run_state (source_Render (lib_k B) (lib_src B) S src ModeShoot (spec_ShootNamespace (cr_Spec cr))) h1 = (Inr b, h') \<and>
        run_transforms (lib_k B) (lib_patch B) ts a = Inr seed \<and> run_transforms (lib_k B) (lib_patch B) ts b = Inr shoot)"

lemma renderMode_run:
  "run_state (renderMode B S src mode ns ts) h = (Inr s, h') \<longleftrightarrow>
     (\<exists>ms ms'. run_state (source_Render (lib_k B) (lib_src B) S src mode ns) h = (Inr ms, h') \<and>
        run_transforms (lib_k B) (lib_patch B) ts ms = Inr ms' \<and> s = object_set (lib_k B) ms')"
  unfolding renderMode_def run_Inr bind_res_eq_Inr by (simp, blast)

lemma prepare_renders_run:
  "run_state (prepare_renders B S r cr) h = (Inr (seed, shoot), h') \<longleftrightarrow>
     renders_run B S cr ((rec_SourceDeps r)\<lparr>deps_CredentialResolver := Some \<lparr>res_Namespace = cr_Namespace cr\<rparr>\<rparr>) h seed shoot h'"
  unfolding prepare_renders_def Let_def run_Inr transform_both_Inr renders_run_def by (simp, blast)

lemma CaptureOperator_run:
  "run_state (CaptureOperator B S cr deps) h = (Inr (a, b), h') \<longleftrightarrow>
     (\<exists>seed shoot. renders_run B S cr deps h seed shoot h' \<and> a = object_set (lib_k B) seed \<and> b = object_set (lib_k B) shoot)"
  unfolding CaptureOperator_def run_Inr renderMode_run renders_run_def by (simp, blast)

text \<open>What a clean pair of reports means for one cluster.\<close>

definition agrees :: "klib \<Rightarrow> Scope \<Rightarrow> ObjectSet \<Rightarrow> ObjectSet \<Rightarrow> bool" where
  "agrees L s golden op \<longleftrightarrow>
     (\<forall>k g u. map_of (Scope_Apply L s golden) k = Some g \<longrightarrow> map_of (Scope_Apply L s op) k = Some u \<longrightarrow>
        deep_equal (JObj (prep L g)) (JObj (prep L u))) \<and>
     (\<forall>(k, g)\<in>set (Scope_Apply L s golden). k \<notin> fst ` set (Scope_Apply L s op) \<longrightarrow> keyIsKnownDivergence s (displayKey L g)) \<and>
     (\<forall>(k, u)\<in>set (Scope_Apply L s op). k \<notin> fst ` set (Scope_Apply L s golden) \<longrightarrow> keyIsKnownDivergence s (displayKey L u))"

lemma agrees_iff:
  "agrees L s golden op \<longleftrightarrow> Report_Equal (fst (CompareScoped L s (Scope_Apply L s golden) (Scope_Apply L s op)))"
  unfolding agrees_def CompareScoped_Equal_keys [OF Scope_Apply_key_distinct] same_object_def ..

lemma suite_compare_pass:
  "suite_compare L s golden opSeed opShoot = Inr [] \<longleftrightarrow>
     agrees L s (cl_Seed golden) opSeed \<and> agrees L s (cl_Shoot golden) opShoot \<and>
     Scope_Apply L s (cl_Shoot golden) \<noteq> [] \<and> Scope_Apply L s opShoot \<noteq> []"
  unfolding agrees_iff by (simp add: suite_compare_def Let_def)

section \<open>A fixture\<close>

text \<open>
  A chart with one config map and an injector config map that carries the webhook document of the
  shoot; the repository of the operator has the same two objects.
\<close>

definition suite_object :: "string \<Rightarrow> string \<Rightarrow> jobj" where
  "suite_object ns name =
     [(''apiVersion'', JStr ''v1''), (''kind'', JStr ''ConfigMap''),
      (''metadata'', JObj [(''name'', JStr name), (''namespace'', JStr ns)])]"

definition suite_injector :: jobj where
  "suite_injector =
     [(''apiVersion'', JStr ''v1''), (''kind'', JStr ''ConfigMap''),
      (''metadata'', JObj [(''name'', JStr ''ops-webhook-config'')]), (''data'', JObj [(''webhooks.yaml'', JStr ''webhooks'')])]"

definition suite_src :: srclib where
  "suite_src =
     example_src\<lparr>DecodeYAML := \<lambda>s.
       if s = ''chart'' then [Inr (suite_object ''garden'' ''a''), Inr suite_injector]
       else if s = ''webhooks'' then [Inr (suite_object ''kube-system'' ''b'')] else DecodeYAML example_src s\<rparr>"

definition suite_libs :: libs where
  "suite_libs = documented_libs suite_src example_patch"

definition suite_yaml :: goldlib where
  "suite_yaml = \<lparr>YAMLMap = \<lambda>s. Inr [], ChartName = \<lambda>c. ''ops''\<rparr>"

definition suite_env :: src_env where
  "suite_env = (example_env [] (example_cr ''ShootFirst''))\<lparr>se_helm := example_helm\<lparr>eInstall := \<lambda>c v r n h. Inr ''chart''\<rparr>\<rparr>"

definition suite_fixture :: Fixture where
  "suite_fixture =
     \<lparr>fx_Operator = ''ops'', fx_ChartFullname = ''ops'', fx_RepoURL = ''https://git.example/charts'', fx_SHA = ''c0ffee0'',
      fx_ChartPath = ''system/ops'', fx_OverlayValues = ''values.yaml'', fx_CRFile = ''cr.yaml'', fx_Exclusions = [],
      fx_ComparedKinds = [''ConfigMap''], fx_KnownDivergences = [], fx_IgnoreLabels = [], fx_CanonicalNamespace = [],
      fx_CR = None, fx_OverlayRaw = [], fx_Dir = []\<rparr>"

definition suite_run :: "string list result \<times> event list" where
  "suite_run =
     run_state (equivalence_subtest suite_libs suite_yaml (\<lambda>_. Inr suite_fixture) (\<lambda>_. Inr (example_cr ''ShootFirst''))
       suite_env ''ops'') []"

lemma suite_passes: "fst suite_run = Inr []"
  by code_simp

section \<open>Properties\<close>

text \<open>
  (C17) The harness tests what the operator delivers: for the credentials of the custom resource, a
  capture succeeds exactly when the reconciler's renders succeed, with the same calls, and captures
  exactly the objects of these renders, although the two order their steps differently.
\<close>

theorem CaptureOperator_equivalence:
  "run_state (CaptureOperator B S cr ((rec_SourceDeps r)\<lparr>deps_CredentialResolver := Some \<lparr>res_Namespace = cr_Namespace cr\<rparr>\<rparr>)) h =
       (Inr (seedSet, shootSet), h') \<longleftrightarrow>
     (\<exists>seed shoot. run_state (prepare_renders B S r cr) h = (Inr (seed, shoot), h') \<and>
        seedSet = object_set (lib_k B) seed \<and> shootSet = object_set (lib_k B) shoot)"
  unfolding CaptureOperator_run prepare_renders_run ..

text \<open>
  (C18) A passing subtest is a certificate: the fixture was loaded, its chart rendered, unwrapped and
  classified, the operator's objects were captured, and for both clusters every object in scope that
  both have matches, every one-sided object is a declared divergence, and the shoot sets are not empty.
\<close>

theorem equivalence_certificate:
  assumes "run_state (equivalence_subtest B G yamlFixture yamlCR S op) h = (Inr [], h')"
  shows "\<exists>f cr h1 h2 docs fromMR pass golden opSeed opShoot.
    run_state (LoadFixture yamlFixture yamlCR S (''../../testdata/fixtures/'' @ op)) h = (Inr f, h1) \<and> fx_CR f = Some cr \<and>
    run_state (RenderGolden (lib_src B) G S (suite_request f cr)) h1 = (Inr docs, h2) \<and>
    UnwrapManagedResources (lib_k B) (lib_src B) docs = Inr (fromMR, pass) \<and>
    ClassifyGolden (lib_k B) (lib_src B) pass fromMR (suite_opts f) = Inr golden \<and>
    run_state (CaptureOperator B S cr suite_deps) h2 = (Inr (opSeed, opShoot), h') \<and>
    agrees (lib_k B) (suite_scope f) (cl_Seed golden) opSeed \<and> agrees (lib_k B) (suite_scope f) (cl_Shoot golden) opShoot \<and>
    Scope_Apply (lib_k B) (suite_scope f) (cl_Shoot golden) \<noteq> [] \<and> Scope_Apply (lib_k B) (suite_scope f) opShoot \<noteq> []"
proof -
  from assms obtain f h1 where f: "run_state (LoadFixture yamlFixture yamlCR S (''../../testdata/fixtures/'' @ op)) h = (Inr f, h1)"
    and rest: "run_state (subtest_body B G S f) h1 = (Inr [], h')"
    unfolding equivalence_subtest_def by (elim wrapped_bindE)
  from rest obtain cr where cr: "fx_CR f = Some cr" by (cases "fx_CR f") (auto simp: subtest_body_def)
  from rest obtain docs h2 fromMR pass golden opSeed opShoot where
      "run_state (RenderGolden (lib_src B) G S (suite_request f cr)) h1 = (Inr docs, h2)"
      "UnwrapManagedResources (lib_k B) (lib_src B) docs = Inr (fromMR, pass)"
      "ClassifyGolden (lib_k B) (lib_src B) pass fromMR (suite_opts f) = Inr golden"
      "run_state (CaptureOperator B S cr suite_deps) h2 = (Inr (opSeed, opShoot), h')"
      "suite_compare (lib_k B) (suite_scope f) golden opSeed opShoot = Inr []"
    unfolding subtest_body_def cr option.case by (elim wrapped_bindE pair_run) simp
  with f cr show ?thesis unfolding suite_compare_pass by blast
qed

theorem equivalence_certificate_witness:
  "\<exists>f cr docs h1 h2. fx_CR f = Some cr \<and>
     run_state (RenderGolden suite_src suite_yaml suite_env (suite_request f cr)) h1 = (Inr docs, h2)"
proof -
  have "run_state (equivalence_subtest suite_libs suite_yaml (\<lambda>_. Inr suite_fixture) (\<lambda>_. Inr (example_cr ''ShootFirst''))
       suite_env ''ops'') [] = (Inr [], snd suite_run)"
    using suite_passes by (simp add: suite_run_def prod_eq_iff)
  from equivalence_certificate [OF this] show ?thesis
    by (simp add: suite_libs_def documented_libs_def) blast
qed

text \<open>
  (C28) A golden render fails loudly: the temporary clone is always removed, and documents are only
  returned when every call succeeded, in exactly this order: the clone at the pinned commit, the
  dependency build, the load and the template with the merged values.
\<close>

theorem RenderGolden_trace:
  "yields (\<lambda>r t. cleaned t \<and>
       (\<forall>docs. r = Inr docs \<longrightarrow> (\<exists>tmp ch vals rendered. t = golden_trace X G req tmp ch vals rendered \<and>
          mergeValuesYAML G (gr_ValuesYAML req) = Inr vals \<and> splitYAMLDocs X rendered = Inr docs)))
     (RenderGolden X G S req)"
  by (rule RenderGolden_law)

theorem RenderGolden_trace_witness:
  "\<exists>t. history (RenderGolden suite_src suite_yaml suite_env (suite_request suite_fixture (example_cr ''ShootFirst''))) [] = t \<and>
     cleaned t \<and> (\<exists>tmp ch vals rendered. t = golden_trace suite_src suite_yaml (suite_request suite_fixture (example_cr ''ShootFirst'')) tmp ch vals rendered)"
proof -
  let ?req = "suite_request suite_fixture (example_cr ''ShootFirst'')"
  have "outcome (RenderGolden suite_src suite_yaml suite_env ?req) [] = Inr [suite_object ''garden'' ''a'', suite_injector]"
    by code_simp
  with RenderGolden_trace [THEN yieldsD, of suite_src suite_yaml suite_env ?req "[]"] show ?thesis by auto
qed

end
