(* ===== verification/Memory.thy ===== *)
theory Memory
  imports ApiTypes
begin

text \<open>
  Memory with references, for the generated deep copies: what a pointer, a slice or a field of a
  library type refers to is a cell, memory is the list of the cells allocated so far, and an address
  is a position in it. Cells are never freed, so a reference that is not nil is always in range.
\<close>

type_synonym addr = nat

section \<open>The structs of the API with their references\<close>

text \<open>Pointers and slices are addresses, \<open>None\<close> is nil. Structs without references are those of \<open>ApiTypes\<close>.\<close>

record HelmSource_m =
  mh_Repo :: string
  mh_Name :: string
  mh_Version :: string
  mh_Values :: "addr option"
  mh_SeedValues :: "addr option"
  mh_ShootValues :: "addr option"
  mh_AuthSecretRef :: "addr option"

record KustomizeSource_m =
  mk_URL :: string
  mk_SeedPath :: string
  mk_ShootPath :: string
  mk_AuthSecretRef :: "addr option"

record Source_m =
  ms_Helm :: "addr option"
  ms_Kustomize :: "addr option"

record JSONPatchOp_m =
  mo_Op :: string
  mo_Path :: string
  mo_From :: string
  mo_Value :: "addr option"

record PatchSpec_m =
  mp_Target :: Selector
  mp_StrategicMerge :: "addr option"
  mp_JSONPatch :: "addr option"

record FilterKindsSpec_m =
  mf_Kinds :: "addr option"
  mf_Source :: string

record Transformation_m =
  mt_Patch :: "addr option"
  mt_RewriteWebhookURL :: "addr option"
  mt_FilterKinds :: "addr option"

record DualDeploymentOperatorSpec_m =
  msp_Source :: Source_m
  msp_ShootAccess :: ShootAccessRef
  msp_ShootNamespace :: string
  msp_Transformations :: "addr option"
  msp_RetentionPolicy :: RetentionPolicy
  msp_ApplyOrder :: string

record ResourceStatus_m =
  mr_Kind :: string
  mr_APIVersion :: string
  mr_Namespace :: string
  mr_Name :: string
  mr_Health :: HealthState
  mr_LastApplied :: "addr option"
  mr_Message :: string

record DualDeploymentOperatorStatus_m =
  mst_SeedResources :: "addr option"
  mst_ShootResources :: "addr option"
  mst_Conditions :: "addr option"
  mst_LastReconcile :: "addr option"

record TypeMeta =
  tm_Kind :: string
  tm_APIVersion :: string

text \<open>\<open>'x\<close> are the values of the library's types: their fields are not those of this program.\<close>

record 'x DualDeploymentOperator_m =
  md_TypeMeta :: TypeMeta
  md_ObjectMeta :: 'x
  md_Spec :: DualDeploymentOperatorSpec_m
  md_Status :: DualDeploymentOperatorStatus_m

record 'x DualDeploymentOperatorList_m =
  ml_TypeMeta :: TypeMeta
  ml_ListMeta :: 'x
  ml_Items :: "addr option"

section \<open>Cells\<close>

datatype 'x cell =
    CLib 'x | CLibs "'x list" | CStrings "string list"
  | CSecretReference SecretReference | CHelmSource HelmSource_m | CKustomizeSource KustomizeSource_m
  | CSource Source_m | CShootAccessRef ShootAccessRef | CSelector Selector
  | CJSONPatchOp JSONPatchOp_m | CJSONPatchOps "JSONPatchOp_m list" | CPatchSpec PatchSpec_m
  | CRewriteWebhookURLSpec RewriteWebhookURLSpec | CFilterKindsSpec FilterKindsSpec_m
  | CTransformation Transformation_m | CTransformations "Transformation_m list"
  | CRetentionPolicy RetentionPolicy | CSpec DualDeploymentOperatorSpec_m
  | CResourceStatus ResourceStatus_m | CResourceStatuses "ResourceStatus_m list"
  | CStatus DualDeploymentOperatorStatus_m
  | CObject "'x DualDeploymentOperator_m" | CObjects "'x DualDeploymentOperator_m list"
  | CObjectList "'x DualDeploymentOperatorList_m"

type_synonym 'x memory = "'x cell list"

text \<open>How the content of one type is stored in a cell and read from it.\<close>

record ('x, 'r) view =
  put :: "'r \<Rightarrow> 'x cell"
  got :: "'x cell \<Rightarrow> 'r option"

definition view_ok :: "('x, 'r) view \<Rightarrow> bool" where
  "view_ok v \<longleftrightarrow> (\<forall>r. got v (put v r) = Some r)"

definition load :: "('x, 'r) view \<Rightarrow> 'x memory \<Rightarrow> addr \<Rightarrow> 'r option" where
  "load v h a = (if a < length h then got v (h ! a) else None)"

lemma load_append [intro]: "load v h a = Some r \<Longrightarrow> load v (h @ t) a = Some r"
  by (auto simp: load_def nth_append split: if_splits)

lemma load_new [simp]: "view_ok v \<Longrightarrow> length g = n \<Longrightarrow> load v (g @ put v r # t) n = Some r"
  by (auto simp: load_def view_ok_def)

section \<open>Copying\<close>

type_synonym ('x, 'r) copier = "'r \<Rightarrow> ('x memory, 'r) state"

text \<open>
  \<open>*out = new(T); (*in).DeepCopyInto(*out)\<close>, unless the pointer is nil: the new cell starts as a
  shallow copy, which is the first statement of every \<open>DeepCopyInto\<close>, and receives what the copier of
  its type makes of it. A slice is a pointer to its elements, which are copied in order.
\<close>

definition copy_ptr :: "('x, 'r) view \<Rightarrow> ('x, 'r) copier \<Rightarrow> ('x, addr option) copier" where
  "copy_ptr v c p =
     (case p of
        None \<Rightarrow> State_Monad.return None
      | Some a \<Rightarrow> State (\<lambda>h.
          case load v h a of
            None \<Rightarrow> (p, h)
          | Some r \<Rightarrow>
              (let out = length h; (r', h') = run_state (c r) (h @ [put v r])
               in (Some out, h'[out := put v r']))))"

fun copy_elements :: "('x, 'r) copier \<Rightarrow> ('x, 'r list) copier" where
  "copy_elements c [] = State_Monad.return []"
| "copy_elements c (r # rs) = do {
     r' \<leftarrow> c r;
     rs' \<leftarrow> copy_elements c rs;
     State_Monad.return (r' # rs')
   }"

definition copy_slice :: "('x, 'r list) view \<Rightarrow> ('x, 'r) copier \<Rightarrow> ('x, addr option) copier" where
  "copy_slice v c = copy_ptr v (copy_elements c)"

text \<open>\<open>**out = **in\<close> and \<open>copy(*out, *in)\<close>: the copier of a type without references.\<close>

definition copy_value :: "('x, 'r) copier" where
  "copy_value r = State_Monad.return r"

section \<open>The value of a reference\<close>

text \<open>What can be read at a reference, in the records of \<open>ApiTypes\<close>; \<open>None\<close> for a reference out of range.\<close>

definition val_ptr :: "('x, 'r) view \<Rightarrow> ('x memory \<Rightarrow> 'r \<Rightarrow> 'v option) \<Rightarrow> 'x memory \<Rightarrow> addr option \<Rightarrow> 'v option option" where
  "val_ptr v A h p =
     (case p of
        None \<Rightarrow> Some None
      | Some a \<Rightarrow> (case load v h a of None \<Rightarrow> None | Some r \<Rightarrow> map_option Some (A h r)))"

definition val_elements :: "('x memory \<Rightarrow> 'r \<Rightarrow> 'v option) \<Rightarrow> 'x memory \<Rightarrow> 'r list \<Rightarrow> 'v list option" where
  "val_elements A h rs = those (map (A h) rs)"

definition val_slice :: "('x, 'r list) view \<Rightarrow> ('x memory \<Rightarrow> 'r \<Rightarrow> 'v option) \<Rightarrow> 'x memory \<Rightarrow> addr option \<Rightarrow> 'v list option option" where
  "val_slice v A = val_ptr v (val_elements A)"

definition val_plain :: "'x memory \<Rightarrow> 'r \<Rightarrow> 'r option" where
  "val_plain h r = Some r"

section \<open>The contract of a copier\<close>

text \<open>
  \<open>fresh A n t r x\<close>: in a memory that consists of any \<open>n\<close> cells, the new cells \<open>t\<close> and any further
  ones, the value of \<open>r\<close> is \<open>x\<close>. So it only depends on the new cells.
\<close>

definition fresh :: "('x memory \<Rightarrow> 'r \<Rightarrow> 'v option) \<Rightarrow> nat \<Rightarrow> 'x memory \<Rightarrow> 'r \<Rightarrow> 'v \<Rightarrow> bool" where
  "fresh A n t r x \<longleftrightarrow> (\<forall>g u. length g = n \<longrightarrow> A (g @ t @ u) r = Some x)"

text \<open>\<open>fills Q m h\<close>: \<open>m\<close> changes no cell of \<open>h\<close>, and \<open>Q\<close> holds of its result and the cells it adds.\<close>

definition fills :: "('r \<Rightarrow> 'x memory \<Rightarrow> bool) \<Rightarrow> ('x memory, 'r) state \<Rightarrow> 'x memory \<Rightarrow> bool" where
  "fills Q m h \<longleftrightarrow> (\<exists>r t. run_state m h = (r, h @ t) \<and> Q r t)"

lemma fills_return: "Q r [] \<Longrightarrow> fills Q (State_Monad.return r) h"
  by (simp add: fills_def)

lemma fills_bind:
  assumes "fills R m h" and "\<And>r t. R r t \<Longrightarrow> fills (\<lambda>r' u. Q r' (t @ u)) (f r) (h @ t)"
  shows "fills Q (State_Monad.bind m f) h"
proof -
  from assms(1) obtain r t where run: "run_state m h = (r, h @ t)" and "R r t" by (auto simp: fills_def)
  from assms(2) [OF this(2)] run show ?thesis by (auto simp: fills_def)
qed

locale deep_copier =
  fixes A :: "'x memory \<Rightarrow> 'r \<Rightarrow> 'v option" and c :: "('x, 'r) copier"
  assumes val_append: "A h r = Some x \<Longrightarrow> A (h @ t) r = Some x"
    and copy_fills: "A h r = Some x \<Longrightarrow> fills (\<lambda>r' t. fresh A (length h) t r' x) (c r) h"
begin

text \<open>One field of a struct, after the cells \<open>s\<close> of the fields before it.\<close>

lemma copy_field:
  assumes "A h r = Some x"
    and "\<And>r' t. fresh A (length h) (s @ t) r' x \<Longrightarrow> fills (\<lambda>q u. Q q ((s @ t) @ u)) (k r') (h @ (s @ t))"
  shows "fills (\<lambda>q u. Q q (s @ u)) (State_Monad.bind (c r) k) (h @ s)"
proof (rule fills_bind [OF copy_fills [OF val_append [OF assms(1)]]])
  fix r' t
  assume "fresh A (length (h @ s)) t r' x"
  then have "fresh A (length h) (s @ t) r' x"
    unfolding fresh_def by (metis append_assoc length_append)
  from assms(2) [OF this] show "fills (\<lambda>q u. Q q (s @ t @ u)) (k r') ((h @ s) @ t)" by simp
qed

text \<open>Later writes to the old cells are not seen by the copy, and writes to the new ones not by the original.\<close>

lemma isolated:
  assumes "A h r = Some x" and "run_state (c r) h = (r', h')"
  shows "\<exists>t. h' = h @ t \<and> (\<forall>g. length g = length h \<longrightarrow> A (g @ t) r' = Some x) \<and> (\<forall>u. A (h @ u) r = Some x)"
proof -
  from copy_fills [OF assms(1)] assms(2) obtain t where "h' = h @ t" and "fresh A (length h) t r' x" by (auto simp: fills_def)
  moreover from this(2) have "\<forall>g. length g = length h \<longrightarrow> A (g @ t) r' = Some x"
    unfolding fresh_def by (metis append_Nil2)
  ultimately show ?thesis using val_append [OF assms(1)] by blast
qed

end

lemma copy_fields: "fills (\<lambda>q u. Q q ([] @ u)) m (h @ []) \<Longrightarrow> fills Q m h"
  by simp

lemma fields_copied: "Q r (s @ []) \<Longrightarrow> fills (\<lambda>q u. Q q (s @ u)) (State_Monad.return r) (h @ s)"
  by (rule fills_return)

lemma deep_copier_value: "deep_copier val_plain copy_value"
  by unfold_locales (auto simp: val_plain_def copy_value_def fresh_def intro: fills_return)

lemma deep_copier_ptr:
  assumes "deep_copier A c" and v: "view_ok v"
  shows "deep_copier (val_ptr v A) (copy_ptr v c)"
proof (rule deep_copier.intro)
  fix h p x t
  assume "val_ptr v A h p = Some x"
  then show "val_ptr v A (h @ t) p = Some x"
    using deep_copier.val_append [OF assms(1)] load_append [of v h _ _ t]
    by (fastforce simp: val_ptr_def split: option.splits)
next
  fix h p x
  assume val: "val_ptr v A h p = Some x"
  show "fills (\<lambda>r' t. fresh (val_ptr v A) (length h) t r' x) (copy_ptr v c p) h"
  proof (cases p)
    case None
    with val show ?thesis by (auto simp: val_ptr_def copy_ptr_def fresh_def intro: fills_return)
  next
    case (Some a)
    with val obtain r y where r: "load v h a = Some r" "A h r = Some y" "x = Some y"
      by (auto simp: val_ptr_def split: option.splits)
    from deep_copier.copy_fills [OF assms(1) deep_copier.val_append [OF assms(1) r(2)], of "[put v r]"]
    obtain r' t where run: "run_state (c r) (h @ [put v r]) = (r', (h @ [put v r]) @ t)"
      and fr: "fresh A (Suc (length h)) t r' y" by (auto simp: fills_def)
    have "A (g @ put v r' # t @ u) r' = Some y" if "length g = length h" for g u
      using fr [unfolded fresh_def, rule_format, of "g @ [put v r']" u] that by simp
    with r run Some v show ?thesis
      by (auto simp: fills_def copy_ptr_def fresh_def val_ptr_def list_update_append intro!: exI [of _ "put v r' # t"])
  qed
qed

lemma deep_copier_elements:
  assumes "deep_copier A c"
  shows "deep_copier (val_elements A) (copy_elements c)"
proof (rule deep_copier.intro)
  fix h rs x t
  show "val_elements A h rs = Some x \<Longrightarrow> val_elements A (h @ t) rs = Some x"
    by (induction rs arbitrary: x)
      (auto simp: val_elements_def deep_copier.val_append [OF assms] split: option.splits)
next
  fix h rs x
  show "val_elements A h rs = Some x \<Longrightarrow> fills (\<lambda>r' t. fresh (val_elements A) (length h) t r' x) (copy_elements c rs) h"
  proof (induction rs arbitrary: h x)
    case (Cons r rs)
    then obtain y ys where x: "x = y # ys" "A h r = Some y" "val_elements A h rs = Some ys"
      by (auto simp: val_elements_def split: option.splits)
    have mono: "val_elements A h rs = Some ys \<Longrightarrow> val_elements A (h @ t) rs = Some ys" for t
      by (induction rs arbitrary: ys)
        (auto simp: val_elements_def deep_copier.val_append [OF assms] split: option.splits)
    show ?case
      unfolding copy_elements.simps
    proof (rule fills_bind [OF deep_copier.copy_fills [OF assms x(2)]], rule fills_bind, rule Cons.IH, rule mono, rule x(3), rule fills_return)
      fix r' t rs' u
      assume r': "fresh A (length h) t r' y" and rs': "fresh (val_elements A) (length (h @ t)) u rs' ys"
      have "val_elements A (g @ t @ u @ w) rs' = Some ys" if "length g = length h" for g w
        using rs' [unfolded fresh_def, rule_format, of "g @ t" w] that by simp
      with r' show "fresh (val_elements A) (length h) (t @ u @ []) (r' # rs') x"
        by (simp add: fresh_def x val_elements_def)
    qed
  qed (auto simp: val_elements_def fresh_def intro: fills_return)
qed

lemma deep_copier_slice: "deep_copier A c \<Longrightarrow> view_ok v \<Longrightarrow> deep_copier (val_slice v A) (copy_slice v c)"
  unfolding val_slice_def copy_slice_def by (intro deep_copier_ptr deep_copier_elements)

end
