(* ===== verification/DeepCopy.thy ===== *)
theory DeepCopy
  imports Memory
begin

text \<open>
  The generated deep copies (zz\_generated.deepcopy.go), one definition per method, over a memory
  with references. The copies of library types, which they call, are the fields of \<open>copylib\<close>.
\<close>

record 'x copylib =
  JSON_DeepCopyInto :: "('x, 'x) copier"
  Time_DeepCopy :: "('x, addr option) copier"
  Condition_DeepCopyInto :: "('x, 'x) copier"
  ObjectMeta_DeepCopyInto :: "('x, 'x) copier"
  ListMeta_DeepCopyInto :: "('x, 'x) copier"

section \<open>Cells by type\<close>

definition lib_v :: "('x, 'x) view" where
  "lib_v = \<lparr>put = CLib, got = \<lambda>k. case k of CLib r \<Rightarrow> Some r | _ \<Rightarrow> None\<rparr>"

definition libs_v :: "('x, 'x list) view" where
  "libs_v = \<lparr>put = CLibs, got = \<lambda>k. case k of CLibs r \<Rightarrow> Some r | _ \<Rightarrow> None\<rparr>"

definition strings_v :: "('x, string list) view" where
  "strings_v = \<lparr>put = CStrings, got = \<lambda>k. case k of CStrings r \<Rightarrow> Some r | _ \<Rightarrow> None\<rparr>"

definition SecretReference_v :: "('x, SecretReference) view" where
  "SecretReference_v = \<lparr>put = CSecretReference, got = \<lambda>k. case k of CSecretReference r \<Rightarrow> Some r | _ \<Rightarrow> None\<rparr>"

definition HelmSource_v :: "('x, HelmSource_m) view" where
  "HelmSource_v = \<lparr>put = CHelmSource, got = \<lambda>k. case k of CHelmSource r \<Rightarrow> Some r | _ \<Rightarrow> None\<rparr>"

definition KustomizeSource_v :: "('x, KustomizeSource_m) view" where
  "KustomizeSource_v = \<lparr>put = CKustomizeSource, got = \<lambda>k. case k of CKustomizeSource r \<Rightarrow> Some r | _ \<Rightarrow> None\<rparr>"

definition Source_v :: "('x, Source_m) view" where
  "Source_v = \<lparr>put = CSource, got = \<lambda>k. case k of CSource r \<Rightarrow> Some r | _ \<Rightarrow> None\<rparr>"

definition ShootAccessRef_v :: "('x, ShootAccessRef) view" where
  "ShootAccessRef_v = \<lparr>put = CShootAccessRef, got = \<lambda>k. case k of CShootAccessRef r \<Rightarrow> Some r | _ \<Rightarrow> None\<rparr>"

definition Selector_v :: "('x, Selector) view" where
  "Selector_v = \<lparr>put = CSelector, got = \<lambda>k. case k of CSelector r \<Rightarrow> Some r | _ \<Rightarrow> None\<rparr>"

definition JSONPatchOp_v :: "('x, JSONPatchOp_m) view" where
  "JSONPatchOp_v = \<lparr>put = CJSONPatchOp, got = \<lambda>k. case k of CJSONPatchOp r \<Rightarrow> Some r | _ \<Rightarrow> None\<rparr>"

definition JSONPatchOps_v :: "('x, JSONPatchOp_m list) view" where
  "JSONPatchOps_v = \<lparr>put = CJSONPatchOps, got = \<lambda>k. case k of CJSONPatchOps r \<Rightarrow> Some r | _ \<Rightarrow> None\<rparr>"

definition PatchSpec_v :: "('x, PatchSpec_m) view" where
  "PatchSpec_v = \<lparr>put = CPatchSpec, got = \<lambda>k. case k of CPatchSpec r \<Rightarrow> Some r | _ \<Rightarrow> None\<rparr>"

definition RewriteWebhookURLSpec_v :: "('x, RewriteWebhookURLSpec) view" where
  "RewriteWebhookURLSpec_v = \<lparr>put = CRewriteWebhookURLSpec, got = \<lambda>k. case k of CRewriteWebhookURLSpec r \<Rightarrow> Some r | _ \<Rightarrow> None\<rparr>"

definition FilterKindsSpec_v :: "('x, FilterKindsSpec_m) view" where
  "FilterKindsSpec_v = \<lparr>put = CFilterKindsSpec, got = \<lambda>k. case k of CFilterKindsSpec r \<Rightarrow> Some r | _ \<Rightarrow> None\<rparr>"

definition Transformation_v :: "('x, Transformation_m) view" where
  "Transformation_v = \<lparr>put = CTransformation, got = \<lambda>k. case k of CTransformation r \<Rightarrow> Some r | _ \<Rightarrow> None\<rparr>"

definition Transformations_v :: "('x, Transformation_m list) view" where
  "Transformations_v = \<lparr>put = CTransformations, got = \<lambda>k. case k of CTransformations r \<Rightarrow> Some r | _ \<Rightarrow> None\<rparr>"

definition RetentionPolicy_v :: "('x, RetentionPolicy) view" where
  "RetentionPolicy_v = \<lparr>put = CRetentionPolicy, got = \<lambda>k. case k of CRetentionPolicy r \<Rightarrow> Some r | _ \<Rightarrow> None\<rparr>"

definition Spec_v :: "('x, DualDeploymentOperatorSpec_m) view" where
  "Spec_v = \<lparr>put = CSpec, got = \<lambda>k. case k of CSpec r \<Rightarrow> Some r | _ \<Rightarrow> None\<rparr>"

definition ResourceStatus_v :: "('x, ResourceStatus_m) view" where
  "ResourceStatus_v = \<lparr>put = CResourceStatus, got = \<lambda>k. case k of CResourceStatus r \<Rightarrow> Some r | _ \<Rightarrow> None\<rparr>"

definition ResourceStatuses_v :: "('x, ResourceStatus_m list) view" where
  "ResourceStatuses_v = \<lparr>put = CResourceStatuses, got = \<lambda>k. case k of CResourceStatuses r \<Rightarrow> Some r | _ \<Rightarrow> None\<rparr>"

definition Status_v :: "('x, DualDeploymentOperatorStatus_m) view" where
  "Status_v = \<lparr>put = CStatus, got = \<lambda>k. case k of CStatus r \<Rightarrow> Some r | _ \<Rightarrow> None\<rparr>"

definition Object_v :: "('x, 'x DualDeploymentOperator_m) view" where
  "Object_v = \<lparr>put = CObject, got = \<lambda>k. case k of CObject r \<Rightarrow> Some r | _ \<Rightarrow> None\<rparr>"

definition Objects_v :: "('x, 'x DualDeploymentOperator_m list) view" where
  "Objects_v = \<lparr>put = CObjects, got = \<lambda>k. case k of CObjects r \<Rightarrow> Some r | _ \<Rightarrow> None\<rparr>"

definition ObjectList_v :: "('x, 'x DualDeploymentOperatorList_m) view" where
  "ObjectList_v = \<lparr>put = CObjectList, got = \<lambda>k. case k of CObjectList r \<Rightarrow> Some r | _ \<Rightarrow> None\<rparr>"

lemmas view_defs = lib_v_def libs_v_def strings_v_def SecretReference_v_def HelmSource_v_def KustomizeSource_v_def
  Source_v_def ShootAccessRef_v_def Selector_v_def JSONPatchOp_v_def JSONPatchOps_v_def PatchSpec_v_def
  RewriteWebhookURLSpec_v_def FilterKindsSpec_v_def Transformation_v_def Transformations_v_def RetentionPolicy_v_def
  Spec_v_def ResourceStatus_v_def ResourceStatuses_v_def Status_v_def Object_v_def Objects_v_def ObjectList_v_def

lemma views_ok [simp, intro]:
  "view_ok lib_v" "view_ok libs_v" "view_ok strings_v" "view_ok SecretReference_v" "view_ok HelmSource_v"
  "view_ok KustomizeSource_v" "view_ok Source_v" "view_ok ShootAccessRef_v" "view_ok Selector_v" "view_ok JSONPatchOp_v"
  "view_ok JSONPatchOps_v" "view_ok PatchSpec_v" "view_ok RewriteWebhookURLSpec_v" "view_ok FilterKindsSpec_v"
  "view_ok Transformation_v" "view_ok Transformations_v" "view_ok RetentionPolicy_v" "view_ok Spec_v"
  "view_ok ResourceStatus_v" "view_ok ResourceStatuses_v" "view_ok Status_v" "view_ok Object_v" "view_ok Objects_v"
  "view_ok ObjectList_v"
  by (simp_all add: view_ok_def view_defs)

section \<open>The methods\<close>

definition SecretReference_DeepCopyInto :: "('x, SecretReference) copier" where
  "SecretReference_DeepCopyInto r = copy_value r"

definition Selector_DeepCopyInto :: "('x, Selector) copier" where
  "Selector_DeepCopyInto r = copy_value r"

definition ShootAccessRef_DeepCopyInto :: "('x, ShootAccessRef) copier" where
  "ShootAccessRef_DeepCopyInto r = copy_value r"

definition RetentionPolicy_DeepCopyInto :: "('x, RetentionPolicy) copier" where
  "RetentionPolicy_DeepCopyInto r = copy_value r"

definition RewriteWebhookURLSpec_DeepCopyInto :: "('x, RewriteWebhookURLSpec) copier" where
  "RewriteWebhookURLSpec_DeepCopyInto r = copy_value r"

definition FilterKindsSpec_DeepCopyInto :: "('x, FilterKindsSpec_m) copier" where
  "FilterKindsSpec_DeepCopyInto r = do {
     kinds \<leftarrow> copy_slice strings_v copy_value (mf_Kinds r);
     State_Monad.return (r\<lparr>mf_Kinds := kinds\<rparr>)
   }"

definition HelmSource_DeepCopyInto :: "'x copylib \<Rightarrow> ('x, HelmSource_m) copier" where
  "HelmSource_DeepCopyInto X r = do {
     values \<leftarrow> copy_ptr lib_v (JSON_DeepCopyInto X) (mh_Values r);
     seedValues \<leftarrow> copy_ptr lib_v (JSON_DeepCopyInto X) (mh_SeedValues r);
     shootValues \<leftarrow> copy_ptr lib_v (JSON_DeepCopyInto X) (mh_ShootValues r);
     auth \<leftarrow> copy_ptr SecretReference_v copy_value (mh_AuthSecretRef r);
     State_Monad.return (r\<lparr>mh_Values := values, mh_SeedValues := seedValues, mh_ShootValues := shootValues,
       mh_AuthSecretRef := auth\<rparr>)
   }"

definition JSONPatchOp_DeepCopyInto :: "'x copylib \<Rightarrow> ('x, JSONPatchOp_m) copier" where
  "JSONPatchOp_DeepCopyInto X r = do {
     v \<leftarrow> copy_ptr lib_v (JSON_DeepCopyInto X) (mo_Value r);
     State_Monad.return (r\<lparr>mo_Value := v\<rparr>)
   }"

definition KustomizeSource_DeepCopyInto :: "('x, KustomizeSource_m) copier" where
  "KustomizeSource_DeepCopyInto r = do {
     auth \<leftarrow> copy_ptr SecretReference_v copy_value (mk_AuthSecretRef r);
     State_Monad.return (r\<lparr>mk_AuthSecretRef := auth\<rparr>)
   }"

definition PatchSpec_DeepCopyInto :: "'x copylib \<Rightarrow> ('x, PatchSpec_m) copier" where
  "PatchSpec_DeepCopyInto X r = do {
     merge \<leftarrow> copy_ptr lib_v (JSON_DeepCopyInto X) (mp_StrategicMerge r);
     ops \<leftarrow> copy_slice JSONPatchOps_v (JSONPatchOp_DeepCopyInto X) (mp_JSONPatch r);
     State_Monad.return (r\<lparr>mp_StrategicMerge := merge, mp_JSONPatch := ops\<rparr>)
   }"

definition ResourceStatus_DeepCopyInto :: "'x copylib \<Rightarrow> ('x, ResourceStatus_m) copier" where
  "ResourceStatus_DeepCopyInto X r = do {
     lastApplied \<leftarrow> Time_DeepCopy X (mr_LastApplied r);
     State_Monad.return (r\<lparr>mr_LastApplied := lastApplied\<rparr>)
   }"

definition Source_DeepCopyInto :: "'x copylib \<Rightarrow> ('x, Source_m) copier" where
  "Source_DeepCopyInto X r = do {
     helm \<leftarrow> copy_ptr HelmSource_v (HelmSource_DeepCopyInto X) (ms_Helm r);
     kustomize \<leftarrow> copy_ptr KustomizeSource_v KustomizeSource_DeepCopyInto (ms_Kustomize r);
     State_Monad.return (r\<lparr>ms_Helm := helm, ms_Kustomize := kustomize\<rparr>)
   }"

definition Transformation_DeepCopyInto :: "'x copylib \<Rightarrow> ('x, Transformation_m) copier" where
  "Transformation_DeepCopyInto X r = do {
     patch \<leftarrow> copy_ptr PatchSpec_v (PatchSpec_DeepCopyInto X) (mt_Patch r);
     rewrite \<leftarrow> copy_ptr RewriteWebhookURLSpec_v copy_value (mt_RewriteWebhookURL r);
     kinds \<leftarrow> copy_ptr FilterKindsSpec_v FilterKindsSpec_DeepCopyInto (mt_FilterKinds r);
     State_Monad.return (r\<lparr>mt_Patch := patch, mt_RewriteWebhookURL := rewrite, mt_FilterKinds := kinds\<rparr>)
   }"

definition DualDeploymentOperatorSpec_DeepCopyInto :: "'x copylib \<Rightarrow> ('x, DualDeploymentOperatorSpec_m) copier" where
  "DualDeploymentOperatorSpec_DeepCopyInto X r = do {
     source \<leftarrow> Source_DeepCopyInto X (msp_Source r);
     transformations \<leftarrow> copy_slice Transformations_v (Transformation_DeepCopyInto X) (msp_Transformations r);
     State_Monad.return (r\<lparr>msp_Source := source, msp_Transformations := transformations\<rparr>)
   }"

definition DualDeploymentOperatorStatus_DeepCopyInto :: "'x copylib \<Rightarrow> ('x, DualDeploymentOperatorStatus_m) copier" where
  "DualDeploymentOperatorStatus_DeepCopyInto X r = do {
     seed \<leftarrow> copy_slice ResourceStatuses_v (ResourceStatus_DeepCopyInto X) (mst_SeedResources r);
     shoot \<leftarrow> copy_slice ResourceStatuses_v (ResourceStatus_DeepCopyInto X) (mst_ShootResources r);
     conditions \<leftarrow> copy_slice libs_v (Condition_DeepCopyInto X) (mst_Conditions r);
     lastReconcile \<leftarrow> Time_DeepCopy X (mst_LastReconcile r);
     State_Monad.return (r\<lparr>mst_SeedResources := seed, mst_ShootResources := shoot, mst_Conditions := conditions,
       mst_LastReconcile := lastReconcile\<rparr>)
   }"

definition DualDeploymentOperator_DeepCopyInto :: "'x copylib \<Rightarrow> ('x, 'x DualDeploymentOperator_m) copier" where
  "DualDeploymentOperator_DeepCopyInto X r = do {
     meta \<leftarrow> ObjectMeta_DeepCopyInto X (md_ObjectMeta r);
     spec \<leftarrow> DualDeploymentOperatorSpec_DeepCopyInto X (md_Spec r);
     status \<leftarrow> DualDeploymentOperatorStatus_DeepCopyInto X (md_Status r);
     State_Monad.return (r\<lparr>md_ObjectMeta := meta, md_Spec := spec, md_Status := status\<rparr>)
   }"

definition DualDeploymentOperatorList_DeepCopyInto :: "'x copylib \<Rightarrow> ('x, 'x DualDeploymentOperatorList_m) copier" where
  "DualDeploymentOperatorList_DeepCopyInto X r = do {
     meta \<leftarrow> ListMeta_DeepCopyInto X (ml_ListMeta r);
     items \<leftarrow> copy_slice Objects_v (DualDeploymentOperator_DeepCopyInto X) (ml_Items r);
     State_Monad.return (r\<lparr>ml_ListMeta := meta, ml_Items := items\<rparr>)
   }"

text \<open>\<open>DeepCopy\<close>: nil for nil, otherwise a new object.\<close>

definition SecretReference_DeepCopy :: "('x, addr option) copier" where
  "SecretReference_DeepCopy = copy_ptr SecretReference_v SecretReference_DeepCopyInto"

definition Selector_DeepCopy :: "('x, addr option) copier" where
  "Selector_DeepCopy = copy_ptr Selector_v Selector_DeepCopyInto"

definition ShootAccessRef_DeepCopy :: "('x, addr option) copier" where
  "ShootAccessRef_DeepCopy = copy_ptr ShootAccessRef_v ShootAccessRef_DeepCopyInto"

definition RetentionPolicy_DeepCopy :: "('x, addr option) copier" where
  "RetentionPolicy_DeepCopy = copy_ptr RetentionPolicy_v RetentionPolicy_DeepCopyInto"

definition RewriteWebhookURLSpec_DeepCopy :: "('x, addr option) copier" where
  "RewriteWebhookURLSpec_DeepCopy = copy_ptr RewriteWebhookURLSpec_v RewriteWebhookURLSpec_DeepCopyInto"

definition FilterKindsSpec_DeepCopy :: "('x, addr option) copier" where
  "FilterKindsSpec_DeepCopy = copy_ptr FilterKindsSpec_v FilterKindsSpec_DeepCopyInto"

definition HelmSource_DeepCopy :: "'x copylib \<Rightarrow> ('x, addr option) copier" where
  "HelmSource_DeepCopy X = copy_ptr HelmSource_v (HelmSource_DeepCopyInto X)"

definition JSONPatchOp_DeepCopy :: "'x copylib \<Rightarrow> ('x, addr option) copier" where
  "JSONPatchOp_DeepCopy X = copy_ptr JSONPatchOp_v (JSONPatchOp_DeepCopyInto X)"

definition KustomizeSource_DeepCopy :: "('x, addr option) copier" where
  "KustomizeSource_DeepCopy = copy_ptr KustomizeSource_v KustomizeSource_DeepCopyInto"

definition PatchSpec_DeepCopy :: "'x copylib \<Rightarrow> ('x, addr option) copier" where
  "PatchSpec_DeepCopy X = copy_ptr PatchSpec_v (PatchSpec_DeepCopyInto X)"

definition ResourceStatus_DeepCopy :: "'x copylib \<Rightarrow> ('x, addr option) copier" where
  "ResourceStatus_DeepCopy X = copy_ptr ResourceStatus_v (ResourceStatus_DeepCopyInto X)"

definition Source_DeepCopy :: "'x copylib \<Rightarrow> ('x, addr option) copier" where
  "Source_DeepCopy X = copy_ptr Source_v (Source_DeepCopyInto X)"

definition Transformation_DeepCopy :: "'x copylib \<Rightarrow> ('x, addr option) copier" where
  "Transformation_DeepCopy X = copy_ptr Transformation_v (Transformation_DeepCopyInto X)"

definition DualDeploymentOperatorSpec_DeepCopy :: "'x copylib \<Rightarrow> ('x, addr option) copier" where
  "DualDeploymentOperatorSpec_DeepCopy X = copy_ptr Spec_v (DualDeploymentOperatorSpec_DeepCopyInto X)"

definition DualDeploymentOperatorStatus_DeepCopy :: "'x copylib \<Rightarrow> ('x, addr option) copier" where
  "DualDeploymentOperatorStatus_DeepCopy X = copy_ptr Status_v (DualDeploymentOperatorStatus_DeepCopyInto X)"

definition DualDeploymentOperator_DeepCopy :: "'x copylib \<Rightarrow> ('x, addr option) copier" where
  "DualDeploymentOperator_DeepCopy X = copy_ptr Object_v (DualDeploymentOperator_DeepCopyInto X)"

definition DualDeploymentOperatorList_DeepCopy :: "'x copylib \<Rightarrow> ('x, addr option) copier" where
  "DualDeploymentOperatorList_DeepCopy X = copy_ptr ObjectList_v (DualDeploymentOperatorList_DeepCopyInto X)"

text \<open>\<open>DeepCopyObject\<close>: the same, with a nil pointer as the nil interface.\<close>

definition DualDeploymentOperator_DeepCopyObject :: "'x copylib \<Rightarrow> ('x, addr option) copier" where
  "DualDeploymentOperator_DeepCopyObject X p = do {
     q \<leftarrow> DualDeploymentOperator_DeepCopy X p;
     case q of Some a \<Rightarrow> State_Monad.return (Some a) | None \<Rightarrow> State_Monad.return None
   }"

definition DualDeploymentOperatorList_DeepCopyObject :: "'x copylib \<Rightarrow> ('x, addr option) copier" where
  "DualDeploymentOperatorList_DeepCopyObject X p = do {
     q \<leftarrow> DualDeploymentOperatorList_DeepCopy X p;
     case q of Some a \<Rightarrow> State_Monad.return (Some a) | None \<Rightarrow> State_Monad.return None
   }"

section \<open>Values\<close>

text \<open>The metadata of a custom resource that the operator reads, and how library values are read.\<close>

record ObjectMeta =
  om_Namespace :: string
  om_Name :: string
  om_Generation :: int
  om_ResourceVersion :: string
  om_DeletionTimestamp :: "time option"
  om_Finalizers :: "string list"
  om_Annotations :: strmap

record 'x libvals =
  JSON_val :: "'x memory \<Rightarrow> 'x \<Rightarrow> json_raw option"
  Time_val :: "'x memory \<Rightarrow> 'x \<Rightarrow> time option"
  Condition_val :: "'x memory \<Rightarrow> 'x \<Rightarrow> condition option"
  ObjectMeta_val :: "'x memory \<Rightarrow> 'x \<Rightarrow> ObjectMeta option"
  ListMeta_val :: "'x memory \<Rightarrow> 'x \<Rightarrow> string option"

definition or_empty :: "'a list option \<Rightarrow> 'a list" where
  "or_empty o' = (case o' of None \<Rightarrow> [] | Some xs \<Rightarrow> xs)"

definition FilterKindsSpec_val :: "'x memory \<Rightarrow> FilterKindsSpec_m \<Rightarrow> FilterKindsSpec option" where
  "FilterKindsSpec_val h r = do {
     kinds \<leftarrow> val_slice strings_v val_plain h (mf_Kinds r);
     Some \<lparr>fk_Kinds = or_empty kinds, fk_Source = mf_Source r\<rparr>
   }"

definition HelmSource_val :: "'x libvals \<Rightarrow> 'x memory \<Rightarrow> HelmSource_m \<Rightarrow> HelmSource option" where
  "HelmSource_val V h r = do {
     values \<leftarrow> val_ptr lib_v (JSON_val V) h (mh_Values r);
     seedValues \<leftarrow> val_ptr lib_v (JSON_val V) h (mh_SeedValues r);
     shootValues \<leftarrow> val_ptr lib_v (JSON_val V) h (mh_ShootValues r);
     auth \<leftarrow> val_ptr SecretReference_v val_plain h (mh_AuthSecretRef r);
     Some \<lparr>helm_Repo = mh_Repo r, helm_Name = mh_Name r, helm_Version = mh_Version r, helm_Values = values,
       helm_SeedValues = seedValues, helm_ShootValues = shootValues, helm_AuthSecretRef = auth\<rparr>
   }"

definition JSONPatchOp_val :: "'x libvals \<Rightarrow> 'x memory \<Rightarrow> JSONPatchOp_m \<Rightarrow> JSONPatchOp option" where
  "JSONPatchOp_val V h r = do {
     v \<leftarrow> val_ptr lib_v (JSON_val V) h (mo_Value r);
     Some \<lparr>op_Op = mo_Op r, op_Path = mo_Path r, op_From = mo_From r, op_Value = v\<rparr>
   }"

definition KustomizeSource_val :: "'x memory \<Rightarrow> KustomizeSource_m \<Rightarrow> KustomizeSource option" where
  "KustomizeSource_val h r = do {
     auth \<leftarrow> val_ptr SecretReference_v val_plain h (mk_AuthSecretRef r);
     Some \<lparr>kust_URL = mk_URL r, kust_SeedPath = mk_SeedPath r, kust_ShootPath = mk_ShootPath r, kust_AuthSecretRef = auth\<rparr>
   }"

definition PatchSpec_val :: "'x libvals \<Rightarrow> 'x memory \<Rightarrow> PatchSpec_m \<Rightarrow> PatchSpec option" where
  "PatchSpec_val V h r = do {
     merge \<leftarrow> val_ptr lib_v (JSON_val V) h (mp_StrategicMerge r);
     ops \<leftarrow> val_slice JSONPatchOps_v (JSONPatchOp_val V) h (mp_JSONPatch r);
     Some \<lparr>patch_Target = mp_Target r, patch_StrategicMerge = merge, patch_JSONPatch = ops\<rparr>
   }"

definition ResourceStatus_val :: "'x libvals \<Rightarrow> 'x memory \<Rightarrow> ResourceStatus_m \<Rightarrow> ResourceStatus option" where
  "ResourceStatus_val V h r = do {
     lastApplied \<leftarrow> val_ptr lib_v (Time_val V) h (mr_LastApplied r);
     Some \<lparr>rs_Kind = mr_Kind r, rs_APIVersion = mr_APIVersion r, rs_Namespace = mr_Namespace r, rs_Name = mr_Name r,
       rs_Health = mr_Health r, rs_LastApplied = lastApplied, rs_Message = mr_Message r\<rparr>
   }"

definition Source_val :: "'x libvals \<Rightarrow> 'x memory \<Rightarrow> Source_m \<Rightarrow> Source option" where
  "Source_val V h r = do {
     helm \<leftarrow> val_ptr HelmSource_v (HelmSource_val V) h (ms_Helm r);
     kustomize \<leftarrow> val_ptr KustomizeSource_v KustomizeSource_val h (ms_Kustomize r);
     Some \<lparr>src_Helm = helm, src_Kustomize = kustomize\<rparr>
   }"

definition Transformation_val :: "'x libvals \<Rightarrow> 'x memory \<Rightarrow> Transformation_m \<Rightarrow> TransformationSpec option" where
  "Transformation_val V h r = do {
     patch \<leftarrow> val_ptr PatchSpec_v (PatchSpec_val V) h (mt_Patch r);
     rewrite \<leftarrow> val_ptr RewriteWebhookURLSpec_v val_plain h (mt_RewriteWebhookURL r);
     kinds \<leftarrow> val_ptr FilterKindsSpec_v FilterKindsSpec_val h (mt_FilterKinds r);
     Some \<lparr>tr_Patch = patch, tr_RewriteWebhookURL = rewrite, tr_FilterKinds = kinds\<rparr>
   }"

definition Spec_val :: "'x libvals \<Rightarrow> 'x memory \<Rightarrow> DualDeploymentOperatorSpec_m \<Rightarrow> DualDeploymentOperatorSpec option" where
  "Spec_val V h r = do {
     source \<leftarrow> Source_val V h (msp_Source r);
     transformations \<leftarrow> val_slice Transformations_v (Transformation_val V) h (msp_Transformations r);
     Some \<lparr>spec_Source = source, spec_ShootAccess = msp_ShootAccess r, spec_ShootNamespace = msp_ShootNamespace r,
       spec_Transformations = or_empty transformations, spec_RetentionPolicy = msp_RetentionPolicy r,
       spec_ApplyOrder = msp_ApplyOrder r\<rparr>
   }"

definition Status_val :: "'x libvals \<Rightarrow> 'x memory \<Rightarrow> DualDeploymentOperatorStatus_m \<Rightarrow> DualDeploymentOperatorStatus option" where
  "Status_val V h r = do {
     seed \<leftarrow> val_slice ResourceStatuses_v (ResourceStatus_val V) h (mst_SeedResources r);
     shoot \<leftarrow> val_slice ResourceStatuses_v (ResourceStatus_val V) h (mst_ShootResources r);
     conditions \<leftarrow> val_slice libs_v (Condition_val V) h (mst_Conditions r);
     lastReconcile \<leftarrow> val_ptr lib_v (Time_val V) h (mst_LastReconcile r);
     Some \<lparr>st_SeedResources = or_empty seed, st_ShootResources = or_empty shoot, st_Conditions = or_empty conditions,
       st_LastReconcile = lastReconcile\<rparr>
   }"

definition Object_val ::
  "'x libvals \<Rightarrow> 'x memory \<Rightarrow> 'x DualDeploymentOperator_m \<Rightarrow> (TypeMeta \<times> DualDeploymentOperator) option" where
  "Object_val V h r = do {
     meta \<leftarrow> ObjectMeta_val V h (md_ObjectMeta r);
     spec \<leftarrow> Spec_val V h (md_Spec r);
     status \<leftarrow> Status_val V h (md_Status r);
     Some (md_TypeMeta r,
       \<lparr>cr_Namespace = om_Namespace meta, cr_Name = om_Name meta, cr_Generation = om_Generation meta,
        cr_ResourceVersion = om_ResourceVersion meta, cr_DeletionTimestamp = om_DeletionTimestamp meta,
        cr_Finalizers = om_Finalizers meta, cr_Annotations = om_Annotations meta, cr_Spec = spec, cr_Status = status\<rparr>)
   }"

definition ObjectList_val ::
  "'x libvals \<Rightarrow> 'x memory \<Rightarrow> 'x DualDeploymentOperatorList_m \<Rightarrow>
   (TypeMeta \<times> string \<times> (TypeMeta \<times> DualDeploymentOperator) list) option" where
  "ObjectList_val V h r = do {
     meta \<leftarrow> ListMeta_val V h (ml_ListMeta r);
     items \<leftarrow> val_slice Objects_v (Object_val V) h (ml_Items r);
     Some (ml_TypeMeta r, meta, or_empty items)
   }"

section \<open>Every method makes deep copies\<close>

text \<open>What the library promises of its own copies.\<close>

locale copy_library =
  fixes X :: "'x copylib" and V :: "'x libvals"
  assumes json: "deep_copier (JSON_val V) (JSON_DeepCopyInto X)"
    and time: "deep_copier (val_ptr lib_v (Time_val V)) (Time_DeepCopy X)"
    and cond: "deep_copier (Condition_val V) (Condition_DeepCopyInto X)"
    and objectMeta: "deep_copier (ObjectMeta_val V) (ObjectMeta_DeepCopyInto X)"
    and listMeta: "deep_copier (ListMeta_val V) (ListMeta_DeepCopyInto X)"

lemmas copier_rules = deep_copier_value deep_copier_ptr deep_copier_slice views_ok

text \<open>A struct whose fields are copied one after the other, by the copiers of their types.\<close>

lemma copier_struct1:
  assumes c: "deep_copier A p"
    and u: "\<And>r a. f1 (up r a) = a"
      "\<And>r a x. mk (up r a) x = mk r x"
  shows "deep_copier (\<lambda>h r. do { x \<leftarrow> A h (f1 r); Some (mk r x) })
    (\<lambda>r. do { a \<leftarrow> p (f1 r); State_Monad.return (up r a) })"
    (is "deep_copier ?val ?copy")
proof (rule deep_copier.intro)
  fix h r v t
  assume "?val h r = Some v"
  then obtain x where v: "A h (f1 r) = Some x" "v = mk r x"
    by (auto simp: bind_eq_Some_conv)
  then show "?val (h @ t) r = Some v" by (simp add: c [THEN deep_copier.val_append])
  show "fills (\<lambda>r' t. fresh ?val (length h) t r' v) (?copy r) h"
    by (rule copy_fields, rule c(1) [THEN deep_copier.copy_field], rule v(1),
      rule fields_copied) (simp add: fresh_def u v)
qed

lemma copier_struct2:
  assumes c: "deep_copier A p" "deep_copier B q"
    and u: "\<And>r a b. f1 (up r a b) = a" "\<And>r a b. f2 (up r a b) = b"
      "\<And>r a b x y. mk (up r a b) x y = mk r x y"
  shows "deep_copier (\<lambda>h r. do { x \<leftarrow> A h (f1 r); y \<leftarrow> B h (f2 r); Some (mk r x y) })
    (\<lambda>r. do { a \<leftarrow> p (f1 r); b \<leftarrow> q (f2 r); State_Monad.return (up r a b) })"
    (is "deep_copier ?val ?copy")
proof (rule deep_copier.intro)
  fix h r v t
  assume "?val h r = Some v"
  then obtain x y where v: "A h (f1 r) = Some x" "B h (f2 r) = Some y" "v = mk r x y"
    by (auto simp: bind_eq_Some_conv)
  then show "?val (h @ t) r = Some v" by (simp add: c [THEN deep_copier.val_append])
  show "fills (\<lambda>r' t. fresh ?val (length h) t r' v) (?copy r) h"
    by (rule copy_fields, rule c(1) [THEN deep_copier.copy_field], rule v(1), rule c(2) [THEN deep_copier.copy_field], rule v(2),
      rule fields_copied) (simp add: fresh_def u v)
qed

lemma copier_struct3:
  assumes c: "deep_copier A p" "deep_copier B q" "deep_copier C s"
    and u: "\<And>r a b d. f1 (up r a b d) = a" "\<And>r a b d. f2 (up r a b d) = b" "\<And>r a b d. f3 (up r a b d) = d"
      "\<And>r a b d x y z. mk (up r a b d) x y z = mk r x y z"
  shows "deep_copier (\<lambda>h r. do { x \<leftarrow> A h (f1 r); y \<leftarrow> B h (f2 r); z \<leftarrow> C h (f3 r); Some (mk r x y z) })
    (\<lambda>r. do { a \<leftarrow> p (f1 r); b \<leftarrow> q (f2 r); d \<leftarrow> s (f3 r); State_Monad.return (up r a b d) })"
    (is "deep_copier ?val ?copy")
proof (rule deep_copier.intro)
  fix h r v t
  assume "?val h r = Some v"
  then obtain x y z where v: "A h (f1 r) = Some x" "B h (f2 r) = Some y" "C h (f3 r) = Some z" "v = mk r x y z"
    by (auto simp: bind_eq_Some_conv)
  then show "?val (h @ t) r = Some v" by (simp add: c [THEN deep_copier.val_append])
  show "fills (\<lambda>r' t. fresh ?val (length h) t r' v) (?copy r) h"
    by (rule copy_fields, rule c(1) [THEN deep_copier.copy_field], rule v(1), rule c(2) [THEN deep_copier.copy_field], rule v(2), rule c(3) [THEN deep_copier.copy_field], rule v(3),
      rule fields_copied) (simp add: fresh_def u v)
qed

lemma copier_struct4:
  assumes c: "deep_copier A p" "deep_copier B q" "deep_copier C s" "deep_copier D t"
    and u: "\<And>r a b d e. f1 (up r a b d e) = a" "\<And>r a b d e. f2 (up r a b d e) = b" "\<And>r a b d e. f3 (up r a b d e) = d" "\<And>r a b d e. f4 (up r a b d e) = e"
      "\<And>r a b d e x y z w. mk (up r a b d e) x y z w = mk r x y z w"
  shows "deep_copier (\<lambda>h r. do { x \<leftarrow> A h (f1 r); y \<leftarrow> B h (f2 r); z \<leftarrow> C h (f3 r); w \<leftarrow> D h (f4 r); Some (mk r x y z w) })
    (\<lambda>r. do { a \<leftarrow> p (f1 r); b \<leftarrow> q (f2 r); d \<leftarrow> s (f3 r); e \<leftarrow> t (f4 r); State_Monad.return (up r a b d e) })"
    (is "deep_copier ?val ?copy")
proof (rule deep_copier.intro)
  fix h r v t
  assume "?val h r = Some v"
  then obtain x y z w where v: "A h (f1 r) = Some x" "B h (f2 r) = Some y" "C h (f3 r) = Some z" "D h (f4 r) = Some w" "v = mk r x y z w"
    by (auto simp: bind_eq_Some_conv)
  then show "?val (h @ t) r = Some v" by (simp add: c [THEN deep_copier.val_append])
  show "fills (\<lambda>r' t. fresh ?val (length h) t r' v) (?copy r) h"
    by (rule copy_fields, rule c(1) [THEN deep_copier.copy_field], rule v(1), rule c(2) [THEN deep_copier.copy_field], rule v(2), rule c(3) [THEN deep_copier.copy_field], rule v(3), rule c(4) [THEN deep_copier.copy_field], rule v(4),
      rule fields_copied) (simp add: fresh_def u v)
qed

lemma copier_FilterKindsSpec: "deep_copier FilterKindsSpec_val FilterKindsSpec_DeepCopyInto"
  unfolding FilterKindsSpec_val_def [abs_def] FilterKindsSpec_DeepCopyInto_def [abs_def]
  by (rule copier_struct1) (intro copier_rules | simp)+

lemma copier_KustomizeSource: "deep_copier KustomizeSource_val KustomizeSource_DeepCopyInto"
  unfolding KustomizeSource_val_def [abs_def] KustomizeSource_DeepCopyInto_def [abs_def]
  by (rule copier_struct1) (intro copier_rules | simp)+

context copy_library
begin

lemma copier_HelmSource: "deep_copier (HelmSource_val V) (HelmSource_DeepCopyInto X)"
  unfolding HelmSource_val_def [abs_def] HelmSource_DeepCopyInto_def [abs_def]
  by (rule copier_struct4) (intro copier_rules json | simp)+

lemma copier_JSONPatchOp: "deep_copier (JSONPatchOp_val V) (JSONPatchOp_DeepCopyInto X)"
  unfolding JSONPatchOp_val_def [abs_def] JSONPatchOp_DeepCopyInto_def [abs_def]
  by (rule copier_struct1) (intro copier_rules json | simp)+

lemma copier_PatchSpec: "deep_copier (PatchSpec_val V) (PatchSpec_DeepCopyInto X)"
  unfolding PatchSpec_val_def [abs_def] PatchSpec_DeepCopyInto_def [abs_def]
  by (rule copier_struct2) (intro copier_rules json copier_JSONPatchOp | simp)+

lemma copier_ResourceStatus: "deep_copier (ResourceStatus_val V) (ResourceStatus_DeepCopyInto X)"
  unfolding ResourceStatus_val_def [abs_def] ResourceStatus_DeepCopyInto_def [abs_def]
  by (rule copier_struct1) (intro copier_rules time | simp)+

lemma copier_Source: "deep_copier (Source_val V) (Source_DeepCopyInto X)"
  unfolding Source_val_def [abs_def] Source_DeepCopyInto_def [abs_def]
  by (rule copier_struct2) (intro copier_rules copier_HelmSource copier_KustomizeSource | simp)+

lemma copier_Transformation: "deep_copier (Transformation_val V) (Transformation_DeepCopyInto X)"
  unfolding Transformation_val_def [abs_def] Transformation_DeepCopyInto_def [abs_def]
  by (rule copier_struct3) (intro copier_rules copier_PatchSpec copier_FilterKindsSpec | simp)+

lemma copier_Spec: "deep_copier (Spec_val V) (DualDeploymentOperatorSpec_DeepCopyInto X)"
  unfolding Spec_val_def [abs_def] DualDeploymentOperatorSpec_DeepCopyInto_def [abs_def]
  by (rule copier_struct2) (intro copier_rules copier_Source copier_Transformation | simp)+

lemma copier_Status: "deep_copier (Status_val V) (DualDeploymentOperatorStatus_DeepCopyInto X)"
  unfolding Status_val_def [abs_def] DualDeploymentOperatorStatus_DeepCopyInto_def [abs_def]
  by (rule copier_struct4) (intro copier_rules copier_ResourceStatus cond time | simp)+

lemma copier_Object: "deep_copier (Object_val V) (DualDeploymentOperator_DeepCopyInto X)"
  unfolding Object_val_def [abs_def] DualDeploymentOperator_DeepCopyInto_def [abs_def]
  by (rule copier_struct3) (intro copier_rules objectMeta copier_Spec copier_Status | simp)+

lemma copier_ObjectList: "deep_copier (ObjectList_val V) (DualDeploymentOperatorList_DeepCopyInto X)"
  unfolding ObjectList_val_def [abs_def] DualDeploymentOperatorList_DeepCopyInto_def [abs_def]
  by (rule copier_struct2) (intro copier_rules listMeta copier_Object | simp)+

text \<open>The methods on pointers.\<close>

lemma copier_DeepCopy:
  "deep_copier (val_ptr Object_v (Object_val V)) (DualDeploymentOperator_DeepCopy X)"
  "deep_copier (val_ptr ObjectList_v (ObjectList_val V)) (DualDeploymentOperatorList_DeepCopy X)"
  unfolding DualDeploymentOperator_DeepCopy_def DualDeploymentOperatorList_DeepCopy_def
  by (intro copier_rules copier_Object copier_ObjectList)+

sublocale object: deep_copier "val_ptr Object_v (Object_val V)" "DualDeploymentOperator_DeepCopy X"
  by (rule copier_DeepCopy)

sublocale object_list: deep_copier "val_ptr ObjectList_v (ObjectList_val V)" "DualDeploymentOperatorList_DeepCopy X"
  by (rule copier_DeepCopy)

end

lemma return_option:
  "(case q of Some a \<Rightarrow> State_Monad.return (Some a) | None \<Rightarrow> State_Monad.return None) = State_Monad.return q"
  by (cases q) simp_all

lemma DeepCopyObject_eq:
  "DualDeploymentOperator_DeepCopyObject X = DualDeploymentOperator_DeepCopy X"
  "DualDeploymentOperatorList_DeepCopyObject X = DualDeploymentOperatorList_DeepCopy X"
  by (simp_all add: fun_eq_iff DualDeploymentOperator_DeepCopyObject_def DualDeploymentOperatorList_DeepCopyObject_def return_option)

section \<open>A library\<close>

text \<open>The library types with the references they document: the bytes of a JSON value, the finalizers of an object.\<close>

datatype libvalue =
    LJSON "addr option" | LBytes string | LTime nat | LCondition condition | LObjectMeta ObjectMeta "addr option" | LListMeta string

definition bytes_val :: "libvalue memory \<Rightarrow> libvalue \<Rightarrow> string option" where
  "bytes_val h x = (case x of LBytes b \<Rightarrow> Some b | _ \<Rightarrow> None)"

definition documented_vals :: "libvalue libvals" where
  "documented_vals =
     \<lparr>JSON_val = \<lambda>h x. (case x of LJSON p \<Rightarrow> map_option or_empty (val_ptr lib_v bytes_val h p) | _ \<Rightarrow> None),
      Time_val = \<lambda>h x. (case x of LTime n \<Rightarrow> Some n | _ \<Rightarrow> None),
      Condition_val = \<lambda>h x. (case x of LCondition k \<Rightarrow> Some k | _ \<Rightarrow> None),
      ObjectMeta_val = \<lambda>h x. (case x of
        LObjectMeta m p \<Rightarrow> map_option (\<lambda>f. m\<lparr>om_Finalizers := or_empty f\<rparr>) (val_slice strings_v val_plain h p) | _ \<Rightarrow> None),
      ListMeta_val = \<lambda>h x. (case x of LListMeta s \<Rightarrow> Some s | _ \<Rightarrow> None)\<rparr>"

definition documented_copies :: "libvalue copylib" where
  "documented_copies =
     \<lparr>JSON_DeepCopyInto = \<lambda>x. (case x of
        LJSON p \<Rightarrow> do { q \<leftarrow> copy_ptr lib_v copy_value p; State_Monad.return (LJSON q) } | _ \<Rightarrow> State_Monad.return x),
      Time_DeepCopy = copy_ptr lib_v copy_value,
      Condition_DeepCopyInto = copy_value,
      ObjectMeta_DeepCopyInto = \<lambda>x. (case x of
        LObjectMeta m p \<Rightarrow> do { q \<leftarrow> copy_slice strings_v copy_value p; State_Monad.return (LObjectMeta m q) }
      | _ \<Rightarrow> State_Monad.return x),
      ListMeta_DeepCopyInto = copy_value\<rparr>"

lemma copier_constant:
  assumes "\<And>h r x g. A h r = Some x \<Longrightarrow> A g r = Some x"
  shows "deep_copier A copy_value"
proof (rule deep_copier.intro)
  fix h r x t
  assume "A h r = Some x"
  from assms [OF this] show "A (h @ t) r = Some x" and "fills (\<lambda>r' t. fresh A (length h) t r' x) (copy_value r) h"
    unfolding copy_value_def fresh_def by (blast, blast intro: fills_return)
qed

text \<open>A constructor around one reference.\<close>

lemma copier_wrapped:
  assumes "deep_copier B d"
    and "\<And>h r x. A h r = Some x \<Longrightarrow> \<exists>m p. r = mk m p"
    and "\<And>h m p. A h (mk m p) = map_option (f m) (B h p)"
    and "\<And>m p. c (mk m p) = do { q \<leftarrow> d p; State_Monad.return (mk m q) }"
  shows "deep_copier A c"
proof (rule deep_copier.intro)
  fix h r x t
  assume "A h r = Some x"
  moreover from this obtain m p where r: "r = mk m p" using assms(2) by blast
  ultimately obtain y where p: "B h p = Some y" "x = f m y" by (auto simp: assms(3))
  then show "A (h @ t) r = Some x" by (simp add: r assms(3) deep_copier.val_append [OF assms(1)])
  show "fills (\<lambda>r' t. fresh A (length h) t r' x) (c r) h"
    unfolding r assms(4)
    by (rule fills_bind [OF deep_copier.copy_fills [OF assms(1) p(1)]], rule fills_return)
      (simp add: fresh_def assms(3) p(2))
qed

lemma documented_JSON: "deep_copier (JSON_val documented_vals) (JSON_DeepCopyInto documented_copies)"
proof (rule copier_wrapped [where B = "val_ptr lib_v bytes_val" and d = "copy_ptr lib_v copy_value" and mk = "\<lambda>_::unit. LJSON" and f = "\<lambda>_. or_empty"])
  show "deep_copier (val_ptr lib_v bytes_val) (copy_ptr lib_v copy_value)"
    by (intro deep_copier_ptr copier_constant views_ok) (simp add: bytes_val_def)
qed (simp_all add: documented_vals_def documented_copies_def split: libvalue.splits)

lemma documented_ObjectMeta: "deep_copier (ObjectMeta_val documented_vals) (ObjectMeta_DeepCopyInto documented_copies)"
  by (rule copier_wrapped [OF deep_copier_slice [OF deep_copier_value views_ok(3)],
        where mk = LObjectMeta and f = "\<lambda>m f. m\<lparr>om_Finalizers := or_empty f\<rparr>"])
    (simp_all add: documented_vals_def documented_copies_def split: libvalue.splits)

lemma documented_Time: "deep_copier (val_ptr lib_v (Time_val documented_vals)) (Time_DeepCopy documented_copies)"
  by (simp add: documented_copies_def, intro deep_copier_ptr copier_constant views_ok)
    (simp add: documented_vals_def split: libvalue.splits)

lemma documented_constant:
  "deep_copier (Condition_val documented_vals) (Condition_DeepCopyInto documented_copies)"
  "deep_copier (ListMeta_val documented_vals) (ListMeta_DeepCopyInto documented_copies)"
  by (simp_all add: documented_copies_def, (rule copier_constant, simp add: documented_vals_def)+)

interpretation documented_copies: copy_library documented_copies documented_vals
  by (rule copy_library.intro) (rule documented_JSON documented_ObjectMeta documented_Time documented_constant)+

section \<open>Properties\<close>

text \<open>
  (C23) A deep copy is isolated: copying a custom resource changes no cell that exists, the copy has
  the value of the original, whatever is written to the old cells afterwards, and the original keeps
  its value, whatever is written to the new cells.
\<close>

theorem DeepCopy_isolated:
  assumes "copy_library X V" and "val_ptr Object_v (Object_val V) h p = Some x"
    and "run_state (DualDeploymentOperator_DeepCopyObject X p) h = (p', h')"
  shows "\<exists>t. h' = h @ t \<and>
    (\<forall>g. length g = length h \<longrightarrow> val_ptr Object_v (Object_val V) (g @ t) p' = Some x) \<and>
    (\<forall>u. val_ptr Object_v (Object_val V) (h @ u) p = Some x)"
  using deep_copier.isolated [OF copy_library.copier_DeepCopy(1) [OF assms(1)] assms(2)] assms(3)
  by (simp add: DeepCopyObject_eq)

text \<open>A resource with a transformation, a finalizer and one recorded object.\<close>

definition example_memory :: "libvalue memory" where
  "example_memory =
     [CLib (LBytes ''{}''), CLib (LJSON (Some 0)),
      CPatchSpec \<lparr>mp_Target = \<lparr>sel_Kind = ''Deployment'', sel_Name = [], sel_Origin = []\<rparr>, mp_StrategicMerge = Some 1, mp_JSONPatch = None\<rparr>,
      CTransformations [\<lparr>mt_Patch = Some 2, mt_RewriteWebhookURL = None, mt_FilterKinds = None\<rparr>],
      CStrings [''finalizer''], CLib (LTime 7),
      CResourceStatuses [\<lparr>mr_Kind = ''ConfigMap'', mr_APIVersion = ''v1'', mr_Namespace = ''a'', mr_Name = ''b'',
        mr_Health = HealthHealthy, mr_LastApplied = Some 5, mr_Message = []\<rparr>],
      CObject
        \<lparr>md_TypeMeta = \<lparr>tm_Kind = ''DualDeploymentOperator'', tm_APIVersion = ''v1alpha1''\<rparr>,
         md_ObjectMeta = LObjectMeta \<lparr>om_Namespace = ''garden'', om_Name = ''ops'', om_Generation = 1, om_ResourceVersion = ''1'',
           om_DeletionTimestamp = None, om_Finalizers = [], om_Annotations = []\<rparr> (Some 4),
         md_Spec = \<lparr>msp_Source = \<lparr>ms_Helm = None, ms_Kustomize = None\<rparr>,
           msp_ShootAccess = \<lparr>sa_SecretName = ''access'', sa_Server = ''https://shoot'', sa_TokenKey = [], sa_CAKey = []\<rparr>,
           msp_ShootNamespace = ''kube-system'', msp_Transformations = Some 3, msp_RetentionPolicy = \<lparr>rp_CRDs = ''Retain''\<rparr>,
           msp_ApplyOrder = ''ShootFirst''\<rparr>,
         md_Status = \<lparr>mst_SeedResources = Some 6, mst_ShootResources = None, mst_Conditions = None, mst_LastReconcile = None\<rparr>\<rparr>]"

definition example_copy :: "addr option \<times> libvalue memory" where
  "example_copy = run_state (DualDeploymentOperator_DeepCopyObject documented_copies (Some 7)) example_memory"

theorem DeepCopy_isolated_witness:
  "\<exists>t x. snd example_copy = example_memory @ t \<and>
     val_ptr Object_v (Object_val documented_vals) (replicate 8 (CStrings []) @ t) (fst example_copy) = Some (Some x) \<and>
     cr_Finalizers (snd x) = [''finalizer'']"
proof -
  obtain x where x: "val_ptr Object_v (Object_val documented_vals) example_memory (Some 7) = Some (Some x)"
    and "cr_Finalizers (snd x) = [''finalizer'']"
    by (simp add: example_memory_def documented_vals_def val_ptr_def val_slice_def val_elements_def val_plain_def load_def view_defs
        Object_val_def Spec_val_def Source_val_def Status_val_def Transformation_val_def PatchSpec_val_def
        ResourceStatus_val_def or_empty_def bytes_val_def)
  moreover have "length (replicate 8 (CStrings [] :: libvalue cell)) = length example_memory" by (simp add: example_memory_def)
  moreover have "run_state (DualDeploymentOperator_DeepCopyObject documented_copies (Some 7)) example_memory =
      (fst example_copy, snd example_copy)" by (simp add: example_copy_def)
  from DeepCopy_isolated [OF documented_copies.copy_library_axioms x this]
  obtain t where "snd example_copy = example_memory @ t" and "\<forall>g. length g = length example_memory \<longrightarrow>
      val_ptr Object_v (Object_val documented_vals) (g @ t) (fst example_copy) = Some (Some x)" by blast
  ultimately show ?thesis by blast
qed

lemma val_ptr_nil: "val_ptr v A h p = Some x \<Longrightarrow> x = None \<longleftrightarrow> p = None"
  by (auto simp: val_ptr_def split: option.splits)

text \<open>
  (C38) The copy of a list is isolated as well, with all its items, and the copy of nil is nil
  without any allocation.
\<close>

theorem DeepCopy_list_isolated:
  assumes "copy_library X V" and "val_ptr ObjectList_v (ObjectList_val V) h p = Some x"
    and "run_state (DualDeploymentOperatorList_DeepCopyObject X p) h = (p', h')"
  shows "(p' = None \<longleftrightarrow> p = None) \<and> (p = None \<longrightarrow> h' = h) \<and> (\<exists>t. h' = h @ t \<and>
    (\<forall>g. length g = length h \<longrightarrow> val_ptr ObjectList_v (ObjectList_val V) (g @ t) p' = Some x) \<and>
    (\<forall>u. val_ptr ObjectList_v (ObjectList_val V) (h @ u) p = Some x))"
proof -
  have run: "run_state (DualDeploymentOperatorList_DeepCopy X p) h = (p', h')"
    using assms(3) by (simp add: DeepCopyObject_eq)
  from deep_copier.isolated [OF copy_library.copier_DeepCopy(2) [OF assms(1)] assms(2) run]
  have copied: "\<exists>t. h' = h @ t \<and> (\<forall>g. length g = length h \<longrightarrow> val_ptr ObjectList_v (ObjectList_val V) (g @ t) p' = Some x) \<and>
    (\<forall>u. val_ptr ObjectList_v (ObjectList_val V) (h @ u) p = Some x)" .
  moreover from this assms(2) have "p' = None \<longleftrightarrow> p = None"
    using val_ptr_nil [of ObjectList_v "ObjectList_val V"] by metis
  moreover from run have "p = None \<longrightarrow> h' = h"
    by (auto simp: DualDeploymentOperatorList_DeepCopy_def copy_ptr_def)
  ultimately show ?thesis by blast
qed

definition example_list_memory :: "libvalue memory" where
  "example_list_memory =
     [CObjects [], CObjectList \<lparr>ml_TypeMeta = \<lparr>tm_Kind = ''DualDeploymentOperatorList'', tm_APIVersion = ''v1alpha1''\<rparr>,
        ml_ListMeta = LListMeta ''42'', ml_Items = Some 0\<rparr>]"

theorem DeepCopy_list_isolated_witness:
  "\<exists>p' h'. run_state (DualDeploymentOperatorList_DeepCopyObject documented_copies (Some 1)) example_list_memory = (p', h') \<and> p' \<noteq> None"
proof -
  obtain p' h' where run: "run_state (DualDeploymentOperatorList_DeepCopyObject documented_copies (Some 1)) example_list_memory = (p', h')"
    by (metis surj_pair)
  have "val_ptr ObjectList_v (ObjectList_val documented_vals) example_list_memory (Some 1) =
      Some (Some (\<lparr>tm_Kind = ''DualDeploymentOperatorList'', tm_APIVersion = ''v1alpha1''\<rparr>, ''42'', []))"
    by (simp add: example_list_memory_def documented_vals_def val_ptr_def val_slice_def val_elements_def load_def view_defs
        ObjectList_val_def or_empty_def)
  from DeepCopy_list_isolated [OF documented_copies.copy_library_axioms this run] run show ?thesis by blast
qed

end
