(* ===== verification/Admission.thy ===== *)
theory Admission
  imports Scenario
begin

text \<open>
  The admission webhook (internal/webhook/v1alpha1), which leaves every decision to the rules of the
  API server, and what these rules promise to the reconciler.
\<close>

section \<open>Definitions\<close>

text \<open>The warnings, and the error that would reject the request.\<close>

definition ValidateCreate :: "DualDeploymentOperator \<Rightarrow> string list \<times> go_error option" where
  "ValidateCreate obj = ([], None)"

definition ValidateUpdate :: "DualDeploymentOperator \<Rightarrow> DualDeploymentOperator \<Rightarrow> string list \<times> go_error option" where
  "ValidateUpdate oldObj newObj = ([], None)"

definition ValidateDelete :: "DualDeploymentOperator \<Rightarrow> string list \<times> go_error option" where
  "ValidateDelete obj = ([], None)"

text \<open>A resource is stored when its defaulted specification satisfies the rules and the webhook agrees.\<close>

definition admitted :: "DualDeploymentOperator \<Rightarrow> bool" where
  "admitted cr \<longleftrightarrow> valid_Spec (cr_Spec cr) \<and> snd (ValidateCreate cr) = None"

section \<open>What the rules promise\<close>

text \<open>The entry sets exactly the member that the transformation stands for.\<close>

fun selects :: "TransformationSpec \<Rightarrow> Transformation \<Rightarrow> bool" where
  "selects s (Patch p) \<longleftrightarrow> s = \<lparr>tr_Patch = Some p, tr_RewriteWebhookURL = None, tr_FilterKinds = None\<rparr>"
| "selects s (RewriteWebhookURL w) \<longleftrightarrow> s = \<lparr>tr_Patch = None, tr_RewriteWebhookURL = Some w, tr_FilterKinds = None\<rparr>"
| "selects s (FilterKinds f) \<longleftrightarrow> s = \<lparr>tr_Patch = None, tr_RewriteWebhookURL = None, tr_FilterKinds = Some f\<rparr>"

definition members :: "TransformationSpec \<Rightarrow> nat" where
  "members s = length (filter id [tr_Patch s \<noteq> None, tr_RewriteWebhookURL s \<noteq> None, tr_FilterKinds s \<noteq> None])"

definition union_error :: "TransformationSpec \<Rightarrow> go_error" where
  "union_error s = ErrNew (''exactly one transformation type must be set per entry, got '' @ show_nat (members s))"

lemma set_members_eq: "set_members s = members s"
  by (simp add: set_members_def members_def)

lemma build_one_selects: "build_one s = Inr t \<longleftrightarrow> selects s t"
  by (cases s; cases t) (auto simp: build_one_def set_members_def Let_def split: option.splits if_splits)

lemma union_rule_selects: "union_rule s \<longleftrightarrow> (\<exists>t. selects s t)"
proof
  assume "union_rule s"
  then have "set_members s = 1" by (auto simp: union_rule_def set_members_def split: if_splits)
  then have "\<exists>t. build_one s = Inr t" by (auto simp: build_one_def split: option.split)
  then show "\<exists>t. selects s t" by (simp add: build_one_selects)
next
  assume "\<exists>t. selects s t"
  then obtain t where "selects s t" ..
  then show "union_rule s" by (cases t) (simp_all add: union_rule_def)
qed

lemma build_one_error: "build_one s = Inl e \<longleftrightarrow> \<not> union_rule s \<and> e = union_error s"
proof -
  have "union_rule s \<longleftrightarrow> set_members s = 1" by (auto simp: union_rule_def set_members_def split: if_splits)
  then show ?thesis by (auto simp: build_one_def union_error_def set_members_eq [symmetric] split: option.split)
qed

lemma Build_selects: "Build specs = Inr ts \<longleftrightarrow> list_all2 selects specs ts"
  by (simp add: Build_def map_res_Inr_iff build_one_selects)

lemma list_all2_exists: "list_all (\<lambda>x. \<exists>y. R x y) xs \<longleftrightarrow> (\<exists>ys. list_all2 R xs ys)"
  by (induction xs) (auto simp: list_all2_Cons1)

lemma list_all2_source: "list_all2 R xs ys \<Longrightarrow> y \<in> set ys \<Longrightarrow> \<exists>x\<in>set xs. R x y"
  by (induction rule: list_all2_induct) auto

lemma Build_total: "list_all union_rule specs \<longleftrightarrow> (\<exists>ts. Build specs = Inr ts)"
  unfolding union_rule_selects Build_selects by (rule list_all2_exists)

lemma valid_Spec_Build: "valid_Spec s \<Longrightarrow> \<exists>ts. Build (spec_Transformations s) = Inr ts"
  by (auto simp: Build_total [symmetric] valid_Spec_def valid_Transformation_def list_all_iff)

lemma valid_Source_From:
  assumes "valid_Source s" and "deps_ChartLoader deps \<noteq> None" and "deps_RootResolver deps \<noteq> None"
  shows "\<exists>src. From X s deps = Inr src"
  using assms by (cases "src_Helm s"; cases "src_Kustomize s") (auto simp: valid_Source_def From_def Let_def)

lemma valid_Spec_Source: "valid_Spec s \<Longrightarrow> valid_Source (spec_Source s)"
  by (simp add: valid_Spec_def)

lemma outcome_with_reason:
  "outcome (with_reason reason m f) h =
     (case outcome m h of Inl e \<Rightarrow> Inl (reason, e) | Inr a \<Rightarrow> outcome (f a) (history m h))"
  by (simp add: with_reason_def outcome_bind split: sum.split)

lemma transform_both_reasons:
  assumes "P ''SeedTransformFailed''" and "P ''ShootTransformFailed''"
  shows "transform_both L Q ts seed shoot = Inl (reason, e) \<Longrightarrow> P reason"
  by (induction ts arbitrary: seed shoot) (use assms in \<open>auto split: sum.splits\<close>)

lemma transform_both_cause:
  "transform_both L Q ts seed shoot = Inl (reason, e) \<Longrightarrow> \<exists>t\<in>set ts. \<exists>ms. Transformation_Apply L Q t ms = Inl e"
  by (induction ts arbitrary: seed shoot) (auto split: sum.splits)

text \<open>The failures that are left when the source and the transformations are valid.\<close>

lemma prepare_renders_failure:
  assumes "From (lib_src B) (spec_Source (cr_Spec cr))
      ((rec_SourceDeps r)\<lparr>deps_CredentialResolver := Some \<lparr>res_Namespace = cr_Namespace cr\<rparr>\<rparr>) = Inr src"
    and "Build (spec_Transformations (cr_Spec cr)) = Inr ts"
    and "P ''SeedRenderFailed''" "P ''ShootRenderFailed''"
    and "outcome (prepare_renders B S r cr) h = Inl (reason, e)"
  shows "P reason \<or> (\<exists>seed shoot. transform_both (lib_k B) (lib_patch B) ts seed shoot = Inl (reason, e))"
  using assms(5)
  unfolding prepare_renders_def Let_def outcome_with_reason outcome_return assms(1,2)
  by (simp only: sum.case split: sum.split_asm) (use assms(3,4) in \<open>metis Inl_inject prod.inject\<close>)+

text \<open>Why a transformation of an admitted specification fails.\<close>

definition transformation_failure :: "klib \<Rightarrow> patchlib \<Rightarrow> TransformationSpec \<Rightarrow> go_error \<Rightarrow> bool" where
  "transformation_failure L P s e \<longleftrightarrow>
     (\<exists>p. tr_Patch s = Some p \<and> patch_JSONPatch p = Some [] \<and>
        e = ErrNew ''exactly one of strategicMerge or jsonPatch must be set'') \<or>
     (\<exists>p m. tr_Patch s = Some p \<and> Match L m (patch_Target p) \<and> patch_one L P p m = Inl e) \<or>
     (\<exists>w m. tr_RewriteWebhookURL s = Some w \<and> rewrite_one L w m = Inl e)"

lemma patch_failure:
  assumes "valid_PatchSpec p" and "patch_Apply L P p ms = Inl e"
  shows "patch_JSONPatch p = Some [] \<and> e = ErrNew ''exactly one of strategicMerge or jsonPatch must be set'' \<or>
    (\<exists>m. Match L m (patch_Target p) \<and> patch_one L P p m = Inl e)"
proof -
  have "\<exists>m. Match L m (patch_Target p) \<and> patch_one L P p m = Inl e" if "map_res (patch_one L P p) ms = Inl e"
    using map_res_Inl [OF that] by (auto simp: patch_one_def split: if_splits)
  with assms show ?thesis
    by (auto simp: valid_PatchSpec_def patch_Apply_def Let_def split: if_splits option.splits)
qed

lemma transformation_cause:
  assumes "valid_Transformation s" and "selects s t" and "Transformation_Apply L P t ms = Inl e"
  shows "transformation_failure L P s e"
proof (cases t)
  case (Patch p)
  with assms have "valid_PatchSpec p" "patch_Apply L P p ms = Inl e" by (simp_all add: valid_Transformation_def)
  from patch_failure [OF this] Patch assms(2) show ?thesis by (auto simp: transformation_failure_def)
next
  case (RewriteWebhookURL w)
  with assms(3) have "\<exists>m\<in>set ms. rewrite_one L w m = Inl e" by (simp add: rewriteWebhookURL_Apply_def map_res_Inl)
  with RewriteWebhookURL assms(2) show ?thesis by (auto simp: transformation_failure_def)
qed (use assms(3) in \<open>simp add: filterKinds_Apply_def\<close>)

section \<open>Properties\<close>

text \<open>
  (C14) What admission saves: for a resource that was admitted, the reconciler that \<open>main\<close> builds never
  stops with the reason InvalidSource or InvalidTransformation. When its preparation fails, a render
  failed, or a transformation did; then an entry of the resource is a patch with an empty list of
  operations, which the rules admit and the code refuses, or the patch engine failed on a manifest
  that a patch selects, or the webhooks of a manifest could not be rewritten.
\<close>

theorem admitted_prepares:
  assumes "admitted cr"
    and "outcome (prepare_renders B S (main_Reconciler L E lru_New f) cr) h = Inl (reason, e)"
  shows "reason \<in> {''SeedRenderFailed'', ''ShootRenderFailed''} \<or>
    reason \<in> {''SeedTransformFailed'', ''ShootTransformFailed''} \<and>
      (\<exists>s\<in>set (spec_Transformations (cr_Spec cr)). transformation_failure (lib_k B) (lib_patch B) s e)"
proof -
  let ?deps = "(rec_SourceDeps (main_Reconciler L E lru_New f))\<lparr>deps_CredentialResolver := Some \<lparr>res_Namespace = cr_Namespace cr\<rparr>\<rparr>"
  from assms(1) have valid: "valid_Spec (cr_Spec cr)" unfolding admitted_def ..
  obtain ts where ts: "Build (spec_Transformations (cr_Spec cr)) = Inr ts" using valid_Spec_Build [OF valid] ..
  have "deps_ChartLoader ?deps \<noteq> None" "deps_RootResolver ?deps \<noteq> None" by (simp_all add: main_Reconciler_def)
  from valid_Source_From [OF valid_Spec_Source [OF valid] this]
  obtain src where src: "From (lib_src B) (spec_Source (cr_Spec cr)) ?deps = Inr src" ..
  have cause: "\<exists>s\<in>set (spec_Transformations (cr_Spec cr)). transformation_failure (lib_k B) (lib_patch B) s e"
    if "transform_both (lib_k B) (lib_patch B) ts seed shoot = Inl (reason, e)" for seed shoot
  proof -
    from transform_both_cause [OF that] obtain t ms where t: "t \<in> set ts" "Transformation_Apply (lib_k B) (lib_patch B) t ms = Inl e" by blast
    from list_all2_source [OF ts [unfolded Build_selects] t(1)]
    obtain s where "s \<in> set (spec_Transformations (cr_Spec cr))" "selects s t" by blast
    with t(2) valid show ?thesis by (auto simp: valid_Spec_def list_all_iff intro: transformation_cause)
  qed
  have reason: "reason \<in> {''SeedTransformFailed'', ''ShootTransformFailed''}"
    if "transform_both (lib_k B) (lib_patch B) ts seed shoot = Inl (reason, e)" for seed shoot
    by (rule transform_both_reasons [where P = "\<lambda>x. x \<in> {''SeedTransformFailed'', ''ShootTransformFailed''}", OF _ _ that])
      (rule insertI1 | rule insertI2)+
  have "reason \<in> {''SeedRenderFailed'', ''ShootRenderFailed''} \<or>
      (\<exists>seed shoot. transform_both (lib_k B) (lib_patch B) ts seed shoot = Inl (reason, e))"
    by (rule prepare_renders_failure [where P = "\<lambda>x. x \<in> {''SeedRenderFailed'', ''ShootRenderFailed''}",
          OF src ts _ _ assms(2)]) (rule insertI1 | rule insertI2)+
  then show ?thesis by (elim disjE exE) (intro disjI1, assumption, intro disjI2 conjI, erule reason, erule cause)
qed

definition offline_env :: src_env where
  "offline_env =
     (example_env [] (example_cr ''ShootFirst''))\<lparr>se_git := example_git\<lparr>ePlainClone := \<lambda>d u r a h. Inl (ErrNew ''offline'')\<rparr>\<rparr>"

theorem admitted_prepares_witness:
  "\<exists>reason e. outcome (prepare_renders example_libs offline_env (example_reconciler [] (example_cr ''ShootFirst'')) (example_cr ''ShootFirst'')) [] =
       Inl (reason, e) \<and> reason \<in> {''SeedRenderFailed'', ''ShootRenderFailed''}"
proof -
  let ?m = "prepare_renders example_libs offline_env (example_reconciler [] (example_cr ''ShootFirst'')) (example_cr ''ShootFirst'')"
  have adm: "admitted (example_cr ''ShootFirst'')" by code_simp
  have none: "set (spec_Transformations (cr_Spec (example_cr ''ShootFirst''))) = {}" by (simp add: example_cr_def example_spec_def)
  have "isl (outcome ?m [])" by code_simp
  then obtain reason e where out: "outcome ?m [] = Inl (reason, e)" by (metis isl_def surj_pair)
  from admitted_prepares [OF adm out [unfolded example_reconciler_def], unfolded none]
  have "reason \<in> {''SeedRenderFailed'', ''ShootRenderFailed''}" by (simp only: bex_empty simp_thms)
  with out show ?thesis by (intro exI conjI)
qed

text \<open>
  (C13) A failed preparation touches no cluster: when a render or a transformation fails, the
  reconciliation has written no object and no custom resource before it ends with exactly one status
  update, whose Ready condition has the reason and the text of the error, and with that error.
\<close>

theorem prepare_failure_contained:
  assumes "outcome (prepare_renders B S r cr) h = Inl (reason, e)"
  shows "\<exists>now x. history (reconcile_live B S r cr) h = h @ emitted (prepare_renders B S r cr) h @
      [EvNow now, EvStatusUpdate (set_LastReconcile (setCondition B cr reason (Error e) (cr_Generation cr)) now) x] \<and>
    list_all (\<lambda>ev. \<not> is_object_write ev \<and> \<not> is_cr_write ev) (emitted (prepare_renders B S r cr) h) \<and>
    outcome (reconcile_live B S r cr) h = (0, Some e)"
proof -
  note quiet = emits_prepare_renders [of cr B S r, unfolded emits_yields]
  have "list_all (silent cr) (emitted (prepare_renders B S r cr) h)" by (rule yields_emitted [OF quiet])
  moreover have "silent cr ev \<Longrightarrow> \<not> is_object_write ev \<and> \<not> is_cr_write ev" for ev
    using silent_write [of cr ev] by (simp add: silent_def)
  ultimately have "list_all (\<lambda>ev. \<not> is_object_write ev \<and> \<not> is_cr_write ev) (emitted (prepare_renders B S r cr) h)"
    by (auto simp: list_all_iff)
  then show ?thesis
    by (simp add: reconcile_live_def errStatus_def time_Now_def status_Update_def Let_def history_bind outcome_bind assms
        yields_history [OF quiet])
qed

theorem prepare_failure_contained_witness:
  "\<exists>e. outcome (reconcile_live example_libs offline_env (example_reconciler [] (example_cr ''ShootFirst'')) (example_cr ''ShootFirst'')) [] =
     (0, Some e)"
proof -
  let ?m = "prepare_renders example_libs offline_env (example_reconciler [] (example_cr ''ShootFirst'')) (example_cr ''ShootFirst'')"
  have "isl (outcome ?m [])" by code_simp
  then obtain reason e where "outcome ?m [] = Inl (reason, e)" by (metis isl_def surj_pair)
  from prepare_failure_contained [OF this] show ?thesis by blast
qed

text \<open>
  (C37) Build is exact: it returns a list of transformations exactly when there is one per entry, in
  order, and the entry sets the member that the transformation stands for and no other; it succeeds
  exactly on the lists that the rule of the types admits; and otherwise the error counts the members
  of the first entry that the rule rejects.
\<close>

theorem Build_exact:
  "(Build specs = Inr ts \<longleftrightarrow> list_all2 selects specs ts) \<and>
   ((\<exists>ts. Build specs = Inr ts) \<longleftrightarrow> list_all union_rule specs) \<and>
   (Build specs = Inl e \<longleftrightarrow>
      (\<exists>pre s post. specs = pre @ s # post \<and> list_all union_rule pre \<and> \<not> union_rule s \<and> e = union_error s))"
proof -
  have err: "Build specs = Inl e \<longleftrightarrow>
      (\<exists>pre s post. specs = pre @ s # post \<and> list_all union_rule pre \<and> \<not> union_rule s \<and> e = union_error s)"
    unfolding Build_def map_res_error build_one_error union_rule_selects build_one_selects [symmetric] by blast
  show ?thesis by (intro conjI Build_selects Build_total [symmetric] err)
qed

text \<open>
  An admitted patch with an empty list of operations always fails to apply: the rule counts the
  field as set, the code does not.
\<close>

definition empty_patch :: PatchSpec where
  "empty_patch =
     \<lparr>patch_Target = \<lparr>sel_Kind = ''ConfigMap'', sel_Name = [], sel_Origin = []\<rparr>, patch_StrategicMerge = None,
      patch_JSONPatch = Some []\<rparr>"

theorem empty_patch_admitted:
  "valid_Transformation \<lparr>tr_Patch = Some empty_patch, tr_RewriteWebhookURL = None, tr_FilterKinds = None\<rparr> \<and>
   patch_Apply L P empty_patch ms = Inl (ErrNew ''exactly one of strategicMerge or jsonPatch must be set'')"
  by (simp add: valid_Transformation_def union_rule_def valid_PatchSpec_def empty_patch_def patch_Apply_def Let_def)

end
