(* ===== verification/TestUtils.thy ===== *)
theory TestUtils
  imports Unstructured
begin

text \<open>
  The helpers of the end-to-end tests (test/utils/utils.go): commands, cert-manager, images and the
  uncommenting of code, over a process environment that is known through its responses.
\<close>

section \<open>Searching and scanning text\<close>

text \<open>\<open>strings.Index\<close>; the result \<open>-1\<close> is \<open>None\<close>.\<close>

fun strings_Index :: "string \<Rightarrow> string \<Rightarrow> nat option" where
  "strings_Index [] sub = (if sub = [] then Some 0 else None)"
| "strings_Index (c # s) sub =
     (if strings_HasPrefix (c # s) sub then Some 0 else map_option Suc (strings_Index s sub))"

definition strings_Contains :: "string \<Rightarrow> string \<Rightarrow> bool" where
  "strings_Contains s sub \<longleftrightarrow> strings_Index s sub \<noteq> None"

text \<open>\<open>strings.ReplaceAll\<close> for a text to replace that is not empty.\<close>

function strings_ReplaceAll :: "string \<Rightarrow> string \<Rightarrow> string \<Rightarrow> string" where
  "strings_ReplaceAll s old new =
     (if s = [] \<or> old = [] then s
      else if strings_HasPrefix s old then new @ strings_ReplaceAll (drop (length old) s) old new
      else hd s # strings_ReplaceAll (tl s) old new)"
  by pat_completeness auto

termination
  by (relation "measure (\<lambda>(s, old, new). length s)") auto

declare strings_ReplaceAll.simps [simp del]

text \<open>
  \<open>bufio.Scanner\<close> with its default split function: lines without their line end, no empty line after
  the last line end, and the end of the input at a line that does not fit into the buffer.
\<close>

definition MaxScanTokenSize :: nat where
  "MaxScanTokenSize = 64 * 1024"

definition dropCR :: "string \<Rightarrow> string" where
  "dropCR l = (if l \<noteq> [] \<and> last l = CHR 0x0D then butlast l else l)"

definition scan_lines :: "string \<Rightarrow> string list" where
  "scan_lines data =
     (let parts = strings_Split data (CHR 0x0A)
      in map dropCR (takeWhile (\<lambda>l. length l < MaxScanTokenSize) (if last parts = [] then butlast parts else parts)))"

section \<open>The environment of a test process\<close>

datatype test_event =
    Getwd "string result"
  | Chdir string "unit result"
  | Environ "string list"
  | LookupEnv string "string option"
  | Log string
  | CombinedOutput "string list" string "string list" "string \<times> go_error option"
  | ReadTextFile string "string result"
  | WriteTextFile string string "unit result"

record test_env =
  tGetwd :: "test_event list \<Rightarrow> string result"
  tChdir :: "string \<Rightarrow> test_event list \<Rightarrow> unit result"
  tEnviron :: "test_event list \<Rightarrow> string list"
  tLookupEnv :: "string \<Rightarrow> test_event list \<Rightarrow> string option"
  tCombinedOutput :: "string list \<Rightarrow> string \<Rightarrow> string list \<Rightarrow> test_event list \<Rightarrow> string \<times> go_error option"
  tReadFile :: "string \<Rightarrow> test_event list \<Rightarrow> string result"
  tWriteFile :: "string \<Rightarrow> string \<Rightarrow> test_event list \<Rightarrow> unit result"

definition log_line :: "string \<Rightarrow> (test_event, unit) io" where
  "log_line s = call (\<lambda>h. ()) (\<lambda>_. Log s)"

section \<open>The helpers\<close>

definition certmanagerVersion :: string where
  "certmanagerVersion = ''v1.20.2''"

definition certmanagerURL :: string where
  "certmanagerURL =
     ''https://github.com/cert-manager/cert-manager/releases/download/'' @ certmanagerVersion @ ''/cert-manager.yaml''"

definition warnError :: "go_error \<Rightarrow> (test_event, unit) io" where
  "warnError err = log_line (''warning: '' @ Error err @ [CHR 0x0A])"

definition GetProjectDir :: "test_env \<Rightarrow> (test_event, string result) io" where
  "GetProjectDir E = do {
     wd \<leftarrow> call (tGetwd E) Getwd;
     State_Monad.return (case wd of
       Inl err \<Rightarrow> Inl (ErrWrap ''failed to get current working directory: '' err [])
     | Inr d \<Rightarrow> Inr (strings_ReplaceAll d ''/test/e2e'' []))
   }"

text \<open>The output is returned with the error.\<close>

definition Run :: "test_env \<Rightarrow> string list \<Rightarrow> (test_event, string \<times> go_error option) io" where
  "Run E args = do {
     dir \<leftarrow> GetProjectDir E;
     case dir of
       Inl err \<Rightarrow> State_Monad.return ([], Some err)
     | Inr dir \<Rightarrow> do {
         cd \<leftarrow> call (tChdir E dir) (Chdir dir);
         _ \<leftarrow> (case cd of
             Inl err \<Rightarrow> log_line (''chdir dir: '' @ strconv_Quote (Error err) @ [CHR 0x0A])
           | Inr _ \<Rightarrow> State_Monad.return ());
         environ \<leftarrow> call (tEnviron E) Environ;
         let command = strings_Join args '' '';
         _ \<leftarrow> log_line (''running: '' @ strconv_Quote command @ [CHR 0x0A]);
         let env = environ @ [''GO111MODULE=on''];
         res \<leftarrow> call (tCombinedOutput E args dir env) (CombinedOutput args dir env);
         State_Monad.return (case snd res of
           None \<Rightarrow> (fst res, None)
         | Some err \<Rightarrow>
             (fst res, Some (ErrWrap (strconv_Quote command @ '' failed with error '' @ strconv_Quote (fst res) @ '': '') err [])))
       }
   }"

definition run_warn :: "test_env \<Rightarrow> string list \<Rightarrow> (test_event, unit) io" where
  "run_warn E args = do {
     res \<leftarrow> Run E args;
     case snd res of None \<Rightarrow> State_Monad.return () | Some err \<Rightarrow> warnError err
   }"

definition kubeSystemLeases :: "string list" where
  "kubeSystemLeases = [''cert-manager-cainjector-leader-election'', ''cert-manager-controller'']"

fun delete_leases :: "test_env \<Rightarrow> string list \<Rightarrow> (test_event, unit) io" where
  "delete_leases E [] = State_Monad.return ()"
| "delete_leases E (lease # leases) = do {
     _ \<leftarrow> run_warn E [''kubectl'', ''delete'', ''lease'', lease, ''-n'', ''kube-system'', ''--ignore-not-found'', ''--force'',
       ''--grace-period=0''];
     delete_leases E leases
   }"

definition UninstallCertManager :: "test_env \<Rightarrow> (test_event, unit) io" where
  "UninstallCertManager E = do {
     _ \<leftarrow> run_warn E [''kubectl'', ''delete'', ''-f'', certmanagerURL];
     delete_leases E kubeSystemLeases
   }"

definition InstallCertManager :: "test_env \<Rightarrow> (test_event, go_error option) io" where
  "InstallCertManager E = do {
     res \<leftarrow> Run E [''kubectl'', ''apply'', ''-f'', certmanagerURL];
     case snd res of
       Some err \<Rightarrow> State_Monad.return (Some err)
     | None \<Rightarrow> do {
         res \<leftarrow> Run E [''kubectl'', ''wait'', ''deployment.apps/cert-manager-webhook'', ''--for'', ''condition=Available'',
           ''--namespace'', ''cert-manager'', ''--timeout'', ''5m''];
         State_Monad.return (snd res)
       }
   }"

definition GetNonEmptyLines :: "string \<Rightarrow> string list" where
  "GetNonEmptyLines output = filter (\<lambda>e. e \<noteq> []) (strings_Split output (CHR 0x0A))"

definition certManagerCRDs :: "string list" where
  "certManagerCRDs =
     [''certificates.cert-manager.io'', ''issuers.cert-manager.io'', ''clusterissuers.cert-manager.io'',
      ''certificaterequests.cert-manager.io'', ''orders.acme.cert-manager.io'', ''challenges.acme.cert-manager.io'']"

definition any_crd :: "string list \<Rightarrow> bool" where
  "any_crd crdList = list_ex (\<lambda>crd. list_ex (\<lambda>line. strings_Contains line crd) crdList) certManagerCRDs"

definition IsCertManagerCRDsInstalled :: "test_env \<Rightarrow> (test_event, bool) io" where
  "IsCertManagerCRDsInstalled E = do {
     res \<leftarrow> Run E [''kubectl'', ''get'', ''crds''];
     State_Monad.return (case snd res of Some err \<Rightarrow> False | None \<Rightarrow> any_crd (GetNonEmptyLines (fst res)))
   }"

definition LoadImageToKindClusterWithName :: "test_env \<Rightarrow> string \<Rightarrow> (test_event, go_error option) io" where
  "LoadImageToKindClusterWithName E name = do {
     v \<leftarrow> call (tLookupEnv E ''KIND_CLUSTER'') (LookupEnv ''KIND_CLUSTER'');
     let cluster = (case v of Some v \<Rightarrow> v | None \<Rightarrow> ''kind'');
     v \<leftarrow> call (tLookupEnv E ''KIND'') (LookupEnv ''KIND'');
     let kindBinary = (case v of Some v \<Rightarrow> v | None \<Rightarrow> ''kind'');
     res \<leftarrow> Run E [kindBinary, ''load'', ''docker-image'', name, ''--name'', cluster];
     State_Monad.return (snd res)
   }"

text \<open>The text that is written, or \<open>None\<close> when the target has no line. Writes to a buffer do not fail.\<close>

definition uncommented :: "string \<Rightarrow> nat \<Rightarrow> string \<Rightarrow> string \<Rightarrow> string option" where
  "uncommented content idx target pfx =
     (case scan_lines target of
        [] \<Rightarrow> None
      | ls \<Rightarrow> Some (take idx content @ strings_Join (map (\<lambda>l. strings_TrimPrefix l pfx) ls) [CHR 0x0A] @
                drop (idx + length target) content))"

definition UncommentCode :: "test_env \<Rightarrow> string \<Rightarrow> string \<Rightarrow> string \<Rightarrow> (test_event, go_error option) io" where
  "UncommentCode E filename target pfx = do {
     content \<leftarrow> call (tReadFile E filename) (ReadTextFile filename);
     case content of
       Inl err \<Rightarrow> State_Monad.return (Some (ErrWrap (''failed to read file '' @ strconv_Quote filename @ '': '') err []))
     | Inr content \<Rightarrow>
         (case strings_Index content target of
            None \<Rightarrow>
              State_Monad.return (Some (ErrNew (''unable to find the code '' @ strconv_Quote target @ '' to be uncommented'')))
          | Some idx \<Rightarrow>
              (case uncommented content idx target pfx of
                 None \<Rightarrow> State_Monad.return None
               | Some out \<Rightarrow> do {
                   res \<leftarrow> call (tWriteFile E filename out) (WriteTextFile filename out);
                   State_Monad.return (case res of
                     Inl err \<Rightarrow> Some (ErrWrap (''failed to write file '' @ strconv_Quote filename @ '': '') err [])
                   | Inr _ \<Rightarrow> None)
                 }))
   }"

section \<open>Lemmas on text\<close>

text \<open>The first position at which the text occurs.\<close>

lemma strings_Index_iff:
  "strings_Index s sub = Some i \<longleftrightarrow>
     i \<le> length s \<and> strings_HasPrefix (drop i s) sub \<and> (\<forall>j<i. \<not> strings_HasPrefix (drop j s) sub)"
proof (induction s arbitrary: i)
  case (Cons c s)
  show ?case
  proof (cases i)
    case (Suc k)
    have "(\<forall>j<Suc k. \<not> strings_HasPrefix (drop j (c # s)) sub) \<longleftrightarrow>
        \<not> strings_HasPrefix (c # s) sub \<and> (\<forall>j<k. \<not> strings_HasPrefix (drop j s) sub)"
      by (auto simp: All_less_Suc2)
    with Suc Cons.IH [of k] show ?thesis by auto
  qed auto
qed (auto simp: strings_HasPrefix_def)

lemma strings_Split_Cons: "c \<notin> set a \<Longrightarrow> strings_Split (a @ c # r) c = a # strings_Split r c"
  by (induction a) auto

lemma strings_Split_of_Join:
  "xs \<noteq> [] \<Longrightarrow> \<forall>x\<in>set xs. c \<notin> set x \<Longrightarrow> strings_Split (strings_Join xs [c]) c = xs"
  by (induction xs "[c]" rule: strings_Join.induct) (auto simp: strings_Split_free strings_Split_Cons)

text \<open>Lines that a scanner returns as they are.\<close>

definition plain_lines :: "string list \<Rightarrow> bool" where
  "plain_lines ls \<longleftrightarrow>
     ls \<noteq> [] \<and> list_all (\<lambda>l. l \<noteq> [] \<and> CHR 0x0A \<notin> set l \<and> CHR 0x0D \<notin> set l \<and> length l < MaxScanTokenSize) ls"

lemma scan_lines_Join:
  assumes "plain_lines ls"
  shows "scan_lines (strings_Join ls [CHR 0x0A]) = ls"
proof -
  from assms have l: "l \<noteq> []" "CHR 0x0A \<notin> set l" "CHR 0x0D \<notin> set l" "length l < MaxScanTokenSize" if "l \<in> set ls" for l
    using that by (auto simp: plain_lines_def list_all_iff)
  from assms have "ls \<noteq> []" by (simp add: plain_lines_def)
  moreover from this l(1) have "last ls \<noteq> []" by simp
  moreover have "dropCR l = l" if "l \<in> set ls" for l
    using l(1,3) [OF that] last_in_set [of l] unfolding dropCR_def by metis
  moreover have "takeWhile (\<lambda>l. length l < MaxScanTokenSize) ls = ls" unfolding takeWhile_eq_all_conv using l(4) by blast
  moreover have "strings_Split (strings_Join ls [CHR 0x0A]) (CHR 0x0A) = ls"
    using \<open>ls \<noteq> []\<close> l(2) by (intro strings_Split_of_Join) blast+
  ultimately show ?thesis unfolding scan_lines_def Let_def by (simp only: if_False map_idI)
qed

section \<open>Properties\<close>

text \<open>
  (C39) Uncommenting undoes commenting: when the target is a block of lines with the prefix in front
  of each, and the file contains it, one read and one write follow, and the written text has the
  lines without the prefix in place of the first occurrence; an error is that of the write.
\<close>

theorem UncommentCode_roundtrip:
  assumes "plain_lines (map ((@) pfx) ls)" and "target = strings_Join (map ((@) pfx) ls) [CHR 0x0A]"
    and "tReadFile E filename h = Inr (pre @ target @ post)"
    and "strings_Index (pre @ target @ post) target = Some (length pre)"
  shows "\<exists>w. history (UncommentCode E filename target pfx) h =
      h @ [ReadTextFile filename (Inr (pre @ target @ post)), WriteTextFile filename (pre @ strings_Join ls [CHR 0x0A] @ post) w] \<and>
    (outcome (UncommentCode E filename target pfx) h = None \<longleftrightarrow> w = Inr ())"
proof -
  let ?out = "pre @ strings_Join ls [CHR 0x0A] @ post"
  from assms(1) have "ls \<noteq> []" by (simp add: plain_lines_def)
  then have un: "uncommented (pre @ target @ post) (length pre) target pfx = Some ?out"
    using scan_lines_Join [OF assms(1)] by (cases ls) (simp_all add: uncommented_def assms(2) comp_def)
  show ?thesis
    by (rule exI [of _ "tWriteFile E filename ?out (h @ [ReadTextFile filename (Inr (pre @ target @ post))])"])
      (simp add: UncommentCode_def history_bind outcome_bind assms(3,4) un split: sum.split)
qed

definition example_file :: test_env where
  "example_file =
     \<lparr>tGetwd = \<lambda>h. Inr ''/repo/test/e2e'', tChdir = \<lambda>d h. Inr (), tEnviron = \<lambda>h. [], tLookupEnv = \<lambda>k h. None,
      tCombinedOutput = \<lambda>a d e h. ([], None), tReadFile = \<lambda>f h. Inr ''x #a y'', tWriteFile = \<lambda>f s h. Inr ()\<rparr>"

theorem UncommentCode_roundtrip_witness:
  "\<exists>w. history (UncommentCode example_file ''f'' ''#a'' ''#'') [] =
     [ReadTextFile ''f'' (Inr ''x #a y''), WriteTextFile ''f'' ''x a y'' w]"
proof -
  have plain: "plain_lines (map ((@) ''#'') [''a''])" by (simp add: plain_lines_def MaxScanTokenSize_def)
  have target: "''#a'' = strings_Join (map ((@) ''#'') [''a'']) [CHR 0x0A]" by simp
  have read: "tReadFile example_file ''f'' [] = Inr (''x '' @ ''#a'' @ '' y'')" by (simp add: example_file_def)
  have "strings_Index (''x '' @ ''#a'' @ '' y'') ''#a'' = Some (length ''x '')" by (simp add: strings_HasPrefix_def)
  from UncommentCode_roundtrip [OF plain target read this]
  obtain w where "history (UncommentCode example_file ''f'' ''#a'' ''#'') [] =
      [] @ [ReadTextFile ''f'' (Inr (''x '' @ ''#a'' @ '' y'')), WriteTextFile ''f'' (''x '' @ strings_Join [''a''] [CHR 0x0A] @ '' y'') w]" by blast
  then show ?thesis by (intro exI [of _ w]) simp
qed

text \<open>
  A target that ends in a line end loses it: the line after the target is joined to its last line.
\<close>

theorem UncommentCode_joins_lines:
  "uncommented (''#a'' @ [CHR 0x0A] @ ''b'') 0 (''#a'' @ [CHR 0x0A]) ''#'' = Some ''ab''"
  by (simp add: uncommented_def scan_lines_def MaxScanTokenSize_def dropCR_def strings_TrimPrefix_def strings_HasPrefix_def)

fun is_command :: "test_event \<Rightarrow> bool" where
  "is_command (CombinedOutput args dir env out) = True"
| "is_command _ = False"

text \<open>
  (C40) A command runs in the project directory: whatever the environment answers, a run asks for the
  working directory, and executes at most one command, in that directory without the suffix of the
  tests; without one there is an error.
\<close>

theorem Run_in_project:
  "yields (\<lambda>res t. \<exists>wd u. t = Getwd wd # u \<and>
      (case wd of
         Inl _ \<Rightarrow> u = [] \<and> snd res \<noteq> None
       | Inr d \<Rightarrow> \<exists>env out. filter is_command u = [CombinedOutput args (strings_ReplaceAll d ''/test/e2e'' []) env out] \<and>
           fst res = fst out \<and> (snd res = None \<longleftrightarrow> snd out = None)))
     (Run E args)"
proof (rule yieldsI)
  fix h
  show "\<exists>t. history (Run E args) h = h @ t \<and> (\<exists>wd u. t = Getwd wd # u \<and>
      (case wd of
         Inl _ \<Rightarrow> u = [] \<and> snd (outcome (Run E args) h) \<noteq> None
       | Inr d \<Rightarrow> \<exists>env out. filter is_command u = [CombinedOutput args (strings_ReplaceAll d ''/test/e2e'' []) env out] \<and>
           fst (outcome (Run E args) h) = fst out \<and> (snd (outcome (Run E args) h) = None \<longleftrightarrow> snd out = None)))"
  proof (cases "tGetwd E h")
    case (Inl e)
    then show ?thesis by (simp add: Run_def GetProjectDir_def history_bind outcome_bind)
  next
    case (Inr d)
    then show ?thesis
      by (cases "tChdir E (strings_ReplaceAll d ''/test/e2e'' []) (h @ [Getwd (Inr d)])")
        (simp_all add: Run_def GetProjectDir_def log_line_def history_bind outcome_bind Let_def split: option.split)
  qed
qed

end
