(* ===== verification/Divergences.thy ===== *)
theory Divergences
  imports Scenario
begin

text \<open>
  Concrete runs in which the program does something else than its comments say. Each is a closed
  evaluation of the model.
\<close>

section \<open>A prune that deletes what was just applied\<close>

text \<open>
  The server answers an apply of a cluster-scoped object without a namespace, and the answer replaces
  the manifest. For a kind that is not in the static list of cluster-scoped kinds, the recorded entry
  has the namespace of the render, so its key is not among those of the current manifests.
\<close>

definition policy :: jobj where
  "policy =
     [(''apiVersion'', JStr ''admissionregistration.k8s.io/v1''), (''kind'', JStr ''ValidatingAdmissionPolicy''),
      (''metadata'', JObj [(''name'', JStr ''p'')])]"

definition cluster_api :: api_env where
  "cluster_api = (example_api ''me'' (example_cr ''ShootFirst''))\<lparr>ePatch := \<lambda>c u fm h. Inr (SetNamespace documented_lib u [])\<rparr>"

definition seed_applier :: Applier where
  "seed_applier =
     ssa documented_lib cluster_api \<lparr>ssa_Client = SeedClient, ssa_FieldManager = FieldManagerName, ssa_Cluster = ''seed''\<rparr>"

definition placed_policy :: "(string \<times> jval) list \<Rightarrow> jobj" where
  "placed_policy meta =
     [(''apiVersion'', JStr ''admissionregistration.k8s.io/v1''), (''kind'', JStr ''ValidatingAdmissionPolicy''), (''metadata'', JObj meta)]"

definition policy_status :: ResourceStatus where
  "policy_status =
     \<lparr>rs_Kind = ''ValidatingAdmissionPolicy'', rs_APIVersion = ''admissionregistration.k8s.io/v1'', rs_Namespace = ''garden'', rs_Name = ''p'',
      rs_Health = HealthHealthy, rs_LastApplied = Some 0, rs_Message = []\<rparr>"

definition policy_get :: "string \<Rightarrow> event" where
  "policy_get ns =
     EvGet SeedClient \<lparr>gvk_Group = ''admissionregistration.k8s.io'', gvk_Version = ''v1'', gvk_Kind = ''ValidatingAdmissionPolicy''\<rparr>
       ns ''p'' (Inr (example_live ''me''))"

definition policy_patch :: event where
  "policy_patch =
     EvPatch SeedClient
       (placed_policy [(''name'', JStr ''p''), (''namespace'', JStr ''garden''), (''labels'', JObj [(OwnedByLabel, JStr ''me'')])])
       FieldManagerName
       (Inr (placed_policy [(''name'', JStr ''p''), (''labels'', JObj [(OwnedByLabel, JStr ''me'')])]))"

definition policy_delete :: event where
  "policy_delete = EvDelete SeedClient (placed_policy [(''namespace'', JStr ''garden''), (''name'', JStr ''p'')]) (Inr ())"

text \<open>What a reconciliation does with the render of the seed: apply it, then prune.\<close>

definition cycle :: "ResourceStatus list \<Rightarrow> (event, ResourceStatus list \<times> go_error option \<times> go_error option) io" where
  "cycle prev = do {
     (current, statuses, applyErr) \<leftarrow> applyAll documented_lib seed_applier
       (ApplyNamespace documented_lib [\<lparr>m_Unstructured = policy, m_Origin = OriginUpstream\<rparr>] ''garden'') ''me'';
     (ret, pruneErr) \<leftarrow> prune documented_lib seed_applier prev current (example_cr ''ShootFirst'') ''me'';
     State_Monad.return (statuses @ ret, applyErr, pruneErr)
   }"

lemma policy_placed:
  "ApplyNamespace documented_lib [\<lparr>m_Unstructured = policy, m_Origin = OriginUpstream\<rparr>] ''garden'' =
     [\<lparr>m_Unstructured = placed_policy [(''name'', JStr ''p''), (''namespace'', JStr ''garden'')], m_Origin = OriginUpstream\<rparr>]"
  by code_simp

lemma run_policy_apply:
  "run_state (ap_Apply seed_applier
       \<lparr>m_Unstructured = placed_policy [(''name'', JStr ''p''), (''namespace'', JStr ''garden'')], m_Origin = OriginUpstream\<rparr> ''me'') h =
     ((\<lparr>m_Unstructured = placed_policy [(''name'', JStr ''p''), (''labels'', JObj [(OwnedByLabel, JStr ''me'')])], m_Origin = OriginUpstream\<rparr>,
       policy_status, None), ((h @ [EvNow 0]) @ [policy_patch]) @ [policy_get []])"
  by code_simp

lemma policy_key:
  "ManifestIdentityKey documented_lib
     \<lparr>m_Unstructured = placed_policy [(''name'', JStr ''p''), (''labels'', JObj [(OwnedByLabel, JStr ''me'')])], m_Origin = OriginUpstream\<rparr> =
   ''admissionregistration.k8s.io/ValidatingAdmissionPolicy//p''"
  by code_simp

lemma run_policy_prune:
  "run_state (prune_one documented_lib seed_applier [''admissionregistration.k8s.io/ValidatingAdmissionPolicy//p'']
       (example_cr ''ShootFirst'') ''me'' policy_status) h =
     (None, ((h @ [policy_get ''garden'']) @ [policy_get ''garden'']) @ [policy_delete])"
  by code_simp

text \<open>
  The same render in two reconciliations: the first applies the policy, the second applies it and then
  deletes it, without an error and with the policy recorded as healthy.
\<close>

theorem phantom_prune:
  "run_state (cycle []) [] = (([policy_status], None, None), [EvNow 0, policy_patch, policy_get []]) \<and>
   run_state (cycle [policy_status]) [] =
     (([policy_status], None, None),
      [EvNow 0, policy_patch, policy_get [], policy_get ''garden'', policy_get ''garden'', policy_delete])"
  by (simp add: cycle_def applyAll_def prune_def SortStatusForDelete_def policy_placed policy_key run_policy_apply run_policy_prune
      run_steps_simps doc_errors.NewAggregate_nil)

section \<open>A kind without a mapping\<close>

text \<open>
  Once its definition is gone, a kind has no REST mapping: a prune treats its objects as gone, a
  deletion reports an error for them, so the finalizer stays.
\<close>

definition unmapped_api :: api_env where
  "unmapped_api = (example_api ''me'' (example_cr ''ShootFirst''))\<lparr>eGet := \<lambda>c g ns n h. Inl (ErrLib ''NoMatch'' ''no matches for kind'')\<rparr>"

definition unmapped_applier :: Applier where
  "unmapped_applier =
     ssa documented_lib unmapped_api \<lparr>ssa_Client = SeedClient, ssa_FieldManager = FieldManagerName, ssa_Cluster = ''seed''\<rparr>"

definition rule_status :: ResourceStatus where
  "rule_status =
     \<lparr>rs_Kind = ''PrometheusRule'', rs_APIVersion = ''monitoring.coreos.com/v1'', rs_Namespace = ''garden'', rs_Name = ''r'',
      rs_Health = HealthHealthy, rs_LastApplied = None, rs_Message = []\<rparr>"

theorem unmapped_kind_blocks_deletion:
  "fst (run_state (prune documented_lib unmapped_applier [rule_status] [] (example_cr ''ShootFirst'') ''me'') []) = ([], None) \<and>
   fst (run_state (deleteRender documented_lib (example_cr ''ShootFirst'') ''me'' (Some unmapped_applier) [rule_status]) []) =
     [Some (ErrLib ''NoMatch'' ''no matches for kind'')]"
  by code_simp

section \<open>Orders and keys\<close>

text \<open>Entries of the same priority are deleted in the order they were applied, not in the reverse.\<close>

theorem SortStatusForDelete_keeps_ties:
  "map rs_Name (SortStatusForDelete [example_status ''a'' ''x'', example_status ''a'' ''y'']) = [''x'', ''y''] \<and>
   map (\<lambda>m. GetName documented_lib (m_Unstructured m))
     (SortForDelete documented_lib (map (ManifestFromStatus documented_lib) [example_status ''a'' ''x'', example_status ''a'' ''y''])) =
   [''y'', ''x'']"
  by code_simp

text \<open>An apiVersion that cannot be parsed drops the kind from the key of a manifest, but not from that of its entry.\<close>

definition malformed :: Manifest where
  "malformed =
     \<lparr>m_Unstructured = [(''apiVersion'', JStr ''a/b/c''), (''kind'', JStr ''K''), (''metadata'', JObj [(''name'', JStr ''n'')])],
      m_Origin = OriginUpstream\<rparr>"

theorem malformed_keys_differ:
  "ManifestIdentityKey documented_lib malformed = ''///n'' \<and>
   StatusIdentityKey documented_lib
     \<lparr>rs_Kind = ''K'', rs_APIVersion = ''a/b/c'', rs_Namespace = [], rs_Name = ''n'', rs_Health = HealthHealthy, rs_LastApplied = None,
      rs_Message = []\<rparr> = ''/K//n''"
  by code_simp

section \<open>References and labels\<close>

text \<open>A branch or tag whose name could be an abbreviated hash is always fetched as a commit.\<close>

theorem hash_like_branch: "shaRe ''deadbeef'' \<and> shaRe ''2024010'' \<and> \<not> shaRe ''main''"
  by code_simp

text \<open>A label that is not a string makes all labels of the manifest be dropped, without an error.\<close>

theorem labels_dropped:
  "GetLabels documented_lib (m_Unstructured (SetOwnedByLabel documented_lib
     \<lparr>m_Unstructured = [(''metadata'', JObj [(''labels'', JObj [(''app'', JStr ''web''), (''tier'', JInt 1)])])], m_Origin = OriginUpstream\<rparr> ''me'')) =
   Some [(OwnedByLabel, ''me'')]"
  by code_simp

end
