(* ===== verification/Outcomes.thy ===== *)
theory Outcomes
  imports Reconciliation
begin

text \<open>
  The results of the handlers, whatever the environment answers: when a reconciliation comes back.
\<close>

section \<open>Results of programs\<close>

definition returns :: "('a \<Rightarrow> bool) \<Rightarrow> ('ev, 'a) io \<Rightarrow> bool" where
  "returns P m \<longleftrightarrow> (\<forall>h. P (outcome m h))"

named_theorems returns_intros

lemma returns_return [returns_intros]: "P x \<Longrightarrow> returns P (State_Monad.return x)"
  by (simp add: returns_def)

lemma returns_bind [returns_intros]: "(\<And>a. returns P (f a)) \<Longrightarrow> returns P (State_Monad.bind m f)"
  by (simp add: returns_def outcome_bind)

lemma returns_seq: "returns R m \<Longrightarrow> (\<And>a. R a \<Longrightarrow> returns P (f a)) \<Longrightarrow> returns P (State_Monad.bind m f)"
  by (simp add: returns_def outcome_bind)

lemma returns_if [returns_intros]: "returns P m \<Longrightarrow> returns P m' \<Longrightarrow> returns P (if b then m else m')"
  by simp

lemma returns_case_prod [returns_intros]: "(\<And>a b. returns P (f a b)) \<Longrightarrow> returns P (case p of (a, b) \<Rightarrow> f a b)"
  by (cases p) simp

lemma returns_case_sum [returns_intros]:
  "(\<And>e. returns P (f e)) \<Longrightarrow> (\<And>a. returns P (g a)) \<Longrightarrow> returns P (case r of Inl e \<Rightarrow> f e | Inr a \<Rightarrow> g a)"
  by (cases r) simp_all

lemma returns_case_option [returns_intros]:
  "returns P n \<Longrightarrow> (\<And>a. returns P (f a)) \<Longrightarrow> returns P (case r of None \<Rightarrow> n | Some a \<Rightarrow> f a)"
  by (cases r) simp_all

section \<open>When a reconciliation comes back\<close>

text \<open>An error makes the queue retry; otherwise the wait is one of three constants.\<close>

definition paced :: "reconcile_result \<Rightarrow> bool" where
  "paced res \<longleftrightarrow> (fst res = 0 \<or> fst res = 30 \<or> fst res = requeueInterval) \<and> (fst res = 0 \<or> snd res = None)"

lemma paced_simps [simp]:
  "paced (0, e)" "paced (30, None)" "paced (requeueInterval, None)"
  by (simp_all add: paced_def)

lemma returns_finishNotReady [returns_intros]:
  "backoff = 0 \<or> backoff = 30 \<Longrightarrow> returns paced (finishNotReady E cr seed shoot backoff)"
  unfolding finishNotReady_def by (intro returns_bind returns_return) (auto split: sum.split)

lemma returns_finishNow: "returns (\<lambda>res. fst res = 0) (finishNotReady E cr seed shoot 0)"
  unfolding finishNotReady_def by (intro returns_bind returns_return) (auto split: sum.split)

lemma returns_write_status [returns_intros]: "returns paced (write_status B E cr seed shoot errs e)"
  unfolding write_status_def Let_def by (intro returns_bind returns_return) (auto split: sum.split option.split)

lemma returns_shoot_degraded [returns_intros]: "returns paced (shoot_degraded B E A cr ownedBy ms sts)"
  unfolding shoot_degraded_def Let_def
  by (rule returns_bind, rule returns_case_prod, rule returns_seq [OF returns_finishNow])
    (auto intro!: returns_return split: prod.split)

lemma returns_deliver_renders [returns_intros]: "returns paced (deliver_renders B E r cr seed shoot)"
  unfolding deliver_renders_def deliver_built_def shoot_skipped_def deliver_shoot_first_def deliver_seed_first_def Let_def
  by (intro returns_intros) simp_all

lemma returns_reconcile_live [returns_intros]: "returns paced (reconcile_live B S r cr)"
  unfolding reconcile_live_def errStatus_def Let_def by (intro returns_intros) simp_all

lemma returns_finish_delete [returns_intros]: "returns paced (finish_delete B E r cr d errs)"
  unfolding finish_delete_def remove_finalizer_def Let_def by (intro returns_intros) (simp_all split: sum.split)

lemma returns_reconcileDelete [returns_intros]: "returns paced (reconcileDelete B E r cr)"
  unfolding reconcileDelete_def teardown_def Let_def by (intro returns_intros) simp_all

section \<open>Properties\<close>

text \<open>
  (C16) Every reconciliation ends, with a retry after an error or a wait of 0 seconds, 30 seconds or
  the regular interval; it never returns both an error and a wait.
\<close>

theorem Reconcile_paced:
  "(fst (outcome (Reconcile B S r ns name) h) = 0 \<or> fst (outcome (Reconcile B S r ns name) h) = 30 \<or>
    fst (outcome (Reconcile B S r ns name) h) = requeueInterval) \<and>
   (fst (outcome (Reconcile B S r ns name) h) = 0 \<or> snd (outcome (Reconcile B S r ns name) h) = None)"
proof -
  have "returns paced (Reconcile B S r ns name)"
    unfolding Reconcile_def Let_def by (intro returns_intros) simp_all
  then show ?thesis by (simp add: returns_def paced_def)
qed

end
