(* ===== verification/Spec2Isabelle.thy ===== *)
theory Spec2Isabelle
  imports Harness DeepCopy Admission TestUtils Divergences Outcomes
begin

text \<open>
  A verification of the dual-deployment operator: a Kubernetes operator that renders one custom
  resource twice, for a seed cluster and for a shoot cluster, transforms both renders and delivers
  them in order, with an inventory in the status and a finalizer for the teardown.

  \<^bold>\<open>The program and its model.\<close> One theory stands for one part of the program; a definition has the name
  of the Go function it translates, with the receiver in front where the name alone is taken
  (\<open>SSA_Apply\<close> for \<open>SSAApplier.Apply\<close>), and a loop body or an early return that has its own
  definition is named after what it does.

  \<^item> \<open>ApiTypes\<close> (api/v1alpha1): the custom resource as records, the validation markers as predicates.
  \<^item> \<open>Manifest\<close> (internal/manifest): parsing a render, origins, the ownership label, namespaces;
    \<open>Sha256\<close> is the hash of the ownership value.
  \<^item> \<open>Transform\<close> (internal/transform): selectors with \<open>path.Match\<close> (\<open>PathMatch\<close>, \<open>Utf8\<close>), the three
    transformations and \<open>Build\<close>.
  \<^item> \<open>Order\<close> and \<open>Applier\<close> (internal/deliver): apply order, identity keys, health, caBundle stripping,
    and the server-side-apply applier.
  \<^item> \<open>Fetch\<close> and \<open>RenderSource\<close> (internal/source): credentials, the git resolver, the chart loader,
    Helm and kustomize rendering, the render cache and its keys; \<open>GoUrl\<close> and \<open>GoJson\<close> are the parts
    of net/url and encoding/json they use.
  \<^item> \<open>Controller\<close> (internal/controller, internal/clients): \<open>Reconcile\<close> and \<open>reconcileDelete\<close> with every
    helper and early return.
  \<^item> \<open>Manager\<close> (cmd/main.go): options, start-up sequence and the wiring of the reconciler.
  \<^item> \<open>Comparison\<close>, \<open>Scoping\<close>, \<open>Golden\<close>, \<open>Harness\<close> (internal/equivalence): the harness that compares a
    chart with what the operator renders; \<open>Base64\<close> is the part of encoding/base64 it uses.
  \<^item> \<open>Memory\<close> and \<open>DeepCopy\<close> (api/v1alpha1/zz_generated.deepcopy.go): the types at the level of references
    into a memory of cells, and every generated copy over it.
  \<^item> \<open>Admission\<close> (internal/webhook/v1alpha1): the validators, and what admission means for the reconciler.
  \<^item> \<open>TestUtils\<close> (test/utils/utils.go): the helpers of the end-to-end tests over a process environment.

  \<open>Unstructured\<close> has the JSON trees of \<open>unstructured.Unstructured\<close> as association lists and \<open>World\<close>
  the outside world.

  \<^bold>\<open>State and effects.\<close> A program that calls out is a state monad over the list of events so far
  (\<open>io\<close> in \<open>Prelude\<close>): a call appends one event that holds the request and the response, and the
  environment answers as any function of the history, so an API server, a git remote or a file
  system may fail or change its mind at every call. \<open>emits P m\<close> says that every event of \<open>m\<close>
  satisfies \<open>P\<close> and \<open>yields R m\<close> relates the result of \<open>m\<close> to the events it appended; both hold for
  every environment. Errors are values of \<open>go_error\<close>, with the wrapping of \<open>fmt.Errorf\<close>. Go maps are
  association lists; where their order could be seen, a lemma shows that it cannot, or, in \<open>Scoping\<close>,
  when it can.

  \<^bold>\<open>Libraries.\<close> Kubernetes, Helm, kustomize, go-git and the patch engines are arguments: \<open>klib\<close>,
  \<open>patchlib\<close>, \<open>srclib\<close>, \<open>goldlib\<close> and the environments of \<open>World\<close>. What the code relies on are the locales
  \<open>unstructured_lib\<close>, \<open>errors_lib\<close> and \<open>controllerutil_lib\<close>; \<open>documented_lib\<close> interprets them all.

  \<^bold>\<open>What is shown.\<close> \<open>Reconciliation\<close>, \<open>Delivery\<close>, \<open>Guarantees\<close>, \<open>Teardown\<close> and \<open>Invariants\<close> prove what a
  reconciliation does in any environment, in the locale \<open>reconciler_setup\<close>, which \<open>Manager\<close>
  interprets on the reconciler that \<open>main\<close> builds; the properties of this theory are these results
  on the model's definitions. \<open>Scenario\<close> is a concrete world in which they are applied. \<open>Outcomes\<close>
  bounds when a reconciliation comes back, \<open>Admission\<close> shows that an admitted resource is never stopped
  as invalid and that a failed preparation touches no cluster. The applier refines the contract
  \<open>applier_contract\<close>, the only thing the reconciler's proofs know of it. \<open>Transform\<close>, \<open>Order\<close>, \<open>RenderSource\<close>
  and \<open>Manager\<close> end with what their own functions promise; the theories of the harness show what a
  passing comparison certifies; \<open>DeepCopy\<close> shows that a copy has the same value and shares no cell.
  \<open>Divergences\<close> evaluates inputs on which the code does not do what its comments say.

  \<^bold>\<open>Bounds and fuel.\<close> No definition has fuel: every loop of the program is over a list, or ends by a
  termination proof (\<open>decode_loop\<close>, the parsers of \<open>PathMatch\<close>, \<open>GoUrl\<close> and \<open>Utf8\<close>). SHA-256 is on
  32-bit words, with the wrap-around of the code.

  \<^bold>\<open>Not modelled.\<close> Logging of the operator, contexts and their cancellation, the text of messages that
  libraries produce, goroutines (the reconciler has none of its own), and the file systems behind
  Helm, git and kustomize, which are known through their responses. The registration of the types
  with a scheme only calls libraries; that of the reconciler and the webhook with a manager is a
  step of the start-up sequence that may fail. A value of the other theories is immutable, so the
  copies that the code makes before it changes an object are the identity there; that this is sound
  for the custom resource is what \<open>DeepCopy\<close> shows.
\<close>

section \<open>Safety of a reconciliation\<close>

text \<open>
  (C1) Ownership. Whatever the API servers answer, in every reconciliation of a custom resource
  each deletion directly follows a read by the same client that showed this custom resource's
  ownership value on the object, each apply of an object whose metadata is a map carries that
  value, and each apply of a cluster-scoped kind directly follows a read that showed no object, no owner or this owner.
\<close>

theorem Reconcile_ownership:
  assumes "reconciler_setup B err S r"
  shows "yields (\<lambda>_ t. \<forall>cr u. t = EvGetCR ns name (Inr cr) # u \<longrightarrow> disciplined (lib_k B) (owner cr) None u)
     (Reconcile B S r ns name)"
  by (rule reconciler_setup.handler_ownership [OF assms])

theorem Reconcile_ownership_witness:
  "disciplined documented_lib (owner (example_cr ''ShootFirst'')) None (tl (example_trace ''ShootFirst'')) \<and>
   EvPatch SeedClient (example_sent (owner (example_cr ''ShootFirst'')) ''garden'' ''a'') FieldManagerName
     (Inr (example_sent (owner (example_cr ''ShootFirst'')) ''garden'' ''a'')) \<in> set (tl (example_trace ''ShootFirst''))"
  using example_run [OF Reconcile_ownership [OF example_setup], of "''ShootFirst''"]
  by (simp add: example_trace_simps)

text \<open>
  (C2) The finalizer goes last. During a deletion the custom resource is only updated to remove
  the operator's own finalizer, and only when every recorded seed object that is not retained is
  gone, and every recorded shoot object that is not retained is gone from a shoot that was
  reached, unless the operator's consent to leave the shoot behind is annotated. Gone means that a
  read found no object, or one without this custom resource's ownership value, or that it was
  deleted.
\<close>

theorem Reconcile_finalizer_last:
  assumes "reconciler_setup B err S r"
  shows "yields (\<lambda>_ t. \<forall>cr u cr' x. t = EvGetCR ns name (Inr cr) # u \<longrightarrow> cr_DeletionTimestamp cr \<noteq> None \<longrightarrow>
        EvUpdateCR cr' x \<in> set u \<longrightarrow>
        cr_Finalizers cr' = filter (\<lambda>f. f \<noteq> FinalizerName) (cr_Finalizers cr) \<and> done_or_forced B cr u)
     (Reconcile B S r ns name)"
proof (rule Reconcile_phases)
  fix cr :: DualDeploymentOperator
  show "yields (\<lambda>_ t. \<forall>cr' u cr'' x. EvGetCR ns name (Inr cr) # t = EvGetCR ns name (Inr cr') # u \<longrightarrow>
      cr_DeletionTimestamp cr' \<noteq> None \<longrightarrow> EvUpdateCR cr'' x \<in> set u \<longrightarrow>
      cr_Finalizers cr'' = filter (\<lambda>f. f \<noteq> FinalizerName) (cr_Finalizers cr') \<and> done_or_forced B cr' u)
    (reconcileDelete B (se_api S) r cr)"
    by (rule yields_mono [OF reconciler_setup.reconcileDelete_law [OF assms]])
      (auto simp: safe_teardown_def controllerutil_lib.RemoveFinalizer_law [OF reconciler_setup.f_lib [OF assms]])
  show "yields (\<lambda>_ t. \<forall>cr' u cr'' x. EvGetCR ns name (Inr cr) # t = EvGetCR ns name (Inr cr') # u \<longrightarrow>
      cr_DeletionTimestamp cr' \<noteq> None \<longrightarrow> EvUpdateCR cr'' x \<in> set u \<longrightarrow>
      cr_Finalizers cr'' = filter (\<lambda>f. f \<noteq> FinalizerName) (cr_Finalizers cr') \<and> done_or_forced B cr' u)
    (reconcile_live B S r cr)" if "cr_DeletionTimestamp cr = None"
    by (rule yields_mono [OF reconciler_setup.reconcile_live_law [OF assms]]) (use that in simp)
qed simp_all

theorem Reconcile_finalizer_last_witness:
  "cr_Finalizers ((example_deleting ''ShootFirst'')\<lparr>cr_Finalizers := []\<rparr>) = [] \<and>
   done_or_forced example_libs (example_dying ''ShootFirst'') (tl (example_teardown_trace ''ShootFirst'')) \<and>
   \<not> force_delete (example_dying ''ShootFirst'')"
proof -
  let ?t = "example_teardown_trace ''ShootFirst''"
  let ?cr = "(example_deleting ''ShootFirst'')\<lparr>cr_Finalizers := []\<rparr>"
  have "?t = EvGetCR ''garden'' ''ops'' (Inr (example_dying ''ShootFirst'')) # tl ?t"
    and "EvUpdateCR ?cr (Inr ?cr) \<in> set (tl ?t)" and "cr_DeletionTimestamp (example_dying ''ShootFirst'') \<noteq> None"
    and "\<not> force_delete (example_dying ''ShootFirst'')"
    by (simp_all add: example_teardown_trace_def Let_def example_dying_def example_cr_def force_delete_def map_get_def)
  with example_teardown_run [OF Reconcile_finalizer_last [OF example_setup], of "''ShootFirst''"]
  show ?thesis by (intro conjI) (simp, blast, assumption)
qed

text \<open>
  (C3) Shoot first. Unless the custom resource says \<open>SeedFirst\<close>, every apply on the seed comes
  after a shoot client was built and every manifest of the shoot render was accepted by the shoot.
\<close>

theorem deliver_renders_shoot_gate:
  assumes "reconciler_setup B err S r" and "\<not> seed_first cr"
  shows "yields (\<lambda>_ t. \<forall>s u fm x rest. t = s @ EvPatch SeedClient u fm x # rest \<longrightarrow> shoot_converged B cr shoot s)
     (deliver_renders B (se_api S) r cr seed shoot)"
  by (rule yields_mono [OF reconciler_setup.deliver_renders_law [OF assms(1)]]) (use assms(2) delivery_gate in blast)

theorem deliver_renders_shoot_gate_witness:
  "shoot_converged example_libs (example_cr ''ShootFirst'') [example_manifest ''kube-system'' ''b'']
     (take 6 (example_delivery_trace ''ShootFirst''))"
proof -
  let ?t = "example_delivery_trace ''ShootFirst''"
  have "\<not> seed_first (example_cr ''ShootFirst'')"
    by (simp add: seed_first_def example_cr_def example_spec_def)
  note gate = example_delivery_run [OF deliver_renders_shoot_gate [OF example_setup this]]
  obtain u fm x rest where "?t = take 6 ?t @ EvPatch SeedClient u fm x # rest"
    by (simp add: example_trace_simps example_client_trace_def)
  with gate show ?thesis by blast
qed

text \<open>
  (C4) Ready is truthful. A status with the condition \<open>Ready\<close> set to \<open>True\<close> is only ever written
  after every manifest of both renders was accepted by its cluster, and it records no object as
  degraded, progressing or unknown.
\<close>

theorem deliver_renders_ready:
  assumes "reconciler_setup B err S r"
  shows "yields (\<lambda>_ t. \<forall>cr' x. EvStatusUpdate cr' x \<in> set t \<longrightarrow> reports_ready cr' \<longrightarrow> fully_delivered B cr seed shoot cr' t)
     (deliver_renders B (se_api S) r cr seed shoot)"
  by (rule yields_mono [OF reconciler_setup.deliver_renders_law [OF assms]]) (use delivery_ready [OF assms] in blast)

theorem deliver_renders_ready_witness:
  "fully_delivered example_libs (example_cr ''SeedFirst'') [example_manifest ''garden'' ''a'']
     [example_manifest ''kube-system'' ''b''] (example_written ''SeedFirst'') (example_delivery_trace ''SeedFirst'')"
proof -
  have "EvStatusUpdate (example_written ''SeedFirst'') (Inr (example_written ''SeedFirst'')) \<in> set (example_delivery_trace ''SeedFirst'')"
    by (simp add: example_trace_simps)
  moreover have "reports_ready (example_written ''SeedFirst'')"
    unfolding example_written_def reports_ready_iff(1) [OF example_setup] by (simp add: healthy_def example_status_def)
  ultimately show ?thesis
    using example_delivery_run [OF deliver_renders_ready [OF example_setup]] by blast
qed

text \<open>
  (C5) Nothing is written to a cluster before the finalizer is in place: when a reconciliation
  applies or deletes an object, the custom resource it read carried the operator's finalizer or
  was being deleted.
\<close>

theorem Reconcile_finalizer_first:
  assumes "reconciler_setup B err S r"
  shows "yields (\<lambda>_ t. \<forall>cr u e. t = EvGetCR ns name (Inr cr) # u \<longrightarrow> e \<in> set u \<longrightarrow> is_object_write e \<longrightarrow>
        FinalizerName \<in> set (cr_Finalizers cr) \<or> cr_DeletionTimestamp cr \<noteq> None)
     (Reconcile B S r ns name)"
proof (rule Reconcile_phases)
  fix cr :: DualDeploymentOperator
  assume "ContainsFinalizer (lib_k B) (cr_Finalizers cr) FinalizerName"
  then have "FinalizerName \<in> set (cr_Finalizers cr)"
    by (simp add: controllerutil_lib.ContainsFinalizer_law [OF reconciler_setup.f_lib [OF assms]])
  then show "yields (\<lambda>_ t. \<forall>cr' u e. EvGetCR ns name (Inr cr) # t = EvGetCR ns name (Inr cr') # u \<longrightarrow> e \<in> set u \<longrightarrow>
      is_object_write e \<longrightarrow> FinalizerName \<in> set (cr_Finalizers cr') \<or> cr_DeletionTimestamp cr' \<noteq> None)
    (reconcile_live B S r cr)"
    by (intro yields_mono [OF reconciler_setup.reconcile_live_law [OF assms]]) simp
next
  fix cr :: DualDeploymentOperator
  assume "cr_DeletionTimestamp cr \<noteq> None"
  then show "yields (\<lambda>_ t. \<forall>cr' u e. EvGetCR ns name (Inr cr) # t = EvGetCR ns name (Inr cr') # u \<longrightarrow> e \<in> set u \<longrightarrow>
      is_object_write e \<longrightarrow> FinalizerName \<in> set (cr_Finalizers cr') \<or> cr_DeletionTimestamp cr' \<noteq> None)
    (reconcileDelete B (se_api S) r cr)"
    by (intro yields_mono [OF reconciler_setup.reconcileDelete_law [OF assms]]) simp
qed (auto split: sum.splits)

theorem Reconcile_finalizer_first_witness:
  "\<exists>e\<in>set (tl (example_trace ''ShootFirst'')). is_object_write e \<and>
     (FinalizerName \<in> set (cr_Finalizers (example_cr ''ShootFirst'')) \<or>
      cr_DeletionTimestamp (example_cr ''ShootFirst'') \<noteq> None)"
proof -
  let ?t = "example_trace ''ShootFirst''" and ?own = "owner (example_cr ''ShootFirst'')"
  let ?e = "EvPatch SeedClient (example_sent ?own ''garden'' ''a'') FieldManagerName (Inr (example_sent ?own ''garden'' ''a''))"
  have "?t = EvGetCR ''garden'' ''ops'' (Inr (example_cr ''ShootFirst'')) # tl ?t" "?e \<in> set (tl ?t)"
    by (simp_all add: example_trace_simps)
  then show ?thesis
    using example_run [OF Reconcile_finalizer_first [OF example_setup], of "''ShootFirst''"] by (intro bexI [of _ ?e]) auto
qed

text \<open>
  (C6) Order of the writes. The objects that a delivery applies are, in order, among those of the
  render that goes first, sorted by kind priority, followed by those of the other one; the objects
  that it prunes are, in order, among the recorded ones in the reverse order of the renders.
\<close>

theorem deliver_renders_order:
  assumes "reconciler_setup B err S r"
  shows "yields (\<lambda>_ t. subseq (patched t) (apply_sequence B cr seed shoot) \<and> subseq (deleted t) (delete_sequence B cr))
     (deliver_renders B (se_api S) r cr seed shoot)"
  by (rule yields_mono [OF reconciler_setup.deliver_renders_law [OF assms]]) (simp add: delivery_order)

theorem deliver_renders_order_witness:
  "subseq (patched (example_delivery_trace ''SeedFirst''))
     (apply_sequence example_libs (example_cr ''SeedFirst'') [example_manifest ''garden'' ''a'']
        [example_manifest ''kube-system'' ''b'']) \<and>
   length (patched (example_delivery_trace ''SeedFirst'')) = 2"
  using example_delivery_run [OF deliver_renders_order [OF example_setup], of "''SeedFirst''"]
  by (simp add: example_trace_simps example_client_trace_def)

text \<open>
  (C7) Order of a teardown. A reconciliation of a custom resource that is being deleted applies
  nothing, and the objects it deletes are, in order, among the recorded ones that are not
  retained: the render that is applied last goes first, each in the order for deletion. When it
  ends without an error it has removed the finalizer or comes back within 30 seconds.
\<close>

theorem Reconcile_teardown:
  assumes "reconciler_setup B err S r"
  shows "yields (\<lambda>res t. \<forall>cr u. t = EvGetCR ns name (Inr cr) # u \<longrightarrow> cr_DeletionTimestamp cr \<noteq> None \<longrightarrow>
        patched u = [] \<and> subseq (deleted u) (delete_sequence B cr) \<and>
        (snd res = None \<longrightarrow> fst res = 30 \<or> (\<exists>cr' y. EvUpdateCR cr' (Inr y) \<in> set u)))
     (Reconcile B S r ns name)"
proof (rule Reconcile_phases)
  fix cr :: DualDeploymentOperator
  show "yields (\<lambda>res t. \<forall>cr' u. EvGetCR ns name (Inr cr) # t = EvGetCR ns name (Inr cr') # u \<longrightarrow>
      cr_DeletionTimestamp cr' \<noteq> None \<longrightarrow> patched u = [] \<and> subseq (deleted u) (delete_sequence B cr') \<and>
      (snd res = None \<longrightarrow> fst res = 30 \<or> (\<exists>cr' y. EvUpdateCR cr' (Inr y) \<in> set u)))
    (reconcileDelete B (se_api S) r cr)"
    by (rule yields_mono [OF reconciler_setup.reconcileDelete_law [OF assms]]) (simp add: safe_teardown_def)
  show "yields (\<lambda>res t. \<forall>cr' u. EvGetCR ns name (Inr cr) # t = EvGetCR ns name (Inr cr') # u \<longrightarrow>
      cr_DeletionTimestamp cr' \<noteq> None \<longrightarrow> patched u = [] \<and> subseq (deleted u) (delete_sequence B cr') \<and>
      (snd res = None \<longrightarrow> fst res = 30 \<or> (\<exists>cr' y. EvUpdateCR cr' (Inr y) \<in> set u)))
    (reconcile_live B S r cr)" if "cr_DeletionTimestamp cr = None"
    by (rule yields_mono [OF reconciler_setup.reconcile_live_law [OF assms]]) (use that in simp)
qed simp_all

theorem Reconcile_teardown_witness:
  "subseq (deleted (tl (example_teardown_trace ''ShootFirst''))) (delete_sequence example_libs (example_dying ''ShootFirst'')) \<and>
   length (deleted (tl (example_teardown_trace ''ShootFirst''))) = 2"
proof -
  let ?t = "example_teardown_trace ''ShootFirst''"
  have "?t = EvGetCR ''garden'' ''ops'' (Inr (example_dying ''ShootFirst'')) # tl ?t"
    and "cr_DeletionTimestamp (example_dying ''ShootFirst'') \<noteq> None" and "length (deleted (tl ?t)) = 2"
    by (simp_all add: example_teardown_trace_def Let_def example_dying_def example_delete_trace_def example_client_trace_def)
  with example_teardown_run [OF Reconcile_teardown [OF example_setup], of "''ShootFirst''"] show ?thesis by blast
qed

text \<open>
  (C8) What success means. A delivery always ends with a retry after an error, a wait of 30
  seconds or the regular interval. It ends with the interval only when every manifest of both
  renders was accepted and every orphan was seen to be absent, owned by somebody else or deleted:
  every recorded object, retained custom resource definitions apart, whose key is none of the
  objects with which its cluster answered the applies of this delivery. For the shoot this holds on
  a client that was built in this delivery.
\<close>

theorem deliver_renders_success:
  assumes "reconciler_setup B err S r"
  shows "yields (\<lambda>res t.
      (res = (30, None) \<or> res = (requeueInterval, None) \<or> (\<exists>e. res = (0, Some e))) \<and>
      (res = (requeueInterval, None) \<longrightarrow>
         (\<forall>m\<in>set seed. applied (lib_k B) SeedClient (owner cr) m t) \<and>
         orphans_gone B cr SeedClient (st_SeedResources (cr_Status cr)) t \<and>
         (\<exists>rc. EvNewClient rc (Inr ()) \<in> set t \<and> (\<forall>m\<in>set shoot. applied (lib_k B) (ShootClient rc) (owner cr) m t) \<and>
           orphans_gone B cr (ShootClient rc) (st_ShootResources (cr_Status cr)) t)))
     (deliver_renders B (se_api S) r cr seed shoot)"
  by (rule yields_mono [OF reconciler_setup.deliver_renders_law [OF assms]])
    (use delivery_result delivery_success in blast)

theorem deliver_renders_success_witness:
  "absent_in documented_lib SeedClient (owner (example_recorded ''ShootFirst''))
     (ManifestFromStatus documented_lib (example_status ''garden'' ''a'')) emptied_trace \<and> answers SeedClient emptied_trace = []"
proof -
  let ?cr = "example_recorded ''ShootFirst''"
  have none: "answers SeedClient emptied_trace = []"
    by (simp add: answers_def List.map_filter_simps emptied_trace_def example_prune_trace_def example_delete_trace_def
        example_client_trace_def Let_def)
  moreover have "orphans_gone example_libs ?cr SeedClient (st_SeedResources (cr_Status ?cr)) emptied_trace"
    using emptied_run [OF deliver_renders_success [OF example_setup]] by simp
  moreover have "st_SeedResources (cr_Status ?cr) = [example_status ''garden'' ''a'']"
    by (simp add: example_recorded_def example_dying_def)
  moreover have "orphan documented_lib [] ?cr (example_status ''garden'' ''a'')"
    by (simp add: orphan_def retained_kind_def example_status_def)
  ultimately show ?thesis by (simp add: orphans_gone_def answered_keys_def)
qed

text \<open>
  (C9) A render that is not delivered keeps its inventory. When no shoot client could be built,
  the status that is written keeps the recorded shoot objects; when the shoot goes first and its
  render is not accepted in full, it keeps the recorded seed objects.
\<close>

theorem deliver_renders_keeps_inventory:
  assumes "reconciler_setup B err S r"
  shows "yields (\<lambda>_ t. \<forall>cr' x. EvStatusUpdate cr' x \<in> set t \<longrightarrow>
      ((\<forall>rc. EvNewClient rc (Inr ()) \<notin> set t) \<longrightarrow>
         st_ShootResources (cr_Status cr') = st_ShootResources (cr_Status cr)) \<and>
      (\<not> seed_first cr \<longrightarrow> \<not> shoot_converged B cr shoot t \<longrightarrow>
         st_SeedResources (cr_Status cr') = st_SeedResources (cr_Status cr)))
     (deliver_renders B (se_api S) r cr seed shoot)"
  by (rule yields_mono [OF reconciler_setup.deliver_renders_law [OF assms]])
    (use delivery_keeps_shoot [OF assms] delivery_keeps_seed [OF assms] in blast)

theorem deliver_renders_keeps_inventory_witness:
  "st_ShootResources (cr_Status (waiting_written ''ShootFirst'')) = [example_status ''kube-system'' ''b''] \<and>
   st_SeedResources (cr_Status (waiting_written ''ShootFirst'')) = [example_status ''garden'' ''a'']"
proof -
  let ?cr = "example_recorded ''ShootFirst''" and ?t = "waiting_trace ''ShootFirst''"
  have prev: "st_ShootResources (cr_Status ?cr) = [example_status ''kube-system'' ''b'']"
    "st_SeedResources (cr_Status ?cr) = [example_status ''garden'' ''a'']"
    by (simp_all add: example_recorded_def example_dying_def)
  have "EvStatusUpdate (waiting_written ''ShootFirst'') (Inr (waiting_written ''ShootFirst'')) \<in> set ?t"
    and "\<forall>rc. EvNewClient rc (Inr ()) \<notin> set ?t" and "\<not> seed_first ?cr"
    by (simp_all add: waiting_trace_def seed_first_def example_recorded_def example_dying_def example_cr_def example_spec_def)
  moreover have "\<not> shoot_converged example_libs ?cr [] ?t"
    by (simp add: shoot_converged_def waiting_trace_def)
  ultimately show ?thesis
    using waiting_run [OF deliver_renders_keeps_inventory [OF waiting_setup], where shoot = "[]"] prev by metis
qed

text \<open>
  (C10) Custom resource definitions are kept. Unless the retention policy says \<open>Delete\<close>, no
  reconciliation deletes a custom resource definition, on either cluster.
\<close>

theorem Reconcile_keeps_crds:
  assumes "reconciler_setup B err S r"
  shows "yields (\<lambda>_ t. \<forall>cr u. t = EvGetCR ns name (Inr cr) # u \<longrightarrow> keeps_crds B cr u) (Reconcile B S r ns name)"
  by (rule reconciler_setup.handler_crds [OF assms])

theorem Reconcile_keeps_crds_witness:
  "keeps_crds example_libs (example_dying ''ShootFirst'') (tl (example_teardown_trace ''ShootFirst'')) \<and>
   rp_CRDs (spec_RetentionPolicy (cr_Spec (example_dying ''ShootFirst''))) \<noteq> ''Delete'' \<and>
   deleted (tl (example_teardown_trace ''ShootFirst'')) \<noteq> []"
  using example_teardown_run [OF Reconcile_keeps_crds [OF example_setup], of "''ShootFirst''"]
  by (simp add: example_teardown_trace_def Let_def example_dying_def example_cr_def example_spec_def
      example_delete_trace_def example_client_trace_def)

text \<open>
  (C11) Secrets stay apart. A reconciliation only reads secrets in the namespace of its custom
  resource, and only the shoot access secret and the auth secret that the resource refers to.
\<close>

theorem Reconcile_secrets:
  assumes "reconciler_setup B err S r"
  shows "yields (\<lambda>_ t. \<forall>cr u. t = EvGetCR ns name (Inr cr) # u \<longrightarrow> list_all (own_secret cr) u) (Reconcile B S r ns name)"
  by (rule reconciler_setup.handler_secrets [OF assms])

theorem Reconcile_secrets_witness:
  "list_all (own_secret (example_cr ''ShootFirst'')) (tl (example_trace ''ShootFirst'')) \<and>
   (\<exists>x. EvGetSecret ''garden'' ''access'' x \<in> set (tl (example_trace ''ShootFirst'')))"
proof -
  let ?t = "example_trace ''ShootFirst''" and ?x = "Inr [(''token'', ''t0ken''), (''bundle.crt'', ''ca'')]"
  have "?t = EvGetCR ''garden'' ''ops'' (Inr (example_cr ''ShootFirst'')) # tl ?t"
    and "EvGetSecret ''garden'' ''access'' ?x \<in> set (tl ?t)"
    by (simp_all add: example_trace_simps example_client_trace_def)
  with example_run [OF Reconcile_secrets [OF example_setup], of "''ShootFirst''"] show ?thesis by blast
qed

section \<open>The applier and its contract\<close>

text \<open>
  (C12) The server-side-apply applier implements the contract the reconciler relies on. An apply
  reports a status of the manifest that is degraded exactly when there is an error, sends at most the
  labelled manifest and has no error exactly when the server accepted it. A delete without an error
  leaves nothing of this custom resource behind and removes at most the given object. A delete
  follows a read that shows the ownership value, and an apply of a cluster-scoped kind a read that
  shows no foreign one.
\<close>

theorem SSA_refines_contract:
  assumes "unstructured_lib L err"
  shows "yields (apply_promise L (ssa_Client a) ownedBy m) (SSA_Apply L E a m ownedBy) \<and>
    yields (delete_promise L (ssa_Client a) ownedBy m) (SSA_Delete L E a m ownedBy) \<and>
    yields (\<lambda>r t. t = get_trace L (ssa_Client a) m r) (SSA_Get L E a m)"
  by (intro conjI unstructured_lib.SSA_Apply_law [OF assms] unstructured_lib.SSA_Delete_law [OF assms]
      unstructured_lib.SSA_Get_law [OF assms])

theorem SSA_refines_contract_witness:
  "apply_promise documented_lib SeedClient ''me'' (example_manifest ''garden'' ''a'')
     (\<lparr>m_Unstructured = example_sent ''me'' ''garden'' ''a'', m_Origin = OriginUpstream\<rparr>, example_status ''garden'' ''a'', None)
     (example_apply_trace SeedClient ''me'' ''garden'' ''a'')"
proof -
  let ?a = "\<lparr>ssa_Client = SeedClient, ssa_FieldManager = FieldManagerName, ssa_Cluster = ''seed''\<rparr>"
  let ?m = "SSA_Apply documented_lib (example_api ''me'' (example_cr ''ShootFirst'')) ?a (example_manifest ''garden'' ''a'') ''me''"
  have run: "outcome ?m [] = (\<lparr>m_Unstructured = example_sent ''me'' ''garden'' ''a'', m_Origin = OriginUpstream\<rparr>,
      example_status ''garden'' ''a'', None)" "emitted ?m [] = example_apply_trace SeedClient ''me'' ''garden'' ''a''"
    using run_apply [of "''me''" "example_cr ''ShootFirst''" SeedClient "''seed''" "''garden''" "''a''" "[]"]
    by (simp_all add: ssa_def outcome_def history_def emitted_def example_apply_trace_def)
  have "yields (apply_promise documented_lib (ssa_Client ?a) ''me'' (example_manifest ''garden'' ''a'')) ?m"
    by (rule conjunct1 [OF SSA_refines_contract [OF doc.unstructured_lib_axioms]])
  from yields_emitted [OF this, of "[]"] show ?thesis unfolding run by simp
qed

end
